(* ===== verification/Prelude.thy ===== *)
theory Prelude
  imports Main "HOL-Library.Word" "HOL-Library.Finite_Map" "HOL-Library.Multiset"
begin

text \<open>
  What the components share: the machine types of the Rust code, its checked arithmetic,
  byte encodings of machine integers, and the shape of fallible code.

  A fallible Rust function becomes a function into \<open>'e + 'a\<close> (\<open>Inl\<close> the error); the
  \<open>?\<close> operator is a \<open>case\<close> whose \<open>Inl\<close> branch returns, an \<open>ensure!\<close> is an \<open>if\<close> whose
  first branch returns. A method on \<open>&mut self\<close> becomes a function that returns the
  result together with the state it leaves behind, on its error paths too.

  The collection \<open>ok\<close> turns "this chain returned \<open>Ok\<close>" into the conjunction of what each
  step of the chain returned, without splitting cases; the predicate \<open>err_keeps\<close> and the
  collection \<open>keeps\<close> do the same for "an error leaves the state as it was".
\<close>

named_theorems ok "an Ok result, step by step"
named_theorems keeps "an Err result leaves the state unchanged"

subsection \<open>Machine types\<close>

type_synonym byte = "8 word"
type_synonym u16 = "16 word"
type_synonym u32 = "32 word"
type_synonym u64 = "64 word"
type_synonym u128 = "128 word"

text \<open>A \<open>Vec<u8>\<close> or a slice is a list of bytes. A \<open>[u8; 32]\<close> is the 256-bit word whose
  bytes, the most significant first, are the elements of the array (\<open>be_bytes\<close> below).\<close>

type_synonym bytes = "byte list"
type_synonym bytes32 = "256 word"

subsection \<open>Checked and saturating arithmetic\<close>

definition checked_add :: "'a::len word \<Rightarrow> 'a word \<Rightarrow> 'a word option" where
  "checked_add a b = (if unat a + unat b < 2 ^ LENGTH('a) then Some (a + b) else None)"

definition checked_sub :: "'a::len word \<Rightarrow> 'a word \<Rightarrow> 'a word option" where
  "checked_sub a b = (if b \<le> a then Some (a - b) else None)"

definition checked_mul :: "'a::len word \<Rightarrow> 'a word \<Rightarrow> 'a word option" where
  "checked_mul a b = (if unat a * unat b < 2 ^ LENGTH('a) then Some (a * b) else None)"

definition saturating_sub :: "'a::len word \<Rightarrow> 'a word \<Rightarrow> 'a word" where
  "saturating_sub a b = (if b \<le> a then a - b else 0)"

text \<open>\<open>u16::try_from\<close> and \<open>u64::try_from\<close> of a wider integer.\<close>

definition try_from_word :: "'a::len word \<Rightarrow> 'b::len word option" where
  "try_from_word a = (if unat a < 2 ^ LENGTH('b) then Some (ucast a) else None)"

lemma checked_add_Some:
  "checked_add a b = Some c \<longleftrightarrow> unat (a :: 'a::len word) + unat b < 2 ^ LENGTH('a) \<and> c = a + b"
  by (auto simp: checked_add_def)

lemma unat_checked_add: "checked_add a b = Some c \<Longrightarrow> unat c = unat a + unat b"
  by (auto simp: checked_add_Some unat_word_ariths)

lemma checked_sub_Some: "checked_sub a b = Some c \<longleftrightarrow> b \<le> a \<and> c = a - b"
  by (auto simp: checked_sub_def)

lemma unat_checked_sub: "checked_sub a b = Some c \<Longrightarrow> unat a = unat c + unat b"
  by (auto simp: checked_sub_Some unat_sub word_le_nat_alt)

lemma checked_sub_unat: "checked_sub a b = Some c \<longleftrightarrow> unat a = unat c + unat b"
proof
  assume "unat a = unat c + unat b"
  then have "b \<le> a" and "unat (a - b) = unat c" by (simp_all add: word_le_nat_alt unat_sub)
  then show "checked_sub a b = Some c" by (simp add: checked_sub_Some word_unat_eq_iff)
qed (rule unat_checked_sub)

lemma unat_checked_mul: "checked_mul a b = Some c \<Longrightarrow> unat c = unat a * unat b"
  by (auto simp: checked_mul_def unat_word_ariths split: if_splits)

lemma unat_try_from: "try_from_word a = Some b \<Longrightarrow> unat b = unat a"
  by (auto simp: try_from_word_def unsigned_ucast_eq take_bit_nat_eq_self unsigned_take_bit_eq
      split: if_splits)

lemma unat_add_one: "unat (a :: 'a::len word) + 1 < 2 ^ LENGTH('a) \<Longrightarrow> unat (a + 1) = unat a + 1"
  using unat_checked_add [of a 1 "a + 1"] by (simp add: checked_add_Some)

lemma unat_ucast_up:
  "LENGTH('a) \<le> LENGTH('b) \<Longrightarrow> unat (ucast (a :: 'a::len word) :: 'b::len word) = unat a"
  by (simp add: unsigned_ucast_eq)
    (metis unsigned_ucast_eq unsigned_take_bit_eq take_bit_nat_eq_self_iff unsigned_less
      power_increasing_iff one_less_numeral_iff less_le_trans semiring_norm(76) numeral_le_one_iff)

text \<open>The product of two 64-bit values fits 128 bits.\<close>

lemma u128_product: "unat (ucast (a :: u64) * ucast (b :: u64) :: u128) = unat a * unat b"
proof -
  have "unat a * unat b < 2 ^ 64 * 2 ^ 64"
    using unsigned_less [of a] unsigned_less [of b] by (intro mult_strict_mono) simp_all
  then show ?thesis
    by (simp add: unat_word_ariths unat_ucast_up)
qed

lemma of_nat_eqI: "unat c = n \<Longrightarrow> of_nat n = c"
  by (drule sym) simp

subsection \<open>Lists\<close>

text \<open>\<open>slice.get(i)\<close>.\<close>

definition nth_opt :: "'a list \<Rightarrow> nat \<Rightarrow> 'a option" where
  "nth_opt xs i = (if i < length xs then Some (xs ! i) else None)"

text \<open>\<open>slice.first()\<close> and \<open>slice.last()\<close>.\<close>

definition first_opt :: "'a list \<Rightarrow> 'a option" where
  "first_opt xs = (case xs of [] \<Rightarrow> None | x # _ \<Rightarrow> Some x)"

definition last_opt :: "'a list \<Rightarrow> 'a option" where
  "last_opt xs = (if xs = [] then None else Some (last xs))"

text \<open>\<open>iter().position(p)\<close>: the first index whose element satisfies \<open>p\<close>.\<close>

fun position :: "('a \<Rightarrow> bool) \<Rightarrow> 'a list \<Rightarrow> nat option" where
  "position p [] = None"
| "position p (x # xs) = (if p x then Some 0 else map_option Suc (position p xs))"

lemma nth_opt_Some: "nth_opt xs i = Some x \<longleftrightarrow> i < length xs \<and> xs ! i = x"
  by (auto simp: nth_opt_def)

lemma nth_opt_None: "nth_opt xs i = None \<longleftrightarrow> length xs \<le> i"
  by (auto simp: nth_opt_def)

lemma first_opt_Some: "first_opt xs = Some x \<longleftrightarrow> (\<exists>ys. xs = x # ys)"
  by (cases xs) (auto simp: first_opt_def)

lemma last_opt_Some: "last_opt xs = Some x \<longleftrightarrow> xs \<noteq> [] \<and> last xs = x"
  by (auto simp: last_opt_def)

lemma position_Some:
  "position p xs = Some i \<Longrightarrow> i < length xs \<and> p (xs ! i) \<and> (\<forall>j < i. \<not> p (xs ! j))"
proof (induction xs arbitrary: i)
  case Nil
  then show ?case by simp
next
  case (Cons x xs)
  show ?case
  proof (cases "p x")
    case True
    with Cons.prems show ?thesis by auto
  next
    case False
    with Cons.prems obtain j where j: "position p xs = Some j" "i = Suc j" by auto
    with Cons.IH [OF j(1)] False show ?thesis
      by (auto simp: nth_Cons split: nat.splits)
  qed
qed

lemma position_None: "position p xs = None \<longleftrightarrow> (\<forall>x \<in> set xs. \<not> p x)"
  by (induction xs) auto

text \<open>A \<open>for\<close> loop whose body only checks: it returns the first error.\<close>

fun try_each :: "('a \<Rightarrow> 'e + unit) \<Rightarrow> 'a list \<Rightarrow> 'e + unit" where
  "try_each f [] = Inr ()"
| "try_each f (x # xs) = (case f x of Inl e \<Rightarrow> Inl e | Inr _ \<Rightarrow> try_each f xs)"

text \<open>\<open>slice.windows(2)\<close>: the pairs of neighbours.\<close>

definition windows2 :: "'a list \<Rightarrow> ('a \<times> 'a) list" where
  "windows2 xs = zip xs (tl xs)"

lemma try_each_Inr: "try_each f xs = Inr u \<longleftrightarrow> (\<forall>x \<in> set xs. f x = Inr ())"
  by (induction xs) (auto split: sum.splits)

lemma length_windows2 [simp]: "length (windows2 xs) = length xs - 1"
  by (simp add: windows2_def)

lemma windows2_nth: "Suc i < length xs \<Longrightarrow> windows2 xs ! i = (xs ! i, xs ! Suc i)"
  by (simp add: windows2_def nth_tl)

lemma windows2_all:
  "(\<forall>(x, y) \<in> set (windows2 xs). q x y) \<longleftrightarrow> (\<forall>i. Suc i < length xs \<longrightarrow> q (xs ! i) (xs ! Suc i))"
proof -
  have "(\<forall>(x, y) \<in> set (windows2 xs). q x y)
      \<longleftrightarrow> (\<forall>i < length (windows2 xs). case windows2 xs ! i of (x, y) \<Rightarrow> q x y)"
    by (auto simp: all_set_conv_all_nth)
  also have "\<dots> \<longleftrightarrow> (\<forall>i. Suc i < length xs \<longrightarrow> q (xs ! i) (xs ! Suc i))"
    by (simp add: windows2_nth less_diff_conv cong: imp_cong)
  finally show ?thesis .
qed

subsection \<open>Big-endian bytes\<close>

text \<open>\<open>to_be_bytes\<close> of an integer, and the elements of a byte array.\<close>

definition be_bytes :: "'a::len word \<Rightarrow> bytes" where
  "be_bytes w = map (\<lambda>i. ucast (drop_bit (8 * i) w)) (rev [0..<LENGTH('a) div 8])"

lemma length_be_bytes [simp]: "length (be_bytes (w :: 'a::len word)) = LENGTH('a) div 8"
  by (simp add: be_bytes_def)

lemma last_be_bytes:
  assumes "8 \<le> LENGTH('a)"
  shows "be_bytes (w :: 'a::len word) \<noteq> []" and "last (be_bytes w) = ucast w"
proof -
  from assms have "0 < LENGTH('a) div 8" by (simp add: div_greater_zero_iff)
  then have "[0..<LENGTH('a) div 8] = 0 # [1..<LENGTH('a) div 8]" by (simp add: upt_conv_Cons)
  then show "be_bytes w \<noteq> []" "last (be_bytes w) = ucast w"
    by (simp_all add: be_bytes_def rev_map [symmetric] last_map)
qed

lemma be_bytes_inj:
  fixes v w :: "'a::len word"
  assumes "8 dvd LENGTH('a)" and eq: "be_bytes v = be_bytes w"
  shows "v = w"
proof (rule bit_word_eqI)
  fix n
  assume n: "n < LENGTH('a)"
  let ?i = "n div 8"
  have i: "?i < LENGTH('a) div 8"
    using n assms(1) by (simp add: div_less_iff_less_mult dvd_div_mult_self)
  from eq have "\<forall>i \<in> set (rev [0..<LENGTH('a) div 8]).
      (ucast (drop_bit (8 * i) v) :: byte) = ucast (drop_bit (8 * i) w)"
    unfolding be_bytes_def by (simp only: map_eq_conv)
  with i have "(ucast (drop_bit (8 * ?i) v) :: byte) = ucast (drop_bit (8 * ?i) w)" by simp
  then have "bit (ucast (drop_bit (8 * ?i) v) :: byte) (n mod 8)
      = bit (ucast (drop_bit (8 * ?i) w) :: byte) (n mod 8)" by simp
  then show "bit v n = bit w n"
    by (simp add: bit_ucast_iff bit_drop_bit_eq)
qed

text \<open>\<open>from_be_bytes\<close>.\<close>

definition from_be_bytes :: "bytes \<Rightarrow> 'a::len word" where
  "from_be_bytes bs = word_of_int (horner_sum uint 256 (rev bs))"

lemma from_be_bytes_be_bytes:
  fixes w :: "'a::len word"
  assumes "8 dvd LENGTH('a)"
  shows "from_be_bytes (be_bytes w) = w"
proof (rule bit_word_eqI)
  fix n
  assume n: "n < LENGTH('a)"
  with assms have i: "n div 8 < LENGTH('a) div 8"
    by (simp add: div_less_iff_less_mult dvd_div_mult_self)
  have "rev (be_bytes w) ! (n div 8) = (ucast (drop_bit (8 * (n div 8)) w) :: byte)"
    using i by (simp add: be_bytes_def rev_map)
  with n i bit_horner_sum_uint_exp_iff [of "rev (be_bytes w)" n]
  show "bit (from_be_bytes (be_bytes w) :: 'a word) n = bit w n"
    by (simp add: from_be_bytes_def bit_word_of_int_iff bit_ucast_iff bit_drop_bit_eq)
qed

text \<open>
  An encoder whose codes all have one length and are distinct. Codes can then be
  concatenated without separators, which is how the code builds its associated data and
  its hash preimages.
\<close>

locale fixed_width =
  fixes enc :: "'a \<Rightarrow> bytes" and width :: nat
  assumes enc_length: "length (enc a) = width"
    and enc_inj: "enc a = enc b \<Longrightarrow> a = b"
begin

lemma enc_eq_iff: "enc a = enc b \<longleftrightarrow> a = b"
  using enc_inj by blast

lemma append_eq_iff: "enc a @ xs = enc b @ ys \<longleftrightarrow> a = b \<and> xs = ys"
  by (auto simp: enc_length enc_eq_iff)

end

interpretation fw_u32: fixed_width "be_bytes :: u32 \<Rightarrow> bytes" 4
  by unfold_locales (auto intro: be_bytes_inj)

interpretation fw_u64: fixed_width "be_bytes :: u64 \<Rightarrow> bytes" 8
  by unfold_locales (auto intro: be_bytes_inj)

interpretation fw_b32: fixed_width "be_bytes :: bytes32 \<Rightarrow> bytes" 32
  by unfold_locales (auto intro: be_bytes_inj)

subsection \<open>Combinators for long chains\<close>

text \<open>In a long chain the \<open>?\<close> operator, \<open>context(..)?\<close> on an option and \<open>ensure!\<close> are
  written with these combinators; \<open>commit\<close> is a method on \<open>&mut self\<close> whose fallible part only
  reads: an error leaves the state, otherwise the rest computes the result and the new state.\<close>

definition and_then :: "'e + 'a \<Rightarrow> ('a \<Rightarrow> 'e + 'b) \<Rightarrow> 'e + 'b" where
  "and_then r f = (case r of Inl e \<Rightarrow> Inl e | Inr x \<Rightarrow> f x)"

definition with_context :: "'a option \<Rightarrow> 'e \<Rightarrow> ('a \<Rightarrow> 'e + 'b) \<Rightarrow> 'e + 'b" where
  "with_context r e f = (case r of None \<Rightarrow> Inl e | Some x \<Rightarrow> f x)"

definition ensure :: "bool \<Rightarrow> 'e \<Rightarrow> 'e + 'b \<Rightarrow> 'e + 'b" where
  "ensure c e k = (if c then k else Inl e)"

definition commit :: "'s \<Rightarrow> 'e + 'a \<Rightarrow> ('a \<Rightarrow> ('e + 'b) \<times> 's) \<Rightarrow> ('e + 'b) \<times> 's" where
  "commit s r f = (case r of Inl e \<Rightarrow> (Inl e, s) | Inr x \<Rightarrow> f x)"

lemma and_then_simps [simp]: "and_then (Inl e) f = Inl e" "and_then (Inr x) f = f x"
  by (simp_all add: and_then_def)

lemma with_context_simps [simp]: "with_context None e f = Inl e" "with_context (Some x) e f = f x"
  by (simp_all add: with_context_def)

lemma ensure_simps [simp]: "ensure True e k = k" "ensure False e k = Inl e"
  by (simp_all add: ensure_def)

lemma commit_simps [simp]: "commit s (Inl e) f = (Inl e, s)" "commit s (Inr x) f = f x"
  by (simp_all add: commit_def)

subsection \<open>Ok results of chains of fallible steps\<close>

lemma ok_try [ok]:
  "(case r of Inl e \<Rightarrow> Inl (h e) | Inr x \<Rightarrow> f x) = Inr y \<longleftrightarrow> (\<exists>x. r = Inr x \<and> f x = Inr y)"
  by (cases r) auto

lemma ok_context [ok]:
  "(case r of None \<Rightarrow> Inl e | Some x \<Rightarrow> f x) = Inr y \<longleftrightarrow> (\<exists>x. r = Some x \<and> f x = Inr y)"
  by (cases r) auto

lemma ok_ensure [ok]: "(if c then Inl e else k) = Inr y \<longleftrightarrow> \<not> c \<and> k = Inr y"
  by auto

lemma ok_and_then [ok]: "and_then r f = Inr y \<longleftrightarrow> (\<exists>x. r = Inr x \<and> f x = Inr y)"
  by (cases r) auto

lemma ok_with_context [ok]: "with_context r e f = Inr y \<longleftrightarrow> (\<exists>x. r = Some x \<and> f x = Inr y)"
  by (cases r) auto

lemma ok_ensure_then [ok]: "ensure c e k = Inr y \<longleftrightarrow> c \<and> k = Inr y"
  by (cases c) auto

lemma ok_commit [ok]: "commit s r f = (Inr y, t) \<longleftrightarrow> (\<exists>x. r = Inr x \<and> f x = (Inr y, t))"
  by (cases r) auto

lemma ok_mut_try [ok]:
  "(case r of Inl e \<Rightarrow> (Inl (h e), s) | Inr x \<Rightarrow> f x) = (Inr y, t)
    \<longleftrightarrow> (\<exists>x. r = Inr x \<and> f x = (Inr y, t))"
  by (cases r) auto

lemma ok_mut_context [ok]:
  "(case r of None \<Rightarrow> (Inl e, s) | Some x \<Rightarrow> f x) = (Inr y, t)
    \<longleftrightarrow> (\<exists>x. r = Some x \<and> f x = (Inr y, t))"
  by (cases r) auto

lemma ok_mut_ensure [ok]:
  "(if c then (Inl e, s) else k) = (Inr y, t) \<longleftrightarrow> \<not> c \<and> k = (Inr y, t)"
  by auto

subsection \<open>Err results leave the state alone\<close>

definition err_keeps :: "'s \<Rightarrow> ('e + 'a) \<times> 's \<Rightarrow> bool" where
  "err_keeps s p \<longleftrightarrow> (\<forall>e. fst p = Inl e \<longrightarrow> snd p = s)"

lemma err_keepsD: "err_keeps s p \<Longrightarrow> p = (Inl e, t) \<Longrightarrow> t = s"
  by (auto simp: err_keeps_def)

lemma err_keeps_Inl [keeps]: "err_keeps s (Inl e, t) \<longleftrightarrow> t = s"
  by (auto simp: err_keeps_def)

lemma err_keeps_Inr [keeps]: "err_keeps s (Inr y, t)"
  by (simp add: err_keeps_def)

lemma err_keeps_if [keeps]:
  "err_keeps s (if c then p else q) \<longleftrightarrow> (c \<longrightarrow> err_keeps s p) \<and> (\<not> c \<longrightarrow> err_keeps s q)"
  by simp

lemma err_keeps_sum [keeps]:
  "err_keeps s (case r of Inl e \<Rightarrow> f e | Inr x \<Rightarrow> g x)
    \<longleftrightarrow> (\<forall>e. r = Inl e \<longrightarrow> err_keeps s (f e)) \<and> (\<forall>x. r = Inr x \<longrightarrow> err_keeps s (g x))"
  by (cases r) auto

lemma err_keeps_option [keeps]:
  "err_keeps s (case r of None \<Rightarrow> p | Some x \<Rightarrow> g x)
    \<longleftrightarrow> (r = None \<longrightarrow> err_keeps s p) \<and> (\<forall>x. r = Some x \<longrightarrow> err_keeps s (g x))"
  by (cases r) auto

lemma err_keeps_prod [keeps]:
  "err_keeps s (case r of (x, y) \<Rightarrow> g x y) \<longleftrightarrow> (\<forall>x y. r = (x, y) \<longrightarrow> err_keeps s (g x y))"
  by (cases r) auto

lemma err_keeps_commit [keeps]:
  "err_keeps s (commit s r f) \<longleftrightarrow> (\<forall>x. r = Inr x \<longrightarrow> err_keeps s (f x))"
  by (cases r) (auto simp: err_keeps_def)

lemma err_keeps_Let [keeps]: "err_keeps s (Let v g) \<longleftrightarrow> err_keeps s (g v)"
  by (simp add: Let_def)

end
