(* ===== verification/Crypto.thy ===== *)
theory Crypto
  imports Prelude
begin

text \<open>
  The cryptographic packages the code calls (\<open>secp256k1\<close>, \<open>sha2\<close>) are not under
  \<^verbatim>\<open>src/\<close>: they are fields of the record \<open>secp\<close>, an argument \<open>P\<close> of every
  definition that uses them. Their key and signature types are opaque to the code, which
  only compares, copies and serializes them; each is a wrapper around its serialization.
  What the code relies on is stated as predicates on \<open>P\<close>, which theorems name as
  hypotheses.
\<close>

subsection \<open>Opaque types, by their serialization\<close>

datatype secret_key = SecretKey (secret_bytes: bytes32)

datatype xonly_key = XOnlyKey (xonly_bytes: bytes32)

datatype public_key = PublicKey (public_bytes: "264 word")

datatype signature = Signature (signature_word: "512 word")

text \<open>\<open>signature.as_ref()\<close>: the 64 bytes of a signature.\<close>

definition signature_bytes :: "signature \<Rightarrow> bytes" where
  "signature_bytes s = be_bytes (signature_word s)"

lemma length_signature_bytes [simp]: "length (signature_bytes s) = 64"
  by (simp add: signature_bytes_def)

lemma signature_bytes_inj: "signature_bytes s = signature_bytes t \<Longrightarrow> s = t"
  by (cases s; cases t) (auto simp: signature_bytes_def dest: be_bytes_inj [rotated])

subsection \<open>The packages as a parameter\<close>

record secp =
  sha256 :: "bytes \<Rightarrow> bytes32"
  xonly_of :: "secret_key \<Rightarrow> xonly_key"
  schnorr_sign :: "secret_key \<Rightarrow> bytes32 \<Rightarrow> signature"
  schnorr_verify :: "signature \<Rightarrow> bytes32 \<Rightarrow> xonly_key \<Rightarrow> bool"

text \<open>Documented behaviour of \<open>sign_schnorr_no_aux_rand\<close>: the signature it returns verifies
  under the x-only public key of the signing key.\<close>

definition schnorr_correct :: "'m secp_scheme \<Rightarrow> bool" where
  "schnorr_correct P \<longleftrightarrow> (\<forall>sk m. schnorr_verify P (schnorr_sign P sk m) m (xonly_of P sk))"

lemma schnorr_correctD: "schnorr_correct P \<Longrightarrow> schnorr_verify P (schnorr_sign P sk m) m (xonly_of P sk)"
  by (simp add: schnorr_correct_def)

text \<open>Two different byte strings with one hash. Security statements name the two strings,
  so that a violation would exhibit a collision of SHA-256.\<close>

definition sha256_collision :: "'m secp_scheme \<Rightarrow> bytes \<Rightarrow> bytes \<Rightarrow> bool" where
  "sha256_collision P x y \<longleftrightarrow> x \<noteq> y \<and> sha256 P x = sha256 P y"

text \<open>The bytes of an ASCII byte string literal.\<close>

definition ascii :: "string \<Rightarrow> bytes" where
  "ascii s = map of_char s"

lemma length_ascii [simp]: "length (ascii s) = length s"
  by (simp add: ascii_def)

text \<open>A concrete instance on which hypotheses about \<open>P\<close> can be checked by evaluation: the
  hash is the length of its input plus its last byte, a key is its own x-only key, and a
  signature is the key followed by the message.\<close>

definition demo_secp :: secp where
  "demo_secp =
     \<lparr>sha256 = (\<lambda>bs. of_nat (length bs) + (if bs = [] then 0 else ucast (last bs))),
      xonly_of = (\<lambda>sk. XOnlyKey (secret_bytes sk)),
      schnorr_sign = (\<lambda>sk m. Signature (word_cat (secret_bytes sk) m)),
      schnorr_verify = (\<lambda>sg m pk. sg = Signature (word_cat (xonly_bytes pk) m))\<rparr>"

lemma demo_secp_correct: "schnorr_correct demo_secp"
  by (simp add: schnorr_correct_def demo_secp_def)

end
