(* ===== verification/Enclave.thy ===== *)
theory Enclave
  imports Crypto
begin

text \<open>
  The signer of \<^verbatim>\<open>enclave/src/lib.rs\<close>: its wire types, its state (a map from coin IDs to
  coins), and the operations \<open>register\<close>, \<open>status\<close>, \<open>sign\<close> and \<open>handle\<close>. The entropy an
  operation draws (\<open>SecretKey::new\<close>, \<open>rand::random\<close>) is an argument. The
  \<open>LIMIT\<close> of \<open>Signer<LIMIT>\<close> is an argument as well.
\<close>

subsection \<open>Wire types\<close>

type_synonym coin_id = bytes32
type_synonym capability = bytes32
type_synonym handoff_token = bytes32

definition PROTOCOL_VERSION :: u32 where
  "PROTOCOL_VERSION = 1"

definition INITIAL_HANDOFF :: handoff_token where
  "INITIAL_HANDOFF = 0"

definition ENCLAVE_LIMIT :: nat where
  "ENCLAVE_LIMIT = 21000"

record register_request =
  rr_coin_id :: coin_id
  initial_capability_hash :: bytes32

record sign_request =
  sr_coin_id :: coin_id
  current_capability :: capability
  current_handoff :: handoff_token
  next_capability_hash :: bytes32
  sighash :: bytes32

record sign_response =
  signature :: signature
  next_handoff :: handoff_token

record coin_status =
  cs_coin_id :: coin_id
  signing_pubkey :: xonly_key
  cs_authorization :: bytes32
  cs_signature_count :: u64

datatype request = ReqRegister register_request | ReqStatus coin_id | ReqSign sign_request

datatype response = RespStatus coin_status | RespSignature sign_response

datatype error =
  UnknownCoin
| CapacityReached
| Unauthorized
| UnchangedCapability
| SignatureCountOverflow

subsection \<open>Hash commitments\<close>

text \<open>The byte string that the second hash of \<open>tagged_hash\<close> consumes.\<close>

definition tagged_preimage :: "'m secp_scheme \<Rightarrow> bytes \<Rightarrow> bytes list \<Rightarrow> bytes" where
  "tagged_preimage P tag parts =
     (let tag_hash = be_bytes (sha256 P tag) in tag_hash @ tag_hash @ concat parts)"

definition tagged_hash :: "'m secp_scheme \<Rightarrow> bytes \<Rightarrow> bytes list \<Rightarrow> bytes32" where
  "tagged_hash P tag parts = sha256 P (tagged_preimage P tag parts)"

definition capability_tag :: bytes where
  "capability_tag = ascii ''Tinylayer/Capability/v1''"

definition authorization_tag :: bytes where
  "authorization_tag = ascii ''Tinylayer/Authorization/v1''"

definition capability_hash :: "'m secp_scheme \<Rightarrow> capability \<Rightarrow> bytes32" where
  "capability_hash P c = tagged_hash P capability_tag [be_bytes c]"

definition authorization ::
  "'m secp_scheme \<Rightarrow> coin_id \<Rightarrow> bytes32 \<Rightarrow> handoff_token \<Rightarrow> bytes32" where
  "authorization P cid cap_hash handoff =
     tagged_hash P authorization_tag [be_bytes cid, be_bytes cap_hash, be_bytes handoff]"

text \<open>The preimage of an authorization determines the coin, the capability hash and the
  handoff: the three fields are concatenated at fixed width.\<close>

definition authorization_preimage ::
  "'m secp_scheme \<Rightarrow> coin_id \<Rightarrow> bytes32 \<Rightarrow> handoff_token \<Rightarrow> bytes" where
  "authorization_preimage P cid cap_hash handoff =
     tagged_preimage P authorization_tag [be_bytes cid, be_bytes cap_hash, be_bytes handoff]"

lemma authorization_sha256:
  "authorization P cid c h = sha256 P (authorization_preimage P cid c h)"
  by (simp add: authorization_def authorization_preimage_def tagged_hash_def)

lemma authorization_preimage_eq_iff:
  "authorization_preimage P i c h = authorization_preimage P i' c' h'
    \<longleftrightarrow> i = i' \<and> c = c' \<and> h = h'"
  by (simp add: authorization_preimage_def tagged_preimage_def Let_def fw_b32.append_eq_iff
      fw_b32.enc_eq_iff)

lemma authorization_collision:
  assumes "authorization P i c h = authorization P i' c' h'" and "(i, c, h) \<noteq> (i', c', h')"
  shows "sha256_collision P (authorization_preimage P i c h) (authorization_preimage P i' c' h')"
  using assms by (auto simp: sha256_collision_def authorization_sha256 authorization_preimage_eq_iff)

subsection \<open>The signer\<close>

record coin =
  signing_key :: secret_key
  coin_authorization :: bytes32
  signature_count :: u64
  coin_last :: "(sign_request \<times> sign_response) option"

record signer =
  coins :: "(coin_id, coin) fmap"

definition new_signer :: signer where
  "new_signer = \<lparr>coins = fmempty\<rparr>"

definition coin_status :: "'m secp_scheme \<Rightarrow> coin \<Rightarrow> coin_id \<Rightarrow> coin_status" where
  "coin_status P c cid =
     \<lparr>cs_coin_id = cid,
      signing_pubkey = xonly_of P (signing_key c),
      cs_authorization = coin_authorization c,
      cs_signature_count = signature_count c\<rparr>"

definition status :: "'m secp_scheme \<Rightarrow> signer \<Rightarrow> coin_id \<Rightarrow> error + coin_status" where
  "status P s cid =
     (case fmlookup (coins s) cid of
        None \<Rightarrow> Inl UnknownCoin
      | Some c \<Rightarrow> Inr (coin_status P c cid))"

definition register ::
  "'m secp_scheme \<Rightarrow> nat \<Rightarrow> secret_key \<Rightarrow> signer \<Rightarrow> register_request
    \<Rightarrow> (error + coin_status) \<times> signer" where
  "register P limit fresh_key s req =
     (if fmlookup (coins s) (rr_coin_id req) \<noteq> None then (status P s (rr_coin_id req), s)
      else if limit \<le> fcard (fmdom (coins s)) then (Inl CapacityReached, s)
      else
        let c = \<lparr>signing_key = fresh_key,
                 coin_authorization =
                   authorization P (rr_coin_id req) (initial_capability_hash req) INITIAL_HANDOFF,
                 signature_count = 0,
                 coin_last = None\<rparr>
        in (Inr (coin_status P c (rr_coin_id req)),
            s\<lparr>coins := fmupd (rr_coin_id req) c (coins s)\<rparr>))"

text \<open>The retry test of \<open>sign\<close>: the saved response, when the saved request is this one.\<close>

definition cached_response :: "coin \<Rightarrow> sign_request \<Rightarrow> sign_response option" where
  "cached_response c req =
     (case coin_last c of
        Some (prev, resp) \<Rightarrow> if prev = req then Some resp else None
      | None \<Rightarrow> None)"

definition sign ::
  "'m secp_scheme \<Rightarrow> handoff_token \<Rightarrow> signer \<Rightarrow> sign_request
    \<Rightarrow> (error + sign_response) \<times> signer" where
  "sign P fresh_handoff s req =
     (case fmlookup (coins s) (sr_coin_id req) of
        None \<Rightarrow> (Inl UnknownCoin, s)
      | Some c \<Rightarrow>
        case cached_response c req of
          Some resp \<Rightarrow> (Inr resp, s)
        | None \<Rightarrow>
          let current_hash = capability_hash P (current_capability req);
              expected = authorization P (sr_coin_id req) current_hash (current_handoff req)
          in
          if expected \<noteq> coin_authorization c then (Inl Unauthorized, s)
          else if next_capability_hash req = current_hash then (Inl UnchangedCapability, s)
          else case checked_add (signature_count c) 1 of
            None \<Rightarrow> (Inl SignatureCountOverflow, s)
          | Some next_count \<Rightarrow>
            let resp = \<lparr>signature = schnorr_sign P (signing_key c) (sighash req),
                        next_handoff = fresh_handoff\<rparr>;
                next_auth =
                  authorization P (sr_coin_id req) (next_capability_hash req) (next_handoff resp);
                c' = c\<lparr>coin_authorization := next_auth,
                       signature_count := next_count,
                       coin_last := Some (req, resp)\<rparr>
            in (Inr resp, s\<lparr>coins := fmupd (sr_coin_id req) c' (coins s)\<rparr>))"

text \<open>The entropy one call of \<open>handle\<close> may draw.\<close>

record entropy =
  fresh_key :: secret_key
  fresh_handoff :: handoff_token

definition map_result :: "('a \<Rightarrow> 'b) \<Rightarrow> (error + 'a) \<times> signer \<Rightarrow> (error + 'b) \<times> signer" where
  "map_result f p = (case p of (Inl e, s) \<Rightarrow> (Inl e, s) | (Inr x, s) \<Rightarrow> (Inr (f x), s))"

definition handle ::
  "'m secp_scheme \<Rightarrow> nat \<Rightarrow> entropy \<Rightarrow> signer \<Rightarrow> request \<Rightarrow> (error + response) \<times> signer" where
  "handle P limit rnd s req =
     (case req of
        ReqRegister r \<Rightarrow> map_result RespStatus (register P limit (fresh_key rnd) s r)
      | ReqStatus cid \<Rightarrow> map_result RespStatus (status P s cid, s)
      | ReqSign r \<Rightarrow> map_result RespSignature (sign P (fresh_handoff rnd) s r))"

text \<open>The HTTP workload answers a state-machine error with status 409 and its message.\<close>

definition error_string :: "error \<Rightarrow> string" where
  "error_string e =
     (case e of
        UnknownCoin \<Rightarrow> ''coin is not registered''
      | CapacityReached \<Rightarrow> ''enclave coin capacity is exhausted''
      | Unauthorized \<Rightarrow> ''current capability or handoff is stale''
      | UnchangedCapability \<Rightarrow> ''next capability is unchanged''
      | SignatureCountOverflow \<Rightarrow> ''signature count is exhausted'')"

definition CONFLICT :: u16 where
  "CONFLICT = 409"

definition workload_handle ::
  "'m secp_scheme \<Rightarrow> nat \<Rightarrow> entropy \<Rightarrow> signer \<Rightarrow> request
    \<Rightarrow> ((u16 \<times> string) + response) \<times> signer" where
  "workload_handle P limit rnd s req =
     (case handle P limit rnd s req of
        (Inl e, s') \<Rightarrow> (Inl (CONFLICT, error_string e), s')
      | (Inr resp, s') \<Rightarrow> (Inr resp, s'))"

text \<open>The mutex around the signer makes a workload's life a sequence of calls of \<open>handle\<close>.\<close>

fun run_signer ::
  "'m secp_scheme \<Rightarrow> nat \<Rightarrow> signer \<Rightarrow> (entropy \<times> request) list
    \<Rightarrow> (error + response) list \<times> signer" where
  "run_signer P limit s [] = ([], s)"
| "run_signer P limit s ((rnd, req) # evs) =
     (let (r, s') = handle P limit rnd s req;
          (rs, s'') = run_signer P limit s' evs
      in (r # rs, s''))"

subsection \<open>Operations on success and on failure\<close>

lemma status_Inr:
  "status P s cid = Inr st \<longleftrightarrow> (\<exists>c. fmlookup (coins s) cid = Some c \<and> st = coin_status P c cid)"
  by (auto simp: status_def split: option.splits)

lemma register_keeps: "err_keeps s (register P limit k s req)"
  by (auto simp: register_def keeps err_keeps_def Let_def)

lemma sign_keeps: "err_keeps s (sign P h s req)"
  by (auto simp: sign_def keeps)

lemma cached_response_Some:
  "cached_response c req = Some resp \<longleftrightarrow> coin_last c = Some (req, resp)"
  by (auto simp: cached_response_def split: option.splits if_splits)

text \<open>A successful \<open>sign\<close> either replays the cached response or is a fresh transition.\<close>

definition fresh_transition ::
  "'m secp_scheme \<Rightarrow> handoff_token \<Rightarrow> coin \<Rightarrow> sign_request \<Rightarrow> sign_response \<Rightarrow> coin \<Rightarrow> bool" where
  "fresh_transition P h c req resp c' \<longleftrightarrow>
     cached_response c req = None \<and>
     coin_authorization c = authorization P (sr_coin_id req)
       (capability_hash P (current_capability req)) (current_handoff req) \<and>
     next_capability_hash req \<noteq> capability_hash P (current_capability req) \<and>
     unat (signature_count c) + 1 < 2 ^ 64 \<and>
     resp = \<lparr>signature = schnorr_sign P (signing_key c) (sighash req), next_handoff = h\<rparr> \<and>
     c' = c\<lparr>coin_authorization := authorization P (sr_coin_id req) (next_capability_hash req) h,
             signature_count := signature_count c + 1,
             coin_last := Some (req, resp)\<rparr>"

lemma sign_cases:
  assumes "sign P h s req = (Inr resp, s')"
  obtains (replay) c where "fmlookup (coins s) (sr_coin_id req) = Some c"
      and "coin_last c = Some (req, resp)" and "s' = s"
    | (fresh) c c' where "fmlookup (coins s) (sr_coin_id req) = Some c"
      and "fresh_transition P h c req resp c'"
      and "s' = s\<lparr>coins := fmupd (sr_coin_id req) c' (coins s)\<rparr>"
proof -
  from assms obtain c where c: "fmlookup (coins s) (sr_coin_id req) = Some c"
    by (auto simp: sign_def ok)
  show thesis
  proof (cases "cached_response c req")
    case (Some r)
    with assms c show ?thesis
      by (intro replay [of c]) (auto simp: sign_def cached_response_Some)
  next
    case None
    with assms c show ?thesis
      by (intro fresh [OF c])
        (auto simp: sign_def ok Let_def fresh_transition_def checked_add_Some)
  qed
qed

subsection \<open>The hashes of the demonstration instance\<close>

text \<open>The instance's hash is the length of its input plus its last byte, so commitments
  differ when the last byte of the capability or of the handoff does.\<close>

lemma length_hash_capability:
  assumes "sha256 P = (\<lambda>bs. of_nat (length bs) + (if bs = [] then 0 else ucast (last bs)))"
  shows "capability_hash P c = 96 + ucast (ucast c :: byte)"
  by (simp add: assms capability_hash_def tagged_hash_def tagged_preimage_def Let_def
      capability_tag_def last_be_bytes)

lemma length_hash_authorization:
  assumes "sha256 P = (\<lambda>bs. of_nat (length bs) + (if bs = [] then 0 else ucast (last bs)))"
  shows "authorization P i c h = 160 + ucast (ucast h :: byte)"
  by (simp add: assms authorization_def tagged_hash_def tagged_preimage_def Let_def
      authorization_tag_def last_be_bytes)

lemma demo_capability_hash [simp]: "capability_hash demo_secp c = 96 + ucast (ucast c :: byte)"
  by (rule length_hash_capability) (simp add: demo_secp_def)

lemma demo_authorization [simp]: "authorization demo_secp i c h = 160 + ucast (ucast h :: byte)"
  by (rule length_hash_authorization) (simp add: demo_secp_def)

end
