(* ===== verification/Signing_Service.thy ===== *)
theory Signing_Service
  imports Enclave
begin

text \<open>
  What the wallet relies on when it talks to a signer: the laws a client can state without
  looking at the signer's state, and what follows from them for a client that repeats a
  request because responses were lost. \<open>Enclave_Spec\<close> discharges the laws for the
  signer of \<^verbatim>\<open>enclave/src/lib.rs\<close>.
\<close>

text \<open>A client that sends one request as often as it likes; the handoff tokens are the
  service's draws.\<close>

fun sends ::
  "('s \<Rightarrow> handoff_token \<Rightarrow> sign_request \<Rightarrow> (error + sign_response) \<times> 's) \<Rightarrow> 's \<Rightarrow> sign_request
    \<Rightarrow> handoff_token list \<Rightarrow> (error + sign_response) list \<times> 's" where
  "sends sg s req [] = ([], s)"
| "sends sg s req (h # hs) =
     (let (r, s') = sg s h req; (rs, s'') = sends sg s' req hs in (r # rs, s''))"

locale signing_service =
  fixes P :: "'m secp_scheme"
    and inv :: "'s \<Rightarrow> bool"
    and status_of :: "'s \<Rightarrow> coin_id \<Rightarrow> error + coin_status"
    and sign_of :: "'s \<Rightarrow> handoff_token \<Rightarrow> sign_request \<Rightarrow> (error + sign_response) \<times> 's"
  assumes sign_inv: "inv s \<Longrightarrow> inv (snd (sign_of s h req))"
    and sign_error: "sign_of s h req = (Inl e, s') \<Longrightarrow> s' = s"
    and sign_again: "inv s \<Longrightarrow> sign_of s h req = (Inr resp, s') \<Longrightarrow> sign_of s' h' req = (Inr resp, s')"
    and sign_done: "inv s \<Longrightarrow> sign_of s h req = (Inr resp, s') \<Longrightarrow>
      \<exists>st. status_of s' (sr_coin_id req) = Inr st
        \<and> cs_coin_id st = sr_coin_id req
        \<and> cs_authorization st =
            authorization P (sr_coin_id req) (next_capability_hash req) (next_handoff resp)
        \<and> (schnorr_correct P \<longrightarrow> schnorr_verify P (signature resp) (sighash req) (signing_pubkey st))"
    and sign_count: "inv s \<Longrightarrow> sign_of s h req = (Inr resp, s') \<Longrightarrow>
      status_of s (sr_coin_id req) = Inr st \<Longrightarrow> status_of s' (sr_coin_id req) = Inr st' \<Longrightarrow>
      signing_pubkey st' = signing_pubkey st \<and>
      (s' = s \<or> unat (cs_signature_count st') = unat (cs_signature_count st) + 1)"
    and sign_accepts: "inv s \<Longrightarrow> status_of s (sr_coin_id req) = Inr st \<Longrightarrow>
      cs_authorization st = authorization P (sr_coin_id req)
        (capability_hash P (current_capability req)) (current_handoff req) \<Longrightarrow>
      next_capability_hash req \<noteq> capability_hash P (current_capability req) \<Longrightarrow>
      unat (cs_signature_count st) + 1 < 2 ^ 64 \<Longrightarrow> \<exists>resp. fst (sign_of s h req) = Inr resp"
begin

lemma sends_after_ok:
  assumes "inv s" and "sign_of s h req = (Inr resp, s')"
  shows "sends sign_of s' req hs = (replicate (length hs) (Inr resp), s')"
proof (induction hs)
  case Nil
  then show ?case by simp
next
  case (Cons h' hs)
  then show ?case by (simp add: sign_again [OF assms])
qed

text \<open>However often the request is sent: all answers that are not errors are the same answer,
  and the final state is the start state or the state after that answer.\<close>

lemma sends_one_transition:
  assumes "inv s"
  shows "(\<exists>es. sends sign_of s req hs = (map Inl es, s)) \<or>
    (\<exists>es h resp s' n. sign_of s h req = (Inr resp, s') \<and>
       sends sign_of s req hs = (map Inl es @ replicate n (Inr resp), s'))"
proof (induction hs)
  case Nil
  show ?case by (intro disjI1 exI [of _ "[]"]) simp
next
  case (Cons h hs)
  obtain r s' where r: "sign_of s h req = (r, s')" by fastforce
  show ?case
  proof (cases r)
    case (Inr resp)
    with sends_after_ok [OF assms] r
    have "sends sign_of s req (h # hs) = (map Inl [] @ replicate (Suc (length hs)) (Inr resp), s')"
      by simp
    with r Inr show ?thesis by blast
  next
    case (Inl e)
    with r sign_error have [simp]: "s' = s" by blast
    from Cons show ?thesis
    proof (elim disjE exE conjE)
      fix es assume "sends sign_of s req hs = (map Inl es, s)"
      then have "sends sign_of s req (h # hs) = (map Inl (e # es), s)" using r Inl by simp
      then show ?thesis by blast
    next
      fix es h' resp s'' n
      assume *: "sign_of s h' req = (Inr resp, s'')"
        "sends sign_of s req hs = (map Inl es @ replicate n (Inr resp), s'')"
      then have "sends sign_of s req (h # hs) = (map Inl (e # es) @ replicate n (Inr resp), s'')"
        using r Inl by simp
      with *(1) show ?thesis by blast
    qed
  qed
qed

lemma sends_replies_agree:
  assumes "inv s" and "Inr resp \<in> set (fst (sends sign_of s req hs))" and "Inr resp' \<in> set (fst (sends sign_of s req hs))"
  shows "resp' = resp"
  using sends_one_transition [OF assms(1), of req hs] assms(2,3) by auto

lemma sends_count:
  assumes "inv s" and "status_of s (sr_coin_id req) = Inr st"
    and "status_of (snd (sends sign_of s req hs)) (sr_coin_id req) = Inr st'"
  shows "unat (cs_signature_count st') \<le> unat (cs_signature_count st) + 1"
  using sends_one_transition [OF assms(1), of req hs]
proof (elim disjE exE conjE)
  fix es assume "sends sign_of s req hs = (map Inl es, s)"
  with assms show ?thesis by simp
next
  fix es h resp s' n
  assume s': "sign_of s h req = (Inr resp, s')"
    and "sends sign_of s req hs = (map Inl es @ replicate n (Inr resp), s')"
  with assms(3) have "status_of s' (sr_coin_id req) = Inr st'" by simp
  with sign_count [OF assms(1) s' assms(2)] assms(2) show ?thesis by auto
qed

end

end
