(* ===== verification/Bitcoin.thy ===== *)
theory Bitcoin
  imports Crypto
begin

text \<open>
  The data of the \<open>bitcoin\<close> crate that the code builds and inspects, and the functions
  of that crate the code calls. The data types are public structs: they are written out. The
  functions are not under \<^verbatim>\<open>src/\<close>: they are the fields that \<open>bitcoin_lib\<close> adds to the
  parameter \<open>P\<close>, and what the code relies on is stated as predicates on \<open>P\<close> below.
\<close>

subsection \<open>Transactions\<close>

type_synonym txid = bytes32
type_synonym script = bytes

datatype outpoint = OutPoint (op_txid: txid) (op_vout: u32)

record txin =
  previous_output :: outpoint
  script_sig :: script
  sequence :: u32
  witness :: "bytes list"

record txout =
  txout_value :: u64
  script_pubkey :: script

record transaction =
  version :: u32
  lock_time :: u32
  inputs :: "txin list"
  outputs :: "txout list"

text \<open>\<open>OutPoint\<close> derives its order: first the transaction id, then the index.\<close>

instantiation outpoint :: linorder
begin

definition less_outpoint :: "outpoint \<Rightarrow> outpoint \<Rightarrow> bool" where
  "less_outpoint a b \<longleftrightarrow> op_txid a < op_txid b \<or> op_txid a = op_txid b \<and> op_vout a < op_vout b"

definition less_eq_outpoint :: "outpoint \<Rightarrow> outpoint \<Rightarrow> bool" where
  "less_eq_outpoint a b \<longleftrightarrow> op_txid a < op_txid b \<or> op_txid a = op_txid b \<and> op_vout a \<le> op_vout b"

instance
  by standard (auto simp: less_outpoint_def less_eq_outpoint_def outpoint.expand)

end

text \<open>The copy of a transaction whose inputs carry no witness, and the transactions that agree
  up to witnesses.\<close>

definition strip_witness :: "transaction \<Rightarrow> transaction" where
  "strip_witness t = t\<lparr>inputs := map (\<lambda>i. i\<lparr>witness := []\<rparr>) (inputs t)\<rparr>"

text \<open>Two transactions with the same serialized shape: they differ at most in amounts and in
  the contents, not the lengths, of witness items.\<close>

definition same_shape :: "transaction \<Rightarrow> transaction \<Rightarrow> bool" where
  "same_shape t u \<longleftrightarrow>
     version t = version u \<and> lock_time t = lock_time u \<and>
     map (\<lambda>i. (previous_output i, script_sig i, sequence i, map length (witness i))) (inputs t)
       = map (\<lambda>i. (previous_output i, script_sig i, sequence i, map length (witness i))) (inputs u) \<and>
     map script_pubkey (outputs t) = map script_pubkey (outputs u)"

subsection \<open>Taproot, scripts and addresses\<close>

datatype tweaked_key = TweakedKey (tweaked_bytes: bytes32)

datatype control_block = ControlBlock (control_block_bytes: bytes)

datatype opcode = OP_CHECKSIG | OP_CHECKSIGVERIFY

text \<open>The instructions that \<open>script::Builder\<close> is given.\<close>

datatype script_push = PushXOnlyKey xonly_key | PushOpcode opcode

datatype network = Bitcoin | Testnet | Signet | Regtest

datatype known_hrp = HrpMainnet | HrpTestnets | HrpRegtest

datatype address = Address (address_text: string)

record bitcoin_lib = secp +
  into_script :: "script_push list \<Rightarrow> script"
  new_p2tr :: "xonly_key \<Rightarrow> script"
  new_p2tr_tweaked :: "tweaked_key \<Rightarrow> script"
  is_p2tr :: "script \<Rightarrow> bool"
  minimal_non_dust :: "script \<Rightarrow> u64"
  outpoint_is_null :: "outpoint \<Rightarrow> bool"
  max_money :: u64
  lock_time_zero :: u32
  sequence_from_height :: "u16 \<Rightarrow> u32"
  sequence_max :: u32
  sequence_is_rbf :: "u32 \<Rightarrow> bool"
  compute_txid :: "transaction \<Rightarrow> txid"
  vsize :: "transaction \<Rightarrow> u64"
  tap_leaf_hash :: "script \<Rightarrow> bytes32"
  script_spend_sighash :: "transaction \<Rightarrow> nat \<Rightarrow> txout list \<Rightarrow> bytes32 \<Rightarrow> bytes32 option"
  key_spend_sighash :: "transaction \<Rightarrow> nat \<Rightarrow> txout list \<Rightarrow> bytes32 option"
  taproot_output_key :: "xonly_key \<Rightarrow> script \<Rightarrow> tweaked_key"
  taproot_control_block :: "xonly_key \<Rightarrow> script \<Rightarrow> control_block"
  control_serialize :: "control_block \<Rightarrow> bytes"
  control_decode :: "bytes \<Rightarrow> control_block option"
  verify_taproot_commitment :: "control_block \<Rightarrow> xonly_key \<Rightarrow> script \<Rightarrow> bool"
  signature_from_slice :: "bytes \<Rightarrow> signature option"
  tap_tweak :: "secret_key \<Rightarrow> secret_key"
  p2tr_tweaked_address :: "tweaked_key \<Rightarrow> known_hrp \<Rightarrow> address"

text \<open>\<open>TweakedPublicKey::to_x_only_public_key\<close>: the same key, read as an x-only key.\<close>

definition tweaked_xonly :: "tweaked_key \<Rightarrow> xonly_key" where
  "tweaked_xonly k = XOnlyKey (tweaked_bytes k)"

subsection \<open>Documented behaviour\<close>

text \<open>BIP141: the transaction id does not commit to witnesses.\<close>

definition txid_ignores_witness :: "'m bitcoin_lib_scheme \<Rightarrow> bool" where
  "txid_ignores_witness P \<longleftrightarrow> (\<forall>t. compute_txid P t = compute_txid P (strip_witness t))"

text \<open>BIP341/BIP342: the signature hash does not commit to witnesses; and it exists for an
  input that exists, with as many previous outputs as inputs.\<close>

definition sighash_ignores_witness :: "'m bitcoin_lib_scheme \<Rightarrow> bool" where
  "sighash_ignores_witness P \<longleftrightarrow>
     (\<forall>t i outs l. script_spend_sighash P t i outs l = script_spend_sighash P (strip_witness t) i outs l)
     \<and> (\<forall>t i outs. key_spend_sighash P t i outs = key_spend_sighash P (strip_witness t) i outs)"

definition sighash_defined :: "'m bitcoin_lib_scheme \<Rightarrow> bool" where
  "sighash_defined P \<longleftrightarrow>
     (\<forall>t i outs l. i < length (inputs t) \<and> length outs = length (inputs t) \<longrightarrow>
        script_spend_sighash P t i outs l \<noteq> None \<and> key_spend_sighash P t i outs \<noteq> None)"

text \<open>BIP341: the control block of the only leaf proves that leaf against the output key; it
  survives its serialization.\<close>

definition taproot_correct :: "'m bitcoin_lib_scheme \<Rightarrow> bool" where
  "taproot_correct P \<longleftrightarrow>
     (\<forall>k l. verify_taproot_commitment P (taproot_control_block P k l)
        (tweaked_xonly (taproot_output_key P k l)) l)
     \<and> (\<forall>c. control_decode P (control_serialize P c) = Some c)"

definition signature_bytes_correct :: "'m bitcoin_lib_scheme \<Rightarrow> bool" where
  "signature_bytes_correct P \<longleftrightarrow> (\<forall>s. signature_from_slice P (signature_bytes s) = Some s)"

text \<open>BIP68: a height-based relative lock is the number of blocks.\<close>

definition height_sequence :: "'m bitcoin_lib_scheme \<Rightarrow> bool" where
  "height_sequence P \<longleftrightarrow> (\<forall>h. sequence_from_height P h = ucast h)"

text \<open>The virtual size is determined by the serialized shape.\<close>

definition vsize_by_shape :: "'m bitcoin_lib_scheme \<Rightarrow> bool" where
  "vsize_by_shape P \<longleftrightarrow> (\<forall>t u. same_shape t u \<longrightarrow> vsize P t = vsize P u)"

lemma vsize_by_shapeD: "vsize_by_shape P \<Longrightarrow> same_shape t u \<Longrightarrow> vsize P t = vsize P u"
  by (auto simp: vsize_by_shape_def)

lemma strip_witness_strip [simp]: "strip_witness (strip_witness t) = strip_witness t"
  by (simp add: strip_witness_def comp_def)

lemma txid_stripD:
  "txid_ignores_witness P \<Longrightarrow> strip_witness t = strip_witness u \<Longrightarrow> compute_txid P t = compute_txid P u"
  by (metis txid_ignores_witness_def)

lemma sighash_stripD:
  "sighash_ignores_witness P \<Longrightarrow> strip_witness t = strip_witness u \<Longrightarrow>
    script_spend_sighash P t i outs l = script_spend_sighash P u i outs l"
  by (metis sighash_ignores_witness_def)

end
