(* ===== verification/Client.thy ===== *)
theory Client
  imports Bitcoin Signing_Service
begin

text \<open>
  The client of \<^verbatim>\<open>client/src/lib.rs\<close>: registration, the recovery transaction that the
  enclave and the client sign together, its verification, the history of recoveries, the
  fee-paying child, and the calls to a remote enclave.
\<close>

subsection \<open>Constants and data\<close>

definition DELAY_STEP :: u32 where
  "DELAY_STEP = 10"

definition TRUC_VERSION :: u32 where
  "TRUC_VERSION = 3"

definition NUMS_INTERNAL_KEY_BYTES :: bytes32 where
  "NUMS_INTERNAL_KEY_BYTES = 0x50929b74c1a04954b78b4b6035e97a5e078a5a0f28ec96d547bfee9ace803ac0"

datatype network_id = Mutinynet | Mainnet | RegtestId

definition bitcoin_network :: "network_id \<Rightarrow> network" where
  "bitcoin_network n = (case n of Mutinynet \<Rightarrow> Signet | Mainnet \<Rightarrow> Bitcoin | RegtestId \<Rightarrow> Regtest)"

definition address_hrp :: "network_id \<Rightarrow> known_hrp" where
  "address_hrp n =
     (case n of Mutinynet \<Rightarrow> HrpTestnets | Mainnet \<Rightarrow> HrpMainnet | RegtestId \<Rightarrow> HrpRegtest)"

text \<open>The discriminant of \<open>#[repr(u8)]\<close>.\<close>

definition network_byte :: "network_id \<Rightarrow> byte" where
  "network_byte n = (case n of Mutinynet \<Rightarrow> 1 | Mainnet \<Rightarrow> 2 | RegtestId \<Rightarrow> 3)"

record registration =
  reg_protocol_version :: u32
  reg_request :: register_request
  reg_client_pubkey :: xonly_key

record coin_keys =
  keys_protocol_version :: u32
  keys_coin_id :: coin_id
  client_pubkey :: xonly_key
  enclave_pubkey :: xonly_key

record coin_metadata =
  md_keys :: coin_keys
  md_network :: network_id
  md_outpoint :: outpoint
  md_amount_sat :: u64

record signed_recovery =
  rec_transaction :: transaction
  rec_withdrawal_key :: xonly_key
  rec_delay_blocks :: u32

record prepared_recovery =
  prep_request :: sign_request
  prep_metadata :: coin_metadata
  prep_transaction :: transaction
  prep_withdrawal_key :: xonly_key
  prep_delay_blocks :: u32

datatype client_error =
  ProtocolVersionMismatch
| ResponseMismatch
| MetadataMismatch
| WrongClientKey
| EqualSigningKeys
| InvalidEnclaveSignature
| InvalidClientSignature
| FundingMismatch
| UnsafeDelay
| TransactionMismatch
| InvalidWitness
| HistoryMismatch
| InvalidOutpoint
| AmountTooLarge
| DustOutput
| InvalidDelay
| SighashError
| WithdrawalKeyMismatch

subsection \<open>Keys\<close>

definition keys_validate :: "coin_keys \<Rightarrow> client_error + unit" where
  "keys_validate k =
     (if keys_protocol_version k \<noteq> PROTOCOL_VERSION then Inl ProtocolVersionMismatch
      else if client_pubkey k = enclave_pubkey k then Inl MetadataMismatch
      else Inr ())"

text \<open>Deserialized keys are validated: \<open>TryFrom<CoinKeysWire>\<close>.\<close>

definition keys_try_from ::
  "u32 \<Rightarrow> coin_id \<Rightarrow> xonly_key \<Rightarrow> xonly_key \<Rightarrow> client_error + coin_keys" where
  "keys_try_from ver cid client enclave =
     (let keys = \<lparr>keys_protocol_version = ver, keys_coin_id = cid,
                  client_pubkey = client, enclave_pubkey = enclave\<rparr>
      in case keys_validate keys of Inl e \<Rightarrow> Inl e | Inr _ \<Rightarrow> Inr keys)"

text \<open>\<open>CoinKeysWire\<close> has the fields of \<open>CoinKeys\<close>. Wherever a document holds coin keys, serde reads
  them as \<open>CoinKeysWire\<close> and converts them, so a document is read as its value, by the parser
  serde derives, only when all keys in it convert.\<close>

definition keys_from_wire :: "coin_keys \<Rightarrow> client_error + coin_keys" where
  "keys_from_wire wire =
     keys_try_from (keys_protocol_version wire) (keys_coin_id wire) (client_pubkey wire) (enclave_pubkey wire)"

definition deserialize :: "('v \<Rightarrow> coin_keys list) \<Rightarrow> (bytes \<Rightarrow> 'v option) \<Rightarrow> bytes \<Rightarrow> 'v option" where
  "deserialize keys_in parse doc =
     (case parse doc of
        None \<Rightarrow> None
      | Some v \<Rightarrow> if list_all (\<lambda>wire. keys_from_wire wire = Inr wire) (keys_in v) then Some v else None)"

definition keys_valid :: "coin_keys list \<Rightarrow> bool" where
  "keys_valid ks \<longleftrightarrow> (\<forall>k \<in> set ks. keys_validate k = Inr ())"

lemma keys_from_wire_Inr: "keys_from_wire wire = Inr k \<longleftrightarrow> keys_validate wire = Inr () \<and> k = wire"
  by (cases wire) (auto simp: keys_from_wire_def keys_try_from_def Let_def split: sum.splits)

lemma keys_valid_simps [simp]:
  "keys_valid []" "keys_valid (k # ks) \<longleftrightarrow> keys_validate k = Inr () \<and> keys_valid ks"
  "keys_valid (ks @ ks') \<longleftrightarrow> keys_valid ks \<and> keys_valid ks'"
  by (auto simp: keys_valid_def)

lemma deserialize_valid:
  "deserialize keys_in parse doc =
     (case parse doc of None \<Rightarrow> None | Some v \<Rightarrow> if keys_valid (keys_in v) then Some v else None)"
  by (simp add: deserialize_def keys_valid_def list_all_iff keys_from_wire_Inr split: option.split)

lemma deserialize_Some:
  "deserialize keys_in parse doc = Some v \<longleftrightarrow> parse doc = Some v \<and> keys_valid (keys_in v)"
  by (auto simp: deserialize_valid split: option.splits)

definition keys_metadata :: "coin_keys \<Rightarrow> network_id \<Rightarrow> outpoint \<Rightarrow> u64 \<Rightarrow> coin_metadata" where
  "keys_metadata k net op amount =
     \<lparr>md_keys = k, md_network = net, md_outpoint = op, md_amount_sat = amount\<rparr>"

definition metadata_validate :: "coin_metadata \<Rightarrow> client_error + unit" where
  "metadata_validate m = keys_validate (md_keys m)"

definition client_xonly :: "'m secp_scheme \<Rightarrow> secret_key \<Rightarrow> xonly_key" where
  "client_xonly P sk = xonly_of P sk"

definition prepare_registration ::
  "'m secp_scheme \<Rightarrow> coin_id \<Rightarrow> secret_key \<Rightarrow> bytes32 \<Rightarrow> registration" where
  "prepare_registration P fresh_id client_secret cap_hash =
     \<lparr>reg_protocol_version = PROTOCOL_VERSION,
      reg_request = \<lparr>rr_coin_id = fresh_id, initial_capability_hash = cap_hash\<rparr>,
      reg_client_pubkey = xonly_of P client_secret\<rparr>"

definition complete_registration ::
  "'m secp_scheme \<Rightarrow> registration \<Rightarrow> coin_status \<Rightarrow> client_error + coin_keys" where
  "complete_registration P reg st =
     (if reg_protocol_version reg \<noteq> PROTOCOL_VERSION then Inl ProtocolVersionMismatch
      else if cs_coin_id st \<noteq> rr_coin_id (reg_request reg)
            \<or> cs_signature_count st \<noteq> 0
            \<or> cs_authorization st \<noteq> authorization P (rr_coin_id (reg_request reg))
                 (initial_capability_hash (reg_request reg)) INITIAL_HANDOFF
        then Inl ResponseMismatch
      else if reg_client_pubkey reg = signing_pubkey st then Inl EqualSigningKeys
      else Inr \<lparr>keys_protocol_version = PROTOCOL_VERSION,
                keys_coin_id = rr_coin_id (reg_request reg),
                client_pubkey = reg_client_pubkey reg,
                enclave_pubkey = signing_pubkey st\<rparr>)"

subsection \<open>Checks on enclave responses\<close>

definition verify_signature ::
  "'m secp_scheme \<Rightarrow> signature \<Rightarrow> bytes32 \<Rightarrow> xonly_key \<Rightarrow> client_error \<Rightarrow> client_error + unit" where
  "verify_signature P sg m pk err = (if schnorr_verify P sg m pk then Inr () else Inl err)"

definition verify_status :: "coin_keys \<Rightarrow> coin_status \<Rightarrow> client_error + unit" where
  "verify_status keys st =
     (case keys_validate keys of Inl e \<Rightarrow> Inl e | Inr _ \<Rightarrow>
      if cs_coin_id st \<noteq> keys_coin_id keys \<or> signing_pubkey st \<noteq> enclave_pubkey keys
        then Inl ResponseMismatch
      else Inr ())"

definition verify_sign_response ::
  "'m secp_scheme \<Rightarrow> sign_request \<Rightarrow> u64 \<Rightarrow> coin_status \<Rightarrow> sign_response \<Rightarrow> client_error + unit" where
  "verify_sign_response P req previous_count st resp =
     (case checked_add previous_count 1 of None \<Rightarrow> Inl ResponseMismatch | Some expected_count \<Rightarrow>
      if cs_coin_id st \<noteq> sr_coin_id req
         \<or> cs_signature_count st \<noteq> expected_count
         \<or> cs_authorization st \<noteq>
             authorization P (sr_coin_id req) (next_capability_hash req) (next_handoff resp)
        then Inl ResponseMismatch
      else verify_signature P (signature resp) (sighash req) (signing_pubkey st)
             InvalidEnclaveSignature)"

definition require_future_delay :: "u32 \<Rightarrow> u32 \<Rightarrow> client_error + unit" where
  "require_future_delay confirmations delay =
     (if delay \<le> confirmations then Inl UnsafeDelay else Inr ())"

definition validate_reaction_window :: "u32 \<Rightarrow> u32 \<Rightarrow> u32 \<Rightarrow> client_error + unit" where
  "validate_reaction_window confirmations older newer =
     (if checked_sub older DELAY_STEP \<noteq> Some newer then Inl TransactionMismatch
      else require_future_delay confirmations newer)"

subsection \<open>The funding output\<close>

definition funding_tapscript :: "'m bitcoin_lib_scheme \<Rightarrow> coin_keys \<Rightarrow> script" where
  "funding_tapscript P keys =
     into_script P [PushXOnlyKey (client_pubkey keys), PushOpcode OP_CHECKSIGVERIFY,
                    PushXOnlyKey (enclave_pubkey keys), PushOpcode OP_CHECKSIG]"

definition nums_internal_key :: xonly_key where
  "nums_internal_key = XOnlyKey NUMS_INTERNAL_KEY_BYTES"

text \<open>\<open>FundingMaterial\<close>: of the spend info the code reads only the output key.\<close>

record funding_material =
  fm_output_key :: tweaked_key
  fm_control_block :: control_block

definition funding_material_of :: "'m bitcoin_lib_scheme \<Rightarrow> coin_keys \<Rightarrow> funding_material" where
  "funding_material_of P keys =
     (let leaf = funding_tapscript P keys in
      \<lparr>fm_output_key = taproot_output_key P nums_internal_key leaf,
       fm_control_block = taproot_control_block P nums_internal_key leaf\<rparr>)"

definition funding_script :: "'m bitcoin_lib_scheme \<Rightarrow> coin_keys \<Rightarrow> script" where
  "funding_script P keys = new_p2tr_tweaked P (fm_output_key (funding_material_of P keys))"

definition funding_address :: "'m bitcoin_lib_scheme \<Rightarrow> coin_keys \<Rightarrow> network_id \<Rightarrow> address" where
  "funding_address P keys net =
     p2tr_tweaked_address P (fm_output_key (funding_material_of P keys)) (address_hrp net)"

definition funding_control_block :: "'m bitcoin_lib_scheme \<Rightarrow> coin_keys \<Rightarrow> control_block" where
  "funding_control_block P keys = fm_control_block (funding_material_of P keys)"

definition recovery_sighash ::
  "'m bitcoin_lib_scheme \<Rightarrow> transaction \<Rightarrow> u64 \<Rightarrow> coin_keys \<Rightarrow> client_error + bytes32" where
  "recovery_sighash P t amount keys =
     (let prevout = \<lparr>txout_value = amount, script_pubkey = funding_script P keys\<rparr>;
          leaf_hash = tap_leaf_hash P (funding_tapscript P keys)
      in case script_spend_sighash P t 0 [prevout] leaf_hash of
           None \<Rightarrow> Inl SighashError | Some h \<Rightarrow> Inr h)"

definition verify_funding_utxo ::
  "'m bitcoin_lib_scheme \<Rightarrow> coin_metadata \<Rightarrow> outpoint \<Rightarrow> txout \<Rightarrow> client_error + unit" where
  "verify_funding_utxo P m op out =
     (case metadata_validate m of Inl e \<Rightarrow> Inl e | Inr _ \<Rightarrow>
      let expected = \<lparr>txout_value = md_amount_sat m, script_pubkey = funding_script P (md_keys m)\<rparr> in
      if op \<noteq> md_outpoint m \<or> out \<noteq> expected then Inl FundingMismatch
      else Inr ())"

subsection \<open>The recovery transaction\<close>

definition canonical_recovery ::
  "'m bitcoin_lib_scheme \<Rightarrow> outpoint \<Rightarrow> u64 \<Rightarrow> xonly_key \<Rightarrow> u32 \<Rightarrow> client_error + transaction" where
  "canonical_recovery P op amount withdrawal delay_blocks =
     (if outpoint_is_null P op then Inl InvalidOutpoint
      else if max_money P < amount then Inl AmountTooLarge
      else case (try_from_word delay_blocks :: u16 option) of None \<Rightarrow> Inl InvalidDelay | Some delay \<Rightarrow>
      if delay = 0 then Inl InvalidDelay
      else if amount < minimal_non_dust P (new_p2tr P withdrawal) then Inl DustOutput
      else Inr \<lparr>version = TRUC_VERSION,
                lock_time = lock_time_zero P,
                inputs = [\<lparr>previous_output = op, script_sig = [],
                           sequence = sequence_from_height P delay, witness = []\<rparr>],
                outputs = [\<lparr>txout_value = amount, script_pubkey = new_p2tr P withdrawal\<rparr>]\<rparr>)"

definition prepare_recovery ::
  "'m bitcoin_lib_scheme \<Rightarrow> coin_metadata \<Rightarrow> coin_status \<Rightarrow> secret_key \<Rightarrow> capability
    \<Rightarrow> handoff_token \<Rightarrow> bytes32 \<Rightarrow> xonly_key \<Rightarrow> u32 \<Rightarrow> u32
    \<Rightarrow> client_error + sign_request \<times> prepared_recovery" where
  "prepare_recovery P m st client_secret cap handoff next_cap_hash withdrawal delay confirmations =
     (and_then (metadata_validate m) (\<lambda>_.
      and_then (verify_status (md_keys m) st) (\<lambda>_.
      if cs_authorization st \<noteq>
           authorization P (keys_coin_id (md_keys m)) (capability_hash P cap) handoff
        then Inl ResponseMismatch
      else if next_cap_hash = capability_hash P cap then Inl ResponseMismatch
      else and_then (require_future_delay confirmations delay) (\<lambda>_.
      if client_xonly P client_secret \<noteq> client_pubkey (md_keys m) then Inl WrongClientKey
      else and_then (canonical_recovery P (md_outpoint m) (md_amount_sat m) withdrawal delay) (\<lambda>t.
      and_then (recovery_sighash P t (md_amount_sat m) (md_keys m)) (\<lambda>h.
      let req = \<lparr>sr_coin_id = keys_coin_id (md_keys m), current_capability = cap,
                 current_handoff = handoff, next_capability_hash = next_cap_hash, sighash = h\<rparr>
      in Inr (req, \<lparr>prep_request = req, prep_metadata = m, prep_transaction = t,
                    prep_withdrawal_key = withdrawal, prep_delay_blocks = delay\<rparr>)))))))"

text \<open>\<open>input.witness.push(..)\<close>, several times, on the first input; \<open>None\<close> when there is none.\<close>

definition push_witness :: "transaction \<Rightarrow> bytes list \<Rightarrow> transaction option" where
  "push_witness t items =
     (case inputs t of
        [] \<Rightarrow> None
      | i # is \<Rightarrow> Some (t\<lparr>inputs := i\<lparr>witness := witness i @ items\<rparr> # is\<rparr>))"

definition recovery_serialization_template ::
  "'m bitcoin_lib_scheme \<Rightarrow> prepared_recovery \<Rightarrow> client_error + signed_recovery" where
  "recovery_serialization_template P prep =
     (case push_witness (prep_transaction prep)
             [replicate 64 0xff, replicate 64 0xff,
              funding_tapscript P (md_keys (prep_metadata prep)),
              control_serialize P (funding_control_block P (md_keys (prep_metadata prep)))] of
        None \<Rightarrow> Inl TransactionMismatch
      | Some t \<Rightarrow> Inr \<lparr>rec_transaction = t, rec_withdrawal_key = prep_withdrawal_key prep,
                      rec_delay_blocks = prep_delay_blocks prep\<rparr>)"

subsection \<open>Verification of recoveries\<close>

definition verify_signed_recovery ::
  "'m bitcoin_lib_scheme \<Rightarrow> transaction \<Rightarrow> u64 \<Rightarrow> coin_keys \<Rightarrow> client_error + unit" where
  "verify_signed_recovery P t amount keys =
     (and_then (keys_validate keys) (\<lambda>_.
      if length (inputs t) \<noteq> 1 then Inl InvalidWitness
      else let w = witness (inputs t ! 0) in
      if length w \<noteq> 4 then Inl InvalidWitness
      else if length (w ! 0) \<noteq> 64 \<or> length (w ! 1) \<noteq> 64 then Inl InvalidWitness
      else if w ! 2 \<noteq> funding_tapscript P keys
              \<or> w ! 3 \<noteq> control_serialize P (funding_control_block P keys) then Inl InvalidWitness
      else with_context (control_decode P (w ! 3)) InvalidWitness (\<lambda>control.
      if control \<noteq> funding_control_block P keys
         \<or> \<not> verify_taproot_commitment P control
               (tweaked_xonly (fm_output_key (funding_material_of P keys))) (funding_tapscript P keys)
        then Inl InvalidWitness
      else with_context (signature_from_slice P (w ! 0)) InvalidWitness (\<lambda>enclave_sig.
      with_context (signature_from_slice P (w ! 1)) InvalidWitness (\<lambda>client_sig.
      and_then (recovery_sighash P t amount keys) (\<lambda>h.
      and_then (verify_signature P enclave_sig h (enclave_pubkey keys) InvalidEnclaveSignature) (\<lambda>_.
      verify_signature P client_sig h (client_pubkey keys) InvalidClientSignature)))))))"

definition verify_recovery ::
  "'m bitcoin_lib_scheme \<Rightarrow> coin_metadata \<Rightarrow> signed_recovery \<Rightarrow> client_error + unit" where
  "verify_recovery P m r =
     (case metadata_validate m of Inl e \<Rightarrow> Inl e | Inr _ \<Rightarrow>
      case canonical_recovery P (md_outpoint m) (md_amount_sat m) (rec_withdrawal_key r)
             (rec_delay_blocks r) of Inl e \<Rightarrow> Inl e | Inr expected \<Rightarrow>
      if length (inputs (rec_transaction r)) \<noteq> 1 then Inl TransactionMismatch
      else let unsigned = (rec_transaction r)
                 \<lparr>inputs := (inputs (rec_transaction r))[0 := (inputs (rec_transaction r) ! 0)\<lparr>witness := []\<rparr>]\<rparr>
      in if unsigned \<noteq> expected then Inl TransactionMismatch
      else verify_signed_recovery P (rec_transaction r) (md_amount_sat m) (md_keys m))"

definition complete_recovery ::
  "'m bitcoin_lib_scheme \<Rightarrow> sign_request \<Rightarrow> sign_response \<Rightarrow> prepared_recovery \<Rightarrow> secret_key
    \<Rightarrow> client_error + signed_recovery" where
  "complete_recovery P req resp prep client_secret =
     (let m = prep_metadata prep; keys = md_keys m in
      if prep_request prep \<noteq> req then Inl ResponseMismatch
      else and_then (metadata_validate m) (\<lambda>_.
      if sr_coin_id req \<noteq> keys_coin_id keys then Inl ResponseMismatch
      else if client_xonly P client_secret \<noteq> client_pubkey keys then Inl WrongClientKey
      else and_then (canonical_recovery P (md_outpoint m) (md_amount_sat m) (prep_withdrawal_key prep)
                  (prep_delay_blocks prep)) (\<lambda>expected.
      if prep_transaction prep \<noteq> expected then Inl TransactionMismatch
      else and_then (recovery_sighash P (prep_transaction prep) (md_amount_sat m) keys) (\<lambda>h.
      if sighash req \<noteq> h then Inl TransactionMismatch
      else and_then (verify_signature P (signature resp) h (enclave_pubkey keys) InvalidEnclaveSignature) (\<lambda>_.
      with_context (push_witness (prep_transaction prep)
             [signature_bytes (signature resp),
              signature_bytes (schnorr_sign P client_secret h),
              funding_tapscript P keys,
              control_serialize P (funding_control_block P keys)]) TransactionMismatch (\<lambda>t.
      and_then (verify_signed_recovery P t (md_amount_sat m) keys) (\<lambda>_.
      Inr \<lparr>rec_transaction = t, rec_withdrawal_key = prep_withdrawal_key prep,
           rec_delay_blocks = prep_delay_blocks prep\<rparr>)))))))"

definition verify_history ::
  "'m bitcoin_lib_scheme \<Rightarrow> coin_metadata \<Rightarrow> coin_status \<Rightarrow> secret_key \<Rightarrow> capability
    \<Rightarrow> handoff_token \<Rightarrow> xonly_key \<Rightarrow> u32 \<Rightarrow> signed_recovery list \<Rightarrow> client_error + unit" where
  "verify_history P m st client_secret cap handoff expected_latest confirmations history =
     (and_then (verify_status (md_keys m) st) (\<lambda>_.
      if client_xonly P client_secret \<noteq> client_pubkey (md_keys m) then Inl WrongClientKey
      else if cs_authorization st \<noteq>
                authorization P (keys_coin_id (md_keys m)) (capability_hash P cap) handoff
              \<or> cs_signature_count st \<noteq> of_nat (length history)
              \<or> map_option rec_withdrawal_key (last_opt history) \<noteq> Some expected_latest
        then Inl HistoryMismatch
      else and_then (try_each (verify_recovery P m) history) (\<lambda>_.
      and_then (try_each (\<lambda>(older, newer). validate_reaction_window confirmations
                       (rec_delay_blocks older) (rec_delay_blocks newer)) (windows2 history)) (\<lambda>_.
      if (case last_opt history of None \<Rightarrow> True | Some latest \<Rightarrow> rec_delay_blocks latest \<le> confirmations)
        then Inl UnsafeDelay
      else Inr ()))))"

subsection \<open>The fee-paying child\<close>

definition exit_child :: "'m bitcoin_lib_scheme \<Rightarrow> transaction \<Rightarrow> bytes list \<Rightarrow> u64 \<Rightarrow> script \<Rightarrow> transaction" where
  "exit_child P parent w amount destination =
     \<lparr>version = TRUC_VERSION,
      lock_time = lock_time_zero P,
      inputs = [\<lparr>previous_output = OutPoint (compute_txid P parent) 0, script_sig = [],
                 sequence = sequence_max P, witness = w\<rparr>],
      outputs = [\<lparr>txout_value = amount, script_pubkey = destination\<rparr>]\<rparr>"

definition build_exit_child ::
  "'m bitcoin_lib_scheme \<Rightarrow> signed_recovery \<Rightarrow> u64 \<Rightarrow> secret_key \<Rightarrow> script \<Rightarrow> u64
    \<Rightarrow> client_error + transaction" where
  "build_exit_child P recovery amount withdrawal_secret destination fee_rate =
     (let parent = rec_transaction recovery; internal = xonly_of P withdrawal_secret in
      if length (inputs parent) \<noteq> 1 \<or> length (outputs parent) \<noteq> 1 then Inl TransactionMismatch
      else if internal \<noteq> rec_withdrawal_key recovery then Inl WithdrawalKeyMismatch
      else case first_opt (outputs parent) of None \<Rightarrow> Inl TransactionMismatch | Some spent \<Rightarrow>
      if txout_value spent \<noteq> amount \<or> script_pubkey spent \<noteq> new_p2tr P internal
        then Inl TransactionMismatch
      else
        let placeholder = exit_child P parent [replicate 64 0] amount destination;
            package_vsize = ucast (vsize P parent + vsize P placeholder) :: u128;
            fee = ucast fee_rate * package_vsize
        in case Option.bind (checked_sub (ucast amount) fee) (\<lambda>v. try_from_word v :: u64 option) of
             None \<Rightarrow> Inl DustOutput | Some out_amount \<Rightarrow>
      if out_amount < minimal_non_dust P destination then Inl DustOutput
      else case key_spend_sighash P (exit_child P parent [replicate 64 0] out_amount destination)
                  0 [spent] of None \<Rightarrow> Inl SighashError | Some h \<Rightarrow>
      let tweaked = tap_tweak P withdrawal_secret;
          sg = schnorr_sign P tweaked h
      in if \<not> schnorr_verify P sg h (xonly_of P tweaked) then Inl InvalidClientSignature
      else Inr (exit_child P parent [signature_bytes sg] out_amount destination))"

subsection \<open>The remote enclave\<close>

text \<open>The SDK is a parameter: how a request is answered, with status and body, and how JSON is
  read. Its errors are opaque strings.\<close>

datatype remote_error =
  EnclaviaError string
| Configuration string
| ProtocolError u16 string
| JsonError string

record pcrs =
  pcr0 :: bytes
  pcr1 :: bytes
  pcr2 :: bytes

record enclave_sdk =
  sdk_get_health :: "string + u16 \<times> bytes"
  sdk_post :: "request \<Rightarrow> remote_error + u16 \<times> bytes"
  response_from_slice :: "bytes \<Rightarrow> string + response"
  from_utf8_lossy :: "bytes \<Rightarrow> string"

definition index_string :: "nat \<Rightarrow> string" where
  "index_string i = (if i = 0 then ''0'' else if i = 1 then ''1'' else ''2'')"

definition validate_production_pcrs :: "pcrs \<Rightarrow> remote_error + unit" where
  "validate_production_pcrs p =
     try_each (\<lambda>(index, pcr).
        if length pcr \<noteq> 48 then
          Inl (Configuration (''PCR'' @ index_string index @ '' must be a 48-byte SHA-384 measurement''))
        else if list_all (\<lambda>b. b = 0) pcr then
          Inl (Configuration (''PCR'' @ index_string index @ '' cannot be the all-zero debug measurement''))
        else Inr ())
      (enumerate 0 [pcr0 p, pcr1 p, pcr2 p])"

text \<open>\<open>connect\<close> of the SDK is a parameter too.\<close>

definition remote_connect ::
  "(string \<Rightarrow> pcrs \<Rightarrow> string + 'c) \<Rightarrow> string \<Rightarrow> pcrs \<Rightarrow> remote_error + 'c" where
  "remote_connect sdk_connect url p =
     (case validate_production_pcrs p of Inl e \<Rightarrow> Inl e | Inr _ \<Rightarrow>
      case sdk_connect url p of Inl e \<Rightarrow> Inl (EnclaviaError e) | Inr c \<Rightarrow> Inr c)"

definition ensure_success :: "'m enclave_sdk_scheme \<Rightarrow> u16 \<Rightarrow> bytes \<Rightarrow> remote_error + unit" where
  "ensure_success S st body =
     (if 200 \<le> st \<and> st < 300 then Inr () else Inl (ProtocolError st (from_utf8_lossy S body)))"

definition unexpected_response :: remote_error where
  "unexpected_response = ProtocolError 500 ''unexpected enclave response''"

definition remote_health :: "'m enclave_sdk_scheme \<Rightarrow> remote_error + unit" where
  "remote_health S =
     (case sdk_get_health S of Inl e \<Rightarrow> Inl (EnclaviaError e) | Inr (st, body) \<Rightarrow>
      ensure_success S st body)"

definition remote_call :: "'m enclave_sdk_scheme \<Rightarrow> request \<Rightarrow> remote_error + response" where
  "remote_call S req =
     (case sdk_post S req of Inl e \<Rightarrow> Inl e | Inr (st, body) \<Rightarrow>
      case ensure_success S st body of Inl e \<Rightarrow> Inl e | Inr _ \<Rightarrow>
      case response_from_slice S body of Inl e \<Rightarrow> Inl (JsonError e) | Inr r \<Rightarrow> Inr r)"

definition remote_register ::
  "'m enclave_sdk_scheme \<Rightarrow> register_request \<Rightarrow> remote_error + coin_status" where
  "remote_register S req =
     (case remote_call S (ReqRegister req) of Inl e \<Rightarrow> Inl e | Inr r \<Rightarrow>
      case r of RespStatus st \<Rightarrow> Inr st | RespSignature _ \<Rightarrow> Inl unexpected_response)"

definition remote_status :: "'m enclave_sdk_scheme \<Rightarrow> coin_id \<Rightarrow> remote_error + coin_status" where
  "remote_status S cid =
     (case remote_call S (ReqStatus cid) of Inl e \<Rightarrow> Inl e | Inr r \<Rightarrow>
      case r of RespStatus st \<Rightarrow> Inr st | RespSignature _ \<Rightarrow> Inl unexpected_response)"

definition remote_sign :: "'m enclave_sdk_scheme \<Rightarrow> sign_request \<Rightarrow> remote_error + sign_response" where
  "remote_sign S req =
     (case remote_call S (ReqSign req) of Inl e \<Rightarrow> Inl e | Inr r \<Rightarrow>
      case r of RespSignature sg \<Rightarrow> Inr sg | RespStatus _ \<Rightarrow> Inl unexpected_response)"

end
