(* ===== verification/Enclave_Spec.thy ===== *)
theory Enclave_Spec
  imports Signing_Service
begin

text \<open>
  What the signer promises, as an abstract machine that remembers every transition: a coin
  is its key, its initial capability hash and its log of signed requests. The concrete coin
  keeps only a hash, a counter and the last entry; \<open>sim_run\<close> shows that
  this is enough, for every request.
\<close>

record abs_coin =
  abs_key :: secret_key
  abs_initial :: bytes32
  abs_log :: "(sign_request \<times> sign_response) list"

type_synonym abs_signer = "(coin_id, abs_coin) fmap"

text \<open>The capability hash and the handoff that the next transition has to present: those
  of the registration, or the ones the latest transition set up.\<close>

definition abs_owner :: "abs_coin \<Rightarrow> bytes32 \<times> handoff_token" where
  "abs_owner a =
     (case last_opt (abs_log a) of
        None \<Rightarrow> (abs_initial a, INITIAL_HANDOFF)
      | Some (req, resp) \<Rightarrow> (next_capability_hash req, next_handoff resp))"

definition abs_authorization :: "'m secp_scheme \<Rightarrow> coin_id \<Rightarrow> abs_coin \<Rightarrow> bytes32" where
  "abs_authorization P cid a = authorization P cid (fst (abs_owner a)) (snd (abs_owner a))"

definition abs_status :: "'m secp_scheme \<Rightarrow> abs_signer \<Rightarrow> coin_id \<Rightarrow> error + coin_status" where
  "abs_status P m cid =
     (case fmlookup m cid of
        None \<Rightarrow> Inl UnknownCoin
      | Some a \<Rightarrow> Inr \<lparr>cs_coin_id = cid,
                     signing_pubkey = xonly_of P (abs_key a),
                     cs_authorization = abs_authorization P cid a,
                     cs_signature_count = of_nat (length (abs_log a))\<rparr>)"

definition abs_register ::
  "'m secp_scheme \<Rightarrow> nat \<Rightarrow> secret_key \<Rightarrow> abs_signer \<Rightarrow> register_request
    \<Rightarrow> (error + coin_status) \<times> abs_signer" where
  "abs_register P limit k m req =
     (if rr_coin_id req |\<in>| fmdom m then (abs_status P m (rr_coin_id req), m)
      else if limit \<le> fcard (fmdom m) then (Inl CapacityReached, m)
      else let m' = fmupd (rr_coin_id req)
                 \<lparr>abs_key = k, abs_initial = initial_capability_hash req, abs_log = []\<rparr> m
           in (abs_status P m' (rr_coin_id req), m'))"

definition abs_sign ::
  "'m secp_scheme \<Rightarrow> handoff_token \<Rightarrow> abs_signer \<Rightarrow> sign_request
    \<Rightarrow> (error + sign_response) \<times> abs_signer" where
  "abs_sign P h m req =
     (case fmlookup m (sr_coin_id req) of
        None \<Rightarrow> (Inl UnknownCoin, m)
      | Some a \<Rightarrow>
        if abs_log a \<noteq> [] \<and> fst (last (abs_log a)) = req then (Inr (snd (last (abs_log a))), m)
        else
          let cap_hash = capability_hash P (current_capability req) in
          if authorization P (sr_coin_id req) cap_hash (current_handoff req)
               \<noteq> abs_authorization P (sr_coin_id req) a then (Inl Unauthorized, m)
          else if next_capability_hash req = cap_hash then (Inl UnchangedCapability, m)
          else if 2 ^ 64 \<le> length (abs_log a) + 1 then (Inl SignatureCountOverflow, m)
          else
            let resp = \<lparr>signature = schnorr_sign P (abs_key a) (sighash req), next_handoff = h\<rparr>
            in (Inr resp,
                fmupd (sr_coin_id req) (a\<lparr>abs_log := abs_log a @ [(req, resp)]\<rparr>) m))"

definition abs_handle ::
  "'m secp_scheme \<Rightarrow> nat \<Rightarrow> entropy \<Rightarrow> abs_signer \<Rightarrow> request
    \<Rightarrow> (error + response) \<times> abs_signer" where
  "abs_handle P limit rnd m req =
     (case req of
        ReqRegister r \<Rightarrow> apfst (map_sum (\<lambda>e. e) RespStatus) (abs_register P limit (fresh_key rnd) m r)
      | ReqStatus cid \<Rightarrow> (map_sum (\<lambda>e. e) RespStatus (abs_status P m cid), m)
      | ReqSign r \<Rightarrow> apfst (map_sum (\<lambda>e. e) RespSignature) (abs_sign P (fresh_handoff rnd) m r))"

fun run_abs ::
  "'m secp_scheme \<Rightarrow> nat \<Rightarrow> abs_signer \<Rightarrow> (entropy \<times> request) list
    \<Rightarrow> (error + response) list \<times> abs_signer" where
  "run_abs P limit m [] = ([], m)"
| "run_abs P limit m ((rnd, req) # evs) =
     (let (r, m') = abs_handle P limit rnd m req;
          (rs, m'') = run_abs P limit m' evs
      in (r # rs, m''))"

subsection \<open>Simulation\<close>

definition sim_coin :: "'m secp_scheme \<Rightarrow> coin_id \<Rightarrow> coin \<Rightarrow> abs_coin \<Rightarrow> bool" where
  "sim_coin P cid c a \<longleftrightarrow>
     signing_key c = abs_key a \<and>
     coin_authorization c = abs_authorization P cid a \<and>
     unat (signature_count c) = length (abs_log a) \<and>
     coin_last c = last_opt (abs_log a)"

definition sim :: "'m secp_scheme \<Rightarrow> signer \<Rightarrow> abs_signer \<Rightarrow> bool" where
  "sim P s m \<longleftrightarrow> (\<forall>cid. rel_option (sim_coin P cid) (fmlookup (coins s) cid) (fmlookup m cid))"

lemma sim_new: "sim P new_signer fmempty"
  by (simp add: sim_def new_signer_def)

lemma sim_fmdom:
  assumes "sim P s m"
  shows "fmdom m = fmdom (coins s)"
proof (rule fset_eqI)
  fix cid
  from assms have "rel_option (sim_coin P cid) (fmlookup (coins s) cid) (fmlookup m cid)"
    by (simp add: sim_def)
  then show "cid |\<in>| fmdom m \<longleftrightarrow> cid |\<in>| fmdom (coins s)"
    by (auto simp: fmlookup_dom_iff elim: option.rel_cases)
qed

lemma sim_lookup:
  assumes "sim P s m"
  obtains (absent) "fmlookup (coins s) cid = None" "fmlookup m cid = None"
    | (present) c a where "fmlookup (coins s) cid = Some c" "fmlookup m cid = Some a"
        "sim_coin P cid c a"
proof -
  from assms have "rel_option (sim_coin P cid) (fmlookup (coins s) cid) (fmlookup m cid)"
    by (simp add: sim_def)
  then show thesis by (cases rule: option.rel_cases) (auto intro: absent present)
qed

lemma sim_update:
  "sim P s m \<Longrightarrow> sim_coin P cid c a \<Longrightarrow> sim P (s\<lparr>coins := fmupd cid c (coins s)\<rparr>) (fmupd cid a m)"
  by (simp add: sim_def)

lemma sim_status:
  assumes "sim P s m"
  shows "status P s cid = abs_status P m cid"
  using assms
proof (cases rule: sim_lookup [where cid = cid])
  case (present c a)
  then show ?thesis
    by (auto simp: status_def abs_status_def coin_status_def sim_coin_def
        intro: of_nat_eqI [symmetric])
qed (simp add: status_def abs_status_def)

lemma sim_register:
  assumes "sim P s m"
  shows "fst (register P limit k s req) = fst (abs_register P limit k m req)
    \<and> sim P (snd (register P limit k s req)) (snd (abs_register P limit k m req))"
proof (cases "fmlookup (coins s) (rr_coin_id req)")
  case None
  let ?c = "\<lparr>signing_key = k, coin_authorization =
      authorization P (rr_coin_id req) (initial_capability_hash req) INITIAL_HANDOFF,
      signature_count = 0, coin_last = None\<rparr>"
  let ?a = "\<lparr>abs_key = k, abs_initial = initial_capability_hash req, abs_log = []\<rparr>"
  have "sim_coin P (rr_coin_id req) ?c ?a"
    by (simp add: sim_coin_def abs_authorization_def abs_owner_def last_opt_def)
  from sim_update [OF assms this] None show ?thesis
    by (auto simp: register_def abs_register_def sim_fmdom [OF assms] fmlookup_dom_iff Let_def
        abs_status_def coin_status_def abs_authorization_def abs_owner_def last_opt_def assms)
next
  case (Some c)
  then show ?thesis
    by (auto simp: register_def abs_register_def sim_fmdom [OF assms] fmlookup_dom_iff
        sim_status [OF assms] assms)
qed

lemma sim_coin_cached:
  assumes "sim_coin P cid c a"
  shows "cached_response c req =
    (if abs_log a \<noteq> [] \<and> fst (last (abs_log a)) = req then Some (snd (last (abs_log a))) else None)"
  using assms by (auto simp: cached_response_def sim_coin_def last_opt_def split: prod.splits)

lemma sim_coin_append:
  assumes "sim_coin P (sr_coin_id req) c a" and "unat (signature_count c) + 1 < 2 ^ 64"
  shows "sim_coin P (sr_coin_id req)
    (c\<lparr>coin_authorization :=
         authorization P (sr_coin_id req) (next_capability_hash req) (next_handoff resp),
       signature_count := signature_count c + 1, coin_last := Some (req, resp)\<rparr>)
    (a\<lparr>abs_log := abs_log a @ [(req, resp)]\<rparr>)"
  using assms
  by (simp add: sim_coin_def abs_authorization_def abs_owner_def last_opt_def unat_word_ariths)

lemma sim_sign:
  assumes "sim P s m"
  shows "fst (sign P h s req) = fst (abs_sign P h m req)
    \<and> sim P (snd (sign P h s req)) (snd (abs_sign P h m req))"
  using assms
proof (cases rule: sim_lookup [where cid = "sr_coin_id req"])
  case absent
  then show ?thesis by (simp add: sign_def abs_sign_def assms)
next
  case (present c a)
  let ?resp = "\<lparr>signature = schnorr_sign P (signing_key c) (sighash req), next_handoff = h\<rparr>"
  note upd = sim_update [OF assms sim_coin_append [OF present(3), of ?resp], simplified]
  from present(3) have eqs: "signing_key c = abs_key a"
      "coin_authorization c = abs_authorization P (sr_coin_id req) a"
      "unat (signature_count c) = length (abs_log a)"
    by (auto simp: sim_coin_def)
  from present(1,2) eqs upd show ?thesis
    by (auto simp: sign_def abs_sign_def sim_coin_cached [OF present(3)] Let_def checked_add_def
        assms)
qed

lemma map_result_apfst: "map_result f p = apfst (map_sum (\<lambda>e. e) f) p"
  by (auto simp: map_result_def split: prod.splits sum.splits)

lemma sim_handle:
  assumes "sim P s m"
  shows "fst (handle P limit rnd s req) = fst (abs_handle P limit rnd m req)
    \<and> sim P (snd (handle P limit rnd s req)) (snd (abs_handle P limit rnd m req))"
proof (cases req)
  case (ReqRegister r)
  with sim_register [OF assms, of limit "fresh_key rnd" r] show ?thesis
    by (simp add: handle_def abs_handle_def map_result_apfst)
next
  case (ReqStatus cid)
  with sim_status [OF assms, of cid] assms show ?thesis
    by (simp add: handle_def abs_handle_def map_result_apfst)
next
  case (ReqSign r)
  with sim_sign [OF assms, of "fresh_handoff rnd" r] show ?thesis
    by (simp add: handle_def abs_handle_def map_result_apfst)
qed

lemma sim_run:
  "sim P s m \<Longrightarrow> fst (run_signer P limit s evs) = fst (run_abs P limit m evs)
    \<and> sim P (snd (run_signer P limit s evs)) (snd (run_abs P limit m evs))"
proof (induction evs arbitrary: s m)
  case Nil
  then show ?case by simp
next
  case (Cons e evs)
  obtain rnd req where e: "e = (rnd, req)" by (cases e)
  from sim_handle [OF Cons.prems, of limit rnd req]
  have h: "fst (handle P limit rnd s req) = fst (abs_handle P limit rnd m req)"
    and s: "sim P (snd (handle P limit rnd s req)) (snd (abs_handle P limit rnd m req))" by auto
  from Cons.IH [OF s] h show ?case
    by (auto simp: e split: prod.splits)
qed

subsection \<open>The log is a chain of custody\<close>

text \<open>Every entry presents the commitment that the entry before it (or the registration) set
  up, and moves to a different capability.\<close>

fun linked ::
  "'m secp_scheme \<Rightarrow> coin_id \<Rightarrow> bytes32 \<times> handoff_token \<Rightarrow> (sign_request \<times> sign_response) list \<Rightarrow> bool" where
  "linked P cid owner [] = True"
| "linked P cid owner ((req, resp) # log) =
     (sr_coin_id req = cid \<and>
      authorization P cid (capability_hash P (current_capability req)) (current_handoff req)
        = authorization P cid (fst owner) (snd owner) \<and>
      next_capability_hash req \<noteq> capability_hash P (current_capability req) \<and>
      linked P cid (next_capability_hash req, next_handoff resp) log)"

definition owner_after ::
  "bytes32 \<times> handoff_token \<Rightarrow> (sign_request \<times> sign_response) list \<Rightarrow> bytes32 \<times> handoff_token" where
  "owner_after owner log =
     (case last_opt log of
        None \<Rightarrow> owner
      | Some (req, resp) \<Rightarrow> (next_capability_hash req, next_handoff resp))"

lemma owner_after_simps [simp]:
  "owner_after owner [] = owner"
  "owner_after owner ((req, resp) # log) = owner_after (next_capability_hash req, next_handoff resp) log"
  by (auto simp: owner_after_def last_opt_def)

lemma linked_append:
  "linked P cid owner (log @ log') \<longleftrightarrow> linked P cid owner log \<and> linked P cid (owner_after owner log) log'"
  by (induction P cid owner log rule: linked.induct) auto

lemma abs_owner_after: "abs_owner a = owner_after (abs_initial a, INITIAL_HANDOFF) (abs_log a)"
  by (simp add: abs_owner_def owner_after_def)

definition abs_coin_ok :: "'m secp_scheme \<Rightarrow> coin_id \<Rightarrow> abs_coin \<Rightarrow> bool" where
  "abs_coin_ok P cid a \<longleftrightarrow>
     linked P cid (abs_initial a, INITIAL_HANDOFF) (abs_log a) \<and>
     (\<forall>(req, resp) \<in> set (abs_log a). signature resp = schnorr_sign P (abs_key a) (sighash req))"

definition abs_ok :: "'m secp_scheme \<Rightarrow> nat \<Rightarrow> abs_signer \<Rightarrow> bool" where
  "abs_ok P limit m \<longleftrightarrow>
     fcard (fmdom m) \<le> limit \<and> (\<forall>cid a. fmlookup m cid = Some a \<longrightarrow> abs_coin_ok P cid a)"

lemma abs_ok_empty: "abs_ok P limit fmempty"
  by (simp add: abs_ok_def fcard.rep_eq)

lemma abs_ok_lookup: "abs_ok P limit m \<Longrightarrow> fmlookup m cid = Some a \<Longrightarrow> abs_coin_ok P cid a"
  by (simp add: abs_ok_def)

lemma abs_register_ok:
  assumes "abs_ok P limit m"
  shows "abs_ok P limit (snd (abs_register P limit k m req))"
  using assms
  by (auto simp: abs_register_def abs_ok_def abs_coin_ok_def Let_def fcard_finsert_disjoint)

lemma abs_coin_ok_append:
  assumes "abs_coin_ok P (sr_coin_id req) a"
    and "authorization P (sr_coin_id req) (capability_hash P (current_capability req))
      (current_handoff req) = abs_authorization P (sr_coin_id req) a"
    and "next_capability_hash req \<noteq> capability_hash P (current_capability req)"
    and "signature resp = schnorr_sign P (abs_key a) (sighash req)"
  shows "abs_coin_ok P (sr_coin_id req) (a\<lparr>abs_log := abs_log a @ [(req, resp)]\<rparr>)"
  using assms by (auto simp: abs_coin_ok_def linked_append abs_authorization_def abs_owner_after)

lemma abs_sign_ok:
  assumes ok: "abs_ok P limit m"
  shows "abs_ok P limit (snd (abs_sign P h m req))"
proof (cases "fmlookup m (sr_coin_id req)")
  case None
  then show ?thesis by (simp add: abs_sign_def ok)
next
  case (Some a)
  note append = abs_coin_ok_append [OF abs_ok_lookup [OF ok Some]]
  have dom: "finsert (sr_coin_id req) (fmdom m) = fmdom m"
    using Some by (simp add: finsert_absorb fmdomI)
  from Some ok append dom show ?thesis
    by (auto simp: abs_sign_def abs_ok_def Let_def)
qed

lemma abs_handle_ok: "abs_ok P limit m \<Longrightarrow> abs_ok P limit (snd (abs_handle P limit rnd m req))"
  by (cases req) (simp_all add: abs_handle_def abs_register_ok abs_sign_ok)

lemma run_abs_ok: "abs_ok P limit m \<Longrightarrow> abs_ok P limit (snd (run_abs P limit m evs))"
  by (induction P limit m evs rule: run_abs.induct)
    (auto simp: Let_def split: prod.splits dest: abs_handle_ok, metis abs_handle_ok snd_conv)

subsection \<open>The log is what was served\<close>

text \<open>The registrations of a coin and the transitions of it that a run answered, read off
  its requests and answers alone.\<close>

fun registered_by ::
  "coin_id \<Rightarrow> (entropy \<times> request) \<times> (error + response) \<Rightarrow> (entropy \<times> register_request) list" where
  "registered_by cid ((rnd, ReqRegister r), Inr resp) = (if rr_coin_id r = cid then [(rnd, r)] else [])"
| "registered_by cid _ = []"

fun answered_by ::
  "coin_id \<Rightarrow> (entropy \<times> request) \<times> (error + response) \<Rightarrow> (sign_request \<times> sign_response) list" where
  "answered_by cid ((rnd, ReqSign req), Inr (RespSignature resp)) =
     (if sr_coin_id req = cid then [(req, resp)] else [])"
| "answered_by cid _ = []"

definition registered ::
  "coin_id \<Rightarrow> (entropy \<times> request) list \<Rightarrow> (error + response) list \<Rightarrow> (entropy \<times> register_request) list" where
  "registered cid evs rs = concat (map (registered_by cid) (zip evs rs))"

definition answered ::
  "coin_id \<Rightarrow> (entropy \<times> request) list \<Rightarrow> (error + response) list \<Rightarrow> (sign_request \<times> sign_response) list" where
  "answered cid evs rs = concat (map (answered_by cid) (zip evs rs))"

text \<open>The chain of custody: the answered transitions with the replays, which repeat the
  answer before them, left out.\<close>

definition custody ::
  "coin_id \<Rightarrow> (entropy \<times> request) list \<Rightarrow> (error + response) list \<Rightarrow> (sign_request \<times> sign_response) list" where
  "custody cid evs rs = remdups_adj (answered cid evs rs)"

definition coin_trace ::
  "coin_id \<Rightarrow> abs_signer \<Rightarrow> (entropy \<times> register_request) list
    \<Rightarrow> (sign_request \<times> sign_response) list \<Rightarrow> bool" where
  "coin_trace cid m regs answers \<longleftrightarrow>
     (case fmlookup m cid of
        None \<Rightarrow> regs = [] \<and> answers = []
      | Some a \<Rightarrow>
          abs_log a = remdups_adj answers \<and>
          (\<exists>rnd r. first_opt regs = Some (rnd, r) \<and> abs_key a = fresh_key rnd \<and>
            abs_initial a = initial_capability_hash r))"

lemma remdups_adj_snoc:
  "remdups_adj (xs @ [x]) =
     (if xs \<noteq> [] \<and> last xs = x then remdups_adj xs else remdups_adj xs @ [x])"
  by (induction xs rule: remdups_adj.induct) auto

lemma coin_trace_new: "coin_trace cid fmempty [] []"
  by (simp add: coin_trace_def)

lemma answered_by_other: "sr_coin_id req \<noteq> cid \<Longrightarrow> answered_by cid ((rnd, ReqSign req), res) = []"
  by (cases "(cid, (rnd, ReqSign req), res)" rule: answered_by.cases) auto

lemma coin_trace_register:
  assumes "coin_trace cid m regs answers"
    and "abs_handle P limit rnd m (ReqRegister r) = (res, m')"
  shows "coin_trace cid m' (regs @ registered_by cid ((rnd, ReqRegister r), res)) answers"
proof (cases "fmlookup m (rr_coin_id r)")
  case None
  with assms show ?thesis
    by (auto simp: abs_handle_def abs_register_def Let_def coin_trace_def abs_status_def
        fmlookup_dom_iff first_opt_def split: if_splits option.splits)
next
  case (Some a)
  with assms show ?thesis
    by (auto simp: abs_handle_def abs_register_def coin_trace_def abs_status_def
        fmlookup_dom_iff first_opt_def split: if_splits option.splits list.splits)
qed

lemma coin_trace_sign:
  assumes "coin_trace cid m regs answers"
    and "abs_handle P limit rnd m (ReqSign req) = (res, m')"
  shows "coin_trace cid m' regs (answers @ answered_by cid ((rnd, ReqSign req), res))"
proof (cases "fmlookup m (sr_coin_id req)")
  case None
  with assms show ?thesis by (auto simp: abs_handle_def abs_sign_def)
next
  case (Some a)
  show ?thesis
  proof (cases "sr_coin_id req = cid")
    case True
    with assms(1) Some have "abs_log a = remdups_adj answers" by (simp add: coin_trace_def)
    then have "abs_log a \<noteq> [] \<longleftrightarrow> answers \<noteq> []" "answers \<noteq> [] \<Longrightarrow> last (abs_log a) = last answers"
      by simp_all
    with assms Some True show ?thesis
      by (auto simp: abs_handle_def abs_sign_def Let_def coin_trace_def remdups_adj_snoc
          split: if_splits)
  next
    case False
    with assms(2) Some have "fmlookup m' cid = fmlookup m cid"
      by (auto simp: abs_handle_def abs_sign_def Let_def split: if_splits)
    with assms(1) False show ?thesis by (simp add: coin_trace_def answered_by_other)
  qed
qed

lemma coin_trace_handle:
  assumes "coin_trace cid m regs answers" and "abs_handle P limit rnd m req = (res, m')"
  shows "coin_trace cid m' (regs @ registered_by cid ((rnd, req), res))
    (answers @ answered_by cid ((rnd, req), res))"
proof (cases req)
  case (ReqRegister r)
  with coin_trace_register [OF assms(1)] assms(2) show ?thesis by simp
next
  case (ReqStatus i)
  with assms show ?thesis by (simp add: abs_handle_def)
next
  case (ReqSign r)
  with coin_trace_sign [OF assms(1)] assms(2) show ?thesis by simp
qed

lemma coin_trace_run:
  "coin_trace cid m regs answers \<Longrightarrow>
    coin_trace cid (snd (run_abs P limit m evs))
      (regs @ registered cid evs (fst (run_abs P limit m evs)))
      (answers @ answered cid evs (fst (run_abs P limit m evs)))"
proof (induction evs arbitrary: m regs answers)
  case Nil
  then show ?case by (simp add: registered_def answered_def)
next
  case (Cons e evs)
  obtain rnd req where e: "e = (rnd, req)" by (cases e)
  obtain res m' where h: "abs_handle P limit rnd m req = (res, m')" by fastforce
  from Cons.IH [OF coin_trace_handle [OF Cons.prems h]] h show ?case
    by (auto simp: e registered_def answered_def split: prod.splits)
qed

subsection \<open>What a sequence of requests leaves unchanged\<close>

lemma handle_status_state [simp]: "snd (handle P limit rnd s (ReqStatus cid)) = s"
  by (simp add: handle_def map_result_apfst)

lemma register_lookup:
  "fmlookup (coins s) cid = Some c \<Longrightarrow> fmlookup (coins (snd (register P limit k s req))) cid = Some c"
  by (auto simp: register_def Let_def)

lemma sign_lookup_other:
  "sr_coin_id req \<noteq> cid \<Longrightarrow>
    fmlookup (coins (snd (sign P h s req))) cid = fmlookup (coins s) cid"
  by (auto simp: sign_def Let_def split: option.splits)

lemma sign_key:
  "fmlookup (coins s) cid = Some c \<Longrightarrow>
    \<exists>c'. fmlookup (coins (snd (sign P h s req))) cid = Some c' \<and> signing_key c' = signing_key c"
  by (auto simp: sign_def Let_def split: option.splits)

lemma handle_key:
  "fmlookup (coins s) cid = Some c \<Longrightarrow>
    \<exists>c'. fmlookup (coins (snd (handle P limit rnd s req))) cid = Some c'
      \<and> signing_key c' = signing_key c"
  by (cases req) (simp_all add: handle_def map_result_apfst register_lookup sign_key)

lemma run_key:
  "fmlookup (coins s) cid = Some c \<Longrightarrow>
    \<exists>c'. fmlookup (coins (snd (run_signer P limit s evs))) cid = Some c'
      \<and> signing_key c' = signing_key c"
proof (induction evs arbitrary: s c)
  case Nil
  then show ?case by simp
next
  case (Cons e evs)
  obtain rnd req where e: "e = (rnd, req)" by (cases e)
  from handle_key [OF Cons.prems] obtain c1 where
    "fmlookup (coins (snd (handle P limit rnd s req))) cid = Some c1" "signing_key c1 = signing_key c"
    by blast
  from Cons.IH [OF this(1)] this(2) show ?case
    by (auto simp: e split: prod.splits)
qed

text \<open>No request of a sequence performs a transition of the coin: each \<open>sign\<close> for it is a
  retry of its latest request.\<close>

definition only_retries :: "coin_id \<Rightarrow> sign_request \<Rightarrow> entropy \<times> request \<Rightarrow> error + response \<Rightarrow> bool" where
  "only_retries cid req ev res \<longleftrightarrow>
     (\<forall>r. snd ev = ReqSign r \<longrightarrow> sr_coin_id r = cid \<longrightarrow> r = req \<or> isl res)"

lemma handle_same_coin:
  assumes "fmlookup (coins s) (sr_coin_id req) = Some c" and "coin_last c = Some (req, resp)"
    and "only_retries (sr_coin_id req) req (rnd, r) (fst (handle P limit rnd s r))"
  shows "fmlookup (coins (snd (handle P limit rnd s r))) (sr_coin_id req) = Some c"
proof (cases r)
  case (ReqSign r')
  show ?thesis
  proof (cases "sr_coin_id r' = sr_coin_id req \<and> r' \<noteq> req")
    case True
    with assms(3) ReqSign have "isl (fst (sign P (fresh_handoff rnd) s r'))"
      by (simp add: only_retries_def handle_def map_result_apfst isl_map_sum)
    then obtain e where "fst (sign P (fresh_handoff rnd) s r') = Inl e" by (auto simp: isl_def)
    with sign_keeps have "snd (sign P (fresh_handoff rnd) s r') = s"
      by (metis err_keeps_def)
    with assms(1) ReqSign show ?thesis by (simp add: handle_def map_result_apfst)
  next
    case False
    with assms(1,2) ReqSign show ?thesis
      by (auto simp: handle_def map_result_apfst sign_lookup_other)
        (simp add: sign_def cached_response_def)
  qed
qed (simp_all add: assms(1) handle_def map_result_apfst register_lookup)

lemma run_same_coin:
  assumes "fmlookup (coins s) (sr_coin_id req) = Some c" and "coin_last c = Some (req, resp)"
    and "list_all2 (only_retries (sr_coin_id req) req) evs (fst (run_signer P limit s evs))"
  shows "fmlookup (coins (snd (run_signer P limit s evs))) (sr_coin_id req) = Some c"
  using assms
proof (induction evs arbitrary: s)
  case Nil
  then show ?case by simp
next
  case (Cons e evs)
  obtain rnd r where e: "e = (rnd, r)" by (cases e)
  let ?s' = "snd (handle P limit rnd s r)"
  from Cons.prems(3) e have now: "only_retries (sr_coin_id req) req (rnd, r) (fst (handle P limit rnd s r))"
    and rest: "list_all2 (only_retries (sr_coin_id req) req) evs (fst (run_signer P limit ?s' evs))"
    by (auto split: prod.splits)
  from Cons.IH [OF handle_same_coin [OF Cons.prems(1,2) now] Cons.prems(2) rest] e show ?case
    by (auto split: prod.splits)
qed

subsection \<open>The signer is a signing service\<close>

definition signer_ok :: "'m secp_scheme \<Rightarrow> nat \<Rightarrow> signer \<Rightarrow> bool" where
  "signer_ok P limit s \<longleftrightarrow> (\<exists>m. sim P s m \<and> abs_ok P limit m)"

lemma signer_ok_new: "signer_ok P limit new_signer"
  using sim_new abs_ok_empty by (auto simp: signer_ok_def)

lemma signer_ok_sign: "signer_ok P limit s \<Longrightarrow> signer_ok P limit (snd (sign P h s req))"
  using sim_sign abs_sign_ok unfolding signer_ok_def by blast

lemma signer_ok_handle:
  "signer_ok P limit s \<Longrightarrow> signer_ok P limit (snd (handle P limit rnd s req))"
  using sim_handle abs_handle_ok unfolding signer_ok_def by blast

lemma signer_ok_run: "signer_ok P limit (snd (run_signer P limit new_signer evs))"
  using sim_run [OF sim_new] run_abs_ok [OF abs_ok_empty] unfolding signer_ok_def by blast

text \<open>The current commitment of a coin whose latest entry is known.\<close>

lemma signer_ok_last:
  assumes "signer_ok P limit s" and "fmlookup (coins s) cid = Some c"
    and "coin_last c = Some (req, resp)"
  shows "sr_coin_id req = cid"
    and "coin_authorization c = authorization P cid (next_capability_hash req) (next_handoff resp)"
    and "next_capability_hash req \<noteq> capability_hash P (current_capability req)"
    and "signature resp = schnorr_sign P (signing_key c) (sighash req)"
proof -
  from assms(1) obtain m where m: "sim P s m" "abs_ok P limit m" by (auto simp: signer_ok_def)
  from m(1) assms(2) obtain a where a: "fmlookup m cid = Some a" "sim_coin P cid c a"
    by (cases rule: sim_lookup [where cid = cid]) auto
  from a(2) assms(3) have "last_opt (abs_log a) = Some (req, resp)"
    by (simp add: sim_coin_def)
  then have "abs_log a \<noteq> []" "last (abs_log a) = (req, resp)"
    by (simp_all add: last_opt_Some)
  from append_butlast_last_id [OF this(1)] this(2) obtain log where
    log: "abs_log a = log @ [(req, resp)]" by metis
  from abs_ok_lookup [OF m(2) a(1)] have ok: "sr_coin_id req = cid"
      "next_capability_hash req \<noteq> capability_hash P (current_capability req)"
      "signature resp = schnorr_sign P (abs_key a) (sighash req)"
    by (simp_all add: abs_coin_ok_def log linked_append)
  from a(2) have "coin_authorization c = abs_authorization P cid a" "signing_key c = abs_key a"
    by (simp_all add: sim_coin_def)
  with ok show "sr_coin_id req = cid"
    and "coin_authorization c = authorization P cid (next_capability_hash req) (next_handoff resp)"
    and "next_capability_hash req \<noteq> capability_hash P (current_capability req)"
    and "signature resp = schnorr_sign P (signing_key c) (sighash req)"
    by (simp_all add: abs_authorization_def abs_owner_def log last_opt_def)
qed

text \<open>The coin as a successful \<open>sign\<close> leaves it, replayed or fresh.\<close>

lemma sign_result:
  assumes "signer_ok P limit s" and "sign P h s req = (Inr resp, s')"
  obtains c where "fmlookup (coins s') (sr_coin_id req) = Some c"
    and "coin_last c = Some (req, resp)"
    and "coin_authorization c =
      authorization P (sr_coin_id req) (next_capability_hash req) (next_handoff resp)"
    and "signature resp = schnorr_sign P (signing_key c) (sighash req)"
proof -
  from signer_ok_sign [OF assms(1), of h req] assms(2) have ok': "signer_ok P limit s'" by simp
  from assms(2) obtain c where "fmlookup (coins s') (sr_coin_id req) = Some c"
    and "coin_last c = Some (req, resp)"
    by (cases rule: sign_cases) (auto simp: fresh_transition_def)
  with signer_ok_last [OF ok' this] show thesis by (intro that)
qed

interpretation enclave: signing_service P "signer_ok P limit" "status P" "\<lambda>s h req. sign P h s req"
  for P :: "'m secp_scheme" and limit :: nat
proof (unfold_locales, goal_cases)
  case (1 s h req)
  then show ?case by (rule signer_ok_sign)
next
  case (2 s h req e s')
  then show ?case using err_keepsD [OF sign_keeps] by blast
next
  case (3 s h req resp s' h')
  from sign_result [OF 3] obtain c where "fmlookup (coins s') (sr_coin_id req) = Some c"
    "cached_response c req = Some resp" unfolding cached_response_Some by blast
  then show ?case by (simp add: sign_def)
next
  case (4 s h req resp s')
  from sign_result [OF 4] obtain c where c: "fmlookup (coins s') (sr_coin_id req) = Some c"
    "coin_authorization c = authorization P (sr_coin_id req) (next_capability_hash req) (next_handoff resp)"
    "signature resp = schnorr_sign P (signing_key c) (sighash req)" by blast
  then have "status P s' (sr_coin_id req) = Inr (coin_status P c (sr_coin_id req))"
    by (simp add: status_def)
  with c show ?case by (auto simp: coin_status_def schnorr_correctD)
next
  case (5 s h req resp s' st st')
  from 5(2) show ?case
  proof (cases rule: sign_cases)
    case (replay c)
    with 5(3,4) show ?thesis by simp
  next
    case (fresh c c')
    from fresh(1) 5(3) have st: "st = coin_status P c (sr_coin_id req)"
      by (simp add: status_Inr)
    from fresh(3) 5(4) have st': "st' = coin_status P c' (sr_coin_id req)"
      by (simp add: status_Inr)
    from fresh(2) have "signing_key c' = signing_key c" "signature_count c' = signature_count c + 1"
      and "unat (signature_count c) + 1 < 2 ^ 64"
      by (simp_all add: fresh_transition_def)
    with unat_add_one [of "signature_count c"] show ?thesis
      by (simp add: st st' coin_status_def)
  qed
next
  case (6 s req st h)
  from 6(2) obtain c where c: "fmlookup (coins s) (sr_coin_id req) = Some c"
    and st: "st = coin_status P c (sr_coin_id req)" by (auto simp: status_Inr)
  show ?case
  proof (cases "cached_response c req")
    case None
    with 6(3-5) show ?thesis
      by (simp add: sign_def c st coin_status_def checked_add_def Let_def)
  qed (simp add: sign_def c)
qed

subsection \<open>Properties of the signer\<close>

text \<open>C8. From a new signer on, the answers to any sequence of requests are those of the
  machine that keeps every coin's whole log, and the coins stay the summaries of the logs:
  the commitment, the count and the last entry that \<open>Coin\<close> keeps are all that \<open>handle\<close> needs.\<close>

theorem signer_refines_log:
  "fst (run_signer P limit new_signer evs) = fst (run_abs P limit fmempty evs)
    \<and> sim P (snd (run_signer P limit new_signer evs)) (snd (run_abs P limit fmempty evs))"
  by (rule sim_run [OF sim_new])

text \<open>C6. A coin's state is its chain of custody, and the chain is the served requests: take
  the signing requests for the coin that were answered with a signature, in the order they
  were served and without the replays. They are linked, each one presenting the commitment
  the one before it set up, the first one that of the registration that was answered first,
  and each one moving to another capability. The coin's key is the one drawn at that
  registration, its commitment, count and replay slot are those of the end of the chain, and
  every signature of the chain is by the coin's key. A coin exists only once a registration
  of it was answered.\<close>

theorem custody_chain:
  assumes "run_signer P limit new_signer evs = (rs, s)"
    and "fmlookup (coins s) cid = Some c"
  shows "\<exists>rnd r. first_opt (registered cid evs rs) = Some (rnd, r)
    \<and> signing_key c = fresh_key rnd
    \<and> linked P cid (initial_capability_hash r, INITIAL_HANDOFF) (custody cid evs rs)
    \<and> coin_authorization c =
        authorization P cid
          (fst (owner_after (initial_capability_hash r, INITIAL_HANDOFF) (custody cid evs rs)))
          (snd (owner_after (initial_capability_hash r, INITIAL_HANDOFF) (custody cid evs rs)))
    \<and> unat (signature_count c) = length (custody cid evs rs)
    \<and> coin_last c = last_opt (custody cid evs rs)
    \<and> (\<forall>(req, resp) \<in> set (custody cid evs rs).
        signature resp = schnorr_sign P (signing_key c) (sighash req))"
proof -
  let ?m = "snd (run_abs P limit fmempty evs)"
  from sim_run [OF sim_new, of P limit evs] assms(1)
  have m: "sim P s ?m" and rs: "rs = fst (run_abs P limit fmempty evs)" by simp_all
  from m assms(2) obtain a where a: "fmlookup ?m cid = Some a" "sim_coin P cid c a"
    by (cases rule: sim_lookup [where cid = cid]) auto
  from coin_trace_run [OF coin_trace_new, of cid P limit evs] a(1) obtain rnd r
    where t: "first_opt (registered cid evs rs) = Some (rnd, r)"
      "abs_key a = fresh_key rnd" "abs_initial a = initial_capability_hash r"
      "abs_log a = custody cid evs rs"
    by (auto simp: coin_trace_def custody_def rs)
  from abs_ok_lookup [OF run_abs_ok [OF abs_ok_empty] a(1)] a(2) t show ?thesis
    by (auto simp: abs_coin_ok_def sim_coin_def abs_authorization_def abs_owner_after)
qed

text \<open>Two requests on one coin: a registration and a transition.\<close>

definition demo_sign_request :: sign_request where
  "demo_sign_request =
     \<lparr>sr_coin_id = 7, current_capability = 1, current_handoff = INITIAL_HANDOFF,
      next_capability_hash = 5, sighash = 9\<rparr>"

definition demo_events :: "(entropy \<times> request) list" where
  "demo_events =
     [(\<lparr>fresh_key = SecretKey 3, fresh_handoff = 0\<rparr>,
       ReqRegister \<lparr>rr_coin_id = 7, initial_capability_hash = capability_hash demo_secp 1\<rparr>),
      (\<lparr>fresh_key = SecretKey 3, fresh_handoff = 11\<rparr>, ReqSign demo_sign_request)]"

definition demo_state :: signer where
  "demo_state = snd (run_signer demo_secp 10 new_signer demo_events)"

definition demo_response :: sign_response where
  "demo_response =
     \<lparr>signature = schnorr_sign demo_secp (SecretKey 3) 9, next_handoff = 11\<rparr>"

definition demo_coin :: coin where
  "demo_coin =
     \<lparr>signing_key = SecretKey 3, coin_authorization = 171, signature_count = 1,
      coin_last = Some (demo_sign_request, demo_response)\<rparr>"

lemmas demo_step_simps = INITIAL_HANDOFF_def demo_events_def demo_sign_request_def demo_response_def handle_def
  map_result_def register_def sign_def new_signer_def Let_def cached_response_def
  checked_add_def fcard_fempty

lemma demo_state: "demo_state = \<lparr>coins = fmupd 7 demo_coin fmempty\<rparr>"
  by (simp add: demo_state_def demo_coin_def demo_step_simps)

lemma demo_registered:
  "snd (run_signer demo_secp 10 new_signer [hd demo_events])
    = \<lparr>coins = fmupd 7 \<lparr>signing_key = SecretKey 3, coin_authorization = 160,
        signature_count = 0, coin_last = None\<rparr> fmempty\<rparr>"
  by (simp add: demo_step_simps)

lemma demo_register:
  "register demo_secp 10 (SecretKey 3) new_signer
      \<lparr>rr_coin_id = 7, initial_capability_hash = capability_hash demo_secp 1\<rparr>
    = (Inr (coin_status demo_secp \<lparr>signing_key = SecretKey 3, coin_authorization = 160,
        signature_count = 0, coin_last = None\<rparr> 7),
       snd (run_signer demo_secp 10 new_signer [hd demo_events]))"
  by (simp add: demo_step_simps)

lemma demo_xonly: "xonly_of demo_secp k = XOnlyKey (secret_bytes k)"
  by (simp add: demo_secp_def)

lemma demo_sign:
  "sign demo_secp 11 (snd (run_signer demo_secp 10 new_signer [hd demo_events])) demo_sign_request
    = (Inr demo_response, demo_state)"
  by (simp add: demo_registered demo_state demo_coin_def)
    (simp add: demo_step_simps)

theorem custody_chain_witness:
  "linked demo_secp 7 (97, INITIAL_HANDOFF) [(demo_sign_request, demo_response)]
    \<and> coin_last demo_coin = Some (demo_sign_request, demo_response)"
proof -
  let ?rs = "fst (run_signer demo_secp 10 new_signer (demo_events @ [last demo_events]))"
  have run: "run_signer demo_secp 10 new_signer (demo_events @ [last demo_events]) = (?rs, demo_state)"
    by (simp add: demo_state demo_coin_def demo_step_simps)
  have facts: "registered 7 (demo_events @ [last demo_events]) ?rs =
      [(\<lparr>fresh_key = SecretKey 3, fresh_handoff = 0\<rparr>,
        \<lparr>rr_coin_id = 7, initial_capability_hash = capability_hash demo_secp 1\<rparr>)]"
      "custody 7 (demo_events @ [last demo_events]) ?rs = [(demo_sign_request, demo_response)]"
    by (simp_all add: registered_def custody_def answered_def demo_step_simps)
  from custody_chain [OF run, of 7 demo_coin] show ?thesis
    by (simp add: facts demo_state first_opt_def last_opt_def)
qed

text \<open>C9. A retry is safe: after a successful \<open>sign\<close>, however many other requests the
  enclave serves (registrations, status reads, transitions of other coins, failed or repeated
  requests on this one), sending the same request again returns the same response, whatever
  handoff the enclave draws, and changes nothing.\<close>

theorem sign_retry_stable:
  assumes "sign P h (snd (run_signer P limit new_signer evs)) req = (Inr resp, s1)"
    and "run_signer P limit s1 evs' = (rs, s2)"
    and "list_all2 (only_retries (sr_coin_id req) req) evs' rs"
  shows "sign P h' s2 req = (Inr resp, s2)"
proof -
  from sign_result [OF signer_ok_run assms(1)] obtain c where
    c: "fmlookup (coins s1) (sr_coin_id req) = Some c" "coin_last c = Some (req, resp)" by blast
  from run_same_coin [OF this, of evs' P limit] assms(2,3)
  have "fmlookup (coins s2) (sr_coin_id req) = Some c" by simp
  with c(2) show ?thesis by (simp add: sign_def cached_response_def)
qed

theorem sign_retry_stable_witness:
  "sign demo_secp 23 demo_state demo_sign_request = (Inr demo_response, demo_state)"
  by (rule sign_retry_stable [OF demo_sign, where rs =
      "[Inr (RespStatus (coin_status demo_secp demo_coin 7))]" and evs' =
      "[(\<lparr>fresh_key = SecretKey 3, fresh_handoff = 0\<rparr>, ReqStatus 7)]"])
    (simp_all add: only_retries_def handle_def map_result_def status_def demo_state)

text \<open>C7. Moving the coin revokes the previous owner: after a successful \<open>sign\<close>, any other
  request on the coin is refused and leaves the state alone unless it presents a capability
  with the committed hash together with the handoff the enclave just issued, or else the two
  named preimages are a collision of SHA-256.\<close>

theorem stale_owner_rejected:
  assumes "sign P h (snd (run_signer P limit new_signer evs)) req = (Inr resp, s1)"
    and "sr_coin_id req' = sr_coin_id req" and "req' \<noteq> req"
  shows "sign P h' s1 req' = (Inl Unauthorized, s1)
    \<or> capability_hash P (current_capability req') = next_capability_hash req
        \<and> current_handoff req' = next_handoff resp
    \<or> sha256_collision P
        (authorization_preimage P (sr_coin_id req) (capability_hash P (current_capability req'))
          (current_handoff req'))
        (authorization_preimage P (sr_coin_id req) (next_capability_hash req) (next_handoff resp))"
proof -
  from sign_result [OF signer_ok_run assms(1)] obtain c where
    c: "fmlookup (coins s1) (sr_coin_id req) = Some c" "coin_last c = Some (req, resp)"
      "coin_authorization c =
        authorization P (sr_coin_id req) (next_capability_hash req) (next_handoff resp)" by blast
  let ?presented = "authorization P (sr_coin_id req)
    (capability_hash P (current_capability req')) (current_handoff req')"
  show ?thesis
  proof (cases "?presented = coin_authorization c")
    case True
    with c(3) authorization_collision show ?thesis by fastforce
  next
    case False
    with c(1,2) assms(2,3) show ?thesis by (simp add: sign_def cached_response_def Let_def)
  qed
qed

theorem stale_owner_rejected_witness:
  "sign demo_secp 23 demo_state (demo_sign_request\<lparr>sighash := 10\<rparr>) = (Inl Unauthorized, demo_state)
    \<or> sha256_collision demo_secp (authorization_preimage demo_secp 7 97 INITIAL_HANDOFF)
        (authorization_preimage demo_secp 7 5 11)"
  using stale_owner_rejected [OF demo_sign, of "demo_sign_request\<lparr>sighash := 10\<rparr>" 23]
  by (auto simp: demo_sign_request_def demo_response_def)

text \<open>C33. The first registration wins: once a coin ID is registered, after any further
  requests a registration of the same ID, with whatever capability hash, changes nothing and
  reports the key of the first one.\<close>

theorem register_first_wins:
  assumes "register P limit k s0 req0 = (Inr st0, s1)"
    and "rr_coin_id req = rr_coin_id req0"
    and "run_signer P limit s1 evs = (rs, s2)"
  shows "\<exists>st. register P limit k' s2 req = (Inr st, s2) \<and> cs_coin_id st = rr_coin_id req0
    \<and> signing_pubkey st = signing_pubkey st0"
proof -
  from assms(1) obtain c where c: "fmlookup (coins s1) (rr_coin_id req0) = Some c"
    and st0: "signing_pubkey st0 = xonly_of P (signing_key c)"
    by (cases "fmlookup (coins s0) (rr_coin_id req0)")
      (auto simp: register_def status_def ok Let_def coin_status_def)
  from run_key [OF c, of P limit evs] assms(3) obtain c' where
    "fmlookup (coins s2) (rr_coin_id req0) = Some c'" "signing_key c' = signing_key c" by auto
  with assms(2) st0 show ?thesis
    by (simp add: register_def status_def coin_status_def)
qed

theorem register_first_wins_witness:
  "\<exists>st. register demo_secp 10 (SecretKey 4) demo_state
      \<lparr>rr_coin_id = 7, initial_capability_hash = 1\<rparr> = (Inr st, demo_state)
    \<and> cs_coin_id st = 7 \<and> signing_pubkey st = XOnlyKey 3"
  using register_first_wins [OF demo_register, of "\<lparr>rr_coin_id = 7, initial_capability_hash = 1\<rparr>"
      "[(\<lparr>fresh_key = SecretKey 3, fresh_handoff = 11\<rparr>, ReqSign demo_sign_request)]"
      "[Inr (RespSignature demo_response)]" demo_state "SecretKey 4"] demo_sign
  by (simp add: handle_def map_result_def coin_status_def demo_xonly)

text \<open>The capacity bound holds for ever: no sequence of requests makes the enclave hold
  more than \<open>LIMIT\<close> coins.\<close>

theorem capacity_respected:
  "fcard (fmdom (coins (snd (run_signer P limit new_signer evs)))) \<le> limit"
proof -
  from signer_ok_run obtain m where "sim P (snd (run_signer P limit new_signer evs)) m"
    "abs_ok P limit m" unfolding signer_ok_def by blast
  with sim_fmdom [OF this(1)] show ?thesis by (simp add: abs_ok_def)
qed

text \<open>A client that sends one request as often as it likes, because answers were lost,
  gets one signature: all successful answers are equal, and the coin's signature count grows
  by at most one.\<close>

theorem resend_signs_once:
  assumes "status P (snd (run_signer P limit new_signer evs)) (sr_coin_id req) = Inr st"
    and "sends (\<lambda>s h. sign P h s) (snd (run_signer P limit new_signer evs)) req hs = (rs, s')"
    and "status P s' (sr_coin_id req) = Inr st'"
  shows "(\<forall>resp resp'. Inr resp \<in> set rs \<and> Inr resp' \<in> set rs \<longrightarrow> resp' = resp)
    \<and> unat (cs_signature_count st') \<le> unat (cs_signature_count st) + 1"
  using enclave.sends_replies_agree [OF signer_ok_run, of _ P limit evs req hs]
    enclave.sends_count [OF signer_ok_run assms(1), of hs st'] assms(2,3) by fastforce

theorem resend_signs_once_witness:
  "fst (sends (\<lambda>s h. sign demo_secp h s) (snd (run_signer demo_secp 10 new_signer [hd demo_events]))
      demo_sign_request [11, 12]) = [Inr demo_response, Inr demo_response]
    \<and> unat (cs_signature_count (coin_status demo_secp demo_coin 7)) \<le> 0 + 1"
proof -
  have again: "sign demo_secp 12 demo_state demo_sign_request = (Inr demo_response, demo_state)"
    by (simp add: demo_state demo_coin_def demo_sign_request_def sign_def cached_response_def)
  have sends: "sends (\<lambda>s h. sign demo_secp h s) (snd (run_signer demo_secp 10 new_signer [hd demo_events]))
      demo_sign_request [11, 12] = ([Inr demo_response, Inr demo_response], demo_state)"
    by (simp add: demo_sign again del: run_signer.simps)
  have sr: "sr_coin_id demo_sign_request = 7" by (simp add: demo_sign_request_def)
  have "unat (cs_signature_count (coin_status demo_secp demo_coin 7))
      \<le> unat (cs_signature_count (coin_status demo_secp \<lparr>signing_key = SecretKey 3,
        coin_authorization = 160, signature_count = 0, coin_last = None\<rparr> 7)) + 1"
    by (rule conjunct2 [OF resend_signs_once [OF _ sends, unfolded sr]])
      (simp_all add: status_def demo_state demo_registered)
  then show ?thesis by (simp add: sends coin_status_def demo_coin_def del: sends.simps)
qed

end
