(* ===== verification/Recovery.thy ===== *)
theory Recovery
  imports Client Enclave_Spec
begin

text \<open>
  What the client's recoveries guarantee: what an accepted recovery pays and who signed it,
  that preparing and completing one with an honest enclave succeeds and yields an accepted
  one, how the delays of an accepted history descend, and what the fee-paying child pays.
\<close>

subsection \<open>Steps of the checks\<close>

lemma keys_validate_Inr:
  "keys_validate k = Inr u \<longleftrightarrow>
    keys_protocol_version k = PROTOCOL_VERSION \<and> client_pubkey k \<noteq> enclave_pubkey k"
  by (simp add: keys_validate_def)

lemma metadata_validate_Inr:
  "metadata_validate m = Inr u \<longleftrightarrow>
    keys_protocol_version (md_keys m) = PROTOCOL_VERSION
    \<and> client_pubkey (md_keys m) \<noteq> enclave_pubkey (md_keys m)"
  by (simp add: metadata_validate_def keys_validate_Inr)

lemma verify_signature_Inr: "verify_signature P sg h pk e = Inr u \<longleftrightarrow> schnorr_verify P sg h pk"
  by (simp add: verify_signature_def)

lemma require_future_delay_Inr: "require_future_delay c d = Inr u \<longleftrightarrow> c < d"
  by (auto simp: require_future_delay_def)

lemma reaction_window_Inr:
  "validate_reaction_window c older newer = Inr u \<longleftrightarrow>
    unat older = unat newer + 10 \<and> c < newer"
  by (simp add: validate_reaction_window_def DELAY_STEP_def require_future_delay_Inr checked_sub_unat)

lemma canonical_recovery_Inr:
  "canonical_recovery P op amount wk delay = Inr t \<longleftrightarrow>
    \<not> outpoint_is_null P op \<and> amount \<le> max_money P \<and> minimal_non_dust P (new_p2tr P wk) \<le> amount \<and>
    (\<exists>d :: u16. try_from_word delay = Some d \<and> d \<noteq> 0 \<and>
      t = \<lparr>version = TRUC_VERSION, lock_time = lock_time_zero P,
           inputs = [\<lparr>previous_output = op, script_sig = [],
                      sequence = sequence_from_height P d, witness = []\<rparr>],
           outputs = [\<lparr>txout_value = amount, script_pubkey = new_p2tr P wk\<rparr>]\<rparr>)"
  by (auto simp: canonical_recovery_def ok not_less)

lemma canonical_recovery_strip:
  "canonical_recovery P op amount wk delay = Inr t \<Longrightarrow> strip_witness t = t"
  by (auto simp: canonical_recovery_Inr strip_witness_def)

lemma recovery_sighash_Inr:
  "recovery_sighash P t amount keys = Inr h \<longleftrightarrow>
    script_spend_sighash P t 0 [\<lparr>txout_value = amount, script_pubkey = funding_script P keys\<rparr>]
      (tap_leaf_hash P (funding_tapscript P keys)) = Some h"
  by (simp add: recovery_sighash_def Let_def ok)

text \<open>What \<open>verify_signed_recovery\<close> accepts: four witness items, of which the last two are
  fixed by the keys and the first two are signatures by the enclave and by the client.\<close>

definition signed_by_both ::
  "'m bitcoin_lib_scheme \<Rightarrow> transaction \<Rightarrow> u64 \<Rightarrow> coin_keys \<Rightarrow> bytes list \<Rightarrow> bool" where
  "signed_by_both P t amount keys w \<longleftrightarrow>
     (\<exists>es cs e c h.
        w = [es, cs, funding_tapscript P keys, control_serialize P (funding_control_block P keys)]
        \<and> length es = 64 \<and> length cs = 64
        \<and> signature_from_slice P es = Some e \<and> signature_from_slice P cs = Some c
        \<and> recovery_sighash P t amount keys = Inr h
        \<and> schnorr_verify P e h (enclave_pubkey keys)
        \<and> schnorr_verify P c h (client_pubkey keys))"

lemma list_length_4: "length xs = 4 \<Longrightarrow> xs = [xs ! 0, xs ! 1, xs ! 2, xs ! 3]"
  by (auto simp: numeral_nat length_Suc_conv)

lemma list_length_1: "length xs = 1 \<Longrightarrow> xs = [xs ! 0]"
  by (auto simp: length_Suc_conv)

lemma verify_signed_recovery_Inr:
  assumes "verify_signed_recovery P t amount keys = Inr ()"
  shows "length (inputs t) = 1 \<and> client_pubkey keys \<noteq> enclave_pubkey keys
    \<and> signed_by_both P t amount keys (witness (inputs t ! 0))"
proof -
  let ?w = "witness (inputs t ! 0)"
  from assms have 1: "length (inputs t) = 1" "client_pubkey keys \<noteq> enclave_pubkey keys"
      "length ?w = 4" "length (?w ! 0) = 64" "length (?w ! 1) = 64"
      "?w ! 2 = funding_tapscript P keys"
      "?w ! 3 = control_serialize P (funding_control_block P keys)"
    by (simp_all add: verify_signed_recovery_def ok Let_def keys_validate_Inr del: One_nat_def)
  from assms obtain e c h where 2: "signature_from_slice P (?w ! 0) = Some e"
      "signature_from_slice P (?w ! 1) = Some c" "recovery_sighash P t amount keys = Inr h"
      "schnorr_verify P e h (enclave_pubkey keys)" "schnorr_verify P c h (client_pubkey keys)"
    by (auto simp: verify_signed_recovery_def ok Let_def verify_signature_Inr simp del: One_nat_def)
  from list_length_4 [OF 1(3)] 1(6,7) have
    "?w = [?w ! 0, ?w ! 1, funding_tapscript P keys, control_serialize P (funding_control_block P keys)]"
    by simp
  with 1 2 show ?thesis unfolding signed_by_both_def by blast
qed

lemma verify_signed_recoveryI:
  assumes "taproot_correct P" and "keys_validate keys = Inr ()" and "inputs t = [i]"
    and "signed_by_both P t amount keys (witness i)"
  shows "verify_signed_recovery P t amount keys = Inr ()"
  using assms
  by (auto simp: verify_signed_recovery_def signed_by_both_def taproot_correct_def
      verify_signature_def funding_control_block_def funding_material_of_def Let_def)

lemma verify_recovery_steps:
  assumes "verify_recovery P m r = Inr ()"
  obtains t w where
    "canonical_recovery P (md_outpoint m) (md_amount_sat m) (rec_withdrawal_key r)
      (rec_delay_blocks r) = Inr t"
    "rec_transaction r = t\<lparr>inputs := [(inputs t ! 0)\<lparr>witness := w\<rparr>]\<rparr>"
    "inputs t = [(inputs t ! 0)\<lparr>witness := []\<rparr>]"
    "signed_by_both P (rec_transaction r) (md_amount_sat m) (md_keys m) w"
    "client_pubkey (md_keys m) \<noteq> enclave_pubkey (md_keys m)"
proof -
  let ?u = "rec_transaction r"
  let ?i = "inputs ?u ! 0"
  from assms obtain t where
    t: "canonical_recovery P (md_outpoint m) (md_amount_sat m) (rec_withdrawal_key r)
      (rec_delay_blocks r) = Inr t" and
    len: "length (inputs ?u) = 1" and
    eq: "?u\<lparr>inputs := (inputs ?u)[0 := ?i\<lparr>witness := []\<rparr>]\<rparr> = t" and
    v: "verify_signed_recovery P ?u (md_amount_sat m) (md_keys m) = Inr ()"
    by (auto simp: verify_recovery_def ok Let_def simp del: One_nat_def)
  from len have u: "inputs ?u = [?i]" by (rule list_length_1)
  then have "(inputs ?u)[0 := ?i\<lparr>witness := []\<rparr>] = [?i\<lparr>witness := []\<rparr>]"
    by (metis list_update_code(2))
  with eq have teq: "t = ?u\<lparr>inputs := [?i\<lparr>witness := []\<rparr>]\<rparr>" by simp
  from u have "?u = t\<lparr>inputs := [(inputs t ! 0)\<lparr>witness := witness ?i\<rparr>]\<rparr>" by (simp add: teq)
  moreover from teq have "inputs t = [(inputs t ! 0)\<lparr>witness := []\<rparr>]" by simp
  ultimately show thesis
    using that t verify_signed_recovery_Inr [OF v] by blast
qed

subsection \<open>The demonstration instance\<close>

text \<open>A concrete instance of the parameter, on which hypotheses can be checked: scripts and
  identifiers are constants, and a signature is read back from its bytes.\<close>

definition demo_bitcoin :: bitcoin_lib where
  "demo_bitcoin = secp.extend demo_secp
     \<lparr>into_script = (\<lambda>is. replicate (length is) 1),
      new_p2tr = (\<lambda>k. [0x51]),
      new_p2tr_tweaked = (\<lambda>k. [0x51, 0x20]),
      is_p2tr = (\<lambda>s. hd s = 0x51),
      minimal_non_dust = (\<lambda>s. 330),
      outpoint_is_null = (\<lambda>op. op = OutPoint 0 0xffffffff),
      max_money = 2100000000000000,
      lock_time_zero = 0,
      sequence_from_height = (\<lambda>h. ucast h),
      sequence_max = 0xffffffff,
      sequence_is_rbf = (\<lambda>s. s < 0xfffffffe),
      compute_txid = (\<lambda>t. 77),
      vsize = (\<lambda>t. 100),
      tap_leaf_hash = (\<lambda>s. 8),
      script_spend_sighash = (\<lambda>t i outs l. Some 9),
      key_spend_sighash = (\<lambda>t i outs. Some 9),
      taproot_output_key = (\<lambda>k s. TweakedKey 6),
      taproot_control_block = (\<lambda>k s. ControlBlock [0xc0]),
      control_serialize = control_block_bytes,
      control_decode = (\<lambda>b. Some (ControlBlock b)),
      verify_taproot_commitment = (\<lambda>c k s. k = XOnlyKey 6),
      signature_from_slice = (\<lambda>b. if length b = 64 then Some (Signature (from_be_bytes b)) else None),
      tap_tweak = (\<lambda>k. k),
      p2tr_tweaked_address = (\<lambda>k h. Address ''bc1'')\<rparr>"

lemmas demo_bitcoin_simps = demo_bitcoin_def demo_secp_def secp.defs

lemma demo_bitcoin_laws:
  "schnorr_correct demo_bitcoin" "taproot_correct demo_bitcoin" "signature_bytes_correct demo_bitcoin"
  "sighash_ignores_witness demo_bitcoin" "sighash_defined demo_bitcoin"
  "height_sequence demo_bitcoin" "vsize_by_shape demo_bitcoin" "txid_ignores_witness demo_bitcoin"
  by (simp_all add: schnorr_correct_def taproot_correct_def tweaked_xonly_def
      signature_bytes_correct_def sighash_ignores_witness_def sighash_defined_def
      height_sequence_def vsize_by_shape_def txid_ignores_witness_def demo_bitcoin_simps
      signature_bytes_def from_be_bytes_be_bytes)

subsection \<open>Preparing and completing\<close>

lemma prepare_recovery_Inr:
  assumes "prepare_recovery P m st csk cap handoff nch wk delay conf = Inr (req, prep)"
  obtains t h where "keys_validate (md_keys m) = Inr ()"
    and "cs_coin_id st = keys_coin_id (md_keys m)"
    and "signing_pubkey st = enclave_pubkey (md_keys m)"
    and "cs_authorization st
      = authorization P (keys_coin_id (md_keys m)) (capability_hash P cap) handoff"
    and "nch \<noteq> capability_hash P cap" and "conf < delay"
    and "client_xonly P csk = client_pubkey (md_keys m)"
    and "canonical_recovery P (md_outpoint m) (md_amount_sat m) wk delay = Inr t"
    and "recovery_sighash P t (md_amount_sat m) (md_keys m) = Inr h"
    and "req = \<lparr>sr_coin_id = keys_coin_id (md_keys m), current_capability = cap,
      current_handoff = handoff, next_capability_hash = nch, sighash = h\<rparr>"
    and "prep = \<lparr>prep_request = req, prep_metadata = m, prep_transaction = t,
      prep_withdrawal_key = wk, prep_delay_blocks = delay\<rparr>"
proof -
  from assms obtain t h where
    "keys_validate (md_keys m) = Inr ()" "cs_coin_id st = keys_coin_id (md_keys m)"
    "signing_pubkey st = enclave_pubkey (md_keys m)"
    "cs_authorization st
      = authorization P (keys_coin_id (md_keys m)) (capability_hash P cap) handoff"
    "nch \<noteq> capability_hash P cap" "conf < delay"
    "client_xonly P csk = client_pubkey (md_keys m)"
    "canonical_recovery P (md_outpoint m) (md_amount_sat m) wk delay = Inr t"
    "recovery_sighash P t (md_amount_sat m) (md_keys m) = Inr h"
    "req = \<lparr>sr_coin_id = keys_coin_id (md_keys m), current_capability = cap,
      current_handoff = handoff, next_capability_hash = nch, sighash = h\<rparr>"
    "prep = \<lparr>prep_request = req, prep_metadata = m, prep_transaction = t,
      prep_withdrawal_key = wk, prep_delay_blocks = delay\<rparr>"
    by (auto simp: prepare_recovery_def ok Let_def verify_status_def metadata_validate_def
        require_future_delay_Inr)
  then show thesis by (rule that)
qed

lemma push_witness_canonical:
  assumes "canonical_recovery P op amount wk delay = Inr t" and "push_witness t items = Some u"
  shows "u\<lparr>inputs := [(inputs u ! 0)\<lparr>witness := []\<rparr>]\<rparr> = t" and "inputs u = [inputs u ! 0]"
    and "witness (inputs u ! 0) = items" and "strip_witness u = t"
  using assms by (auto simp: canonical_recovery_Inr push_witness_def strip_witness_def)

lemma verify_recovery_keys:
  "verify_recovery P m r = Inr () \<Longrightarrow> keys_validate (md_keys m) = Inr ()"
  by (auto simp: verify_recovery_def ok metadata_validate_def split: option.splits sum.splits if_splits)

lemma verify_recoveryI:
  assumes "canonical_recovery P (md_outpoint m) (md_amount_sat m) wk delay = Inr t"
    and "push_witness t items = Some u" and "metadata_validate m = Inr ()"
    and "verify_signed_recovery P u (md_amount_sat m) (md_keys m) = Inr ()"
  shows "verify_recovery P m
    \<lparr>rec_transaction = u, rec_withdrawal_key = wk, rec_delay_blocks = delay\<rparr> = Inr ()"
proof -
  note u = push_witness_canonical [OF assms(1,2)]
  from u(2) have len: "length (inputs u) = 1" by (metis length_Cons list.size(3) One_nat_def)
  from u(2) have "(inputs u)[0 := (inputs u ! 0)\<lparr>witness := []\<rparr>] = [(inputs u ! 0)\<lparr>witness := []\<rparr>]"
    by (metis list_update_code(2))
  with u(1) len assms(1,3,4) show ?thesis
    by (simp add: verify_recovery_def)
qed

lemma complete_recovery_Inr:
  assumes "complete_recovery P req resp prep csk = Inr r"
  obtains t h u where "prep_request prep = req" "metadata_validate (prep_metadata prep) = Inr ()"
    "canonical_recovery P (md_outpoint (prep_metadata prep)) (md_amount_sat (prep_metadata prep))
      (prep_withdrawal_key prep) (prep_delay_blocks prep) = Inr t"
    "prep_transaction prep = t" "sighash req = h"
    "recovery_sighash P t (md_amount_sat (prep_metadata prep)) (md_keys (prep_metadata prep)) = Inr h"
    "schnorr_verify P (signature resp) h (enclave_pubkey (md_keys (prep_metadata prep)))"
    "push_witness t [signature_bytes (signature resp), signature_bytes (schnorr_sign P csk h),
       funding_tapscript P (md_keys (prep_metadata prep)),
       control_serialize P (funding_control_block P (md_keys (prep_metadata prep)))] = Some u"
    "verify_signed_recovery P u (md_amount_sat (prep_metadata prep)) (md_keys (prep_metadata prep))
      = Inr ()"
    "r = \<lparr>rec_transaction = u, rec_withdrawal_key = prep_withdrawal_key prep,
      rec_delay_blocks = prep_delay_blocks prep\<rparr>"
  using assms that by (auto simp: complete_recovery_def ok Let_def verify_signature_Inr)

lemma complete_recovery_sound:
  assumes "complete_recovery P req resp prep csk = Inr r"
  shows "verify_recovery P (prep_metadata prep) r = Inr ()
    \<and> rec_withdrawal_key r = prep_withdrawal_key prep
    \<and> rec_delay_blocks r = prep_delay_blocks prep
    \<and> strip_witness (rec_transaction r) = prep_transaction prep"
  using assms
proof (rule complete_recovery_Inr)
  fix t h u
  assume *: "metadata_validate (prep_metadata prep) = Inr ()"
    "canonical_recovery P (md_outpoint (prep_metadata prep)) (md_amount_sat (prep_metadata prep))
      (prep_withdrawal_key prep) (prep_delay_blocks prep) = Inr t"
    "prep_transaction prep = t"
    "push_witness t [signature_bytes (signature resp), signature_bytes (schnorr_sign P csk h),
       funding_tapscript P (md_keys (prep_metadata prep)),
       control_serialize P (funding_control_block P (md_keys (prep_metadata prep)))] = Some u"
    "verify_signed_recovery P u (md_amount_sat (prep_metadata prep)) (md_keys (prep_metadata prep))
      = Inr ()"
    "r = \<lparr>rec_transaction = u, rec_withdrawal_key = prep_withdrawal_key prep,
      rec_delay_blocks = prep_delay_blocks prep\<rparr>"
  from verify_recoveryI [OF *(2,4,1,5)] push_witness_canonical(4) [OF *(2,4)] *(3,6)
  show ?thesis by simp
qed

text \<open>C14. Whatever the enclave answers, a recovery that \<open>complete_recovery\<close> returns passes
  \<open>verify_recovery\<close> against the coin's metadata, keeps the withdrawal key and the delay it
  was prepared with, and is the prepared transaction up to its witness.\<close>

theorem complete_recovery_verifies:
  assumes "complete_recovery P req resp prep csk = Inr r"
  shows "verify_recovery P (prep_metadata prep) r = Inr ()
    \<and> rec_withdrawal_key r = prep_withdrawal_key prep
    \<and> rec_delay_blocks r = prep_delay_blocks prep
    \<and> strip_witness (rec_transaction r) = prep_transaction prep"
  by (rule complete_recovery_sound [OF assms])

lemma prepared_completes:
  assumes "schnorr_correct P" and "taproot_correct P" and "signature_bytes_correct P"
    and "sighash_ignores_witness P"
    and "prepare_recovery P m st csk cap handoff nch wk delay conf = Inr (req, prep)"
    and "schnorr_verify P (signature resp) (sighash req) (enclave_pubkey (md_keys m))"
  shows "\<exists>r. complete_recovery P req resp prep csk = Inr r \<and> verify_recovery P m r = Inr ()"
  using assms(5)
proof (rule prepare_recovery_Inr)
  fix t h
  let ?keys = "md_keys m" and ?amount = "md_amount_sat m"
  let ?w = "[signature_bytes (signature resp), signature_bytes (schnorr_sign P csk h),
    funding_tapscript P ?keys, control_serialize P (funding_control_block P ?keys)]"
  assume k: "keys_validate ?keys = Inr ()" "client_xonly P csk = client_pubkey ?keys"
    and t: "canonical_recovery P (md_outpoint m) ?amount wk delay = Inr t"
    and h: "recovery_sighash P t ?amount ?keys = Inr h"
    and req: "req = \<lparr>sr_coin_id = keys_coin_id ?keys, current_capability = cap,
      current_handoff = handoff, next_capability_hash = nch, sighash = h\<rparr>"
    and prep: "prep = \<lparr>prep_request = req, prep_metadata = m, prep_transaction = t,
      prep_withdrawal_key = wk, prep_delay_blocks = delay\<rparr>"
  from t obtain u where u: "push_witness t ?w = Some u"
    by (auto simp: canonical_recovery_Inr push_witness_def)
  note pw = push_witness_canonical [OF t u]
  from pw(4) canonical_recovery_strip [OF t] have "strip_witness u = strip_witness t" by simp
  from sighash_stripD [OF assms(4) this] h have hu: "recovery_sighash P u ?amount ?keys = Inr h"
    by (simp add: recovery_sighash_Inr)
  have client: "schnorr_verify P (schnorr_sign P csk h) h (client_pubkey ?keys)"
    using schnorr_correctD [OF assms(1), of csk h] k(2) by (simp add: client_xonly_def)
  have enclave: "schnorr_verify P (signature resp) h (enclave_pubkey ?keys)"
    using assms(6) by (simp add: req)
  have "signed_by_both P u ?amount ?keys (witness (inputs u ! 0))"
    using assms(3) hu client enclave
    by (auto simp: signed_by_both_def pw(3) signature_bytes_correct_def)
  from verify_signed_recoveryI [OF assms(2) k(1) pw(2) this]
  have v: "verify_signed_recovery P u ?amount ?keys = Inr ()" .
  from k(1) have m: "metadata_validate m = Inr ()" by (simp add: metadata_validate_def)
  have "complete_recovery P req resp prep csk = Inr
      \<lparr>rec_transaction = u, rec_withdrawal_key = wk, rec_delay_blocks = delay\<rparr>"
    using m k(2) t h u v enclave
    by (simp add: complete_recovery_def prep req verify_signature_def)
  with verify_recoveryI [OF t u m v] show ?thesis by blast
qed

text \<open>A recovery that was prepared can be completed: when the enclave's signature verifies
  under the coin's enclave key, \<open>complete_recovery\<close> succeeds, with a recovery that
  \<open>verify_recovery\<close> accepts.\<close>

theorem prepared_recovery_completes:
  assumes "schnorr_correct P" and "taproot_correct P" and "signature_bytes_correct P"
    and "sighash_ignores_witness P"
    and "prepare_recovery P m st csk cap handoff nch wk delay conf = Inr (req, prep)"
    and "schnorr_verify P (signature resp) (sighash req) (enclave_pubkey (md_keys m))"
  shows "\<exists>r. complete_recovery P req resp prep csk = Inr r \<and> verify_recovery P m r = Inr ()"
  by (rule prepared_completes [OF assms])

lemma verified_recovery_spends:
  assumes "height_sequence P" and "verify_recovery P m r = Inr ()"
  shows "\<exists>i d. inputs (rec_transaction r) = [i]
    \<and> previous_output i = md_outpoint m \<and> \<not> outpoint_is_null P (md_outpoint m)
    \<and> script_sig i = []
    \<and> sequence i = ucast (d :: u16) \<and> unat d = unat (rec_delay_blocks r)
    \<and> 0 < unat (rec_delay_blocks r) \<and> unat (rec_delay_blocks r) \<le> 65535
    \<and> version (rec_transaction r) = 3
    \<and> outputs (rec_transaction r)
        = [\<lparr>txout_value = md_amount_sat m, script_pubkey = new_p2tr P (rec_withdrawal_key r)\<rparr>]
    \<and> md_amount_sat m \<le> max_money P
    \<and> client_pubkey (md_keys m) \<noteq> enclave_pubkey (md_keys m)
    \<and> signed_by_both P (rec_transaction r) (md_amount_sat m) (md_keys m) (witness i)"
  using assms(2)
proof (rule verify_recovery_steps)
  fix t w
  assume t: "canonical_recovery P (md_outpoint m) (md_amount_sat m) (rec_withdrawal_key r)
      (rec_delay_blocks r) = Inr t"
    and r: "rec_transaction r = t\<lparr>inputs := [(inputs t ! 0)\<lparr>witness := w\<rparr>]\<rparr>"
    and s: "signed_by_both P (rec_transaction r) (md_amount_sat m) (md_keys m) w"
    and k: "client_pubkey (md_keys m) \<noteq> enclave_pubkey (md_keys m)"
  from t obtain d :: u16 where d: "try_from_word (rec_delay_blocks r) = Some d" "d \<noteq> 0"
    and t': "t = \<lparr>version = TRUC_VERSION, lock_time = lock_time_zero P,
           inputs = [\<lparr>previous_output = md_outpoint m, script_sig = [],
                      sequence = sequence_from_height P d, witness = []\<rparr>],
           outputs = [\<lparr>txout_value = md_amount_sat m,
                       script_pubkey = new_p2tr P (rec_withdrawal_key r)\<rparr>]\<rparr>"
    and b: "md_amount_sat m \<le> max_money P" "\<not> outpoint_is_null P (md_outpoint m)"
    by (auto simp: canonical_recovery_Inr)
  have "unat d \<noteq> 0" "unat d < 2 ^ 16"
    using d(2) unsigned_less [of d] by (simp_all add: unat_eq_0)
  with unat_try_from [OF d(1)]
  have "unat d = unat (rec_delay_blocks r)" "0 < unat (rec_delay_blocks r)"
    "unat (rec_delay_blocks r) \<le> 65535" by simp_all
  with assms(1) b k s show ?thesis
    by (intro exI [of _ "(inputs t ! 0)\<lparr>witness := w\<rparr>"] exI [of _ d])
      (simp add: r t' height_sequence_def TRUC_VERSION_def)
qed

text \<open>C15. What an accepted recovery does: it spends exactly the coin's outpoint, it pays the
  coin's whole amount in one output to the withdrawal key, it is version 3 with the relative
  lock of its delay, which is between 1 and 65535 blocks, and it carries signatures of the
  enclave and of the client, whose keys differ, over its own signature hash.\<close>

theorem verify_recovery_guarantees:
  assumes "height_sequence P" and "verify_recovery P m r = Inr ()"
  shows "\<exists>i d. inputs (rec_transaction r) = [i]
    \<and> previous_output i = md_outpoint m \<and> \<not> outpoint_is_null P (md_outpoint m)
    \<and> script_sig i = []
    \<and> sequence i = ucast (d :: u16) \<and> unat d = unat (rec_delay_blocks r)
    \<and> 0 < unat (rec_delay_blocks r) \<and> unat (rec_delay_blocks r) \<le> 65535
    \<and> version (rec_transaction r) = 3
    \<and> outputs (rec_transaction r)
        = [\<lparr>txout_value = md_amount_sat m, script_pubkey = new_p2tr P (rec_withdrawal_key r)\<rparr>]
    \<and> md_amount_sat m \<le> max_money P
    \<and> client_pubkey (md_keys m) \<noteq> enclave_pubkey (md_keys m)
    \<and> signed_by_both P (rec_transaction r) (md_amount_sat m) (md_keys m) (witness i)"
  by (rule verified_recovery_spends [OF assms])

text \<open>Recoveries of one coin that agree on the withdrawal key and the delay are one
  transaction: they differ at most in witnesses and have the same transaction id.\<close>

theorem recovery_determined:
  assumes "txid_ignores_witness P" and "verify_recovery P m r = Inr ()"
    and "verify_recovery P m r' = Inr ()" and "rec_withdrawal_key r' = rec_withdrawal_key r"
    and "rec_delay_blocks r' = rec_delay_blocks r"
  shows "strip_witness (rec_transaction r') = strip_witness (rec_transaction r)
    \<and> compute_txid P (rec_transaction r') = compute_txid P (rec_transaction r)"
proof -
  have strip: "strip_witness (rec_transaction r1) = t"
    if "verify_recovery P m r1 = Inr ()"
      and "canonical_recovery P (md_outpoint m) (md_amount_sat m) (rec_withdrawal_key r1)
        (rec_delay_blocks r1) = Inr t" for r1 t
    using that(1)
    by (rule verify_recovery_steps) (use that(2) in \<open>auto simp: strip_witness_def\<close>)
  from assms(2) obtain t where t: "canonical_recovery P (md_outpoint m) (md_amount_sat m)
      (rec_withdrawal_key r) (rec_delay_blocks r) = Inr t"
    by (rule verify_recovery_steps)
  with strip [OF assms(2)] strip [OF assms(3)] assms(4,5)
  have "strip_witness (rec_transaction r') = strip_witness (rec_transaction r)" by simp
  with txid_stripD [OF assms(1)] show ?thesis by blast
qed

subsection \<open>Histories\<close>

lemma verify_history_Inr:
  assumes "verify_history P m st csk cap handoff latest conf history = Inr ()"
  shows "verify_status (md_keys m) st = Inr ()"
    and "cs_authorization st = authorization P (keys_coin_id (md_keys m)) (capability_hash P cap) handoff"
    and "cs_signature_count st = of_nat (length history)"
    and "map_option rec_withdrawal_key (last_opt history) = Some latest"
    and "\<forall>r \<in> set history. verify_recovery P m r = Inr ()"
    and "\<forall>i. Suc i < length history \<longrightarrow>
      validate_reaction_window conf (rec_delay_blocks (history ! i)) (rec_delay_blocks (history ! Suc i))
        = Inr ()"
    and "\<exists>r. last_opt history = Some r \<and> conf < rec_delay_blocks r"
    and "client_xonly P csk = client_pubkey (md_keys m)"
proof -
  note unfolded = assms [unfolded verify_history_def, simplified ok try_each_Inr]
  from unfolded show "verify_status (md_keys m) st = Inr ()"
    "cs_authorization st = authorization P (keys_coin_id (md_keys m)) (capability_hash P cap) handoff"
    "cs_signature_count st = of_nat (length history)"
    "map_option rec_withdrawal_key (last_opt history) = Some latest"
    "\<forall>r \<in> set history. verify_recovery P m r = Inr ()"
    "\<exists>r. last_opt history = Some r \<and> conf < rec_delay_blocks r"
    "client_xonly P csk = client_pubkey (md_keys m)"
    by (auto split: option.splits)
  from unfolded have "\<forall>(x, y) \<in> set (windows2 history).
      validate_reaction_window conf (rec_delay_blocks x) (rec_delay_blocks y) = Inr ()" by auto
  then show "\<forall>i. Suc i < length history \<longrightarrow>
      validate_reaction_window conf (rec_delay_blocks (history ! i)) (rec_delay_blocks (history ! Suc i))
        = Inr ()"
    by (simp only: windows2_all)
qed

lemma descending:
  fixes f :: "nat \<Rightarrow> nat"
  assumes "\<forall>i. Suc i < n \<longrightarrow> f i = f (Suc i) + 10"
  shows "i + k < n \<Longrightarrow> f i = f (i + k) + 10 * k"
proof (induction k)
  case 0
  then show ?case by simp
next
  case (Suc k)
  then have "f (i + k) = f (Suc (i + k)) + 10" using assms by simp
  with Suc show ?case by simp
qed

text \<open>The delays of an accepted history, however long it is: ten blocks per signature.\<close>

lemma history_delays:
  assumes "verify_history P m st csk cap handoff latest conf history = Inr ()"
    and "i < j" and "j < length history"
  shows "unat (rec_delay_blocks (history ! i)) = unat (rec_delay_blocks (history ! j)) + 10 * (j - i)"
proof -
  let ?f = "\<lambda>i. unat (rec_delay_blocks (history ! i))"
  have step: "\<forall>i. Suc i < length history \<longrightarrow> ?f i = ?f (Suc i) + 10"
    using verify_history_Inr(6) [OF assms(1)] by (simp add: reaction_window_Inr)
  from descending [OF step, of i "j - i"] assms(2,3) show ?thesis by simp
qed

lemma history_latest:
  assumes "verify_history P m st csk cap handoff latest conf history = Inr ()"
  shows "history \<noteq> []" and "rec_withdrawal_key (last history) = latest"
    and "conf < rec_delay_blocks (last history)"
  using verify_history_Inr(4,7) [OF assms] by (auto simp: last_opt_def split: if_splits)

lemma history_unripe:
  assumes "verify_history P m st csk cap handoff latest conf history = Inr ()" and "r \<in> set history"
  shows "conf < rec_delay_blocks r"
proof -
  from assms(2) obtain i where i: "i < length history" "r = history ! i" by (auto simp: in_set_conv_nth)
  let ?n = "length history - 1"
  from history_latest [OF assms(1)] have newest: "unat conf < unat (rec_delay_blocks (history ! ?n))"
    by (simp add: last_conv_nth word_less_nat_alt)
  show ?thesis
  proof (cases "i = ?n")
    case True
    with newest i(2) show ?thesis by (simp add: word_less_nat_alt)
  next
    case False
    with i(1) history_delays [OF assms(1), of i ?n] newest i(2) show ?thesis
      by (simp add: word_less_nat_alt)
  qed
qed

lemma verify_history_complete:
  assumes "verify_status (md_keys m) st = Inr ()" and "client_xonly P csk = client_pubkey (md_keys m)"
    and "cs_authorization st = authorization P (keys_coin_id (md_keys m)) (capability_hash P cap) handoff"
    and "cs_signature_count st = of_nat (length history)"
    and "history \<noteq> []" and "rec_withdrawal_key (last history) = latest"
    and recs: "\<forall>r \<in> set history. verify_recovery P m r = Inr () \<and> conf < rec_delay_blocks r"
    and delays: "\<forall>i j. i < j \<and> j < length history \<longrightarrow>
      unat (rec_delay_blocks (history ! i)) = unat (rec_delay_blocks (history ! j)) + 10 * (j - i)"
  shows "verify_history P m st csk cap handoff latest conf history = Inr ()"
proof -
  have "\<forall>i. Suc i < length history \<longrightarrow>
      validate_reaction_window conf (rec_delay_blocks (history ! i)) (rec_delay_blocks (history ! Suc i))
        = Inr ()"
  proof (intro allI impI)
    fix i
    assume i: "Suc i < length history"
    with delays [rule_format, of i "Suc i"] recs [rule_format, of "history ! Suc i"]
    show "validate_reaction_window conf (rec_delay_blocks (history ! i))
        (rec_delay_blocks (history ! Suc i)) = Inr ()"
      by (simp add: reaction_window_Inr)
  qed
  then have "\<forall>(x, y) \<in> set (windows2 history).
      validate_reaction_window conf (rec_delay_blocks x) (rec_delay_blocks y) = Inr ()"
    by (simp only: windows2_all)
  with assms(1-7) show ?thesis
    by (auto simp: verify_history_def ok try_each_Inr last_opt_def not_le case_prod_beta)
qed

text \<open>C10. Exactly these histories are accepted: the enclave's status is that of the coin,
  the client's secret is the coin's, the enclave's commitment is to the presented capability
  and handoff, it has signed exactly as many times as there are recoveries, there is at least
  one and the newest pays the expected key, every recovery verifies and, the newest included,
  matures later than the current confirmations, and every earlier one becomes valid exactly
  ten blocks later per signature that followed it. So a spend by an earlier owner leaves the
  latest owner at least ten blocks, and no signed recovery is missing from the history.\<close>

theorem verify_history_delays:
  "verify_history P m st csk cap handoff latest conf history = Inr () \<longleftrightarrow>
     verify_status (md_keys m) st = Inr ()
   \<and> client_xonly P csk = client_pubkey (md_keys m)
   \<and> cs_authorization st = authorization P (keys_coin_id (md_keys m)) (capability_hash P cap) handoff
   \<and> cs_signature_count st = of_nat (length history)
   \<and> history \<noteq> [] \<and> rec_withdrawal_key (last history) = latest
   \<and> (\<forall>r \<in> set history. verify_recovery P m r = Inr () \<and> conf < rec_delay_blocks r)
   \<and> (\<forall>i j. i < j \<and> j < length history \<longrightarrow>
        unat (rec_delay_blocks (history ! i)) = unat (rec_delay_blocks (history ! j)) + 10 * (j - i))"
proof (rule iffI, goal_cases)
  case 1
  note h = verify_history_Inr [OF 1]
  show ?case
    using h(1-3,5,8) history_latest [OF 1] history_unripe [OF 1] history_delays [OF 1] by simp
next
  case 2
  then show ?case by (elim conjE) (rule verify_history_complete)
qed

subsection \<open>An honest signer\<close>

context signing_service begin

text \<open>A client whose request presents the current commitment gets a response that verifies
  and, unless the service replayed a saved one, that \<open>verify_sign_response\<close> accepts.\<close>

lemma honest_sign:
  assumes "inv s" and "schnorr_correct P" and "status_of s (sr_coin_id req) = Inr st"
    and "cs_authorization st = authorization P (sr_coin_id req)
      (capability_hash P (current_capability req)) (current_handoff req)"
    and "next_capability_hash req \<noteq> capability_hash P (current_capability req)"
    and "unat (cs_signature_count st) + 1 < 2 ^ 64"
  shows "\<exists>resp s' st'. sign_of s h req = (Inr resp, s') \<and> status_of s' (sr_coin_id req) = Inr st'
    \<and> schnorr_verify P (signature resp) (sighash req) (signing_pubkey st)
    \<and> (s' = s \<or> verify_sign_response P req (cs_signature_count st) st' resp = Inr ())"
proof -
  from sign_accepts [OF assms(1,3-6)] obtain resp s' where
    s': "sign_of s h req = (Inr resp, s')" by (metis prod.collapse)
  from sign_done [OF assms(1) s'] assms(2) obtain st' where st':
    "status_of s' (sr_coin_id req) = Inr st'" "cs_coin_id st' = sr_coin_id req"
    "cs_authorization st' =
      authorization P (sr_coin_id req) (next_capability_hash req) (next_handoff resp)"
    "schnorr_verify P (signature resp) (sighash req) (signing_pubkey st')" by blast
  from sign_count [OF assms(1) s' assms(3) st'(1)]
  have key: "signing_pubkey st' = signing_pubkey st"
    and count: "s' = s \<or> unat (cs_signature_count st') = unat (cs_signature_count st) + 1" by auto
  have "verify_sign_response P req (cs_signature_count st) st' resp = Inr ()"
    if "unat (cs_signature_count st') = unat (cs_signature_count st) + 1"
  proof -
    from that assms(6) have "cs_signature_count st' = cs_signature_count st + 1"
      using unat_add_one [of "cs_signature_count st"] by (simp add: word_unat_eq_iff)
    with st'(2-4) assms(6) show ?thesis
      by (simp add: verify_sign_response_def verify_signature_def checked_add_def)
  qed
  with s' st'(1,4) key count show ?thesis by auto
qed

end

text \<open>C13. A wallet and an enclave that follow the code produce a recovery: from any state the
  enclave can be in, when the wallet prepares a recovery from the coin's status, the enclave
  signs it, the recovery completes and verifies, and the wallet accepts the answer unless the
  enclave replayed an earlier one.\<close>

theorem honest_recovery_round:
  assumes "schnorr_correct P" and "taproot_correct P" and "signature_bytes_correct P"
    and "sighash_ignores_witness P"
    and "s = snd (run_signer P limit new_signer evs)"
    and "status P s (keys_coin_id (md_keys m)) = Inr st"
    and "prepare_recovery P m st csk cap handoff nch wk delay conf = Inr (req, prep)"
    and "unat (cs_signature_count st) + 1 < 2 ^ 64"
  shows "\<exists>resp s' st' r. sign P h s req = (Inr resp, s') \<and> status P s' (sr_coin_id req) = Inr st'
    \<and> complete_recovery P req resp prep csk = Inr r \<and> verify_recovery P m r = Inr ()
    \<and> (s' = s \<or> verify_sign_response P req (cs_signature_count st) st' resp = Inr ())"
  using assms(7)
proof (rule prepare_recovery_Inr)
  fix t hh
  assume k: "signing_pubkey st = enclave_pubkey (md_keys m)"
    "cs_authorization st
      = authorization P (keys_coin_id (md_keys m)) (capability_hash P cap) handoff"
    "nch \<noteq> capability_hash P cap"
    and req: "req = \<lparr>sr_coin_id = keys_coin_id (md_keys m), current_capability = cap,
      current_handoff = handoff, next_capability_hash = nch, sighash = hh\<rparr>"
  have ok: "signer_ok P limit s" unfolding assms(5) by (rule signer_ok_run)
  from enclave.honest_sign [OF ok assms(1), of req st h] assms(6,8) k req obtain resp s' st' where
    sgn: "sign P h s req = (Inr resp, s')" "status P s' (sr_coin_id req) = Inr st'"
      "schnorr_verify P (signature resp) (sighash req) (enclave_pubkey (md_keys m))"
      "s' = s \<or> verify_sign_response P req (cs_signature_count st) st' resp = Inr ()"
    by auto
  from prepared_completes [OF assms(1-4,7) sgn(3)] sgn show ?thesis by blast
qed

subsection \<open>The fee-paying child\<close>

lemma exit_child_balance:
  assumes "vsize_by_shape P" and "build_exit_child P r amount sk dest rate = Inr child"
  shows "\<exists>out sg h. outputs child = [\<lparr>txout_value = out, script_pubkey = dest\<rparr>]
    \<and> unat amount = unat out + unat rate * unat (vsize P (rec_transaction r) + vsize P child)
    \<and> minimal_non_dust P dest \<le> out
    \<and> outputs (rec_transaction r) = [\<lparr>txout_value = amount, script_pubkey = new_p2tr P (xonly_of P sk)\<rparr>]
    \<and> inputs child = [\<lparr>previous_output = OutPoint (compute_txid P (rec_transaction r)) 0,
        script_sig = [], sequence = sequence_max P, witness = [signature_bytes sg]\<rparr>]
    \<and> version child = 3
    \<and> key_spend_sighash P (child\<lparr>inputs := [(inputs child ! 0)\<lparr>witness := [replicate 64 0]\<rparr>]\<rparr>) 0
        (outputs (rec_transaction r)) = Some h
    \<and> schnorr_verify P sg h (xonly_of P (tap_tweak P sk))"
proof -
  let ?parent = "rec_transaction r"
  let ?place = "exit_child P ?parent [replicate 64 0] amount dest"
  let ?fee = "ucast rate * ucast (vsize P ?parent + vsize P ?place) :: u128"
  from assms(2) obtain spent v out h where
    len: "length (outputs ?parent) = 1" and
    spent: "first_opt (outputs ?parent) = Some spent" "txout_value spent = amount"
      "script_pubkey spent = new_p2tr P (xonly_of P sk)" and
    v: "checked_sub (ucast amount :: u128) ?fee = Some v" "try_from_word v = Some out" and
    dust: "\<not> out < minimal_non_dust P dest" and
    h: "key_spend_sighash P (exit_child P ?parent [replicate 64 0] out dest) 0 [spent] = Some h"
      "schnorr_verify P (schnorr_sign P (tap_tweak P sk) h) h (xonly_of P (tap_tweak P sk))" and
    child: "child = exit_child P ?parent [signature_bytes (schnorr_sign P (tap_tweak P sk) h)] out dest"
    unfolding build_exit_child_def Let_def ok bind_eq_Some_conv by auto
  from spent len have outs: "outputs ?parent = [\<lparr>txout_value = amount, script_pubkey = new_p2tr P (xonly_of P sk)\<rparr>]"
    "[spent] = outputs ?parent"
    by (auto simp: first_opt_Some)
  have "same_shape ?place child"
    by (simp add: same_shape_def child exit_child_def)
  then have size: "vsize P ?place = vsize P child" by (rule vsize_by_shapeD [OF assms(1)])
  have "unat amount = unat out + unat rate * unat (vsize P ?parent + vsize P child)"
    using unat_checked_sub [OF v(1)] unat_try_from [OF v(2)]
    by (simp add: u128_product unat_ucast_up size)
  with outs dust h show ?thesis
    by (intro exI [of _ out] exI [of _ "schnorr_sign P (tap_tweak P sk) h"] exI [of _ h])
      (simp add: child exit_child_def not_less TRUC_VERSION_def)
qed

text \<open>The child conserves value exactly, at the requested feerate: the parent's output is
  the child's output plus the feerate times the virtual size of the package as it is
  broadcast, without overflow; the output is not dust, the child spends the parent's only
  output, is version 3, and is signed by the tweaked withdrawal key.\<close>

theorem exit_child_conserves:
  assumes "vsize_by_shape P" and "build_exit_child P r amount sk dest rate = Inr child"
  shows "\<exists>out sg h. outputs child = [\<lparr>txout_value = out, script_pubkey = dest\<rparr>]
    \<and> unat amount = unat out + unat rate * unat (vsize P (rec_transaction r) + vsize P child)
    \<and> minimal_non_dust P dest \<le> out
    \<and> outputs (rec_transaction r) = [\<lparr>txout_value = amount, script_pubkey = new_p2tr P (xonly_of P sk)\<rparr>]
    \<and> inputs child = [\<lparr>previous_output = OutPoint (compute_txid P (rec_transaction r)) 0,
        script_sig = [], sequence = sequence_max P, witness = [signature_bytes sg]\<rparr>]
    \<and> version child = 3
    \<and> key_spend_sighash P (child\<lparr>inputs := [(inputs child ! 0)\<lparr>witness := [replicate 64 0]\<rparr>]\<rparr>) 0
        (outputs (rec_transaction r)) = Some h
    \<and> schnorr_verify P sg h (xonly_of P (tap_tweak P sk))"
  by (rule exit_child_balance [OF assms])

subsection \<open>Registration with the enclave\<close>

text \<open>Registering with an enclave that knows no such coin and has room succeeds: the wallet
  obtains keys for its coin ID whose enclave key is the one the enclave drew, unless that key
  happens to be the client's own.\<close>

theorem registration_completes:
  assumes "s = snd (run_signer P limit new_signer evs)"
    and "fmlookup (coins s) cid = None" and "fcard (fmdom (coins s)) < limit"
    and "xonly_of P csk \<noteq> xonly_of P esk"
  shows "\<exists>st s' keys. register P limit esk s (reg_request (prepare_registration P cid csk caph)) = (Inr st, s')
    \<and> complete_registration P (prepare_registration P cid csk caph) st = Inr keys
    \<and> keys_validate keys = Inr () \<and> verify_status keys st = Inr ()
    \<and> keys_coin_id keys = cid \<and> client_pubkey keys = xonly_of P csk
    \<and> enclave_pubkey keys = xonly_of P esk \<and> status P s' cid = Inr st"
  using assms(2-4)
  by (simp add: register_def prepare_registration_def coin_status_def Let_def status_def
      complete_registration_def keys_validate_def verify_status_def)

text \<open>The remote client only trusts real measurements: \<open>validate_production_pcrs\<close> accepts
  exactly the measurements that are 48 bytes long and not all zero, in all three registers.\<close>

theorem production_pcrs_iff:
  "validate_production_pcrs p = Inr ()
    \<longleftrightarrow> (\<forall>r \<in> {pcr0 p, pcr1 p, pcr2 p}. length r = 48 \<and> (\<exists>b \<in> set r. b \<noteq> 0))"
  by (auto simp: validate_production_pcrs_def try_each_Inr list_all_iff ok)

subsection \<open>Witnesses\<close>

text \<open>A coin of 100000 sat registered with the demonstration enclave, and its first recovery.\<close>

lemma demo_bitcoin_hashes [simp]:
  "capability_hash demo_bitcoin c = 96 + ucast (ucast c :: byte)"
  "authorization demo_bitcoin i c h = 160 + ucast (ucast h :: byte)"
  by (rule length_hash_capability length_hash_authorization, simp add: demo_bitcoin_simps)+

lemma demo_bitcoin_fields [simp]:
  "xonly_of demo_bitcoin k = XOnlyKey (secret_bytes k)"
  "schnorr_sign demo_bitcoin k h = Signature (word_cat (secret_bytes k) h)"
  "schnorr_verify demo_bitcoin g h pk \<longleftrightarrow> g = Signature (word_cat (xonly_bytes pk) h)"
  "outpoint_is_null demo_bitcoin op \<longleftrightarrow> op = OutPoint 0 0xffffffff"
  "max_money demo_bitcoin = 2100000000000000"
  "minimal_non_dust demo_bitcoin sc = 330"
  "new_p2tr demo_bitcoin pk = [0x51]"
  "sequence_from_height demo_bitcoin n = ucast n"
  "script_spend_sighash demo_bitcoin t i outs l = Some 9"
  "key_spend_sighash demo_bitcoin t i outs = Some 9"
  "lock_time_zero demo_bitcoin = 0"
  "vsize demo_bitcoin t = 100"
  "tap_tweak demo_bitcoin k = k"
  by (simp_all add: demo_bitcoin_simps)

definition demo_keys :: coin_keys where
  "demo_keys = \<lparr>keys_protocol_version = 1, keys_coin_id = 7, client_pubkey = XOnlyKey 21,
     enclave_pubkey = XOnlyKey 3\<rparr>"

definition demo_md :: coin_metadata where
  "demo_md = keys_metadata demo_keys RegtestId (OutPoint 77 0) 100000"

definition demo_status :: coin_status where
  "demo_status = \<lparr>cs_coin_id = 7, signing_pubkey = XOnlyKey 3, cs_authorization = 160,
     cs_signature_count = 0\<rparr>"

definition demo_req :: sign_request where
  "demo_req = \<lparr>sr_coin_id = 7, current_capability = 1, current_handoff = 0,
     next_capability_hash = 98, sighash = 9\<rparr>"

definition demo_parent :: "u32 \<Rightarrow> bytes list \<Rightarrow> transaction" where
  "demo_parent sq w = \<lparr>version = 3, lock_time = 0,
     inputs = [\<lparr>previous_output = OutPoint 77 0, script_sig = [], sequence = sq, witness = w\<rparr>],
     outputs = [\<lparr>txout_value = 100000, script_pubkey = [0x51]\<rparr>]\<rparr>"

definition demo_prep :: prepared_recovery where
  "demo_prep = \<lparr>prep_request = demo_req, prep_metadata = demo_md,
     prep_transaction = demo_parent 100 [], prep_withdrawal_key = XOnlyKey 31,
     prep_delay_blocks = 100\<rparr>"

definition demo_resp :: sign_response where
  "demo_resp = \<lparr>signature = Signature (word_cat (3 :: bytes32) (9 :: bytes32)), next_handoff = 11\<rparr>"

lemma demo_canonical:
  "canonical_recovery demo_bitcoin (OutPoint 77 0) 100000 (XOnlyKey 31) 100 = Inr (demo_parent 100 [])"
  by (simp add: canonical_recovery_def try_from_word_def demo_parent_def TRUC_VERSION_def)

lemma demo_sighash: "recovery_sighash demo_bitcoin t a k = Inr 9"
  by (simp add: recovery_sighash_def)

lemma demo_prepare:
  assumes "conf < 100"
  shows "prepare_recovery demo_bitcoin demo_md demo_status (SecretKey 21) 1 0 98 (XOnlyKey 31) 100 conf
    = Inr (demo_req, demo_prep)"
  using demo_canonical assms
  by (simp add: prepare_recovery_def demo_md_def keys_metadata_def demo_keys_def demo_status_def
      metadata_validate_def keys_validate_def verify_status_def PROTOCOL_VERSION_def Let_def
      require_future_delay_def client_xonly_def demo_prep_def demo_req_def demo_sighash)

lemma demo_enclave_signature:
  "schnorr_verify demo_bitcoin (signature demo_resp) (sighash demo_req) (enclave_pubkey (md_keys demo_md))"
  by (simp add: demo_resp_def demo_req_def demo_md_def keys_metadata_def demo_keys_def)

theorem prepared_recovery_completes_witness:
  "\<exists>r. complete_recovery demo_bitcoin demo_req demo_resp demo_prep (SecretKey 21) = Inr r
    \<and> verify_recovery demo_bitcoin demo_md r = Inr ()"
  by (rule prepared_recovery_completes [OF demo_bitcoin_laws(1-4) demo_prepare [of 6] demo_enclave_signature]) simp

definition demo_recovery :: "u32 \<Rightarrow> signed_recovery" where
  "demo_recovery delay =
     \<lparr>rec_transaction = demo_parent delay
        [signature_bytes (Signature (word_cat (3 :: bytes32) (9 :: bytes32))),
         signature_bytes (Signature (word_cat (21 :: bytes32) (9 :: bytes32))),
         funding_tapscript demo_bitcoin demo_keys,
         control_serialize demo_bitcoin (funding_control_block demo_bitcoin demo_keys)],
      rec_withdrawal_key = XOnlyKey 31, rec_delay_blocks = delay\<rparr>"

lemma demo_push:
  "push_witness (demo_parent delay []) w = Some (demo_parent delay w)"
  by (simp add: push_witness_def demo_parent_def)

lemma demo_signed:
  "verify_signed_recovery demo_bitcoin (rec_transaction (demo_recovery delay)) a demo_keys = Inr ()"
  using demo_bitcoin_laws(2,3)
  by (intro verify_signed_recoveryI)
    (auto simp: demo_recovery_def demo_parent_def keys_validate_def demo_keys_def
      PROTOCOL_VERSION_def signed_by_both_def demo_sighash signature_bytes_correct_def)

lemma demo_fields [simp]:
  "md_keys demo_md = demo_keys" "md_outpoint demo_md = OutPoint 77 0" "md_amount_sat demo_md = 100000"
  "keys_coin_id demo_keys = 7" "client_pubkey demo_keys = XOnlyKey 21"
  "enclave_pubkey demo_keys = XOnlyKey 3" "keys_protocol_version demo_keys = 1"
  "prep_request demo_prep = demo_req" "prep_metadata demo_prep = demo_md"
  "prep_transaction demo_prep = demo_parent 100 []" "prep_withdrawal_key demo_prep = XOnlyKey 31"
  "prep_delay_blocks demo_prep = 100" "sr_coin_id demo_req = 7" "sighash demo_req = 9"
  "signature demo_resp = Signature (word_cat (3 :: bytes32) (9 :: bytes32))"
  by (simp_all add: demo_md_def keys_metadata_def demo_keys_def demo_prep_def demo_req_def
      demo_resp_def)

lemma demo_metadata_ok: "metadata_validate demo_md = Inr ()" "keys_validate demo_keys = Inr ()"
  by (simp_all add: metadata_validate_def keys_validate_def PROTOCOL_VERSION_def)

lemma demo_complete:
  "complete_recovery demo_bitcoin demo_req demo_resp demo_prep (SecretKey 21) = Inr (demo_recovery 100)"
  using demo_signed [of 100 "100000"]
  by (simp add: complete_recovery_def Let_def demo_metadata_ok client_xonly_def demo_canonical
      demo_sighash verify_signature_def demo_push)
    (simp add: demo_recovery_def)

theorem complete_recovery_verifies_witness:
  "verify_recovery demo_bitcoin demo_md (demo_recovery 100) = Inr ()"
  using complete_recovery_verifies [OF demo_complete] by simp


lemma demo_rec:
  "rec_delay_blocks (demo_recovery d) = d" "rec_withdrawal_key (demo_recovery d) = XOnlyKey 31"
  by (simp_all add: demo_recovery_def)

lemma demo_verify:
  assumes "1 \<le> delay" and "delay < 1000"
  shows "verify_recovery demo_bitcoin demo_md (demo_recovery delay) = Inr ()"
proof -
  have delay: "unat delay < 65536" "delay \<noteq> 0"
    using assms by (auto simp: word_less_nat_alt word_le_nat_alt)
  then have "try_from_word delay = Some (ucast delay :: u16)" "(ucast delay :: u16) \<noteq> 0"
      "ucast (ucast delay :: u16) = delay"
    by (simp_all add: try_from_word_def word_unat_eq_iff unsigned_ucast_eq take_bit_nat_eq_self
        unsigned_take_bit_eq)
  then have "canonical_recovery demo_bitcoin (OutPoint 77 0) 100000 (XOnlyKey 31) delay
      = Inr (demo_parent delay [])"
    by (simp add: canonical_recovery_def demo_parent_def TRUC_VERSION_def)
  from verify_recoveryI [of demo_bitcoin demo_md "XOnlyKey 31" delay, simplified, OF this demo_push
      demo_metadata_ok(1)] demo_signed [of delay 100000]
  show ?thesis by (simp add: demo_recovery_def)
qed

theorem verify_recovery_guarantees_witness:
  "\<exists>i d. inputs (demo_parent 100 []) = [i] \<and> sequence i = ucast (d :: u16) \<and> unat d = 100"
proof -
  from verify_recovery_guarantees [OF demo_bitcoin_laws(6) demo_verify [of 100]]
  obtain d :: u16 where "sequence (inputs (rec_transaction (demo_recovery 100)) ! 0) = ucast d"
    "unat d = 100" by (auto simp: demo_recovery_def)
  then show ?thesis
    by (intro exI [of _ "inputs (demo_parent 100 []) ! 0"] exI [of _ d])
      (simp add: demo_recovery_def demo_parent_def)
qed

theorem recovery_determined_witness:
  "compute_txid demo_bitcoin (rec_transaction (demo_recovery 100)) = 77"
  using recovery_determined [OF demo_bitcoin_laws(8) demo_verify [of 100] demo_verify [of 100]]
  by (simp add: demo_bitcoin_simps)

definition demo_history_status :: coin_status where
  "demo_history_status = demo_status\<lparr>cs_signature_count := 2\<rparr>"

theorem verify_history_delays_witness:
  "unat (100 :: u32) = unat (90 :: u32) + 10 * (1 - 0) \<and> (6 :: u32) < 90
    \<and> verify_history demo_bitcoin demo_md demo_history_status (SecretKey 21) 1 0 (XOnlyKey 31) 90
        [demo_recovery 100, demo_recovery 90] \<noteq> Inr ()"
proof -
  have "verify_history demo_bitcoin demo_md demo_history_status (SecretKey 21) 1 0 (XOnlyKey 31) 6
      [demo_recovery 100, demo_recovery 90] = Inr ()"
    by (simp add: verify_history_def verify_status_def demo_metadata_ok demo_history_status_def
        demo_status_def client_xonly_def demo_verify windows2_def last_opt_def demo_rec
        validate_reaction_window_def require_future_delay_def checked_sub_def DELAY_STEP_def)
  note accepted = this [unfolded verify_history_delays]
  have rec: "demo_recovery 90 \<in> set [demo_recovery 100, demo_recovery 90]" by simp
  from accepted have "\<forall>i j. i < j \<and> j < length [demo_recovery 100, demo_recovery 90] \<longrightarrow>
      unat (rec_delay_blocks ([demo_recovery 100, demo_recovery 90] ! i)) =
        unat (rec_delay_blocks ([demo_recovery 100, demo_recovery 90] ! j)) + 10 * (j - i)"
    by (elim conjE)
  from this [rule_format, of 0 1] have "unat (rec_delay_blocks (demo_recovery 100)) =
      unat (rec_delay_blocks (demo_recovery 90)) + 10 * (1 - 0)" by simp
  moreover from accepted rec have "6 < rec_delay_blocks (demo_recovery 90)" by blast
  moreover have "\<not> 90 < rec_delay_blocks (demo_recovery 90)" by (simp add: demo_recovery_def)
  with rec have "verify_history demo_bitcoin demo_md demo_history_status (SecretKey 21) 1 0 (XOnlyKey 31) 90
      [demo_recovery 100, demo_recovery 90] \<noteq> Inr ()"
    unfolding verify_history_delays by blast
  ultimately show ?thesis by (simp add: demo_recovery_def)
qed

definition demo_registered_state :: signer where
  "demo_registered_state = snd (run_signer demo_bitcoin 10 new_signer
     [(\<lparr>fresh_key = SecretKey 3, fresh_handoff = 0\<rparr>,
       ReqRegister \<lparr>rr_coin_id = 7, initial_capability_hash = 97\<rparr>)])"

lemma demo_registered_status: "status demo_bitcoin demo_registered_state 7 = Inr demo_status"
  by (simp add: demo_registered_state_def demo_step_simps status_def coin_status_def demo_status_def)

theorem honest_recovery_round_witness:
  "\<exists>resp s' st' r. sign demo_bitcoin 11 demo_registered_state demo_req = (Inr resp, s')
    \<and> status demo_bitcoin s' 7 = Inr st'
    \<and> complete_recovery demo_bitcoin demo_req resp demo_prep (SecretKey 21) = Inr r
    \<and> verify_recovery demo_bitcoin demo_md r = Inr ()"
proof -
  have "status demo_bitcoin demo_registered_state (keys_coin_id (md_keys demo_md)) = Inr demo_status"
    "unat (cs_signature_count demo_status) + 1 < 2 ^ 64"
    by (simp_all add: demo_registered_status, simp add: demo_status_def)
  from honest_recovery_round [OF demo_bitcoin_laws(1-4) demo_registered_state_def this(1)
      demo_prepare [of 6] this(2), of 11] show ?thesis by auto
qed

theorem registration_completes_witness:
  "\<exists>st s' keys. register demo_bitcoin 10 (SecretKey 4) demo_registered_state
      (reg_request (prepare_registration demo_bitcoin 8 (SecretKey 22) 97)) = (Inr st, s')
    \<and> complete_registration demo_bitcoin (prepare_registration demo_bitcoin 8 (SecretKey 22) 97) st
      = Inr keys \<and> enclave_pubkey keys = XOnlyKey 4"
proof -
  have state: "demo_registered_state = \<lparr>coins = fmupd 7 \<lparr>signing_key = SecretKey 3,
      coin_authorization = 160, signature_count = 0, coin_last = None\<rparr> fmempty\<rparr>"
    by (simp add: demo_registered_state_def demo_step_simps)
  have "fcard (fmdom (coins demo_registered_state)) < 10" "fmlookup (coins demo_registered_state) 8 = None"
    by (simp_all add: state fcard_fempty fcard_finsert_disjoint)
  from registration_completes [OF demo_registered_state_def this(2,1), of "SecretKey 22" "SecretKey 4" 97]
  show ?thesis by auto
qed

theorem exit_child_conserves_witness:
  "\<exists>child out. build_exit_child demo_bitcoin (demo_recovery 100) 100000 (SecretKey 31) [0x51] 5 = Inr child
    \<and> outputs child = [\<lparr>txout_value = out, script_pubkey = [0x51]\<rparr>]
    \<and> (100000 :: nat) = unat out + 5 * 200"
proof -
  obtain child where child:
    "build_exit_child demo_bitcoin (demo_recovery 100) 100000 (SecretKey 31) [0x51] 5 = Inr child"
    by (simp add: build_exit_child_def demo_recovery_def demo_parent_def first_opt_def Let_def
        checked_sub_def try_from_word_def)
  from exit_child_conserves [OF demo_bitcoin_laws(7) child] child show ?thesis by auto
qed

theorem production_pcrs_iff_witness:
  "validate_production_pcrs \<lparr>pcr0 = replicate 48 1, pcr1 = replicate 48 2, pcr2 = replicate 48 3\<rparr>
      = Inr ()
    \<and> validate_production_pcrs \<lparr>pcr0 = replicate 48 0, pcr1 = replicate 48 2, pcr2 = replicate 48 3\<rparr>
      \<noteq> Inr ()"
  by (subst (1 2) production_pcrs_iff) simp

end
