(* ===== verification/Validation.thy ===== *)
theory Validation
  imports Recovery
begin

text \<open>
  The wallet's checks, \<^verbatim>\<open>wallet-core/src/validation.rs\<close>, and what the modules of
  \<^verbatim>\<open>wallet-core\<close> share: \<open>anyhow\<close> errors and the part of the \<open>bitcoin\<close> crate that only
  the wallet uses.
\<close>

subsection \<open>Errors\<close>

text \<open>\<open>anyhow\<close> errors: an \<open>ensure!\<close> or a \<open>context\<close> with a fixed message, a message with numbers
  formatted into it, or a client error that \<open>?\<close> converted.\<close>

datatype anyhow =
  Msg string
| Fmt string "nat list"
| FromClient client_error

subsection \<open>The wallet's part of the Bitcoin library\<close>

text \<open>\<open>Address<NetworkUnchecked>\<close> is a type of its own.\<close>

datatype unchecked_address = UncheckedAddress string

record wallet_lib = bitcoin_lib +
  tx_weight :: "transaction \<Rightarrow> u64"
  address_from_str :: "string \<Rightarrow> unchecked_address option"
  require_network :: "unchecked_address \<Rightarrow> network \<Rightarrow> address option"
  address_script :: "address \<Rightarrow> script"
  address_string :: "address \<Rightarrow> string"
  p2tr_address :: "xonly_key \<Rightarrow> known_hrp \<Rightarrow> address"
  version_two :: u32

definition FILE_FORMAT_VERSION :: u32 where
  "FILE_FORMAT_VERSION = 1"

subsection \<open>Checks\<close>

record observed_funding =
  obs_outpoint :: outpoint
  obs_output :: txout
  obs_confirmations :: u32
  obs_unspent :: bool
  obs_coinbase :: bool

definition validate_funding_input :: "'m bitcoin_lib_scheme \<Rightarrow> txin \<Rightarrow> anyhow + unit" where
  "validate_funding_input P i =
     (if outpoint_is_null P (previous_output i)
        then Inl (Msg ''funding transaction cannot spend a coinbase input'')
      else if \<not> (script_sig i = [] \<and> witness i \<noteq> [])
        then Inl (Msg ''funding transaction must use only native SegWit or Taproot inputs'')
      else if sequence_is_rbf P (sequence i)
        then Inl (Msg ''funding transaction inputs must not signal replace-by-fee'')
      else Inr ())"

definition validate_funding_inputs :: "'m wallet_lib_scheme \<Rightarrow> transaction \<Rightarrow> anyhow + unit" where
  "validate_funding_inputs P t =
     (if inputs t = [] then Inl (Msg ''funding transaction has no inputs'')
      else if 100 < length (inputs t) then Inl (Msg ''transaction has more than 100 inputs'')
      else if 400000 < tx_weight P t then Inl (Msg ''transaction exceeds standard weight'')
      else try_each (validate_funding_input P) (inputs t))"

definition validate_finalized_funding ::
  "'m wallet_lib_scheme \<Rightarrow> coin_metadata \<Rightarrow> transaction \<Rightarrow> anyhow + unit" where
  "validate_finalized_funding P m t =
     (case validate_funding_inputs P t of Inl e \<Rightarrow> Inl e | Inr _ \<Rightarrow>
      if compute_txid P t \<noteq> op_txid (md_outpoint m)
        then Inl (Msg ''prepared funding transaction txid does not match coin metadata'')
      else
        let expected_script = funding_script P (md_keys m) in
      if length (filter (\<lambda>out. script_pubkey out = expected_script) (outputs t)) \<noteq> 1
        then Inl (Msg ''funding transaction must contain exactly one Tinylayer output'')
      else case nth_opt (outputs t) (unat (op_vout (md_outpoint m))) of
        None \<Rightarrow> Inl (Msg ''prepared funding output index is missing'') | Some out \<Rightarrow>
      case verify_funding_utxo P m (md_outpoint m) out of Inl e \<Rightarrow> Inl (FromClient e) | Inr _ \<Rightarrow>
      Inr ())"

definition verify_observed_funding_output ::
  "'m bitcoin_lib_scheme \<Rightarrow> coin_metadata \<Rightarrow> observed_funding \<Rightarrow> u32 \<Rightarrow> anyhow + unit" where
  "verify_observed_funding_output P m obs minimum =
     (if obs_outpoint obs \<noteq> md_outpoint m
        then Inl (Msg ''observed funding output has the wrong outpoint'')
      else case verify_funding_utxo P m (obs_outpoint obs) (obs_output obs) of
        Inl e \<Rightarrow> Inl (FromClient e) | Inr _ \<Rightarrow>
      if obs_confirmations obs < minimum
        then Inl (Fmt ''funding output has {} confirmations; {} required''
                    [unat (obs_confirmations obs), unat minimum])
      else if obs_coinbase obs \<and> obs_confirmations obs < 100
        then Inl (Msg ''coinbase funding output is not mature'')
      else Inr ())"

definition verify_observed_funding ::
  "'m bitcoin_lib_scheme \<Rightarrow> coin_metadata \<Rightarrow> observed_funding \<Rightarrow> u32 \<Rightarrow> anyhow + unit" where
  "verify_observed_funding P m obs minimum =
     (case verify_observed_funding_output P m obs minimum of Inl e \<Rightarrow> Inl e | Inr _ \<Rightarrow>
      if \<not> obs_unspent obs then Inl (Msg ''Tinylayer funding output is spent'')
      else Inr ())"

definition require_reaction_margin :: "u32 \<Rightarrow> u32 \<Rightarrow> u32 \<Rightarrow> anyhow + unit" where
  "require_reaction_margin confirmations delay reaction =
     (case checked_add confirmations reaction of
        None \<Rightarrow> Inl (Msg ''reaction margin overflow'') | Some minimum \<Rightarrow>
      if delay \<le> minimum
        then Inl (Fmt ''latest recovery delay {} must be greater than funding confirmations {} plus reaction margin {}''
                    [unat delay, unat confirmations, unat reaction])
      else Inr ())"

text \<open>\<open>expect\<close> on the last entry cannot fail: the list was checked non-empty.\<close>

definition verify_public_history ::
  "'m bitcoin_lib_scheme \<Rightarrow> coin_metadata \<Rightarrow> coin_status \<Rightarrow> signed_recovery list \<Rightarrow> u32 \<Rightarrow> u32
    \<Rightarrow> anyhow + unit" where
  "verify_public_history P m st history confirmations reaction =
     (case verify_status (md_keys m) st of Inl e \<Rightarrow> Inl (FromClient e) | Inr _ \<Rightarrow>
      if cs_signature_count st \<noteq> of_nat (length history)
        then Inl (Msg ''recovery history does not match enclave signature count'')
      else if history = [] then Inl (Msg ''coin has no signed recovery'')
      else case try_each (verify_recovery P m) history of Inl e \<Rightarrow> Inl (FromClient e) | Inr _ \<Rightarrow>
      case try_each (\<lambda>(older, newer). validate_reaction_window confirmations
                       (rec_delay_blocks older) (rec_delay_blocks newer)) (windows2 history) of
        Inl e \<Rightarrow> Inl (FromClient e) | Inr _ \<Rightarrow>
      require_reaction_margin confirmations (rec_delay_blocks (last history)) reaction)"

subsection \<open>Lemmas\<close>

lemma verify_funding_utxo_Inr:
  "verify_funding_utxo P m op out = Inr u \<longleftrightarrow>
    keys_validate (md_keys m) = Inr () \<and> op = md_outpoint m
    \<and> out = \<lparr>txout_value = md_amount_sat m, script_pubkey = funding_script P (md_keys m)\<rparr>"
  by (auto simp: verify_funding_utxo_def ok Let_def metadata_validate_def)

lemma require_reaction_margin_Inr:
  "require_reaction_margin c d r = Inr u \<longleftrightarrow> unat c + unat r < unat d"
proof -
  have "unat d < 2 ^ 32" using unsigned_less [of d] by simp
  then have "unat c + unat r < 2 ^ 32" if "unat c + unat r < unat d"
    using that by simp
  then show ?thesis
    by (auto simp: require_reaction_margin_def ok checked_add_Some word_le_nat_alt not_le
        unat_word_ariths)
qed

lemma validate_funding_input_Inr:
  "validate_funding_input P i = Inr u \<longleftrightarrow>
    \<not> outpoint_is_null P (previous_output i) \<and> script_sig i = [] \<and> witness i \<noteq> []
    \<and> \<not> sequence_is_rbf P (sequence i)"
  by (auto simp: validate_funding_input_def)

lemma validate_funding_inputs_Inr:
  "validate_funding_inputs P t = Inr u \<longleftrightarrow>
    inputs t \<noteq> [] \<and> length (inputs t) \<le> 100 \<and> tx_weight P t \<le> 400000
    \<and> (\<forall>i \<in> set (inputs t). validate_funding_input P i = Inr ())"
  by (auto simp: validate_funding_inputs_def ok try_each_Inr not_less)

lemma verify_observed_funding_output_Inr:
  "verify_observed_funding_output P m obs minimum = Inr u \<longleftrightarrow>
    obs_outpoint obs = md_outpoint m \<and> keys_validate (md_keys m) = Inr ()
    \<and> obs_output obs = \<lparr>txout_value = md_amount_sat m, script_pubkey = funding_script P (md_keys m)\<rparr>
    \<and> minimum \<le> obs_confirmations obs \<and> (obs_coinbase obs \<longrightarrow> 100 \<le> obs_confirmations obs)"
  by (auto simp: verify_observed_funding_output_def ok verify_funding_utxo_Inr not_less)

lemma verify_public_history_Inr:
  assumes "verify_public_history P m st history conf reaction = Inr ()"
  shows "verify_status (md_keys m) st = Inr ()"
    and "cs_signature_count st = of_nat (length history)"
    and "history \<noteq> []"
    and "\<forall>r \<in> set history. verify_recovery P m r = Inr ()"
    and "\<forall>i. Suc i < length history \<longrightarrow>
      validate_reaction_window conf (rec_delay_blocks (history ! i)) (rec_delay_blocks (history ! Suc i))
        = Inr ()"
    and "unat conf + unat reaction < unat (rec_delay_blocks (last history))"
proof -
  note unfolded = assms [unfolded verify_public_history_def, simplified ok try_each_Inr]
  from unfolded show "verify_status (md_keys m) st = Inr ()"
    "cs_signature_count st = of_nat (length history)" "history \<noteq> []"
    "\<forall>r \<in> set history. verify_recovery P m r = Inr ()"
    "unat conf + unat reaction < unat (rec_delay_blocks (last history))"
    by (auto simp: require_reaction_margin_Inr)
  from unfolded have "\<forall>(x, y) \<in> set (windows2 history).
      validate_reaction_window conf (rec_delay_blocks x) (rec_delay_blocks y) = Inr ()" by auto
  then show "\<forall>i. Suc i < length history \<longrightarrow>
      validate_reaction_window conf (rec_delay_blocks (history ! i)) (rec_delay_blocks (history ! Suc i))
        = Inr ()"
    by (simp only: windows2_all)
qed

end
