(* ===== verification/Staged_Journal.thy ===== *)
theory Staged_Journal
  imports Prelude
begin

text \<open>
  The discipline of the wallet's journals (exits and source sweeps): a transaction is prepared
  and saved, the journal is armed and saved again before the transaction is submitted, and it is
  marked observed only when the saved transaction has been seen. The locale states the laws of
  one journal; \<open>Funding\<close> and \<open>Exit\<close> discharge them for the two journals of the code.
\<close>

datatype 'o journal_event = Arm | Observe 'o

fun journal_run ::
  "('j \<Rightarrow> ('e + unit) \<times> 'j) \<Rightarrow> ('j \<Rightarrow> 'o \<Rightarrow> ('e + unit) \<times> 'j) \<Rightarrow> 'j \<Rightarrow> 'o journal_event list \<Rightarrow> 'j" where
  "journal_run arm observe j [] = j"
| "journal_run arm observe j (ev # evs) =
     journal_run arm observe
       (case ev of Arm \<Rightarrow> snd (arm j) | Observe x \<Rightarrow> snd (observe j x)) evs"

lemma journal_run_append:
  "journal_run arm observe j (evs @ evs') = journal_run arm observe (journal_run arm observe j evs) evs'"
  by (induction evs arbitrary: j) simp_all

locale staged_journal =
  fixes arm :: "'j \<Rightarrow> ('e + unit) \<times> 'j"
    and observe :: "'j \<Rightarrow> 'o \<Rightarrow> ('e + unit) \<times> 'j"
    and valid :: "'j \<Rightarrow> bool"
    and matches :: "'j \<Rightarrow> 'o \<Rightarrow> bool"
    and stage :: "'j \<Rightarrow> 's"
    and with_stage :: "'s \<Rightarrow> 'j \<Rightarrow> 'j"
    and prepared armed observed :: 's
  assumes distinct: "prepared \<noteq> armed" "prepared \<noteq> observed" "armed \<noteq> observed"
    and stage_with [simp]: "stage (with_stage st j) = st"
    and with_with [simp]: "with_stage st (with_stage st' j) = with_stage st j"
    and with_stage_self [simp]: "with_stage (stage j) j = j"
    and valid_with [simp]: "valid (with_stage st j) = valid j"
    and matches_with [simp]: "matches (with_stage st j) x = matches j x"
    and arm_error: "fst (arm j) = Inl e \<Longrightarrow> snd (arm j) = j"
    and arm_ok: "fst (arm j) = Inr u \<Longrightarrow> valid j \<and> snd (arm j) = with_stage armed j"
    and observe_error: "fst (observe j x) = Inl e \<Longrightarrow> snd (observe j x) = j"
    and observe_ok: "fst (observe j x) = Inr u \<Longrightarrow>
      valid j \<and> stage j = armed \<and> matches j x \<and> snd (observe j x) = with_stage observed j"
begin

lemma arm_cases: "snd (arm j) = j \<or> valid j \<and> snd (arm j) = with_stage armed j"
  using arm_error [of j] arm_ok [of j] by (cases "fst (arm j)") auto

lemma observe_cases:
  "snd (observe j x) = j
    \<or> valid j \<and> stage j = armed \<and> matches j x \<and> snd (observe j x) = with_stage observed j"
  using observe_error [of j x] observe_ok [of j x] by (cases "fst (observe j x)") auto

text \<open>Only the stage ever changes; an armed journal validated and was armed; an observed one
  was armed before a matching transaction was observed.\<close>

lemma step_only_stage:
  "(case ev of Arm \<Rightarrow> snd (arm j) | Observe x \<Rightarrow> snd (observe j x))
    = with_stage (stage (case ev of Arm \<Rightarrow> snd (arm j) | Observe x \<Rightarrow> snd (observe j x))) j"
proof (cases ev)
  case Arm
  then show ?thesis using arm_cases [of j] by auto
next
  case (Observe x)
  then show ?thesis using observe_cases [of j x] by auto
qed

lemma run_only_stage:
  "journal_run arm observe j evs = with_stage (stage (journal_run arm observe j evs)) j"
proof (induction evs rule: rev_induct)
  case Nil
  then show ?case by simp
next
  case (snoc ev evs)
  from step_only_stage [of "journal_run arm observe j evs" ev] snoc show ?case
    by (simp add: journal_run_append) (metis with_with)
qed

lemma run_stage:
  assumes "stage j = prepared"
  shows "(stage (journal_run arm observe j evs) = prepared)
    \<or> (stage (journal_run arm observe j evs) = armed \<and> valid j \<and> Arm \<in> set evs)
    \<or> (stage (journal_run arm observe j evs) = observed \<and> valid j
        \<and> (\<exists>xs x ys. evs = xs @ Observe x # ys \<and> Arm \<in> set xs \<and> matches j x))"
proof (induction evs rule: rev_induct)
  case Nil
  with assms show ?case by simp
next
  case (snoc ev evs)
  let ?j = "journal_run arm observe j evs"
  from run_only_stage [of j evs] have inv: "valid ?j = valid j" "matches ?j x = matches j x" for x
    by (metis valid_with, metis matches_with)
  show ?case
  proof (cases ev)
    case Arm
    from arm_cases [of ?j] snoc show ?thesis
      by (auto simp: journal_run_append Arm inv) (metis append_Cons append_assoc)+
  next
    case (Observe x)
    from observe_cases [of ?j x] show ?thesis
    proof (elim disjE conjE)
      assume "snd (observe ?j x) = ?j"
      with snoc show ?thesis
        by (auto simp: journal_run_append Observe) (metis append_Cons append_assoc)+
    next
      assume "valid ?j" "stage ?j = armed" "matches ?j x" "snd (observe ?j x) = with_stage observed ?j"
      with snoc show ?thesis
        using distinct by (auto simp: journal_run_append Observe inv)
    qed
  qed
qed

end

end
