(* ===== verification/Funding.thy ===== *)
theory Funding
  imports Validation Staged_Journal
begin

text \<open>
  Funding a coin from the wallet's deposit key, and sweeping the deposit key:
  \<^verbatim>\<open>wallet-core/src/funding.rs\<close>. The journal of a sweep is a small state machine whose
  stage is saved before and after the transaction is submitted.
\<close>

subsection \<open>Data\<close>

record source_utxo =
  su_outpoint :: outpoint
  su_output :: txout
  su_confirmations :: u32
  su_coinbase :: bool

record prepared_source_funding =
  psf_transaction :: transaction
  psf_outpoint :: outpoint
  psf_fee_sat :: u64

record prepared_source_sweep =
  pss_transaction :: transaction
  pss_fee_sat :: u64

definition source_funding_address ::
  "'m wallet_lib_scheme \<Rightarrow> secret_key \<Rightarrow> network_id \<Rightarrow> address" where
  "source_funding_address P secret net =
     (let internal_key = xonly_of P secret;
          hrp = (case net of Mutinynet \<Rightarrow> HrpTestnets | Mainnet \<Rightarrow> HrpMainnet | RegtestId \<Rightarrow> HrpRegtest)
      in p2tr_address P internal_key hrp)"

subsection \<open>Funding\<close>

text \<open>The fee of a transaction at a feerate: \<open>u128::checked_mul\<close>, then \<open>u64::try_from\<close>.\<close>

definition fee_at :: "u64 \<Rightarrow> u64 \<Rightarrow> u64 option" where
  "fee_at rate vbytes =
     Option.bind (checked_mul (ucast rate :: u128) (ucast vbytes)) (\<lambda>fee. try_from_word fee)"

definition funding_transaction_with ::
  "'m wallet_lib_scheme \<Rightarrow> source_utxo \<Rightarrow> script \<Rightarrow> u64 \<Rightarrow> script \<Rightarrow> u64 \<Rightarrow> bytes list \<Rightarrow> transaction" where
  "funding_transaction_with P source statechain_script amount change_script change w =
     \<lparr>version = version_two P, lock_time = lock_time_zero P,
      inputs = [\<lparr>previous_output = su_outpoint source, script_sig = [],
                 sequence = sequence_max P, witness = w\<rparr>],
      outputs = [\<lparr>txout_value = amount, script_pubkey = statechain_script\<rparr>,
                 \<lparr>txout_value = change, script_pubkey = change_script\<rparr>]\<rparr>"

definition build_source_funding ::
  "'m wallet_lib_scheme \<Rightarrow> coin_keys \<Rightarrow> network_id \<Rightarrow> secret_key \<Rightarrow> source_utxo \<Rightarrow> u64 \<Rightarrow> u64 \<Rightarrow> u64
    \<Rightarrow> anyhow + prepared_source_funding" where
  "build_source_funding P keys net source_secret source amount fee_rate max_fee =
     (if su_confirmations source = 0 then Inl (Msg ''funding input is not confirmed'')
      else if su_coinbase source then Inl (Msg ''coinbase funding inputs are not supported'')
      else if outpoint_is_null P (su_outpoint source)
        then Inl (Msg ''funding transaction cannot spend a coinbase input'')
      else if fee_rate = 0 then Inl (Msg ''funding fee rate must be positive'')
      else if max_money P < amount then Inl (Msg ''funding amount exceeds Bitcoin MAX_MONEY'')
      else
        let change_script = address_script P (source_funding_address P source_secret net) in
      if script_pubkey (su_output source) \<noteq> change_script
        then Inl (Msg ''funding input does not belong to the local deposit key'')
      else
        let statechain_script = funding_script P keys in
      if amount < minimal_non_dust P statechain_script
        then Inl (Msg ''Tinylayer funding output would be dust'')
      else
        let template = funding_transaction_with P source statechain_script amount change_script in
      with_context (fee_at fee_rate (vsize P (template 0 [replicate 64 0]))) (Msg ''funding fee overflow'') (\<lambda>fee.
      if max_fee < fee
        then Inl (Fmt ''funding fee {} sat exceeds maximum {} sat'' [unat fee, unat max_fee])
      else with_context (Option.bind (checked_sub (txout_value (su_output source)) amount)
                  (\<lambda>v. checked_sub v fee)) (Msg ''funding input cannot cover amount and fee'') (\<lambda>change.
      if change < minimal_non_dust P change_script
        then Inl (Msg ''funding input does not leave dust-safe change'')
      else with_context (key_spend_sighash P (template change [replicate 64 0]) 0 [su_output source]) (Msg ''compute funding transaction sighash'') (\<lambda>h.
      let tweaked = tap_tweak P source_secret; sg = schnorr_sign P tweaked h in
      if \<not> schnorr_verify P sg h (xonly_of P tweaked)
        then Inl (Msg ''verify funding transaction signature'')
      else
        let t = template change [signature_bytes sg] in
      and_then (validate_funding_inputs P t) (\<lambda>_.
      Inr \<lparr>psf_transaction = t, psf_outpoint = OutPoint (compute_txid P t) 0, psf_fee_sat = fee\<rparr>)))))"

subsection \<open>Sweeping\<close>

definition check_sweep_source ::
  "'m bitcoin_lib_scheme \<Rightarrow> script \<Rightarrow> source_utxo \<Rightarrow> anyhow + unit" where
  "check_sweep_source P expected_script s =
     (if su_confirmations s = 0 then Inl (Msg ''source sweep input is not confirmed'')
      else if su_coinbase s then Inl (Msg ''coinbase source sweep inputs are not supported'')
      else if outpoint_is_null P (su_outpoint s)
        then Inl (Msg ''source sweep cannot spend a coinbase input'')
      else if script_pubkey (su_output s) \<noteq> expected_script
        then Inl (Msg ''source sweep input does not belong to the local deposit key'')
      else Inr ())"

text \<open>\<open>try_fold\<close> with a checked addition.\<close>

fun sum_values :: "u64 \<Rightarrow> source_utxo list \<Rightarrow> anyhow + u64" where
  "sum_values acc [] = Inr acc"
| "sum_values acc (s # ss) =
     (case checked_add acc (txout_value (su_output s)) of
        None \<Rightarrow> Inl (Msg ''source sweep input amount overflow'')
      | Some acc' \<Rightarrow> sum_values acc' ss)"

definition sweep_transaction ::
  "'m wallet_lib_scheme \<Rightarrow> source_utxo list \<Rightarrow> script \<Rightarrow> u64 \<Rightarrow> bytes list \<Rightarrow> transaction" where
  "sweep_transaction P sources script amount items =
     \<lparr>version = version_two P, lock_time = lock_time_zero P,
      inputs = map (\<lambda>(s, item). \<lparr>previous_output = su_outpoint s, script_sig = [],
                                 sequence = sequence_max P, witness = [item]\<rparr>) (zip sources items),
      outputs = [\<lparr>txout_value = amount, script_pubkey = script\<rparr>]\<rparr>"

text \<open>The signatures of all inputs, collected up to the first failure.\<close>

fun sweep_signatures ::
  "'m wallet_lib_scheme \<Rightarrow> transaction \<Rightarrow> txout list \<Rightarrow> secret_key \<Rightarrow> nat list
    \<Rightarrow> anyhow + signature list" where
  "sweep_signatures P t prevouts tweaked [] = Inr []"
| "sweep_signatures P t prevouts tweaked (i # is) =
     (case key_spend_sighash P t i prevouts of
        None \<Rightarrow> Inl (Msg ''compute source sweep sighash'') | Some h \<Rightarrow>
      let sg = schnorr_sign P tweaked h in
      if \<not> schnorr_verify P sg h (xonly_of P tweaked)
        then Inl (Msg ''verify source sweep signature'')
      else case sweep_signatures P t prevouts tweaked is of Inl e \<Rightarrow> Inl e | Inr sgs \<Rightarrow>
      Inr (sg # sgs))"

definition build_source_sweep ::
  "'m wallet_lib_scheme \<Rightarrow> network_id \<Rightarrow> secret_key \<Rightarrow> source_utxo list \<Rightarrow> string \<Rightarrow> u64 \<Rightarrow> u64
    \<Rightarrow> anyhow + prepared_source_sweep" where
  "build_source_sweep P net source_secret sources destination fee_rate max_fee =
     (if sources = [] then Inl (Msg ''source sweep has no inputs'')
      else if 100 < length sources then Inl (Msg ''source sweep exceeds 100 inputs'')
      else if fee_rate = 0 then Inl (Msg ''source sweep fee rate must be positive'')
      else with_context (address_from_str P destination) (Msg ''invalid source sweep destination'') (\<lambda>unchecked.
      with_context (require_network P unchecked (bitcoin_network net)) (Msg ''source sweep destination is for the wrong network'') (\<lambda>dest.
      let expected_script = address_script P (source_funding_address P source_secret net) in
      if address_script P dest = expected_script
        then Inl (Msg ''source sweep destination cannot be the deposit address'')
      else
        let sorted = sort_key su_outpoint sources in
      and_then (try_each (check_sweep_source P expected_script) sorted) (\<lambda>_.
      if \<not> list_all (\<lambda>(a, b). su_outpoint a \<noteq> su_outpoint b) (windows2 sorted)
        then Inl (Msg ''source sweep contains a duplicate input'')
      else and_then (sum_values 0 sorted) (\<lambda>input_sat.
      let template = sweep_transaction P sorted (address_script P dest);
          zeros = replicate (length sorted) (replicate 64 0) in
      with_context (fee_at fee_rate (vsize P (template 0 zeros))) (Msg ''source sweep fee overflow'') (\<lambda>fee.
      if max_fee < fee
        then Inl (Fmt ''source sweep fee {} sat exceeds maximum {} sat'' [unat fee, unat max_fee])
      else with_context (checked_sub input_sat fee) (Msg ''source sweep fee exceeds its inputs'') (\<lambda>output_sat.
      if output_sat < minimal_non_dust P (address_script P dest)
        then Inl (Msg ''source sweep output would be dust'')
      else and_then (sweep_signatures P (template output_sat zeros) (map su_output sorted)
                  (tap_tweak P source_secret) [0..<length sorted]) (\<lambda>sgs.
      let t = template output_sat (map signature_bytes sgs) in
      and_then (validate_funding_inputs P t) (\<lambda>_.
      Inr \<lparr>pss_transaction = t, pss_fee_sat = fee\<rparr>)))))))))"

subsection \<open>The sweep journal\<close>

datatype sweep_stage = SweepPrepared | SweepSubmissionArmed | SweepObserved

record sweep_journal =
  sj_format_version :: u32
  sj_network :: network_id
  sj_destination :: string
  sj_sources :: "source_utxo list"
  sj_fee_rate :: u64
  sj_max_fee :: u64
  sj_fee :: u64
  sj_transaction :: transaction
  sj_stage :: sweep_stage

definition sweep_prepare ::
  "'m wallet_lib_scheme \<Rightarrow> secret_key \<Rightarrow> network_id \<Rightarrow> source_utxo list \<Rightarrow> string \<Rightarrow> u64 \<Rightarrow> u64
    \<Rightarrow> anyhow + sweep_journal" where
  "sweep_prepare P source_secret net sources destination fee_rate max_fee =
     (let sorted = sort_key su_outpoint sources in
      case address_from_str P destination of
        None \<Rightarrow> Inl (Msg ''invalid source sweep destination'') | Some unchecked \<Rightarrow>
      case require_network P unchecked (bitcoin_network net) of
        None \<Rightarrow> Inl (Msg ''source sweep destination is for the wrong network'') | Some dest \<Rightarrow>
      case build_source_sweep P net source_secret sorted (address_string P dest) fee_rate max_fee of
        Inl e \<Rightarrow> Inl e | Inr prepared \<Rightarrow>
      Inr \<lparr>sj_format_version = FILE_FORMAT_VERSION, sj_network = net,
           sj_destination = address_string P dest, sj_sources = sorted, sj_fee_rate = fee_rate,
           sj_max_fee = max_fee, sj_fee = pss_fee_sat prepared,
           sj_transaction = pss_transaction prepared, sj_stage = SweepPrepared\<rparr>)"

definition sweep_validate ::
  "'m wallet_lib_scheme \<Rightarrow> sweep_journal \<Rightarrow> secret_key \<Rightarrow> anyhow + unit" where
  "sweep_validate P j source_secret =
     (if sj_format_version j \<noteq> FILE_FORMAT_VERSION
        then Inl (Fmt ''unsupported source sweep version {}'' [unat (sj_format_version j)])
      else case build_source_sweep P (sj_network j) source_secret (sj_sources j) (sj_destination j)
                  (sj_fee_rate j) (sj_max_fee j) of Inl e \<Rightarrow> Inl e | Inr expected \<Rightarrow>
      if \<not> (pss_fee_sat expected = sj_fee j \<and> pss_transaction expected = sj_transaction j)
        then Inl (Msg ''saved source sweep is not canonical'')
      else Inr ())"

definition sweep_arm_submission ::
  "'m wallet_lib_scheme \<Rightarrow> sweep_journal \<Rightarrow> secret_key \<Rightarrow> (anyhow + unit) \<times> sweep_journal" where
  "sweep_arm_submission P j source_secret =
     (case sweep_validate P j source_secret of Inl e \<Rightarrow> (Inl e, j) | Inr _ \<Rightarrow>
      (Inr (), j\<lparr>sj_stage := SweepSubmissionArmed\<rparr>))"

definition sweep_mark_observed ::
  "'m wallet_lib_scheme \<Rightarrow> sweep_journal \<Rightarrow> secret_key \<Rightarrow> transaction
    \<Rightarrow> (anyhow + unit) \<times> sweep_journal" where
  "sweep_mark_observed P j source_secret observed =
     (case sweep_validate P j source_secret of Inl e \<Rightarrow> (Inl e, j) | Inr _ \<Rightarrow>
      if sj_stage j \<noteq> SweepSubmissionArmed
        then (Inl (Msg ''source sweep was not armed for submission''), j)
      else if observed \<noteq> sj_transaction j
        then (Inl (Msg ''observed source sweep bytes do not match the saved transaction''), j)
      else (Inr (), j\<lparr>sj_stage := SweepObserved\<rparr>))"

subsection \<open>What a funding transaction does\<close>

lemma fee_at_Some: "fee_at rate n = Some fee \<Longrightarrow> unat fee = unat rate * unat n"
  by (auto simp: fee_at_def bind_eq_Some_conv dest!: unat_checked_mul unat_try_from)
    (simp add: unat_ucast_up)

lemma build_source_funding_Inr:
  assumes "build_source_funding P keys net sk source amount rate max_fee = Inr p"
  obtains change h where
    "0 < su_confirmations source" "\<not> su_coinbase source" "\<not> outpoint_is_null P (su_outpoint source)"
    "amount \<le> max_money P"
    "script_pubkey (su_output source) = address_script P (source_funding_address P sk net)"
    "minimal_non_dust P (funding_script P keys) \<le> amount"
    "fee_at rate (vsize P (funding_transaction_with P source (funding_script P keys) amount
      (address_script P (source_funding_address P sk net)) 0 [replicate 64 0])) = Some (psf_fee_sat p)"
    "psf_fee_sat p \<le> max_fee"
    "Option.bind (checked_sub (txout_value (su_output source)) amount)
      (\<lambda>v. checked_sub v (psf_fee_sat p)) = Some change"
    "minimal_non_dust P (address_script P (source_funding_address P sk net)) \<le> change"
    "schnorr_verify P (schnorr_sign P (tap_tweak P sk) h) h (xonly_of P (tap_tweak P sk))"
    "key_spend_sighash P (funding_transaction_with P source (funding_script P keys) amount
      (address_script P (source_funding_address P sk net)) change [replicate 64 0]) 0
      [su_output source] = Some h"
    "psf_transaction p = funding_transaction_with P source (funding_script P keys) amount
      (address_script P (source_funding_address P sk net)) change
      [signature_bytes (schnorr_sign P (tap_tweak P sk) h)]"
    "validate_funding_inputs P (psf_transaction p) = Inr ()"
    "psf_outpoint p = OutPoint (compute_txid P (psf_transaction p)) 0"
proof -
  let ?cs = "address_script P (source_funding_address P sk net)"
  let ?template = "funding_transaction_with P source (funding_script P keys) amount ?cs"
  from assms obtain fee change h where
    1: "su_confirmations source \<noteq> 0" "\<not> su_coinbase source"
      "\<not> outpoint_is_null P (su_outpoint source)" "\<not> max_money P < amount"
      "script_pubkey (su_output source) = ?cs" "\<not> amount < minimal_non_dust P (funding_script P keys)"
    and 2: "fee_at rate (vsize P (?template 0 [replicate 64 0])) = Some fee" "\<not> max_fee < fee"
      "Option.bind (checked_sub (txout_value (su_output source)) amount) (\<lambda>v. checked_sub v fee)
        = Some change" "\<not> change < minimal_non_dust P ?cs"
    and 3: "key_spend_sighash P (?template change [replicate 64 0]) 0 [su_output source] = Some h"
      "schnorr_verify P (schnorr_sign P (tap_tweak P sk) h) h (xonly_of P (tap_tweak P sk))"
      "validate_funding_inputs P
        (?template change [signature_bytes (schnorr_sign P (tap_tweak P sk) h)]) = Inr ()"
    and p: "p = \<lparr>psf_transaction =
        ?template change [signature_bytes (schnorr_sign P (tap_tweak P sk) h)],
      psf_outpoint = OutPoint (compute_txid P
        (?template change [signature_bytes (schnorr_sign P (tap_tweak P sk) h)])) 0,
      psf_fee_sat = fee\<rparr>"
    unfolding build_source_funding_def Let_def ok by auto
  show thesis
    by (rule that [of change h]) (use 1 2 3 in \<open>simp_all add: p not_less word_gt_0\<close>)
qed

text \<open>C31. Funding a coin conserves value and bounds the fee: the deposit equals the coin's
  amount plus the change plus a fee that is exactly the feerate times the virtual size of the
  signed transaction and at most the caller's maximum; the change goes back to the deposit
  script and is not dust; and the only input is the given deposit.\<close>

theorem source_funding_conserves:
  assumes "vsize_by_shape P"
    and "build_source_funding P keys net sk source amount rate max_fee = Inr p"
  shows "\<exists>change. unat (txout_value (su_output source))
        = unat amount + unat change + unat (psf_fee_sat p)
    \<and> unat (psf_fee_sat p) = unat rate * unat (vsize P (psf_transaction p))
    \<and> psf_fee_sat p \<le> max_fee
    \<and> outputs (psf_transaction p) =
        [\<lparr>txout_value = amount, script_pubkey = funding_script P keys\<rparr>,
         \<lparr>txout_value = change, script_pubkey = script_pubkey (su_output source)\<rparr>]
    \<and> minimal_non_dust P (script_pubkey (su_output source)) \<le> change
    \<and> map previous_output (inputs (psf_transaction p)) = [su_outpoint source]"
  using assms(2)
proof (rule build_source_funding_Inr)
  fix change h
  let ?cs = "address_script P (source_funding_address P sk net)"
  let ?template = "funding_transaction_with P source (funding_script P keys) amount ?cs"
  assume *: "script_pubkey (su_output source) = ?cs"
    "fee_at rate (vsize P (?template 0 [replicate 64 0])) = Some (psf_fee_sat p)"
    "psf_fee_sat p \<le> max_fee"
    "Option.bind (checked_sub (txout_value (su_output source)) amount)
      (\<lambda>v. checked_sub v (psf_fee_sat p)) = Some change"
    "minimal_non_dust P ?cs \<le> change"
    "psf_transaction p = ?template change [signature_bytes (schnorr_sign P (tap_tweak P sk) h)]"
  have "same_shape (?template 0 [replicate 64 0]) (psf_transaction p)"
    by (simp add: *(6) same_shape_def funding_transaction_with_def)
  from vsize_by_shapeD [OF assms(1) this] fee_at_Some [OF *(2)]
  have "unat (psf_fee_sat p) = unat rate * unat (vsize P (psf_transaction p))" by simp
  moreover from *(4) have "unat (txout_value (su_output source))
      = unat amount + unat change + unat (psf_fee_sat p)"
    by (auto simp: bind_eq_Some_conv dest!: unat_checked_sub)
  ultimately show ?thesis
    using * by (intro exI [of _ change]) (simp add: funding_transaction_with_def)
qed

text \<open>The funding transaction a wallet builds passes its own final check for the coin
  whose outpoint and amount it reports, provided the coin's script is not the deposit script.\<close>

theorem source_funding_validates:
  assumes "build_source_funding P keys net sk source amount rate max_fee = Inr p"
    and "keys_validate keys = Inr ()"
    and "script_pubkey (su_output source) \<noteq> funding_script P keys"
  shows "validate_finalized_funding P (keys_metadata keys net (psf_outpoint p) amount)
    (psf_transaction p) = Inr ()"
  using assms(1)
proof (rule build_source_funding_Inr)
  fix change h
  let ?cs = "address_script P (source_funding_address P sk net)"
  let ?template = "funding_transaction_with P source (funding_script P keys) amount ?cs"
  assume *: "script_pubkey (su_output source) = ?cs"
    "psf_transaction p = ?template change [signature_bytes (schnorr_sign P (tap_tweak P sk) h)]"
    "validate_funding_inputs P (psf_transaction p) = Inr ()"
    "psf_outpoint p = OutPoint (compute_txid P (psf_transaction p)) 0"
  from *(2) have outs: "outputs (psf_transaction p) =
      [\<lparr>txout_value = amount, script_pubkey = funding_script P keys\<rparr>,
       \<lparr>txout_value = change, script_pubkey = ?cs\<rparr>]"
    by (simp add: funding_transaction_with_def)
  from * assms(2,3) outs show ?thesis
    by (simp add: validate_finalized_funding_def keys_metadata_def nth_opt_def
        verify_funding_utxo_def metadata_validate_def)
qed

subsection \<open>What a sweep does\<close>

lemma sum_values_Inr:
  "sum_values acc ss = Inr r \<Longrightarrow> unat r = unat acc + (\<Sum>s\<leftarrow>ss. unat (txout_value (su_output s)))"
proof (induction ss arbitrary: acc)
  case Nil
  then show ?case by simp
next
  case (Cons s ss)
  then obtain acc' where "checked_add acc (txout_value (su_output s)) = Some acc'"
    "sum_values acc' ss = Inr r" by (auto simp: ok)
  with Cons.IH [of acc'] unat_checked_add show ?case by fastforce
qed

lemma sweep_signatures_length:
  "sweep_signatures P t prevouts k is = Inr sgs \<Longrightarrow> length sgs = length is"
  by (induction "is" arbitrary: sgs) (auto simp: ok Let_def)

lemma check_sweep_source_Inr:
  "check_sweep_source P sc s = Inr u \<longleftrightarrow> 0 < su_confirmations s \<and> \<not> su_coinbase s
    \<and> \<not> outpoint_is_null P (su_outpoint s) \<and> script_pubkey (su_output s) = sc"
  by (auto simp: check_sweep_source_def word_gt_0)

lemma sweep_inputs:
  "length items = length ss \<Longrightarrow>
    map previous_output (inputs (sweep_transaction P ss sc a items)) = map su_outpoint ss"
  by (rule nth_equalityI) (simp_all add: sweep_transaction_def)

lemma sweep_shape:
  assumes "length items = length ss" and "length items' = length ss"
    and "\<forall>x \<in> set items. length x = 64" and "\<forall>x \<in> set items'. length x = 64"
  shows "same_shape (sweep_transaction P ss sc a items) (sweep_transaction P ss sc a' items')"
  using assms
  by (auto simp: same_shape_def sweep_transaction_def set_zip intro!: nth_equalityI)

lemma build_source_sweep_Inr:
  assumes "build_source_sweep P net sk sources destination rate max_fee = Inr p"
  obtains dest sc input_sat out sgs where
    "sc = address_script P (source_funding_address P sk net)" "address_script P dest \<noteq> sc"
    "\<forall>s \<in> set sources. check_sweep_source P sc s = Inr ()"
    "\<forall>(a, b) \<in> set (windows2 (sort_key su_outpoint sources)). su_outpoint a \<noteq> su_outpoint b"
    "sum_values 0 (sort_key su_outpoint sources) = Inr input_sat"
    "fee_at rate (vsize P (sweep_transaction P (sort_key su_outpoint sources) (address_script P dest) 0
       (replicate (length sources) (replicate 64 0)))) = Some (pss_fee_sat p)"
    "pss_fee_sat p \<le> max_fee"
    "checked_sub input_sat (pss_fee_sat p) = Some out"
    "minimal_non_dust P (address_script P dest) \<le> out"
    "length sgs = length sources"
    "pss_transaction p = sweep_transaction P (sort_key su_outpoint sources) (address_script P dest) out
       (map signature_bytes sgs)"
    "validate_funding_inputs P (pss_transaction p) = Inr ()"
    "address_from_str P destination \<noteq> None"
proof -
  let ?sc = "address_script P (source_funding_address P sk net)"
  let ?sorted = "sort_key su_outpoint sources"
  from assms obtain u dest input_sat fee out sgs where
    1: "address_from_str P destination = Some u" "address_script P dest \<noteq> ?sc"
      "\<forall>s \<in> set sources. check_sweep_source P ?sc s = Inr ()"
      "list_all (\<lambda>(a, b). su_outpoint a \<noteq> su_outpoint b) (windows2 ?sorted)"
    and 2: "sum_values 0 ?sorted = Inr input_sat"
      "fee_at rate (vsize P (sweep_transaction P ?sorted (address_script P dest) 0
         (replicate (length sources) (replicate 64 0)))) = Some fee" "\<not> max_fee < fee"
      "checked_sub input_sat fee = Some out" "\<not> out < minimal_non_dust P (address_script P dest)"
    and 3: "sweep_signatures P (sweep_transaction P ?sorted (address_script P dest) out
         (replicate (length sources) (replicate 64 0))) (map su_output ?sorted)
         (tap_tweak P sk) [0..<length sources] = Inr sgs"
      "validate_funding_inputs P (sweep_transaction P ?sorted (address_script P dest) out
         (map signature_bytes sgs)) = Inr ()"
    and p: "p = \<lparr>pss_transaction = sweep_transaction P ?sorted (address_script P dest) out
         (map signature_bytes sgs), pss_fee_sat = fee\<rparr>"
    unfolding build_source_sweep_def Let_def ok try_each_Inr length_sort set_sort by auto
  from sweep_signatures_length [OF 3(1)] have "length sgs = length sources" by simp
  with 1 2 3 p show thesis
    by (intro that [of ?sc dest input_sat out sgs]) (auto simp: not_less list_all_iff)
qed

text \<open>Neighbours of a sorted list that differ make the whole list distinct.\<close>

lemma sorted_neighbours_distinct:
  assumes "\<forall>(a, b) \<in> set (windows2 (sort_key f xs)). f a \<noteq> f b"
  shows "distinct (map f (sort_key f xs))" and "sorted_wrt (<) (map f (sort_key f xs))"
proof -
  let ?ys = "map f (sort_key f xs)"
  have sorted: "sorted ?ys" by simp
  from assms have "\<forall>i. Suc i < length ?ys \<longrightarrow> ?ys ! i \<noteq> ?ys ! Suc i"
    unfolding windows2_all by simp
  with sorted have "\<forall>i. Suc i < length ?ys \<longrightarrow> ?ys ! i < ?ys ! Suc i"
    by (auto simp: order.strict_iff_order sorted_iff_nth_Suc)
  then show strict: "sorted_wrt (<) ?ys"
    by (simp only: sorted_wrt_iff_nth_Suc_transp [OF transp_on_less])
  then show "distinct ?ys" by (simp add: strict_sorted_iff)
qed

text \<open>C30. A sweep spends every given deposit exactly once and loses nothing but the fee: the
  inputs are the given outpoints, in strictly increasing order, all of them confirmed deposits of
  the wallet's own key; the single output and the fee add up to the inputs; the fee is the
  feerate times the virtual size of the signed transaction and within the caller's maximum.\<close>

theorem source_sweep_conserves:
  assumes "vsize_by_shape P"
    and "build_source_sweep P net sk sources destination rate max_fee = Inr p"
  shows "mset (map previous_output (inputs (pss_transaction p))) = mset (map su_outpoint sources)
    \<and> sorted_wrt (<) (map previous_output (inputs (pss_transaction p)))
    \<and> (\<forall>s \<in> set sources. 0 < su_confirmations s \<and> \<not> su_coinbase s \<and> script_pubkey (su_output s)
          = address_script P (source_funding_address P sk net))
    \<and> (\<exists>out sc. outputs (pss_transaction p) = [\<lparr>txout_value = out, script_pubkey = sc\<rparr>]
        \<and> sc \<noteq> address_script P (source_funding_address P sk net) \<and> minimal_non_dust P sc \<le> out
        \<and> (\<Sum>s\<leftarrow>sources. unat (txout_value (su_output s))) = unat out + unat (pss_fee_sat p))
    \<and> unat (pss_fee_sat p) = unat rate * unat (vsize P (pss_transaction p))
    \<and> pss_fee_sat p \<le> max_fee"
  using assms(2)
proof (rule build_source_sweep_Inr)
  fix dest sc input_sat out sgs
  let ?sorted = "sort_key su_outpoint sources"
  assume *: "sc = address_script P (source_funding_address P sk net)" "address_script P dest \<noteq> sc"
    "\<forall>s \<in> set sources. check_sweep_source P sc s = Inr ()"
    "\<forall>(a, b) \<in> set (windows2 ?sorted). su_outpoint a \<noteq> su_outpoint b"
    "sum_values 0 ?sorted = Inr input_sat"
    "fee_at rate (vsize P (sweep_transaction P ?sorted (address_script P dest) 0
       (replicate (length sources) (replicate 64 0)))) = Some (pss_fee_sat p)"
    "pss_fee_sat p \<le> max_fee" "checked_sub input_sat (pss_fee_sat p) = Some out"
    "minimal_non_dust P (address_script P dest) \<le> out" "length sgs = length sources"
    "pss_transaction p = sweep_transaction P ?sorted (address_script P dest) out
       (map signature_bytes sgs)"
  have ins: "map previous_output (inputs (pss_transaction p)) = map su_outpoint ?sorted"
    unfolding *(11) by (rule sweep_inputs) (simp add: *(10))
  have "vsize P (sweep_transaction P ?sorted (address_script P dest) 0
       (replicate (length sources) (replicate 64 0))) = vsize P (pss_transaction p)"
    unfolding *(11) by (rule vsize_by_shapeD [OF assms(1)], rule sweep_shape) (auto simp: *(10))
  with fee_at_Some [OF *(6)]
  have fee: "unat (pss_fee_sat p) = unat rate * unat (vsize P (pss_transaction p))" by simp
  have "(\<Sum>s\<leftarrow>?sorted. unat (txout_value (su_output s)))
      = (\<Sum>s\<leftarrow>sources. unat (txout_value (su_output s)))"
    by (simp flip: sum_mset_sum_list)
  with sum_values_Inr [OF *(5)] unat_checked_sub [OF *(8)]
  have sum: "(\<Sum>s\<leftarrow>sources. unat (txout_value (su_output s))) = unat out + unat (pss_fee_sat p)" by simp
  have "outputs (pss_transaction p) = [\<lparr>txout_value = out, script_pubkey = address_script P dest\<rparr>]"
    by (simp add: *(11) sweep_transaction_def)
  with sum fee *(1-3,7,9) sorted_neighbours_distinct(2) [OF *(4)] show ?thesis
    by (simp add: ins check_sweep_source_Inr)
qed

subsection \<open>The sweep journal\<close>

definition sweep_with_stage :: "sweep_stage \<Rightarrow> sweep_journal \<Rightarrow> sweep_journal" where
  "sweep_with_stage st j = j\<lparr>sj_stage := st\<rparr>"

lemma sweep_arm_keeps: "err_keeps j (sweep_arm_submission P j sk)"
  by (simp add: sweep_arm_submission_def keeps)

lemma sweep_mark_keeps: "err_keeps j (sweep_mark_observed P j sk t)"
  by (simp add: sweep_mark_observed_def keeps)

lemma sweep_validate_stage [simp]:
  "sweep_validate P (j\<lparr>sj_stage := st\<rparr>) sk = sweep_validate P j sk"
  by (simp add: sweep_validate_def split: sum.split)

interpretation sweep_log: staged_journal
  "\<lambda>j. sweep_arm_submission P j sk" "\<lambda>j t. sweep_mark_observed P j sk t"
  "\<lambda>j. sweep_validate P j sk = Inr ()" "\<lambda>j t. t = sj_transaction j" sj_stage sweep_with_stage
  SweepPrepared SweepSubmissionArmed SweepObserved
  for P :: "'m wallet_lib_scheme" and sk :: secret_key
proof (unfold_locales, goal_cases)
  case (9 j e)
  then show ?case using sweep_arm_keeps [of j P sk] by (simp add: err_keeps_def)
next
  case (10 j u)
  then show ?case
    by (simp add: sweep_arm_submission_def sweep_with_stage_def split: sum.splits)
next
  case (11 j x e)
  then show ?case using sweep_mark_keeps [of j P sk x] by (simp add: err_keeps_def)
next
  case (12 j x u)
  then show ?case
    by (simp add: sweep_mark_observed_def sweep_with_stage_def split: sum.splits if_splits)
qed (simp_all add: sweep_with_stage_def)

text \<open>Sorting twice is sorting once, so the saved sources rebuild the saved sweep.\<close>

lemma sort_key_twice: "sort_key f (sort_key f xs) = sort_key f xs"
  by (rule sort_key_id_if_sorted) simp

lemma build_source_sweep_sorted:
  "build_source_sweep P net sk (sort_key su_outpoint sources) destination rate max_fee
    = build_source_sweep P net sk sources destination rate max_fee"
proof -
  have "sort_key su_outpoint sources = [] \<longleftrightarrow> sources = []" by (metis length_0_conv length_sort)
  then show ?thesis by (simp only: build_source_sweep_def sort_key_twice length_sort)
qed

lemma sweep_prepare_Inr:
  assumes "sweep_prepare P sk net sources destination rate max_fee = Inr j"
  shows "sweep_validate P j sk = Inr ()" and "sj_stage j = SweepPrepared"
    and "sj_sources j = sort_key su_outpoint sources"
    and "\<exists>p. build_source_sweep P net sk sources (sj_destination j) rate max_fee = Inr p
      \<and> pss_transaction p = sj_transaction j \<and> pss_fee_sat p = sj_fee j"
  using assms
  by (auto simp: sweep_prepare_def ok Let_def sweep_validate_def build_source_sweep_sorted)

text \<open>C32. A sweep that was prepared validates when it is read back, and whatever arming and
  observing happens afterwards, only its stage changes: if it ends up observed, it was armed
  before, and a transaction equal to the saved one was observed.\<close>

theorem sweep_journal_discipline:
  assumes "sweep_prepare P sk net sources destination rate max_fee = Inr j"
    and "j' = journal_run (\<lambda>j. sweep_arm_submission P j sk)
      (\<lambda>j t. sweep_mark_observed P j sk t) j evs"
  shows "sweep_validate P j' sk = Inr () \<and> j' = j\<lparr>sj_stage := sj_stage j'\<rparr>
    \<and> (sj_stage j' = SweepSubmissionArmed \<longrightarrow> Arm \<in> set evs)
    \<and> (sj_stage j' = SweepObserved \<longrightarrow>
        (\<exists>xs ys. evs = xs @ Observe (sj_transaction j) # ys \<and> Arm \<in> set xs))"
proof -
  note prep = sweep_prepare_Inr [OF assms(1)]
  have j': "j' = j\<lparr>sj_stage := sj_stage j'\<rparr>"
    unfolding assms(2) by (rule sweep_log.run_only_stage [unfolded sweep_with_stage_def])
  have "sweep_validate P j' sk = sweep_validate P j sk"
    by (subst j') (rule sweep_validate_stage)
  with prep(1) have "sweep_validate P j' sk = Inr ()" by simp
  moreover have "(sj_stage j' = SweepSubmissionArmed \<longrightarrow> Arm \<in> set evs)
    \<and> (sj_stage j' = SweepObserved \<longrightarrow>
        (\<exists>xs ys. evs = xs @ Observe (sj_transaction j) # ys \<and> Arm \<in> set xs))"
    using sweep_log.run_stage [OF prep(2), of P sk evs] unfolding assms(2) [symmetric] by auto
  ultimately show ?thesis using j' by blast
qed

subsection \<open>Witnesses\<close>

text \<open>The demonstration instance with addresses: an address is its text, and scripts of
  addresses are their bytes.\<close>

definition demo_wallet :: wallet_lib where
  "demo_wallet = bitcoin_lib.extend demo_bitcoin
     \<lparr>tx_weight = (\<lambda>t. 400),
      address_from_str = (\<lambda>s. if s = [] then None else Some (UncheckedAddress s)),
      require_network = (\<lambda>u n. case u of UncheckedAddress s \<Rightarrow> Some (Address s)),
      address_script = (\<lambda>a. ascii (address_text a)),
      address_string = address_text,
      p2tr_address = (\<lambda>k h. Address ''dep''),
      version_two = 2\<rparr>"

lemmas demo_wallet_simps = demo_wallet_def bitcoin_lib.defs demo_bitcoin_simps

lemma demo_wallet_fields [simp]:
  "xonly_of demo_wallet k = XOnlyKey (secret_bytes k)"
  "schnorr_sign demo_wallet k h = Signature (word_cat (secret_bytes k) h)"
  "schnorr_verify demo_wallet g h pk \<longleftrightarrow> g = Signature (word_cat (xonly_bytes pk) h)"
  "outpoint_is_null demo_wallet op \<longleftrightarrow> op = OutPoint 0 0xffffffff"
  "max_money demo_wallet = 2100000000000000"
  "minimal_non_dust demo_wallet sc = 330"
  "new_p2tr demo_wallet pk = [0x51]"
  "new_p2tr_tweaked demo_wallet tk = [0x51, 0x20]"
  "sequence_from_height demo_wallet n = ucast n"
  "sequence_max demo_wallet = 0xffffffff"
  "sequence_is_rbf demo_wallet sq \<longleftrightarrow> sq < 0xfffffffe"
  "script_spend_sighash demo_wallet t i outs l = Some 9"
  "key_spend_sighash demo_wallet t i outs = Some 9"
  "lock_time_zero demo_wallet = 0"
  "vsize demo_wallet t = 100"
  "compute_txid demo_wallet t = 77"
  "tap_tweak demo_wallet k = k"
  "tx_weight demo_wallet t = 400"
  "address_from_str demo_wallet str = (if str = [] then None else Some (UncheckedAddress str))"
  "require_network demo_wallet (UncheckedAddress str) net = Some (Address str)"
  "address_script demo_wallet a = ascii (address_text a)"
  "address_string demo_wallet a = address_text a"
  "p2tr_address demo_wallet pk hrp = Address ''dep''"
  "version_two demo_wallet = 2"
  by (simp_all add: demo_wallet_simps)

lemma demo_wallet_laws:
  "schnorr_correct demo_wallet" "taproot_correct demo_wallet" "signature_bytes_correct demo_wallet"
  "sighash_ignores_witness demo_wallet" "sighash_defined demo_wallet"
  "height_sequence demo_wallet" "vsize_by_shape demo_wallet" "txid_ignores_witness demo_wallet"
  by (simp_all add: schnorr_correct_def taproot_correct_def tweaked_xonly_def
      signature_bytes_correct_def sighash_ignores_witness_def sighash_defined_def
      height_sequence_def vsize_by_shape_def txid_ignores_witness_def demo_wallet_simps
      signature_bytes_def from_be_bytes_be_bytes)

lemma demo_funding_script [simp]: "funding_script demo_wallet k = [0x51, 0x20]"
  by (simp add: funding_script_def)

definition demo_source :: "u32 \<Rightarrow> source_utxo" where
  "demo_source n = \<lparr>su_outpoint = OutPoint 50 n,
     su_output = \<lparr>txout_value = 200000, script_pubkey = ascii ''dep''\<rparr>,
     su_confirmations = 3, su_coinbase = False\<rparr>"

lemma demo_funding:
  "\<exists>p. build_source_funding demo_wallet demo_keys RegtestId (SecretKey 40) (demo_source 0) 100000 2 500
    = Inr p"
  by (simp add: build_source_funding_def demo_source_def source_funding_address_def Let_def
      funding_transaction_with_def fee_at_def checked_mul_def try_from_word_def checked_sub_def
      validate_funding_inputs_def validate_funding_input_def)

theorem source_funding_conserves_witness:
  "\<exists>p change. build_source_funding demo_wallet demo_keys RegtestId (SecretKey 40) (demo_source 0)
      100000 2 500 = Inr p \<and> (200000 :: nat) = 100000 + unat (change :: u64) + unat (psf_fee_sat p)
    \<and> unat (psf_fee_sat p) = 2 * 100"
proof -
  from demo_funding obtain p where p: "build_source_funding demo_wallet demo_keys RegtestId
    (SecretKey 40) (demo_source 0) 100000 2 500 = Inr p" ..
  from source_funding_conserves [OF demo_wallet_laws(7) p] p show ?thesis
    by (auto simp: demo_source_def)
qed

theorem source_funding_validates_witness:
  "\<exists>p. build_source_funding demo_wallet demo_keys RegtestId (SecretKey 40) (demo_source 0)
      100000 2 500 = Inr p \<and> validate_finalized_funding demo_wallet
      (keys_metadata demo_keys RegtestId (psf_outpoint p) 100000) (psf_transaction p) = Inr ()"
proof -
  from demo_funding obtain p where p: "build_source_funding demo_wallet demo_keys RegtestId
    (SecretKey 40) (demo_source 0) 100000 2 500 = Inr p" ..
  have "keys_validate demo_keys = Inr ()" by (simp add: keys_validate_def PROTOCOL_VERSION_def)
  from source_funding_validates [OF p this] p show ?thesis
    by (intro exI [of _ p]) (simp add: demo_source_def ascii_def)
qed

lemma demo_source_fields [simp]:
  "su_outpoint (demo_source n) = OutPoint 50 n" "su_confirmations (demo_source n) = 3"
  "su_coinbase (demo_source n) = False"
  "su_output (demo_source n) = \<lparr>txout_value = 200000, script_pubkey = ascii ''dep''\<rparr>"
  by (simp_all add: demo_source_def)

lemma demo_sorted:
  "sort_key su_outpoint [demo_source 1, demo_source 0] = [demo_source 0, demo_source 1]"
  by (simp add: less_eq_outpoint_def)

lemma demo_sweep_signatures:
  "sweep_signatures demo_wallet t ps (SecretKey 40) [0..<2]
    = Inr [Signature (word_cat (40 :: bytes32) (9 :: bytes32)),
           Signature (word_cat (40 :: bytes32) (9 :: bytes32))]"
  by (simp add: Let_def upt_rec)

lemma demo_sweep_valid:
  "validate_funding_inputs demo_wallet
    (sweep_transaction demo_wallet [demo_source 0, demo_source 1] sc a [x, y]) = Inr ()"
  by (simp add: validate_funding_inputs_def validate_funding_input_def sweep_transaction_def)

lemma demo_script_differs: "ascii ''out'' \<noteq> ascii ''dep''"
  by (simp add: ascii_def)

lemma demo_sweep_checks:
  "try_each (check_sweep_source demo_wallet (ascii ''dep'')) [demo_source 0, demo_source 1] = Inr ()"
  "list_all (\<lambda>(a, b). su_outpoint a \<noteq> su_outpoint b) (windows2 [demo_source 0, demo_source 1])"
  "sum_values 0 [demo_source 0, demo_source 1] = Inr 400000"
  "fee_at 2 100 = Some 200"
  by (simp_all add: check_sweep_source_def windows2_def checked_add_def fee_at_def checked_mul_def
      try_from_word_def)

lemma demo_build_sweep:
  "\<exists>p. build_source_sweep demo_wallet RegtestId (SecretKey 40) [demo_source 1, demo_source 0]
    ''out'' 2 500 = Inr p"
  using demo_script_differs
  by (simp add: build_source_sweep_def demo_sorted source_funding_address_def Let_def
      demo_sweep_checks demo_sweep_signatures demo_sweep_valid checked_sub_def
      numeral_2_eq_2 [symmetric] 
      del: sort_key_simps sweep_signatures.simps try_each.simps sum_values.simps)

lemma demo_sweep:
  "\<exists>j. sweep_prepare demo_wallet (SecretKey 40) RegtestId [demo_source 1, demo_source 0] ''out'' 2 500
    = Inr j"
  using demo_build_sweep
  by (auto simp: sweep_prepare_def build_source_sweep_sorted Let_def simp del: sort_key_simps)

lemma demo_sweep_destination:
  "sweep_prepare demo_wallet sk net ss ''out'' r m = Inr j \<Longrightarrow> sj_destination j = ''out''"
  by (auto simp: sweep_prepare_def ok Let_def)

theorem source_sweep_conserves_witness:
  "\<exists>p out. build_source_sweep demo_wallet RegtestId (SecretKey 40) [demo_source 1, demo_source 0]
      ''out'' 2 500 = Inr p \<and> (400000 :: nat) = unat (out :: u64) + unat (pss_fee_sat p)
    \<and> unat (pss_fee_sat p) = 200"
proof -
  from demo_sweep obtain j where "sweep_prepare demo_wallet (SecretKey 40) RegtestId
    [demo_source 1, demo_source 0] ''out'' 2 500 = Inr j" ..
  from sweep_prepare_Inr(4) [OF this] demo_sweep_destination [OF this] obtain p where
    p: "build_source_sweep demo_wallet RegtestId (SecretKey 40) [demo_source 1, demo_source 0]
      ''out'' 2 500 = Inr p" by auto
  from source_sweep_conserves [OF demo_wallet_laws(7) p] p show ?thesis
    by (auto simp: demo_source_def)
qed

theorem sweep_journal_discipline_witness:
  "\<exists>j. sweep_prepare demo_wallet (SecretKey 40) RegtestId [demo_source 1, demo_source 0] ''out'' 2 500
      = Inr j
    \<and> sweep_validate demo_wallet (journal_run (\<lambda>j. sweep_arm_submission demo_wallet j (SecretKey 40))
      (\<lambda>j t. sweep_mark_observed demo_wallet j (SecretKey 40) t) j [Arm, Observe (sj_transaction j)])
      (SecretKey 40) = Inr ()"
proof -
  from demo_sweep obtain j where j: "sweep_prepare demo_wallet (SecretKey 40) RegtestId
    [demo_source 1, demo_source 0] ''out'' 2 500 = Inr j" ..
  from sweep_journal_discipline [OF j refl, of "[Arm, Observe (sj_transaction j)]"] j
  show ?thesis by blast
qed

end
