(* ===== verification/Transfers.thy ===== *)
theory Transfers
  imports Funding
begin

text \<open>
  Transfer requests, envelopes and payloads: \<^verbatim>\<open>wallet-core/src/transfer.rs\<close>. The
  receiver publishes a request; the sender encrypts the coin's secrets to the request's
  transport key, bound to every field of the request.
\<close>

subsection \<open>Data\<close>

definition TRANSFER_INFO :: bytes where
  "TRANSFER_INFO = ascii ''Tinylayer/TransferPackage/v1''"

definition TRANSFER_ENVELOPE_FINGERPRINT :: bytes where
  "TRANSFER_ENVELOPE_FINGERPRINT = ascii ''Tinylayer/TransferEnvelopeFingerprint/v1''"

definition MAX_TRANSFER_CIPHERTEXT_SIZE :: nat where
  "MAX_TRANSFER_CIPHERTEXT_SIZE = 8 * 1024 * 1024 - 4096"

record transfer_request =
  tr_format_version :: u32
  tr_protocol_version :: u32
  tr_request_id :: string
  tr_coin_id :: string
  tr_network :: network_id
  tr_outpoint :: string
  tr_expected_amount_sat :: u64
  tr_withdrawal_xonly_pubkey :: string
  tr_next_capability_hash :: string
  tr_transport_public_key :: string
  tr_min_reaction_blocks :: u32

record transfer_envelope =
  te_format_version :: u32
  te_request_id :: string
  te_ephemeral_public_key :: string
  te_nonce :: string
  te_ciphertext :: string

record transfer_payload =
  tp_format_version :: u32
  tp_protocol_version :: u32
  tp_request_id :: bytes32
  tp_client_secret :: secret_key
  tp_current_handoff :: handoff_token
  tp_metadata :: coin_metadata
  tp_history :: "signed_recovery list"

definition payload_keys :: "transfer_payload \<Rightarrow> coin_keys list" where
  "payload_keys p = [md_keys (tp_metadata p)]"

text \<open>The packages this module adds: \<open>hex\<close>, the text forms of keys and outpoints, ECDH, HKDF,
  XChaCha20-Poly1305, and the JSON form of a payload (its parser with \<open>CoinKeysWire\<close> in the
  place of \<open>CoinKeys\<close>, see \<open>deserialize\<close>).\<close>

record transfer_lib = wallet_lib +
  hex_encode :: "bytes \<Rightarrow> string"
  hex_decode :: "string \<Rightarrow> bytes option"
  outpoint_to_string :: "outpoint \<Rightarrow> string"
  outpoint_parse :: "string \<Rightarrow> outpoint option"
  xonly_to_string :: "xonly_key \<Rightarrow> string"
  xonly_from_str :: "string \<Rightarrow> xonly_key option"
  public_to_string :: "public_key \<Rightarrow> string"
  public_from_str :: "string \<Rightarrow> public_key option"
  public_of :: "secret_key \<Rightarrow> public_key"
  secret_from_slice :: "bytes32 \<Rightarrow> secret_key option"
  txid_serialize :: "txid \<Rightarrow> bytes"
  ecdh :: "public_key \<Rightarrow> secret_key \<Rightarrow> bytes32"
  hkdf_expand :: "bytes32 \<Rightarrow> bytes32 \<Rightarrow> bytes \<Rightarrow> bytes32 option"
  aead_key_ok :: "bytes32 \<Rightarrow> bool"
  aead_encrypt :: "bytes32 \<Rightarrow> bytes \<Rightarrow> bytes \<Rightarrow> bytes \<Rightarrow> bytes option"
  aead_decrypt :: "bytes32 \<Rightarrow> bytes \<Rightarrow> bytes \<Rightarrow> bytes \<Rightarrow> bytes option"
  payload_to_vec :: "transfer_payload \<Rightarrow> bytes option"
  payload_from_slice :: "bytes \<Rightarrow> transfer_payload option"

subsection \<open>Requests\<close>

definition parse_hex32 :: "'m transfer_lib_scheme \<Rightarrow> string \<Rightarrow> string \<Rightarrow> anyhow + bytes32" where
  "parse_hex32 P label str =
     (case hex_decode P str of None \<Rightarrow> Inl (Msg (''invalid '' @ label @ '' hex'')) | Some bs \<Rightarrow>
      if length bs \<noteq> 32
        then Inl (Fmt (''invalid '' @ label @ '' length: expected 32 bytes, got {}'') [length bs])
      else Inr (from_be_bytes bs))"

definition new_transfer_request ::
  "'m transfer_lib_scheme \<Rightarrow> bytes32 \<Rightarrow> coin_id \<Rightarrow> network_id \<Rightarrow> outpoint \<Rightarrow> u64 \<Rightarrow> xonly_key
    \<Rightarrow> bytes32 \<Rightarrow> public_key \<Rightarrow> u32 \<Rightarrow> transfer_request" where
  "new_transfer_request P rid cid net op amount wk nch tk reaction =
     \<lparr>tr_format_version = FILE_FORMAT_VERSION,
      tr_protocol_version = PROTOCOL_VERSION,
      tr_request_id = hex_encode P (be_bytes rid),
      tr_coin_id = hex_encode P (be_bytes cid),
      tr_network = net,
      tr_outpoint = outpoint_to_string P op,
      tr_expected_amount_sat = amount,
      tr_withdrawal_xonly_pubkey = xonly_to_string P wk,
      tr_next_capability_hash = hex_encode P (be_bytes nch),
      tr_transport_public_key = public_to_string P tk,
      tr_min_reaction_blocks = reaction\<rparr>"

definition request_id_of :: "'m transfer_lib_scheme \<Rightarrow> transfer_request \<Rightarrow> anyhow + bytes32" where
  "request_id_of P r = parse_hex32 P ''request ID'' (tr_request_id r)"

definition request_coin_id :: "'m transfer_lib_scheme \<Rightarrow> transfer_request \<Rightarrow> anyhow + bytes32" where
  "request_coin_id P r = parse_hex32 P ''coin ID'' (tr_coin_id r)"

definition request_outpoint :: "'m transfer_lib_scheme \<Rightarrow> transfer_request \<Rightarrow> anyhow + outpoint" where
  "request_outpoint P r =
     (case outpoint_parse P (tr_outpoint r) of
        None \<Rightarrow> Inl (Msg ''invalid transfer request outpoint'') | Some op \<Rightarrow> Inr op)"

definition request_withdrawal_key ::
  "'m transfer_lib_scheme \<Rightarrow> transfer_request \<Rightarrow> anyhow + xonly_key" where
  "request_withdrawal_key P r =
     (case xonly_from_str P (tr_withdrawal_xonly_pubkey r) of
        None \<Rightarrow> Inl (Msg ''invalid transfer request withdrawal key'') | Some k \<Rightarrow> Inr k)"

definition request_next_capability_hash ::
  "'m transfer_lib_scheme \<Rightarrow> transfer_request \<Rightarrow> anyhow + bytes32" where
  "request_next_capability_hash P r =
     parse_hex32 P ''next capability hash'' (tr_next_capability_hash r)"

definition request_transport_key ::
  "'m transfer_lib_scheme \<Rightarrow> transfer_request \<Rightarrow> anyhow + public_key" where
  "request_transport_key P r =
     (case public_from_str P (tr_transport_public_key r) of
        None \<Rightarrow> Inl (Msg ''invalid transfer request transport key'') | Some k \<Rightarrow> Inr k)"

definition request_validate :: "'m transfer_lib_scheme \<Rightarrow> transfer_request \<Rightarrow> anyhow + unit" where
  "request_validate P r =
     (if tr_format_version r \<noteq> FILE_FORMAT_VERSION
        then Inl (Fmt ''unsupported transfer request version {}'' [unat (tr_format_version r)])
      else if tr_protocol_version r \<noteq> PROTOCOL_VERSION
        then Inl (Msg ''transfer protocol version mismatch'')
      else and_then (request_id_of P r) (\<lambda>rid.
      and_then (request_coin_id P r) (\<lambda>cid.
      if \<not> (tr_request_id r = hex_encode P (be_bytes rid) \<and> tr_coin_id r = hex_encode P (be_bytes cid))
        then Inl (Msg ''transfer request IDs must use canonical lowercase hex'')
      else and_then (request_outpoint P r) (\<lambda>op.
      if outpoint_is_null P op then Inl (Msg ''transfer outpoint cannot be null'')
      else if tr_outpoint r \<noteq> outpoint_to_string P op
        then Inl (Msg ''transfer outpoint must use canonical txid:vout encoding'')
      else if max_money P < tr_expected_amount_sat r
        then Inl (Msg ''transfer request amount exceeds Bitcoin MAX_MONEY'')
      else and_then (request_withdrawal_key P r) (\<lambda>wk.
      and_then (request_next_capability_hash P r) (\<lambda>nch.
      and_then (request_transport_key P r) (\<lambda>tk.
      if \<not> (tr_withdrawal_xonly_pubkey r = xonly_to_string P wk
            \<and> tr_next_capability_hash r = hex_encode P (be_bytes nch)
            \<and> tr_transport_public_key r = public_to_string P tk)
        then Inl (Msg ''transfer request keys must use canonical lowercase encodings'')
      else Inr ())))))))"

definition request_aad :: "'m transfer_lib_scheme \<Rightarrow> transfer_request \<Rightarrow> anyhow + bytes" where
  "request_aad P r =
     (and_then (request_validate P r) (\<lambda>_.
      and_then (request_outpoint P r) (\<lambda>op.
      and_then (request_id_of P r) (\<lambda>rid.
      and_then (request_coin_id P r) (\<lambda>cid.
      and_then (request_withdrawal_key P r) (\<lambda>wk.
      and_then (request_next_capability_hash P r) (\<lambda>nch.
      and_then (request_transport_key P r) (\<lambda>tk.
      Inr (TRANSFER_INFO
           @ be_bytes (tr_protocol_version r)
           @ be_bytes rid
           @ be_bytes cid
           @ [network_byte (tr_network r)]
           @ txid_serialize P (op_txid op)
           @ be_bytes (op_vout op)
           @ be_bytes (tr_expected_amount_sat r)
           @ be_bytes (xonly_bytes wk)
           @ be_bytes nch
           @ be_bytes (public_bytes tk)
           @ be_bytes (tr_min_reaction_blocks r))))))))))"

subsection \<open>Envelopes\<close>

text \<open>The bytes that the hash of \<open>fingerprint\<close> consumes: each string after its length.\<close>

definition length_prefixed :: "string \<Rightarrow> bytes" where
  "length_prefixed str = be_bytes (of_nat (length str) :: u64) @ ascii str"

definition fingerprint_preimage :: "transfer_envelope \<Rightarrow> bytes" where
  "fingerprint_preimage e =
     TRANSFER_ENVELOPE_FINGERPRINT @ be_bytes (te_format_version e)
     @ length_prefixed (te_request_id e) @ length_prefixed (te_ephemeral_public_key e)
     @ length_prefixed (te_nonce e) @ length_prefixed (te_ciphertext e)"

definition fingerprint :: "'m secp_scheme \<Rightarrow> transfer_envelope \<Rightarrow> bytes32" where
  "fingerprint P e = sha256 P (fingerprint_preimage e)"

definition payload_validate :: "transfer_payload \<Rightarrow> anyhow + unit" where
  "payload_validate p =
     (if tp_format_version p \<noteq> FILE_FORMAT_VERSION
        then Inl (Fmt ''unsupported transfer payload version {}'' [unat (tp_format_version p)])
      else if tp_protocol_version p \<noteq> PROTOCOL_VERSION
        then Inl (Msg ''transfer protocol version mismatch'')
      else Inr ())"

definition payload_validate_expected_amount ::
  "transfer_payload \<Rightarrow> transfer_request \<Rightarrow> anyhow + unit" where
  "payload_validate_expected_amount p r =
     (if md_amount_sat (tp_metadata p) \<noteq> tr_expected_amount_sat r
        then Inl (Msg ''transfer amount mismatch'')
      else Inr ())"

text \<open>A \<open>usize\<close> is 64 bits; the addition is checked.\<close>

definition validate_transfer_plaintext_size :: "nat \<Rightarrow> anyhow + unit" where
  "validate_transfer_plaintext_size n =
     (if \<not> (n + 16 < 2 ^ 64 \<and> n + 16 \<le> MAX_TRANSFER_CIPHERTEXT_SIZE)
        then Inl (Msg ''transfer package exceeds 8 MiB ciphertext limit'')
      else Inr ())"

definition validate_transfer_payload_size ::
  "'m transfer_lib_scheme \<Rightarrow> transfer_payload \<Rightarrow> anyhow + unit" where
  "validate_transfer_payload_size P p =
     (case payload_to_vec P p of None \<Rightarrow> Inl (Msg ''serde_json'') | Some bs \<Rightarrow>
      validate_transfer_plaintext_size (length bs))"

text \<open>\<open>random_secret_key\<close> draws until a draw is a valid key; the draws are an argument.\<close>

fun random_secret_key :: "'m transfer_lib_scheme \<Rightarrow> bytes32 list \<Rightarrow> secret_key option" where
  "random_secret_key P [] = None"
| "random_secret_key P (d # ds) =
     (case secret_from_slice P d of Some sk \<Rightarrow> Some sk | None \<Rightarrow> random_secret_key P ds)"

definition secret_xonly :: "'m secp_scheme \<Rightarrow> secret_key \<Rightarrow> xonly_key" where
  "secret_xonly P sk = xonly_of P sk"

definition transfer_key ::
  "'m transfer_lib_scheme \<Rightarrow> bytes32 \<Rightarrow> bytes32 \<Rightarrow> anyhow + bytes32" where
  "transfer_key P shared rid =
     (case hkdf_expand P rid shared TRANSFER_INFO of
        None \<Rightarrow> Inl (Msg ''failed to derive transfer encryption key'') | Some k \<Rightarrow> Inr k)"

type_synonym nonce24 = "192 word"

definition encrypt_transfer_with_material ::
  "'m transfer_lib_scheme \<Rightarrow> transfer_request \<Rightarrow> transfer_payload \<Rightarrow> secret_key \<Rightarrow> nonce24
    \<Rightarrow> anyhow + transfer_envelope" where
  "encrypt_transfer_with_material P r p ephemeral nonce =
     (and_then (request_validate P r) (\<lambda>_.
      and_then (payload_validate p) (\<lambda>_.
      and_then (request_id_of P r) (\<lambda>rid.
      if tp_request_id p \<noteq> rid then Inl (Msg ''transfer request mismatch'')
      else and_then (request_transport_key P r) (\<lambda>tk.
      and_then (transfer_key P (ecdh P tk ephemeral) (tp_request_id p)) (\<lambda>key.
      if \<not> aead_key_ok P key then Inl (Msg ''invalid transfer encryption key'')
      else with_context (payload_to_vec P p) (Msg ''serde_json'') (\<lambda>plaintext.
      and_then (validate_transfer_plaintext_size (length plaintext)) (\<lambda>_.
      and_then (request_aad P r) (\<lambda>aad.
      with_context (aead_encrypt P key (be_bytes nonce) aad plaintext) (Msg ''failed to encrypt transfer package'') (\<lambda>ciphertext.
      Inr \<lparr>te_format_version = FILE_FORMAT_VERSION,
           te_request_id = tr_request_id r,
           te_ephemeral_public_key = public_to_string P (public_of P ephemeral),
           te_nonce = hex_encode P (be_bytes nonce),
           te_ciphertext = hex_encode P ciphertext\<rparr>))))))))))"

text \<open>\<open>encrypt_transfer\<close>: the material is drawn at random.\<close>

record transfer_material =
  mat_ephemeral :: secret_key
  mat_nonce :: nonce24

definition encrypt_transfer ::
  "'m transfer_lib_scheme \<Rightarrow> transfer_material \<Rightarrow> transfer_request \<Rightarrow> transfer_payload
    \<Rightarrow> anyhow + transfer_envelope" where
  "encrypt_transfer P mat r p =
     encrypt_transfer_with_material P r p (mat_ephemeral mat) (mat_nonce mat)"

definition decrypt_transfer ::
  "'m transfer_lib_scheme \<Rightarrow> transfer_request \<Rightarrow> bytes32 \<Rightarrow> transfer_envelope
    \<Rightarrow> anyhow + transfer_payload" where
  "decrypt_transfer P r transport_secret env =
     (and_then (request_validate P r) (\<lambda>_.
      if te_format_version env \<noteq> FILE_FORMAT_VERSION
        then Inl (Fmt ''unsupported transfer package version {}'' [unat (te_format_version env)])
      else if te_request_id env \<noteq> tr_request_id r then Inl (Msg ''transfer request mismatch'')
      else with_context (public_from_str P (te_ephemeral_public_key env)) (Msg ''invalid transfer package ephemeral key'') (\<lambda>ephemeral.
      with_context (secret_from_slice P transport_secret) (Msg ''invalid saved transport key'') (\<lambda>ts.
      and_then (request_id_of P r) (\<lambda>rid.
      and_then (transfer_key P (ecdh P ephemeral ts) rid) (\<lambda>key.
      if \<not> aead_key_ok P key then Inl (Msg ''invalid transfer decryption key'')
      else with_context (hex_decode P (te_nonce env)) (Msg ''invalid transfer package nonce'') (\<lambda>nonce.
      if length nonce \<noteq> 24 then Inl (Msg ''invalid transfer package nonce length'')
      else if MAX_TRANSFER_CIPHERTEXT_SIZE * 2 < length (te_ciphertext env)
        then Inl (Msg ''transfer package exceeds 8 MiB ciphertext limit'')
      else with_context (hex_decode P (te_ciphertext env)) (Msg ''invalid transfer package ciphertext'') (\<lambda>ciphertext.
      and_then (request_aad P r) (\<lambda>aad.
      with_context (aead_decrypt P key nonce aad ciphertext) (Msg ''transfer package authentication failed'') (\<lambda>plaintext.
      with_context (deserialize payload_keys (payload_from_slice P) plaintext)
        (Msg ''invalid transfer package payload'') (\<lambda>p.
      and_then (payload_validate p) (\<lambda>_.
      if tp_request_id p \<noteq> rid then Inl (Msg ''transfer request mismatch'')
      else Inr p))))))))))))"

subsection \<open>Documented behaviour\<close>

definition hex_correct :: "'m transfer_lib_scheme \<Rightarrow> bool" where
  "hex_correct P \<longleftrightarrow> (\<forall>b. hex_decode P (hex_encode P b) = Some b
     \<and> length (hex_encode P b) = 2 * length b)"

definition text_forms_correct :: "'m transfer_lib_scheme \<Rightarrow> bool" where
  "text_forms_correct P \<longleftrightarrow>
     (\<forall>op. outpoint_parse P (outpoint_to_string P op) = Some op)
     \<and> (\<forall>k. xonly_from_str P (xonly_to_string P k) = Some k)
     \<and> (\<forall>k. public_from_str P (public_to_string P k) = Some k)"

definition txid_bytes_correct :: "'m transfer_lib_scheme \<Rightarrow> bool" where
  "txid_bytes_correct P \<longleftrightarrow> (\<forall>t. length (txid_serialize P t) = 32) \<and> inj (txid_serialize P)"

definition aead_correct :: "'m transfer_lib_scheme \<Rightarrow> bool" where
  "aead_correct P \<longleftrightarrow> (\<forall>k. aead_key_ok P k)
     \<and> (\<forall>k n aad m c. aead_encrypt P k n aad m = Some c \<longrightarrow>
          aead_decrypt P k n aad c = Some m \<and> length c = length m + 16)"

text \<open>A payload reads back from its JSON form, by the parser with \<open>CoinKeysWire\<close>.\<close>

definition payload_json_correct :: "'m transfer_lib_scheme \<Rightarrow> bool" where
  "payload_json_correct P \<longleftrightarrow>
     (\<forall>p b. payload_to_vec P p = Some b \<longrightarrow> payload_from_slice P b = Some p)"

definition ecdh_correct :: "'m transfer_lib_scheme \<Rightarrow> bool" where
  "ecdh_correct P \<longleftrightarrow> (\<forall>a b. ecdh P (public_of P a) b = ecdh P (public_of P b) a)"

subsection \<open>Canonical requests\<close>

lemma request_validate_canonical:
  assumes "request_validate P r = Inr ()"
  obtains rid cid op wk nch tk where
    "r = new_transfer_request P rid cid (tr_network r) op (tr_expected_amount_sat r) wk nch tk
      (tr_min_reaction_blocks r)"
    "request_id_of P r = Inr rid" "request_coin_id P r = Inr cid" "request_outpoint P r = Inr op"
    "request_withdrawal_key P r = Inr wk" "request_next_capability_hash P r = Inr nch"
    "request_transport_key P r = Inr tk" "\<not> outpoint_is_null P op"
    "tr_expected_amount_sat r \<le> max_money P"
proof -
  from assms obtain rid cid op wk nch tk where
    "tr_format_version r = FILE_FORMAT_VERSION" "tr_protocol_version r = PROTOCOL_VERSION"
    "request_id_of P r = Inr rid" "request_coin_id P r = Inr cid"
    "tr_request_id r = hex_encode P (be_bytes rid)" "tr_coin_id r = hex_encode P (be_bytes cid)"
    "request_outpoint P r = Inr op" "\<not> outpoint_is_null P op"
    "tr_outpoint r = outpoint_to_string P op" "\<not> max_money P < tr_expected_amount_sat r"
    "request_withdrawal_key P r = Inr wk" "request_next_capability_hash P r = Inr nch"
    "request_transport_key P r = Inr tk" "tr_withdrawal_xonly_pubkey r = xonly_to_string P wk"
    "tr_next_capability_hash r = hex_encode P (be_bytes nch)"
    "tr_transport_public_key r = public_to_string P tk"
    unfolding request_validate_def ok by auto
  then show thesis
    by (intro that [of rid cid op wk nch tk])
      (auto simp: new_transfer_request_def not_less intro!: transfer_request.equality)
qed

lemma parse_hex32_encode:
  "hex_correct P \<Longrightarrow> parse_hex32 P label (hex_encode P (be_bytes (w :: bytes32))) = Inr w"
  by (simp add: parse_hex32_def hex_correct_def from_be_bytes_be_bytes)

lemma new_request_reads_back:
  assumes "hex_correct P" and "text_forms_correct P" and "\<not> outpoint_is_null P op"
    and "amount \<le> max_money P"
    and "r = new_transfer_request P rid cid net op amount wk nch tk reaction"
  shows "request_validate P r = Inr () \<and> request_id_of P r = Inr rid \<and> request_coin_id P r = Inr cid
    \<and> request_outpoint P r = Inr op \<and> request_withdrawal_key P r = Inr wk
    \<and> request_next_capability_hash P r = Inr nch \<and> request_transport_key P r = Inr tk
    \<and> (\<forall>r'. request_validate P r' = Inr () \<and> request_id_of P r' = Inr rid
        \<and> request_coin_id P r' = Inr cid \<and> request_outpoint P r' = Inr op
        \<and> request_withdrawal_key P r' = Inr wk \<and> request_next_capability_hash P r' = Inr nch
        \<and> request_transport_key P r' = Inr tk \<and> tr_network r' = net
        \<and> tr_expected_amount_sat r' = amount \<and> tr_min_reaction_blocks r' = reaction \<longrightarrow> r' = r)"
proof -
  note hex = parse_hex32_encode [OF assms(1)]
  from assms(2) have forms: "outpoint_parse P (outpoint_to_string P op) = Some op"
    "xonly_from_str P (xonly_to_string P wk) = Some wk"
    "public_from_str P (public_to_string P tk) = Some tk"
    by (simp_all add: text_forms_correct_def)
  have fields: "request_id_of P r = Inr rid" "request_coin_id P r = Inr cid"
    "request_outpoint P r = Inr op" "request_withdrawal_key P r = Inr wk"
    "request_next_capability_hash P r = Inr nch" "request_transport_key P r = Inr tk"
    by (simp_all add: assms(5) new_transfer_request_def request_id_of_def request_coin_id_def
        request_outpoint_def request_withdrawal_key_def request_next_capability_hash_def
        request_transport_key_def hex forms)
  then have "request_validate P r = Inr ()"
    using assms(3,4) by (simp add: request_validate_def) (simp add: assms(5) new_transfer_request_def)
  moreover have "r' = r" if "request_validate P r' = Inr ()" "request_id_of P r' = Inr rid"
    "request_coin_id P r' = Inr cid" "request_outpoint P r' = Inr op"
    "request_withdrawal_key P r' = Inr wk" "request_next_capability_hash P r' = Inr nch"
    "request_transport_key P r' = Inr tk" "tr_network r' = net"
    "tr_expected_amount_sat r' = amount" "tr_min_reaction_blocks r' = reaction" for r'
    using that(1)
    by (rule request_validate_canonical) (use that(2-) in \<open>simp add: assms(5)\<close>)
  ultimately show ?thesis using fields by blast
qed

text \<open>C34. A request built from values validates and reads back as those values, provided the
  outpoint is not null and the amount is at most \<open>MAX_MONEY\<close>; and every request that validates
  is the one built from the values it reads as, so no two spellings of a request validate.\<close>

theorem request_canonical:
  assumes "hex_correct P" and "text_forms_correct P" and "\<not> outpoint_is_null P op"
    and "amount \<le> max_money P"
    and "r = new_transfer_request P rid cid net op amount wk nch tk reaction"
  shows "request_validate P r = Inr () \<and> request_id_of P r = Inr rid \<and> request_coin_id P r = Inr cid
    \<and> request_outpoint P r = Inr op \<and> request_withdrawal_key P r = Inr wk
    \<and> request_next_capability_hash P r = Inr nch \<and> request_transport_key P r = Inr tk
    \<and> (\<forall>r'. request_validate P r' = Inr () \<and> request_id_of P r' = Inr rid
        \<and> request_coin_id P r' = Inr cid \<and> request_outpoint P r' = Inr op
        \<and> request_withdrawal_key P r' = Inr wk \<and> request_next_capability_hash P r' = Inr nch
        \<and> request_transport_key P r' = Inr tk \<and> tr_network r' = net
        \<and> tr_expected_amount_sat r' = amount \<and> tr_min_reaction_blocks r' = reaction \<longrightarrow> r' = r)"
  by (rule new_request_reads_back [OF assms])

subsection \<open>The associated data binds the request\<close>

interpretation fw_b33: fixed_width "be_bytes :: 264 word \<Rightarrow> bytes" 33
  by unfold_locales (auto intro: be_bytes_inj)

lemma network_byte_inj: "network_byte a = network_byte b \<Longrightarrow> a = b"
  by (cases a; cases b) (simp_all add: network_byte_def)

lemma request_aad_Inr:
  assumes "request_aad P r = Inr a"
  obtains rid cid op wk nch tk where
    "r = new_transfer_request P rid cid (tr_network r) op (tr_expected_amount_sat r) wk nch tk
      (tr_min_reaction_blocks r)"
    "a = TRANSFER_INFO @ be_bytes (tr_protocol_version r) @ be_bytes rid @ be_bytes cid
      @ [network_byte (tr_network r)] @ txid_serialize P (op_txid op) @ be_bytes (op_vout op)
      @ be_bytes (tr_expected_amount_sat r) @ be_bytes (xonly_bytes wk) @ be_bytes nch
      @ be_bytes (public_bytes tk) @ be_bytes (tr_min_reaction_blocks r)"
proof -
  from assms have "request_validate P r = Inr ()" by (auto simp: request_aad_def ok)
  then show thesis
  proof (rule request_validate_canonical)
    fix rid cid op wk nch tk
    assume *: "r = new_transfer_request P rid cid (tr_network r) op (tr_expected_amount_sat r) wk nch
        tk (tr_min_reaction_blocks r)"
      and "request_id_of P r = Inr rid" "request_coin_id P r = Inr cid" "request_outpoint P r = Inr op"
        "request_withdrawal_key P r = Inr wk" "request_next_capability_hash P r = Inr nch"
        "request_transport_key P r = Inr tk"
    with assms show thesis
      by (intro that [OF *]) (simp add: request_aad_def ok)
  qed
qed

lemma txid_append_eq:
  "txid_bytes_correct P \<Longrightarrow>
    txid_serialize P s @ xs = txid_serialize P t @ ys \<longleftrightarrow> s = t \<and> xs = ys"
  by (auto simp: txid_bytes_correct_def inj_eq)

text \<open>C35. The associated data of the encryption determines the request: two requests with the
  same associated data are equal in every field, so a ciphertext cannot be moved to another
  request.\<close>

theorem request_aad_injective:
  assumes "txid_bytes_correct P" and "request_aad P r = Inr a" and "request_aad P r' = Inr a"
  shows "r' = r"
  using assms(2)
proof (rule request_aad_Inr)
  fix rid cid op wk nch tk
  assume r: "r = new_transfer_request P rid cid (tr_network r) op (tr_expected_amount_sat r) wk nch tk
      (tr_min_reaction_blocks r)"
    and a: "a = TRANSFER_INFO @ be_bytes (tr_protocol_version r) @ be_bytes rid @ be_bytes cid
      @ [network_byte (tr_network r)] @ txid_serialize P (op_txid op) @ be_bytes (op_vout op)
      @ be_bytes (tr_expected_amount_sat r) @ be_bytes (xonly_bytes wk) @ be_bytes nch
      @ be_bytes (public_bytes tk) @ be_bytes (tr_min_reaction_blocks r)"
  show ?thesis
    using assms(3)
  proof (rule request_aad_Inr)
    fix rid' cid' op' wk' nch' tk'
    assume r': "r' = new_transfer_request P rid' cid' (tr_network r') op' (tr_expected_amount_sat r')
        wk' nch' tk' (tr_min_reaction_blocks r')"
      and a': "a = TRANSFER_INFO @ be_bytes (tr_protocol_version r') @ be_bytes rid' @ be_bytes cid'
        @ [network_byte (tr_network r')] @ txid_serialize P (op_txid op') @ be_bytes (op_vout op')
        @ be_bytes (tr_expected_amount_sat r') @ be_bytes (xonly_bytes wk') @ be_bytes nch'
        @ be_bytes (public_bytes tk') @ be_bytes (tr_min_reaction_blocks r')"
    from a a' have "rid' = rid \<and> cid' = cid \<and> tr_network r' = tr_network r \<and> op' = op
        \<and> tr_expected_amount_sat r' = tr_expected_amount_sat r \<and> wk' = wk \<and> nch' = nch \<and> tk' = tk
        \<and> tr_min_reaction_blocks r' = tr_min_reaction_blocks r"
      by (auto simp: fw_u32.append_eq_iff fw_b32.append_eq_iff fw_u64.append_eq_iff
          fw_b33.append_eq_iff fw_u32.enc_eq_iff txid_append_eq [OF assms(1)]
          intro: outpoint.expand xonly_key.expand public_key.expand network_byte_inj)
    with r r' show ?thesis by metis
  qed
qed

subsection \<open>Envelope fingerprints\<close>

lemma of_char_byte_inj: "(of_char c :: byte) = of_char d \<Longrightarrow> c = d"
proof -
  assume "(of_char c :: byte) = of_char d"
  then have "(of_nat (of_char c) :: byte) = of_nat (of_char d)" by (simp only: of_nat_of_char)
  then have "unat (of_nat (of_char c) :: byte) = unat (of_nat (of_char d) :: byte)"
    by (simp only:)
  moreover have "(of_char c :: nat) < 2 ^ 8" "(of_char d :: nat) < 2 ^ 8" by simp_all
  ultimately have "(of_char c :: nat) = of_char d"
    by (simp add: unsigned_of_nat take_bit_nat_eq_self del: of_nat_of_char)
  then show "c = d" by simp
qed

lemma ascii_inj: "ascii s = ascii t \<Longrightarrow> s = t"
  by (auto simp: ascii_def dest: map_injective intro!: injI of_char_byte_inj)

lemma length_prefixed_append:
  assumes "length s < 2 ^ 64" and "length t < 2 ^ 64"
  shows "length_prefixed s @ xs = length_prefixed t @ ys \<longleftrightarrow> s = t \<and> xs = ys"
proof
  assume eq: "length_prefixed s @ xs = length_prefixed t @ ys"
  then have "(of_nat (length s) :: u64) = of_nat (length t)"
    by (simp add: length_prefixed_def fw_u64.append_eq_iff)
  then have "unat (of_nat (length s) :: u64) = unat (of_nat (length t) :: u64)" by simp
  with assms have "length s = length t" by (simp add: unsigned_of_nat take_bit_nat_eq_self)
  with eq show "s = t \<and> xs = ys"
    by (auto simp: length_prefixed_def fw_u64.append_eq_iff intro: ascii_inj)
qed simp

text \<open>The fingerprint that binds an accepted transfer identifies the envelope: two
  envelopes with one fingerprint are equal, or the two hashed byte strings are a collision of
  SHA-256. (A string in memory is shorter than \<open>2^64\<close> bytes.)\<close>

theorem fingerprint_binds:
  assumes "fingerprint P e = fingerprint P e'"
    and "\<forall>s \<in> {te_request_id e, te_ephemeral_public_key e, te_nonce e, te_ciphertext e,
      te_request_id e', te_ephemeral_public_key e', te_nonce e', te_ciphertext e'}. length s < 2 ^ 64"
  shows "e' = e \<or> sha256_collision P (fingerprint_preimage e) (fingerprint_preimage e')"
proof (cases "fingerprint_preimage e = fingerprint_preimage e'")
  case True
  with assms(2) have "e' = e"
    unfolding fingerprint_preimage_def
    by (intro transfer_envelope.equality)
      (simp_all add: fw_u32.append_eq_iff length_prefixed_append
        length_prefixed_append [where xs = "[]" and ys = "[]", simplified])
  then show ?thesis ..
next
  case False
  with assms(1) show ?thesis by (simp add: sha256_collision_def fingerprint_def)
qed

subsection \<open>Decryption undoes encryption\<close>

lemma encrypt_transfer_Inr:
  assumes "encrypt_transfer P mat r p = Inr env"
  obtains rid tk key plaintext aad ciphertext where
    "request_validate P r = Inr ()" "payload_validate p = Inr ()" "request_id_of P r = Inr rid"
    "tp_request_id p = rid" "request_transport_key P r = Inr tk"
    "transfer_key P (ecdh P tk (mat_ephemeral mat)) rid = Inr key"
    "payload_to_vec P p = Some plaintext" "length plaintext + 16 \<le> MAX_TRANSFER_CIPHERTEXT_SIZE"
    "request_aad P r = Inr aad"
    "aead_encrypt P key (be_bytes (mat_nonce mat)) aad plaintext = Some ciphertext"
    "env = \<lparr>te_format_version = FILE_FORMAT_VERSION, te_request_id = tr_request_id r,
      te_ephemeral_public_key = public_to_string P (public_of P (mat_ephemeral mat)),
      te_nonce = hex_encode P (be_bytes (mat_nonce mat)), te_ciphertext = hex_encode P ciphertext\<rparr>"
  using assms that
  by (auto simp: encrypt_transfer_def encrypt_transfer_with_material_def ok
      validate_transfer_plaintext_size_def)

lemma decrypt_encrypted:
  assumes "hex_correct P" and "text_forms_correct P" and "aead_correct P"
    and "payload_json_correct P" and "ecdh_correct P"
    and "encrypt_transfer P mat r p = Inr env"
    and "secret_from_slice P ts = Some tsk" and "request_transport_key P r = Inr (public_of P tsk)"
  shows "decrypt_transfer P r ts env =
    (if keys_valid (payload_keys p) then Inr p else Inl (Msg ''invalid transfer package payload''))"
  using assms(6)
proof (rule encrypt_transfer_Inr)
  fix rid tk key plaintext aad ciphertext
  assume *: "request_validate P r = Inr ()" "payload_validate p = Inr ()" "request_id_of P r = Inr rid"
    "tp_request_id p = rid" "request_transport_key P r = Inr tk"
    "transfer_key P (ecdh P tk (mat_ephemeral mat)) rid = Inr key"
    "payload_to_vec P p = Some plaintext" "length plaintext + 16 \<le> MAX_TRANSFER_CIPHERTEXT_SIZE"
    "request_aad P r = Inr aad"
    "aead_encrypt P key (be_bytes (mat_nonce mat)) aad plaintext = Some ciphertext"
    "env = \<lparr>te_format_version = FILE_FORMAT_VERSION, te_request_id = tr_request_id r,
      te_ephemeral_public_key = public_to_string P (public_of P (mat_ephemeral mat)),
      te_nonce = hex_encode P (be_bytes (mat_nonce mat)), te_ciphertext = hex_encode P ciphertext\<rparr>"
  have hex: "hex_decode P (hex_encode P b) = Some b" "length (hex_encode P b) = 2 * length b" for b
    using assms(1) by (simp_all add: hex_correct_def)
  have aead: "aead_key_ok P key" "aead_decrypt P key (be_bytes (mat_nonce mat)) aad ciphertext
      = Some plaintext" "length ciphertext = length plaintext + 16"
    using assms(3) *(10) by (auto simp: aead_correct_def)
  have shared: "ecdh P (public_of P (mat_ephemeral mat)) tsk = ecdh P tk (mat_ephemeral mat)"
    using assms(5,8) *(5) by (simp add: ecdh_correct_def)
  have "public_from_str P (public_to_string P k) = Some k" for k
    using assms(2) by (simp add: text_forms_correct_def)
  moreover have "payload_from_slice P plaintext = Some p"
    using assms(4) *(7) by (simp add: payload_json_correct_def)
  ultimately show ?thesis
    using * assms(7) aead hex shared by (simp add: decrypt_transfer_def deserialize_valid)
qed

text \<open>C24. What the sender encrypts, the receiver reads: when the request's transport key is the
  public key of the receiver's transport secret, decrypting the envelope returns the payload
  exactly when the keys in it are valid ones, and is refused as an invalid payload otherwise;
  in particular an envelope that could be built is within the size the receiver accepts.\<close>

theorem decrypt_encrypt:
  assumes "hex_correct P" and "text_forms_correct P" and "aead_correct P"
    and "payload_json_correct P" and "ecdh_correct P"
    and "encrypt_transfer P mat r p = Inr env"
    and "secret_from_slice P ts = Some tsk" and "request_transport_key P r = Inr (public_of P tsk)"
  shows "decrypt_transfer P r ts env =
    (if keys_validate (md_keys (tp_metadata p)) = Inr () then Inr p
     else Inl (Msg ''invalid transfer package payload''))"
  using decrypt_encrypted [OF assms] by (simp add: payload_keys_def)

subsection \<open>Witnesses\<close>

fun demo_unhex :: "string \<Rightarrow> bytes option" where
  "demo_unhex [] = Some []"
| "demo_unhex [c] = None"
| "demo_unhex (c # d # cs) = map_option ((#) (of_char c)) (demo_unhex cs)"

definition demo_hex :: "bytes \<Rightarrow> string" where
  "demo_hex bs = concat (map (\<lambda>b. [char_of (unat b), CHR ''0'']) bs)"

lemma of_char_of_byte: "(of_char (char_of (unat (b :: byte)) :: char) :: byte) = b"
proof -
  have "unat b < 256" using unsigned_less [of b] by simp
  then have "of_nat (of_char (char_of (unat b) :: char)) = b"
    by (simp add: take_bit_nat_eq_self of_nat_eqI del: of_nat_of_char)
  then show ?thesis by (simp only: of_nat_of_char)
qed

lemma demo_unhex_hex: "demo_unhex (demo_hex bs) = Some bs" "length (demo_hex bs) = 2 * length bs"
  by (induction bs) (simp_all add: demo_hex_def of_char_of_byte)

definition demo_chars :: "bytes \<Rightarrow> string" where
  "demo_chars = map (\<lambda>b. char_of (unat b))"

lemma ascii_demo_chars: "ascii (demo_chars bs) = bs"
  by (induction bs) (simp_all add: demo_chars_def ascii_def of_char_of_byte)

definition demo_payload :: transfer_payload where
  "demo_payload = \<lparr>tp_format_version = 1, tp_protocol_version = 1, tp_request_id = 60,
     tp_client_secret = SecretKey 21, tp_current_handoff = 11, tp_metadata = demo_md,
     tp_history = [demo_recovery 100]\<rparr>"

text \<open>The JSON form of a payload is its index in a table of the payloads in use.\<close>

definition demo_transfer_with :: "transfer_payload list \<Rightarrow> transfer_lib" where
  "demo_transfer_with payloads = wallet_lib.extend demo_wallet
     \<lparr>hex_encode = demo_hex,
      hex_decode = demo_unhex,
      outpoint_to_string = (\<lambda>op. demo_chars (be_bytes (op_txid op) @ be_bytes (op_vout op))),
      outpoint_parse = (\<lambda>str. Some (OutPoint (from_be_bytes (take 32 (ascii str)))
         (from_be_bytes (drop 32 (ascii str))))),
      xonly_to_string = (\<lambda>k. demo_chars (be_bytes (xonly_bytes k))),
      xonly_from_str = (\<lambda>str. Some (XOnlyKey (from_be_bytes (ascii str)))),
      public_to_string = (\<lambda>k. demo_chars (be_bytes (public_bytes k))),
      public_from_str = (\<lambda>str. Some (PublicKey (from_be_bytes (ascii str)))),
      public_of = (\<lambda>k. PublicKey (ucast (secret_bytes k))),
      secret_from_slice = (\<lambda>b. Some (SecretKey b)),
      txid_serialize = be_bytes,
      ecdh = (\<lambda>pk sk. ucast (public_bytes pk) + secret_bytes sk),
      hkdf_expand = (\<lambda>salt ikm info. Some (salt + ikm)),
      aead_key_ok = (\<lambda>k. True),
      aead_encrypt = (\<lambda>k n aad m. Some (m @ replicate 16 0)),
      aead_decrypt = (\<lambda>k n aad c. Some (take (length c - 16) c)),
      payload_to_vec = (\<lambda>p. map_option (\<lambda>i. replicate i 0) (position (\<lambda>q. q = p) payloads)),
      payload_from_slice = (\<lambda>b. nth_opt payloads (length b))\<rparr>"

definition demo_transfer :: transfer_lib where
  "demo_transfer = demo_transfer_with [demo_payload]"

lemmas demo_transfer_simps = demo_transfer_with_def wallet_lib.defs demo_wallet_simps

lemma ucast_up_down: "(ucast (ucast (w :: bytes32) :: 264 word) :: bytes32) = w"
  by (rule bit_word_eqI) (simp add: bit_ucast_iff)

lemma demo_transfer_laws:
  "hex_correct (demo_transfer_with ps)" "text_forms_correct (demo_transfer_with ps)"
  "txid_bytes_correct (demo_transfer_with ps)" "aead_correct (demo_transfer_with ps)"
  "payload_json_correct (demo_transfer_with ps)" "ecdh_correct (demo_transfer_with ps)"
  "height_sequence (demo_transfer_with ps)"
proof -
  show "hex_correct (demo_transfer_with ps)"
    by (simp add: hex_correct_def demo_transfer_simps demo_unhex_hex)
  show "text_forms_correct (demo_transfer_with ps)"
    by (simp add: text_forms_correct_def demo_transfer_simps ascii_demo_chars from_be_bytes_be_bytes)
  show "txid_bytes_correct (demo_transfer_with ps)"
    by (auto simp: txid_bytes_correct_def demo_transfer_simps intro!: injI be_bytes_inj)
  show "aead_correct (demo_transfer_with ps)" by (auto simp: aead_correct_def demo_transfer_simps)
  show "payload_json_correct (demo_transfer_with ps)"
    by (auto simp: payload_json_correct_def demo_transfer_simps nth_opt_Some dest: position_Some)
  show "ecdh_correct (demo_transfer_with ps)"
    by (simp add: ecdh_correct_def demo_transfer_simps add.commute ucast_up_down)
  show "height_sequence (demo_transfer_with ps)"
    by (simp add: height_sequence_def demo_transfer_simps)
qed

definition demo_request :: transfer_request where
  "demo_request = new_transfer_request demo_transfer 60 7 RegtestId (OutPoint 77 0) 100000
     (XOnlyKey 31) 99 (public_of demo_transfer (SecretKey 61)) 20"

lemma demo_transfer_fields [simp]:
  "outpoint_is_null (demo_transfer_with ps) op \<longleftrightarrow> op = OutPoint 0 0xffffffff"
  "max_money (demo_transfer_with ps) = 2100000000000000"
  "secret_from_slice (demo_transfer_with ps) b = Some (SecretKey b)"
  by (simp_all add: demo_transfer_simps)

lemma demo_request_any_table:
  "demo_request = new_transfer_request (demo_transfer_with ps) 60 7 RegtestId (OutPoint 77 0) 100000
     (XOnlyKey 31) 99 (public_of (demo_transfer_with ps) (SecretKey 61)) 20"
  by (simp add: demo_request_def new_transfer_request_def demo_transfer_def demo_transfer_simps)

lemma demo_request_canonical:
  "request_validate (demo_transfer_with ps) demo_request = Inr ()"
  "request_id_of (demo_transfer_with ps) demo_request = Inr 60"
  "request_coin_id (demo_transfer_with ps) demo_request = Inr 7"
  "request_outpoint (demo_transfer_with ps) demo_request = Inr (OutPoint 77 0)"
  "request_withdrawal_key (demo_transfer_with ps) demo_request = Inr (XOnlyKey 31)"
  "request_next_capability_hash (demo_transfer_with ps) demo_request = Inr 99"
  "request_transport_key (demo_transfer_with ps) demo_request
    = Inr (public_of (demo_transfer_with ps) (SecretKey 61))"
  using new_request_reads_back [OF demo_transfer_laws(1,2) _ _ demo_request_any_table, of ps]
  by simp_all

theorem request_canonical_witness:
  "request_validate demo_transfer demo_request = Inr ()
    \<and> request_outpoint demo_transfer demo_request = Inr (OutPoint 77 0)"
  using request_canonical [OF demo_transfer_laws(1,2) _ _ demo_request_any_table, of "[demo_payload]"]
  by (simp add: demo_transfer_def)

lemma demo_request_aad: "\<exists>a. request_aad (demo_transfer_with ps) demo_request = Inr a"
  using demo_request_canonical by (simp add: request_aad_def)

theorem request_aad_injective_witness:
  "\<exists>a r. request_aad demo_transfer demo_request = Inr a \<and> request_aad demo_transfer r = Inr a
    \<and> r = demo_request
    \<and> request_aad demo_transfer (demo_request\<lparr>tr_expected_amount_sat := 1\<rparr>) \<noteq> Inr a"
proof -
  obtain a where a: "request_aad demo_transfer demo_request = Inr a"
    using demo_request_aad unfolding demo_transfer_def by blast
  have "demo_request\<lparr>tr_expected_amount_sat := 1\<rparr> \<noteq> demo_request"
    by (simp add: demo_request_def new_transfer_request_def)
  with a request_aad_injective [OF demo_transfer_laws(3) [of "[demo_payload]", folded demo_transfer_def] a]
  show ?thesis by blast
qed

definition demo_envelope :: transfer_envelope where
  "demo_envelope = \<lparr>te_format_version = 1, te_request_id = ''ab'', te_ephemeral_public_key = ''c'',
     te_nonce = ''d'', te_ciphertext = ''e''\<rparr>"

theorem fingerprint_binds_witness:
  "demo_envelope\<lparr>te_nonce := ''f''\<rparr> = demo_envelope
    \<or> sha256_collision demo_secp (fingerprint_preimage demo_envelope)
        (fingerprint_preimage (demo_envelope\<lparr>te_nonce := ''f''\<rparr>))"
  by (rule fingerprint_binds)
    (simp_all add: demo_envelope_def demo_secp_def fingerprint_def fingerprint_preimage_def
      length_prefixed_def ascii_def)

lemma demo_encrypt:
  assumes "tp_format_version p = 1" and "tp_protocol_version p = 1" and "tp_request_id p = 60"
    and "payload_to_vec (demo_transfer_with ps) p = Some plaintext" and "length plaintext < 1000"
  shows "\<exists>env. encrypt_transfer (demo_transfer_with ps) \<lparr>mat_ephemeral = SecretKey 62, mat_nonce = 5\<rparr>
    demo_request p = Inr env"
proof -
  have "payload_validate p = Inr ()"
    by (simp add: payload_validate_def assms FILE_FORMAT_VERSION_def PROTOCOL_VERSION_def)
  moreover have "transfer_key (demo_transfer_with ps) x y = Inr (y + x)"
    "aead_key_ok (demo_transfer_with ps) x"
    "aead_encrypt (demo_transfer_with ps) x b b' b'' = Some (b'' @ replicate 16 0)" for x y b b' b''
    by (simp_all add: transfer_key_def demo_transfer_simps)
  moreover have "validate_transfer_plaintext_size (length plaintext) = Inr ()"
    using assms(5) by (simp add: validate_transfer_plaintext_size_def MAX_TRANSFER_CIPHERTEXT_SIZE_def)
  ultimately show ?thesis
    using demo_request_canonical [of ps] demo_request_aad [of ps] assms(3,4)
    by (auto simp: encrypt_transfer_def encrypt_transfer_with_material_def)
qed

theorem decrypt_encrypt_witness:
  "\<exists>env. encrypt_transfer demo_transfer \<lparr>mat_ephemeral = SecretKey 62, mat_nonce = 5\<rparr> demo_request
      demo_payload = Inr env \<and> decrypt_transfer demo_transfer demo_request 61 env = Inr demo_payload"
proof -
  have "\<exists>env. encrypt_transfer (demo_transfer_with [demo_payload])
      \<lparr>mat_ephemeral = SecretKey 62, mat_nonce = 5\<rparr> demo_request demo_payload = Inr env"
    by (rule demo_encrypt [where plaintext = "[]"])
      (simp_all add: demo_transfer_simps, simp_all add: demo_payload_def)
  then obtain env where env: "encrypt_transfer (demo_transfer_with [demo_payload])
    \<lparr>mat_ephemeral = SecretKey 62, mat_nonce = 5\<rparr> demo_request demo_payload = Inr env" ..
  have "secret_from_slice (demo_transfer_with [demo_payload]) 61 = Some (SecretKey 61)" by simp
  from decrypt_encrypt [OF demo_transfer_laws(1,2,4,5,6) env this demo_request_canonical(7)] env
  show ?thesis
    by (auto simp: demo_transfer_def demo_payload_def demo_md_def keys_metadata_def demo_metadata_ok(2))
qed

end
