(* ===== verification/Wallet_State.thy ===== *)
theory Wallet_State
  imports Transfers
begin

text \<open>
  The wallet's state machine: \<^verbatim>\<open>wallet-core/src/state.rs\<close> and the two checks of a signing
  attempt in \<^verbatim>\<open>wallet-core/src/validation.rs\<close>. A method on \<open>&mut self\<close> returns its result
  and the state it leaves; the fallible part of every method only reads, so each is a
  \<open>commit\<close>. Random draws (\<open>rand::random\<close>, \<open>random_secret_key\<close>) are arguments.
\<close>

subsection \<open>Data\<close>

datatype funding_stage = FundingPrepared | RecoverySecured | Broadcast

record funding_journal =
  fj_transaction :: transaction
  fj_delay_blocks :: u32
  fj_fee_rate_sat_vb :: u64
  fj_max_fee_sat :: u64
  fj_fee_sat :: u64
  fj_stage :: funding_stage

record recovery_attempt =
  ra_expected_signature_count :: u64
  ra_delay_blocks :: u32
  ra_request :: sign_request
  ra_prepared :: prepared_recovery

datatype recovery_purpose =
  PurposeFund (next_capability: capability) (purpose_withdrawal_secret: bytes32)
| PurposeTransfer (purpose_request: transfer_request)

datatype recovery_stage =
  StagePrepared recovery_attempt
| StageResponded recovery_attempt sign_response

record pending_recovery =
  pr_purpose :: recovery_purpose
  pr_stage :: recovery_stage

datatype pending_operation =
  PendingRegistration secret_key capability registration
| PendingRecovery pending_recovery

record incoming_transfer =
  it_request :: transfer_request
  it_capability :: capability
  it_withdrawal_secret :: bytes32
  it_transport_secret :: bytes32

record outgoing_transfer =
  ot_request :: transfer_request
  ot_envelope :: transfer_envelope

record wallet_coin =
  wc_client_secret :: secret_key
  wc_keys :: coin_keys
  wc_metadata :: "coin_metadata option"
  wc_funding :: "funding_journal option"
  wc_current_capability :: "capability option"
  wc_current_handoff :: "handoff_token option"
  wc_withdrawal_secret :: "bytes32 option"
  wc_withdrawal_recovery_index :: "nat option"
  wc_accepted_request :: "transfer_request option"
  wc_accepted_envelope_fingerprint :: "bytes32 option"
  wc_history :: "signed_recovery list"
  wc_outgoing :: "outgoing_transfer option"

record wallet_state =
  ws_format_version :: u32
  ws_coin :: "wallet_coin option"
  ws_incoming :: "incoming_transfer option"
  ws_pending :: "pending_operation option"

text \<open>The coin keys in a wallet state: those of the coin, of its metadata, and of the recovery
  that is being signed.\<close>

definition pending_keys :: "pending_operation \<Rightarrow> coin_keys list" where
  "pending_keys p =
     (case p of
        PendingRegistration sk cap reg \<Rightarrow> []
      | PendingRecovery r \<Rightarrow>
          (case pr_stage r of
             StagePrepared a \<Rightarrow> [md_keys (prep_metadata (ra_prepared a))]
           | StageResponded a resp \<Rightarrow> [md_keys (prep_metadata (ra_prepared a))]))"

definition coin_keys_in :: "wallet_coin \<Rightarrow> coin_keys list" where
  "coin_keys_in c = wc_keys c # (case wc_metadata c of None \<Rightarrow> [] | Some m \<Rightarrow> [md_keys m])"

definition wallet_keys :: "wallet_state \<Rightarrow> coin_keys list" where
  "wallet_keys s =
     (case ws_coin s of None \<Rightarrow> [] | Some c \<Rightarrow> coin_keys_in c)
     @ (case ws_pending s of None \<Rightarrow> [] | Some p \<Rightarrow> pending_keys p)"

text \<open>The \<open>?\<close> operator on a client error.\<close>

definition from_client :: "client_error + 'a \<Rightarrow> anyhow + 'a" where
  "from_client r = (case r of Inl e \<Rightarrow> Inl (FromClient e) | Inr x \<Rightarrow> Inr x)"

lemma from_client_Inr [ok]: "from_client r = Inr x \<longleftrightarrow> r = Inr x"
  by (cases r) (auto simp: from_client_def)

lemma from_client_simps [simp]: "from_client (Inl e) = Inl (FromClient e)" "from_client (Inr x) = Inr x"
  by (simp_all add: from_client_def)

text \<open>A \<open>let .. else\<close> on the pending operation succeeded on its own constructor.\<close>

lemma ok_pending [ok]:
  "(case p of PendingRegistration a b c \<Rightarrow> f a b c | PendingRecovery r \<Rightarrow> Inl e) = Inr y
    \<longleftrightarrow> (\<exists>a b c. p = PendingRegistration a b c \<and> f a b c = Inr y)"
  "(case p of PendingRegistration a b c \<Rightarrow> Inl e | PendingRecovery r \<Rightarrow> g r) = Inr y
    \<longleftrightarrow> (\<exists>r. p = PendingRecovery r \<and> g r = Inr y)"
  by (cases p; auto)+

lemma ok_purpose [ok]:
  "(case q of PurposeFund a b \<Rightarrow> f' a b | PurposeTransfer r \<Rightarrow> Inl e) = Inr y
    \<longleftrightarrow> (\<exists>a b. q = PurposeFund a b \<and> f' a b = Inr y)"
  "(case q of PurposeFund a b \<Rightarrow> Inl e | PurposeTransfer r \<Rightarrow> g' r) = Inr y
    \<longleftrightarrow> (\<exists>r. q = PurposeTransfer r \<and> g' r = Inr y)"
  by (cases q; auto)+

lemma ok_stage [ok]:
  "(case st of StagePrepared a \<Rightarrow> h a | StageResponded a r \<Rightarrow> Inl e) = Inr y
    \<longleftrightarrow> (\<exists>a. st = StagePrepared a \<and> h a = Inr y)"
  "(case st of StagePrepared a \<Rightarrow> Inl e | StageResponded a r \<Rightarrow> k a r) = Inr y
    \<longleftrightarrow> (\<exists>a r. st = StageResponded a r \<and> k a r = Inr y)"
  by (cases st; auto)+

subsection \<open>Signing attempts\<close>

definition attempt_uncommitted :: "'m secp_scheme \<Rightarrow> coin_status \<Rightarrow> recovery_attempt \<Rightarrow> bool" where
  "attempt_uncommitted P st a \<longleftrightarrow>
     cs_signature_count st = ra_expected_signature_count a \<and>
     cs_authorization st = authorization P (sr_coin_id (ra_request a))
       (capability_hash P (current_capability (ra_request a))) (current_handoff (ra_request a))"

definition attempt_committed :: "coin_status \<Rightarrow> recovery_attempt \<Rightarrow> anyhow + bool" where
  "attempt_committed st a =
     with_context (checked_add (ra_expected_signature_count a) 1) (Msg ''signature count overflow'')
       (\<lambda>completed_count. Inr (cs_signature_count st = completed_count))"

subsection \<open>The coin\<close>

definition lifecycle :: "wallet_coin \<Rightarrow> string" where
  "lifecycle c =
     (if wc_current_capability c = None then ''transferred''
      else case wc_funding c of
        Some funding \<Rightarrow>
          (case fj_stage funding of
             FundingPrepared \<Rightarrow> ''funding_prepared''
           | RecoverySecured \<Rightarrow> ''recovery_secured''
           | Broadcast \<Rightarrow> ''funding_broadcast'')
      | None \<Rightarrow> if wc_history c = [] then ''registered'' else ''owned'')"

definition verify_live_status :: "'m secp_scheme \<Rightarrow> wallet_coin \<Rightarrow> coin_status \<Rightarrow> anyhow + unit" where
  "verify_live_status P c st =
     and_then (from_client (verify_status (wc_keys c) st)) (\<lambda>_.
     ensure (cs_signature_count st = of_nat (length (wc_history c)))
       (Msg ''wallet history does not match enclave'')
     (case (wc_current_capability c, wc_current_handoff c) of
        (Some cap, Some handoff) \<Rightarrow>
          ensure (cs_authorization st
              = authorization P (keys_coin_id (wc_keys c)) (capability_hash P cap) handoff)
            (Msg ''wallet authorization does not match enclave'') (Inr ())
      | _ \<Rightarrow> Inr ()))"

subsection \<open>Registration\<close>

definition empty_wallet :: wallet_state where
  "empty_wallet =
     \<lparr>ws_format_version = FILE_FORMAT_VERSION, ws_coin = None, ws_incoming = None, ws_pending = None\<rparr>"

definition validate_version :: "wallet_state \<Rightarrow> anyhow + unit" where
  "validate_version s =
     ensure (ws_format_version s = FILE_FORMAT_VERSION)
       (Fmt ''unsupported wallet format version {}'' [unat (ws_format_version s)])
     (case ws_coin s of
        Some c \<Rightarrow>
          ensure ((wc_accepted_request c \<noteq> None) = (wc_accepted_envelope_fingerprint c \<noteq> None))
            (Msg ''accepted transfer replay binding is incomplete'') (Inr ())
      | None \<Rightarrow> Inr ())"

record registration_draws =
  rd_client_secret :: secret_key
  rd_capability :: capability
  rd_coin_id :: coin_id

definition begin_registration ::
  "'m secp_scheme \<Rightarrow> registration_draws \<Rightarrow> wallet_state
    \<Rightarrow> (anyhow + register_request) \<times> wallet_state" where
  "begin_registration P rnd s =
     commit s
       (and_then (validate_version s) (\<lambda>_.
        ensure (ws_coin s = None) (Msg ''wallet already contains a coin'')
        (ensure (ws_incoming s = None) (Msg ''wallet has a pending transfer request'')
        (case ws_pending s of
           Some (PendingRegistration _ _ reg) \<Rightarrow> Inr (Some reg)
         | Some (PendingRecovery _) \<Rightarrow> Inl (Msg ''wallet has a pending signing operation'')
         | None \<Rightarrow> Inr None))))
       (\<lambda>saved. case saved of
          Some reg \<Rightarrow> (Inr (reg_request reg), s)
        | None \<Rightarrow>
          let reg = prepare_registration P (rd_coin_id rnd) (rd_client_secret rnd)
                      (capability_hash P (rd_capability rnd))
          in (Inr (reg_request reg),
              s\<lparr>ws_pending := Some (PendingRegistration (rd_client_secret rnd) (rd_capability rnd) reg)\<rparr>))"

definition registered_coin :: "secret_key \<Rightarrow> capability \<Rightarrow> coin_keys \<Rightarrow> wallet_coin" where
  "registered_coin client_secret cap keys =
     \<lparr>wc_client_secret = client_secret, wc_keys = keys, wc_metadata = None, wc_funding = None,
      wc_current_capability = Some cap, wc_current_handoff = Some INITIAL_HANDOFF,
      wc_withdrawal_secret = None, wc_withdrawal_recovery_index = None,
      wc_accepted_request = None, wc_accepted_envelope_fingerprint = None,
      wc_history = [], wc_outgoing = None\<rparr>"

definition wallet_complete_registration ::
  "'m secp_scheme \<Rightarrow> wallet_state \<Rightarrow> coin_status \<Rightarrow> (anyhow + unit) \<times> wallet_state" where
  "wallet_complete_registration P s st =
     commit s
       (and_then (validate_version s) (\<lambda>_.
        ensure (ws_coin s = None) (Msg ''wallet already contains a coin'')
        (with_context (ws_pending s) (Msg ''wallet has no pending registration'') (\<lambda>pending.
         case pending of
           PendingRecovery _ \<Rightarrow> Inl (Msg ''wallet has a pending signing operation'')
         | PendingRegistration client_secret cap reg \<Rightarrow>
           and_then (from_client (complete_registration P reg st)) (\<lambda>keys.
           Inr (registered_coin client_secret cap keys))))))
       (\<lambda>c. (Inr (), s\<lparr>ws_coin := Some c, ws_pending := None\<rparr>))"

subsection \<open>Funding\<close>

record funding_draws =
  fd_next_capability :: capability
  fd_withdrawal :: secret_key

definition begin_funding ::
  "'m wallet_lib_scheme \<Rightarrow> funding_draws \<Rightarrow> wallet_state \<Rightarrow> network_id \<Rightarrow> secret_key \<Rightarrow> source_utxo
    \<Rightarrow> coin_status \<Rightarrow> u64 \<Rightarrow> u32 \<Rightarrow> u64 \<Rightarrow> u64 \<Rightarrow> u32 \<Rightarrow> (anyhow + sign_request) \<times> wallet_state" where
  "begin_funding P rnd s net source_secret source st amount delay fee_rate max_fee reaction =
     commit s
       (and_then (validate_version s) (\<lambda>_.
        ensure (ws_pending s = None) (Msg ''wallet has a pending operation'')
        (and_then (require_reaction_margin 0 delay reaction) (\<lambda>_.
        with_context (ws_coin s) (Msg ''register a coin first'') (\<lambda>c.
        ensure (wc_metadata c = None \<and> wc_funding c = None \<and> wc_history c = []
            \<and> wc_current_handoff c = Some INITIAL_HANDOFF)
          (Msg ''coin has already left the registration stage'')
        (and_then (verify_live_status P c st) (\<lambda>_.
        ensure (cs_signature_count st = 0) (Msg ''coin already has signed recoveries'')
        (with_context (wc_current_capability c) (Msg ''coin has already been transferred'') (\<lambda>cap.
        with_context (wc_current_handoff c) (Msg ''coin has no current handoff'') (\<lambda>handoff.
        and_then (build_source_funding P (wc_keys c) net source_secret source amount fee_rate max_fee)
          (\<lambda>pf.
        let m = keys_metadata (wc_keys c) net (psf_outpoint pf) amount in
        and_then (from_client (prepare_recovery P m st (wc_client_secret c) cap handoff
            (capability_hash P (fd_next_capability rnd)) (xonly_of P (fd_withdrawal rnd)) delay 0))
          (\<lambda>(req, prep).
        Inr (c, pf, m, req, prep)))))))))))))
       (\<lambda>(c, pf, m, req, prep).
          (Inr req,
           s\<lparr>ws_coin := Some (c\<lparr>wc_metadata := Some m,
                wc_funding := Some \<lparr>fj_transaction = psf_transaction pf, fj_delay_blocks = delay,
                  fj_fee_rate_sat_vb = fee_rate, fj_max_fee_sat = max_fee,
                  fj_fee_sat = psf_fee_sat pf, fj_stage = FundingPrepared\<rparr>\<rparr>),
             ws_pending := Some (PendingRecovery
               \<lparr>pr_purpose = PurposeFund (fd_next_capability rnd) (secret_bytes (fd_withdrawal rnd)),
                pr_stage = StagePrepared
                  \<lparr>ra_expected_signature_count = cs_signature_count st, ra_delay_blocks = delay,
                   ra_request = req, ra_prepared = prep\<rparr>\<rparr>)\<rparr>))"

definition pending_sign_request :: "wallet_state \<Rightarrow> anyhow + sign_request" where
  "pending_sign_request s =
     with_context (ws_pending s) (Msg ''wallet has no pending operation'') (\<lambda>pending.
     case pending of
       PendingRegistration _ _ _ \<Rightarrow> Inl (Msg ''wallet has a pending registration'')
     | PendingRecovery r \<Rightarrow>
       (case pr_stage r of
          StagePrepared a \<Rightarrow> Inr (ra_request a)
        | StageResponded a _ \<Rightarrow> Inr (ra_request a)))"

text \<open>\<open>pending.take()\<close> empties the slot; every branch puts back what the code puts back.\<close>

definition record_sign_response ::
  "wallet_state \<Rightarrow> sign_response \<Rightarrow> (anyhow + unit) \<times> wallet_state" where
  "record_sign_response s resp =
     (case ws_pending s of
        None \<Rightarrow> (Inl (Msg ''wallet has no pending operation''), s)
      | Some pending \<Rightarrow>
        let taken = s\<lparr>ws_pending := None\<rparr> in
        (case pending of
           PendingRegistration _ _ _ \<Rightarrow>
             (Inl (Msg ''wallet has a pending registration''), taken\<lparr>ws_pending := Some pending\<rparr>)
         | PendingRecovery r \<Rightarrow>
           (case pr_stage r of
              StagePrepared a \<Rightarrow>
                (Inr (), taken\<lparr>ws_pending := Some (PendingRecovery
                   \<lparr>pr_purpose = pr_purpose r, pr_stage = StageResponded a resp\<rparr>)\<rparr>)
            | StageResponded a saved \<Rightarrow>
                (if saved = resp then Inr ()
                 else Inl (Msg ''enclave response does not match saved response''),
                 taken\<lparr>ws_pending := Some (PendingRecovery
                   \<lparr>pr_purpose = pr_purpose r, pr_stage = StageResponded a saved\<rparr>)\<rparr>))))"

definition complete_funding_recovery ::
  "'m bitcoin_lib_scheme \<Rightarrow> wallet_state \<Rightarrow> coin_status \<Rightarrow> (anyhow + unit) \<times> wallet_state" where
  "complete_funding_recovery P s st =
     commit s
       (with_context (ws_pending s) (Msg ''wallet has no pending funding recovery'') (\<lambda>pending.
        case pending of
          PendingRegistration _ _ _ \<Rightarrow> Inl (Msg ''wallet has a pending registration'')
        | PendingRecovery r \<Rightarrow>
        (case pr_purpose r of
          PurposeTransfer _ \<Rightarrow> Inl (Msg ''wallet has a pending transfer'')
        | PurposeFund next_cap withdrawal \<Rightarrow>
        (case pr_stage r of
          StagePrepared _ \<Rightarrow> Inl (Msg ''funding recovery has no saved enclave response'')
        | StageResponded a resp \<Rightarrow>
        ensure (ra_expected_signature_count a = 0)
          (Msg ''initial funding recovery has an invalid signature count'')
        (with_context (ws_coin s) (Msg ''pending signing coin is missing'') (\<lambda>c.
        and_then (from_client (verify_status (wc_keys c) st)) (\<lambda>_.
        and_then (from_client (verify_sign_response P (ra_request a) (ra_expected_signature_count a)
            st resp)) (\<lambda>_.
        and_then (from_client (complete_recovery P (ra_request a) resp (ra_prepared a)
            (wc_client_secret c))) (\<lambda>recovery.
        ensure (rec_delay_blocks recovery = ra_delay_blocks a)
          (Msg ''pending signing delay is inconsistent'')
        (with_context (wc_funding c) (Msg ''pending funding journal is missing'') (\<lambda>funding.
        ensure (fj_stage funding = FundingPrepared) (Msg ''funding recovery was already secured'')
        (Inr (c, funding, recovery, next_cap, withdrawal, next_handoff resp)))))))))))))
       (\<lambda>(c, funding, recovery, next_cap, withdrawal, handoff).
          (Inr (),
           s\<lparr>ws_coin := Some (c\<lparr>wc_history := wc_history c @ [recovery],
                wc_funding := Some (funding\<lparr>fj_stage := RecoverySecured\<rparr>),
                wc_current_capability := Some next_cap,
                wc_current_handoff := Some handoff,
                wc_withdrawal_secret := Some withdrawal,
                wc_withdrawal_recovery_index := Some (length (wc_history c @ [recovery]) - 1)\<rparr>),
             ws_pending := None\<rparr>))"

definition funding_transaction :: "'m wallet_lib_scheme \<Rightarrow> wallet_state \<Rightarrow> anyhow + transaction" where
  "funding_transaction P s =
     with_context (ws_coin s) (Msg ''wallet has no coin'') (\<lambda>c.
     with_context (wc_metadata c) (Msg ''coin is not funded'') (\<lambda>m.
     with_context (wc_funding c) (Msg ''funding journal is missing'') (\<lambda>funding.
     ensure (fj_stage funding = RecoverySecured \<or> fj_stage funding = Broadcast)
       (Msg ''funding cannot be broadcast before its recovery is durable'')
     (and_then (validate_finalized_funding P m (fj_transaction funding)) (\<lambda>_.
     with_context (first_opt (wc_history c)) (Msg ''secured funding recovery is missing'') (\<lambda>recovery.
     ensure (rec_delay_blocks recovery = fj_delay_blocks funding)
       (Msg ''secured funding recovery has the wrong delay'')
     (and_then (from_client (verify_recovery P m recovery)) (\<lambda>_.
     Inr (fj_transaction funding)))))))))"

text \<open>The \<open>expect\<close> of this method cannot fail: \<open>funding_transaction\<close> found the journal.\<close>

definition mark_funding_broadcast ::
  "'m wallet_lib_scheme \<Rightarrow> wallet_state \<Rightarrow> txid \<Rightarrow> (anyhow + unit) \<times> wallet_state" where
  "mark_funding_broadcast P s txid =
     commit s
       (and_then (funding_transaction P s) (\<lambda>t.
        ensure (compute_txid P t = txid)
          (Msg ''broadcast funding txid does not match recovery outpoint'') (Inr ())))
       (\<lambda>_. (Inr (), s\<lparr>ws_coin := map_option
          (\<lambda>c. c\<lparr>wc_funding := map_option (\<lambda>f. f\<lparr>fj_stage := Broadcast\<rparr>) (wc_funding c)\<rparr>) (ws_coin s)\<rparr>))"

definition verify_funding ::
  "'m wallet_lib_scheme \<Rightarrow> wallet_state \<Rightarrow> transaction \<Rightarrow> u32 \<Rightarrow> bool \<Rightarrow> anyhow + u32" where
  "verify_funding P s observed confirmations unspent =
     and_then (funding_transaction P s) (\<lambda>expected.
     ensure (expected = observed) (Msg ''chain returned different funding transaction bytes'')
     (ensure unspent (Msg ''Tinylayer funding output is spent'')
     (with_context (Option.bind (ws_coin s) wc_funding) (Msg ''funding checked above'') (\<lambda>funding.
     ensure (fj_stage funding = Broadcast) (Msg ''funding transaction is not marked broadcast'')
     (Inr (saturating_sub (fj_delay_blocks funding) confirmations))))))"

subsection \<open>Receiving: the request\<close>

record transfer_request_draws =
  td_capability :: capability
  td_withdrawal :: secret_key
  td_transport :: secret_key
  td_request_id :: bytes32

definition begin_transfer_request ::
  "'m transfer_lib_scheme \<Rightarrow> transfer_request_draws \<Rightarrow> wallet_state \<Rightarrow> network_id \<Rightarrow> coin_id
    \<Rightarrow> outpoint \<Rightarrow> u64 \<Rightarrow> u32 \<Rightarrow> (anyhow + transfer_request) \<times> wallet_state" where
  "begin_transfer_request P rnd s net cid op amount reaction =
     commit s
       (and_then (validate_version s) (\<lambda>_.
        ensure (ws_coin s = None) (Msg ''wallet already contains a coin'')
        (ensure (ws_pending s = None) (Msg ''wallet has a pending operation'')
        (ensure (\<not> outpoint_is_null P op) (Msg ''transfer outpoint cannot be null'')
        (ensure (DELAY_STEP \<le> reaction)
          (Fmt ''minimum reaction margin must be at least {} blocks'' [unat DELAY_STEP])
        (case ws_incoming s of
           Some incoming \<Rightarrow>
             and_then (request_coin_id P (it_request incoming)) (\<lambda>saved_cid.
             and_then (if saved_cid = cid then request_outpoint P (it_request incoming) else Inr op)
               (\<lambda>saved_op.
             ensure (saved_cid = cid \<and> saved_op = op \<and> tr_network (it_request incoming) = net
                 \<and> tr_expected_amount_sat (it_request incoming) = amount
                 \<and> tr_min_reaction_blocks (it_request incoming) = reaction)
               (Msg ''wallet has another pending transfer request'')
             (Inr (it_request incoming, None))))
         | None \<Rightarrow>
             let req = new_transfer_request P (td_request_id rnd) cid net op amount
                   (secret_xonly P (td_withdrawal rnd)) (capability_hash P (td_capability rnd))
                   (public_of P (td_transport rnd)) reaction
             in and_then (request_validate P req) (\<lambda>_.
                Inr (req, Some \<lparr>it_request = req, it_capability = td_capability rnd,
                  it_withdrawal_secret = secret_bytes (td_withdrawal rnd),
                  it_transport_secret = secret_bytes (td_transport rnd)\<rparr>))))))))
       (\<lambda>(req, fresh). (Inr req, case fresh of None \<Rightarrow> s | Some i \<Rightarrow> s\<lparr>ws_incoming := Some i\<rparr>))"

definition incoming_transfer_request :: "wallet_state \<Rightarrow> anyhow + transfer_request" where
  "incoming_transfer_request s =
     with_context (ws_incoming s) (Msg ''wallet has no pending transfer request'')
       (\<lambda>incoming. Inr (it_request incoming))"

subsection \<open>Sending\<close>

definition validate_outgoing_transfer_request ::
  "'m transfer_lib_scheme \<Rightarrow> wallet_state \<Rightarrow> network_id \<Rightarrow> transfer_request \<Rightarrow> anyhow + unit" where
  "validate_outgoing_transfer_request P s net req =
     and_then (validate_version s) (\<lambda>_.
     and_then (request_validate P req) (\<lambda>_.
     with_context (ws_coin s) (Msg ''wallet has no coin'') (\<lambda>c.
     with_context (wc_metadata c) (Msg ''coin has no verified funding'') (\<lambda>m.
     ensure (wc_history c \<noteq> []) (Msg ''fund the coin before transferring it'')
     (ensure (case wc_funding c of None \<Rightarrow> True | Some f \<Rightarrow> fj_stage f = Broadcast)
       (Msg ''funding has not been broadcast'')
     (and_then (request_coin_id P req) (\<lambda>cid.
     ensure (cid = keys_coin_id (wc_keys c)) (Msg ''transfer request is for another coin'')
     (ensure (tr_network req = net) (Msg ''transfer request network mismatch'')
     (ensure (md_network m = net) (Msg ''coin network mismatch'')
     (and_then (request_outpoint P req) (\<lambda>op.
     ensure (op = md_outpoint m) (Msg ''transfer request outpoint mismatch'')
     (ensure (tr_expected_amount_sat req = md_amount_sat m)
       (Msg ''transfer request amount mismatch'')
     (Inr ())))))))))))))"

text \<open>The saved withdrawal key, as both \<open>begin_transfer\<close> and \<open>validate_pending_transfer\<close> read it.\<close>

definition saved_withdrawal_key :: "'m transfer_lib_scheme \<Rightarrow> wallet_coin \<Rightarrow> anyhow + secret_key" where
  "saved_withdrawal_key P c =
     with_context (wc_withdrawal_secret c) (Msg ''wallet has no current withdrawal key'') (\<lambda>w.
     with_context (secret_from_slice P w) (Msg ''saved withdrawal key is invalid'') (\<lambda>sk. Inr sk))"

text \<open>The delay of the next recovery; the \<open>expect\<close> follows a check that the history is not
  empty.\<close>

definition next_delay :: "wallet_coin \<Rightarrow> anyhow + u32" where
  "next_delay c =
     with_context (checked_sub (rec_delay_blocks (last (wc_history c))) DELAY_STEP)
       (Msg ''recovery delay cannot be decremented'') (\<lambda>d. Inr d)"

definition begin_transfer ::
  "'m transfer_lib_scheme \<Rightarrow> wallet_state \<Rightarrow> network_id \<Rightarrow> transfer_request \<Rightarrow> coin_status
    \<Rightarrow> observed_funding \<Rightarrow> u32 \<Rightarrow> u32 \<Rightarrow> (anyhow + sign_request) \<times> wallet_state" where
  "begin_transfer P s net req st obs minimum_confirmations reaction =
     commit s
       (ensure (ws_pending s = None) (Msg ''wallet has a pending operation'')
        (and_then (validate_outgoing_transfer_request P s net req) (\<lambda>_.
        with_context (ws_coin s) (Msg ''wallet has no coin'') (\<lambda>c.
        ensure (wc_outgoing c = None) (Msg ''coin has already been transferred'')
        (with_context (wc_metadata c) (Msg ''coin has no verified funding'') (\<lambda>m.
        and_then (verify_observed_funding P m obs minimum_confirmations) (\<lambda>_.
        with_context (wc_current_capability c) (Msg ''coin has already been transferred'') (\<lambda>cap.
        with_context (wc_current_handoff c) (Msg ''wallet has no current handoff token'') (\<lambda>handoff.
        and_then (saved_withdrawal_key P c) (\<lambda>withdrawal.
        and_then (from_client (verify_history P m st (wc_client_secret c) cap handoff
            (secret_xonly P withdrawal) (obs_confirmations obs) (wc_history c))) (\<lambda>_.
        and_then (next_delay c) (\<lambda>delay.
        and_then (require_reaction_margin (obs_confirmations obs) delay
            (max reaction (tr_min_reaction_blocks req))) (\<lambda>_.
        and_then (request_next_capability_hash P req) (\<lambda>nch.
        and_then (request_withdrawal_key P req) (\<lambda>wk.
        and_then (from_client (prepare_recovery P m st (wc_client_secret c) cap handoff nch wk delay
            (obs_confirmations obs))) (\<lambda>(sign_req, prep).
        and_then (from_client (recovery_serialization_template P prep)) (\<lambda>template.
        and_then (validate_transfer_payload_size P
            \<lparr>tp_format_version = FILE_FORMAT_VERSION, tp_protocol_version = PROTOCOL_VERSION,
             tp_request_id = - 1, tp_client_secret = wc_client_secret c, tp_current_handoff = - 1,
             tp_metadata = m, tp_history = wc_history c @ [template]\<rparr>) (\<lambda>_.
        Inr (sign_req, prep, delay)))))))))))))))))))
       (\<lambda>(sign_req, prep, delay).
          (Inr sign_req,
           s\<lparr>ws_pending := Some (PendingRecovery
             \<lparr>pr_purpose = PurposeTransfer req,
              pr_stage = StagePrepared
                \<lparr>ra_expected_signature_count = cs_signature_count st, ra_delay_blocks = delay,
                 ra_request = sign_req, ra_prepared = prep\<rparr>\<rparr>)\<rparr>))"

definition validate_pending_transfer ::
  "'m transfer_lib_scheme \<Rightarrow> wallet_state \<Rightarrow> coin_status \<Rightarrow> observed_funding \<Rightarrow> u32 \<Rightarrow> u32
    \<Rightarrow> anyhow + unit" where
  "validate_pending_transfer P s st obs minimum_confirmations reaction =
     with_context (ws_pending s) (Msg ''wallet has no pending transfer'') (\<lambda>pending.
     case pending of
       PendingRegistration _ _ _ \<Rightarrow> Inl (Msg ''wallet has a pending registration'')
     | PendingRecovery r \<Rightarrow>
     (case pr_purpose r of
       PurposeFund _ _ \<Rightarrow> Inl (Msg ''wallet has pending funding'')
     | PurposeTransfer req \<Rightarrow>
     (case pr_stage r of
       StageResponded _ _ \<Rightarrow> Inl (Msg ''transfer signature response is already saved'')
     | StagePrepared a \<Rightarrow>
     with_context (ws_coin s) (Msg ''pending transfer coin is missing'') (\<lambda>c.
     with_context (wc_metadata c) (Msg ''pending transfer metadata is missing'') (\<lambda>m.
     and_then (validate_outgoing_transfer_request P s (md_network m) req) (\<lambda>_.
     and_then (from_client (verify_status (wc_keys c) st)) (\<lambda>_.
     and_then (attempt_committed st a) (\<lambda>committed.
     if committed then Inr ()
     else
     ensure (attempt_uncommitted P st a)
       (Msg ''pending signing journal does not match live enclave state'')
     (and_then (verify_observed_funding P m obs minimum_confirmations) (\<lambda>_.
     with_context (wc_current_capability c) (Msg ''coin has already been transferred'') (\<lambda>cap.
     with_context (wc_current_handoff c) (Msg ''wallet has no current handoff token'') (\<lambda>handoff.
     ensure (current_capability (ra_request a) = cap \<and> current_handoff (ra_request a) = handoff)
       (Msg ''pending transfer does not match local ownership'')
     (and_then (saved_withdrawal_key P c) (\<lambda>withdrawal.
     and_then (from_client (verify_history P m st (wc_client_secret c) cap handoff
         (secret_xonly P withdrawal) (obs_confirmations obs) (wc_history c))) (\<lambda>_.
     ensure (ra_expected_signature_count a = of_nat (length (wc_history c)))
       (Msg ''pending transfer signature count is inconsistent'')
     (and_then (next_delay c) (\<lambda>expected_delay.
     ensure (ra_delay_blocks a = expected_delay)
       (Msg ''pending transfer delay is inconsistent'')
     (require_reaction_margin (obs_confirmations obs) (ra_delay_blocks a)
       (max reaction (tr_min_reaction_blocks req))))))))))))))))))))"

definition pending_transfer_request :: "wallet_state \<Rightarrow> anyhow + transfer_request" where
  "pending_transfer_request s =
     with_context (ws_pending s) (Msg ''wallet has no pending transfer'') (\<lambda>pending.
     case pending of
       PendingRegistration _ _ _ \<Rightarrow> Inl (Msg ''wallet has a pending registration'')
     | PendingRecovery r \<Rightarrow>
       (case pr_purpose r of
          PurposeFund _ _ \<Rightarrow> Inl (Msg ''wallet has pending funding'')
        | PurposeTransfer req \<Rightarrow> Inr req))"

definition complete_transfer ::
  "'m transfer_lib_scheme \<Rightarrow> transfer_material \<Rightarrow> wallet_state \<Rightarrow> coin_status
    \<Rightarrow> (anyhow + transfer_envelope) \<times> wallet_state" where
  "complete_transfer P mat s st =
     commit s
       (with_context (ws_pending s) (Msg ''wallet has no pending transfer'') (\<lambda>pending.
        case pending of
          PendingRegistration _ _ _ \<Rightarrow> Inl (Msg ''wallet has a pending registration'')
        | PendingRecovery r \<Rightarrow>
        (case pr_purpose r of
          PurposeFund _ _ \<Rightarrow> Inl (Msg ''wallet has pending funding'')
        | PurposeTransfer req \<Rightarrow>
        (case pr_stage r of
          StagePrepared _ \<Rightarrow> Inl (Msg ''transfer has no saved enclave response'')
        | StageResponded a resp \<Rightarrow>
        and_then (request_validate P req) (\<lambda>_.
        with_context (ws_coin s) (Msg ''pending transfer coin is missing'') (\<lambda>c.
        with_context (wc_metadata c) (Msg ''pending transfer metadata is missing'') (\<lambda>m.
        and_then (request_coin_id P req) (\<lambda>cid.
        and_then (if cid = keys_coin_id (wc_keys c) \<and> tr_network req = md_network m
                  then request_outpoint P req else Inr (md_outpoint m)) (\<lambda>op.
        ensure (cid = keys_coin_id (wc_keys c) \<and> tr_network req = md_network m
            \<and> op = md_outpoint m \<and> tr_expected_amount_sat req = md_amount_sat m)
          (Msg ''pending transfer request does not match the coin'')
        (and_then (from_client (verify_status (wc_keys c) st)) (\<lambda>_.
        and_then (from_client (verify_sign_response P (ra_request a) (ra_expected_signature_count a)
            st resp)) (\<lambda>_.
        and_then (from_client (complete_recovery P (ra_request a) resp (ra_prepared a)
            (wc_client_secret c))) (\<lambda>recovery.
        ensure (rec_delay_blocks recovery = ra_delay_blocks a)
          (Msg ''pending signing delay is inconsistent'')
        (with_context (wc_withdrawal_recovery_index c) (Msg ''wallet has no owned recovery'') (\<lambda>i.
        with_context (nth_opt (wc_history c) i) (Msg ''owned recovery index is invalid'') (\<lambda>retained.
        and_then (request_id_of P req) (\<lambda>rid.
        let payload = \<lparr>tp_format_version = FILE_FORMAT_VERSION,
              tp_protocol_version = PROTOCOL_VERSION, tp_request_id = rid,
              tp_client_secret = wc_client_secret c, tp_current_handoff = next_handoff resp,
              tp_metadata = m, tp_history = wc_history c @ [recovery]\<rparr> in
        and_then (encrypt_transfer P mat req payload) (\<lambda>envelope.
        Inr (c, retained, req, envelope)))))))))))))))))))
       (\<lambda>(c, retained, req, envelope).
          (Inr envelope,
           s\<lparr>ws_coin := Some (c\<lparr>wc_history := [retained],
                wc_withdrawal_recovery_index := Some 0,
                wc_current_capability := None,
                wc_current_handoff := None,
                wc_outgoing := Some \<lparr>ot_request = req, ot_envelope = envelope\<rparr>\<rparr>),
             ws_pending := None\<rparr>))"

definition outgoing_transfer_of :: "wallet_state \<Rightarrow> anyhow + outgoing_transfer" where
  "outgoing_transfer_of s =
     with_context (Option.bind (ws_coin s) wc_outgoing)
       (Msg ''wallet has no completed outgoing transfer'') (\<lambda>ot. Inr ot)"

subsection \<open>Receiving: the coin\<close>

definition accepted_coin ::
  "'m secp_scheme \<Rightarrow> incoming_transfer \<Rightarrow> transfer_request \<Rightarrow> transfer_envelope \<Rightarrow> transfer_payload
    \<Rightarrow> wallet_coin" where
  "accepted_coin P incoming req env p =
     \<lparr>wc_client_secret = tp_client_secret p, wc_keys = md_keys (tp_metadata p),
      wc_metadata = Some (tp_metadata p), wc_funding = None,
      wc_current_capability = Some (it_capability incoming),
      wc_current_handoff = Some (tp_current_handoff p),
      wc_withdrawal_secret = Some (it_withdrawal_secret incoming),
      wc_withdrawal_recovery_index = Some (length (tp_history p) - 1),
      wc_accepted_request = Some req,
      wc_accepted_envelope_fingerprint = Some (fingerprint P env),
      wc_history = tp_history p, wc_outgoing = None\<rparr>"

definition accept_transfer ::
  "'m transfer_lib_scheme \<Rightarrow> wallet_state \<Rightarrow> network_id \<Rightarrow> transfer_request \<Rightarrow> transfer_envelope
    \<Rightarrow> coin_status \<Rightarrow> observed_funding \<Rightarrow> u32 \<Rightarrow> u32 \<Rightarrow> (anyhow + bool) \<times> wallet_state" where
  "accept_transfer P s net req env st obs minimum_confirmations reaction =
     commit s
       (and_then (validate_version s) (\<lambda>_.
        and_then (request_validate P req) (\<lambda>_.
        case ws_coin s of
          Some c \<Rightarrow>
            ensure (wc_accepted_request c = Some req
                \<and> wc_accepted_envelope_fingerprint c = Some (fingerprint P env))
              (Msg ''wallet already contains a different coin or transfer'') (Inr None)
        | None \<Rightarrow>
        ensure (ws_pending s = None) (Msg ''wallet has a pending operation'')
        (with_context (ws_incoming s) (Msg ''wallet has no matching transfer request'') (\<lambda>incoming.
        ensure (it_request incoming = req) (Msg ''saved transfer request does not match input'')
        (and_then (decrypt_transfer P req (it_transport_secret incoming) env) (\<lambda>p.
        ensure (md_network (tp_metadata p) = net \<and> tr_network req = net)
          (Msg ''transfer network mismatch'')
        (and_then (request_coin_id P req) (\<lambda>cid.
        ensure (keys_coin_id (md_keys (tp_metadata p)) = cid) (Msg ''transfer coin ID mismatch'')
        (and_then (request_outpoint P req) (\<lambda>op.
        ensure (md_outpoint (tp_metadata p) = op) (Msg ''transfer outpoint mismatch'')
        (and_then (payload_validate_expected_amount p req) (\<lambda>_.
        ensure (secret_xonly P (tp_client_secret p) = client_pubkey (md_keys (tp_metadata p)))
          (Msg ''transferred client secret does not match coin metadata'')
        (with_context (last_opt (tp_history p)) (Msg ''transfer has no recovery history'') (\<lambda>latest.
        and_then (request_withdrawal_key P req) (\<lambda>wk.
        ensure (rec_withdrawal_key latest = wk) (Msg ''latest recovery does not pay the receiver'')
        (and_then (request_next_capability_hash P req) (\<lambda>nch.
        ensure (nch = capability_hash P (it_capability incoming))
          (Msg ''transfer request capability is inconsistent'')
        (and_then (verify_observed_funding P (tp_metadata p) obs minimum_confirmations) (\<lambda>_.
        with_context (secret_from_slice P (it_withdrawal_secret incoming))
          (Msg ''saved withdrawal key is invalid'') (\<lambda>withdrawal.
        and_then (from_client (verify_history P (tp_metadata p) st (tp_client_secret p)
            (it_capability incoming) (tp_current_handoff p) (secret_xonly P withdrawal)
            (obs_confirmations obs) (tp_history p))) (\<lambda>_.
        and_then (require_reaction_margin (obs_confirmations obs) (rec_delay_blocks latest)
            (max reaction (tr_min_reaction_blocks req))) (\<lambda>_.
        Inr (Some (accepted_coin P incoming req env p)))))))))))))))))))))))))
       (\<lambda>accepted. case accepted of
          None \<Rightarrow> (Inr False, s)
        | Some c \<Rightarrow> (Inr True, s\<lparr>ws_coin := Some c, ws_incoming := None\<rparr>))"

end
