(* ===== verification/Ownership.thy ===== *)
theory Ownership
  imports Wallet_State
begin

text \<open>
  The wallet as a transition system: every method on \<open>&mut self\<close> of \<open>WalletState\<close> is an
  operation, a wallet's life is a sequence of them, with arguments chosen by anyone. What holds
  of every wallet that can be reached this way is proved by rule induction, one lemma per
  operation.
\<close>

subsection \<open>Operations and reachable wallets\<close>

datatype wallet_op =
  OpBeginRegistration registration_draws
| OpCompleteRegistration coin_status
| OpBeginFunding funding_draws network_id secret_key source_utxo coin_status u64 u32 u64 u64 u32
| OpRecordSignResponse sign_response
| OpCompleteFundingRecovery coin_status
| OpMarkFundingBroadcast txid
| OpBeginTransferRequest transfer_request_draws network_id coin_id outpoint u64 u32
| OpBeginTransfer network_id transfer_request coin_status observed_funding u32 u32
| OpCompleteTransfer transfer_material coin_status
| OpAcceptTransfer network_id transfer_request transfer_envelope coin_status observed_funding u32 u32

definition drop_result :: "('e + 'a) \<times> 's \<Rightarrow> ('e + unit) \<times> 's" where
  "drop_result p = (case p of (Inl e, s) \<Rightarrow> (Inl e, s) | (Inr _, s) \<Rightarrow> (Inr (), s))"

definition wallet_step ::
  "'m transfer_lib_scheme \<Rightarrow> wallet_op \<Rightarrow> wallet_state \<Rightarrow> (anyhow + unit) \<times> wallet_state" where
  "wallet_step P op s =
     (case op of
        OpBeginRegistration rnd \<Rightarrow> drop_result (begin_registration P rnd s)
      | OpCompleteRegistration st \<Rightarrow> wallet_complete_registration P s st
      | OpBeginFunding rnd net sk src st amount delay rate fee reaction \<Rightarrow>
          drop_result (begin_funding P rnd s net sk src st amount delay rate fee reaction)
      | OpRecordSignResponse resp \<Rightarrow> record_sign_response s resp
      | OpCompleteFundingRecovery st \<Rightarrow> complete_funding_recovery P s st
      | OpMarkFundingBroadcast txid \<Rightarrow> mark_funding_broadcast P s txid
      | OpBeginTransferRequest rnd net cid op amount reaction \<Rightarrow>
          drop_result (begin_transfer_request P rnd s net cid op amount reaction)
      | OpBeginTransfer net req st obs conf reaction \<Rightarrow>
          drop_result (begin_transfer P s net req st obs conf reaction)
      | OpCompleteTransfer mat st \<Rightarrow> drop_result (complete_transfer P mat s st)
      | OpAcceptTransfer net req env st obs conf reaction \<Rightarrow>
          drop_result (accept_transfer P s net req env st obs conf reaction))"

inductive wallet_reachable :: "'m transfer_lib_scheme \<Rightarrow> wallet_state \<Rightarrow> bool" for P where
  empty: "wallet_reachable P empty_wallet"
| step: "wallet_reachable P s \<Longrightarrow> wallet_step P op s = (r, s') \<Longrightarrow> wallet_reachable P s'"

lemma drop_result_Inr: "drop_result p = (Inr u, t) \<longleftrightarrow> (\<exists>x. p = (Inr x, t))"
  by (auto simp: drop_result_def split: prod.splits sum.splits)

lemma drop_result_keeps [keeps]: "err_keeps s (drop_result p) \<longleftrightarrow> err_keeps s p"
  by (auto simp: drop_result_def err_keeps_def split: prod.splits sum.splits)

lemma wallet_step_keeps: "err_keeps s (wallet_step P op s)"
proof (cases op)
  case (OpRecordSignResponse resp)
  then show ?thesis
    by (auto simp: wallet_step_def record_sign_response_def err_keeps_def Let_def
        split: option.splits pending_operation.splits recovery_stage.splits)
qed (auto simp: wallet_step_def begin_registration_def wallet_complete_registration_def
    begin_funding_def complete_funding_recovery_def mark_funding_broadcast_def
    begin_transfer_request_def begin_transfer_def complete_transfer_def accept_transfer_def keeps
    Let_def split: option.splits)

text \<open>C23. An operation of the wallet that returns an error leaves the wallet as it was, so that a
  caller which saves after success only never saves a half-applied operation.\<close>

theorem wallet_error_keeps_state:
  assumes "wallet_step P op s = (Inl e, s')"
  shows "s' = s"
  using wallet_step_keeps [of s P op] assms by (simp add: err_keeps_def)

subsection \<open>The invariant\<close>

text \<open>Documented: a key parsed from 32 bytes has those bytes.\<close>

definition secret_slice_correct :: "'m transfer_lib_scheme \<Rightarrow> bool" where
  "secret_slice_correct P \<longleftrightarrow> (\<forall>b sk. secret_from_slice P b = Some sk \<longrightarrow> sk = SecretKey b)"

text \<open>What the coin's fields promise each other: the history verifies against the coin's
  metadata, the owned recovery exists and pays the saved withdrawal key, and the funding stage
  says whether a recovery was signed.\<close>

definition coin_ok :: "'m bitcoin_lib_scheme \<Rightarrow> wallet_coin \<Rightarrow> bool" where
  "coin_ok P c \<longleftrightarrow>
     client_pubkey (wc_keys c) = xonly_of P (wc_client_secret c)
     \<and> (wc_accepted_request c \<noteq> None) = (wc_accepted_envelope_fingerprint c \<noteq> None)
     \<and> (\<forall>m. wc_metadata c = Some m \<longrightarrow> md_keys m = wc_keys c)
     \<and> (wc_history c \<noteq> [] \<longrightarrow> (\<exists>m i r w. wc_metadata c = Some m
          \<and> (\<forall>r \<in> set (wc_history c). verify_recovery P m r = Inr ())
          \<and> wc_withdrawal_recovery_index c = Some i \<and> nth_opt (wc_history c) i = Some r
          \<and> wc_withdrawal_secret c = Some w \<and> rec_withdrawal_key r = xonly_of P (SecretKey w)))
     \<and> (\<forall>f. wc_funding c = Some f \<longrightarrow> (fj_stage f = FundingPrepared) = (wc_history c = []))"

definition attempt_of :: "recovery_stage \<Rightarrow> recovery_attempt" where
  "attempt_of st = (case st of StagePrepared a \<Rightarrow> a | StageResponded a _ \<Rightarrow> a)"

definition attempt_ok :: "'m transfer_lib_scheme \<Rightarrow> wallet_coin \<Rightarrow> recovery_purpose \<Rightarrow> recovery_attempt \<Rightarrow> bool" where
  "attempt_ok P c purpose a \<longleftrightarrow>
     wc_metadata c = Some (prep_metadata (ra_prepared a))
     \<and> prep_request (ra_prepared a) = ra_request a
     \<and> prep_delay_blocks (ra_prepared a) = ra_delay_blocks a
     \<and> (case purpose of
          PurposeFund nc w \<Rightarrow> (\<exists>f. wc_funding c = Some f) \<and> wc_history c = []
            \<and> prep_withdrawal_key (ra_prepared a) = xonly_of P (SecretKey w)
            \<and> next_capability_hash (ra_request a) = capability_hash P nc
        | PurposeTransfer req \<Rightarrow> wc_history c \<noteq> [] \<and> wc_outgoing c = None
            \<and> request_withdrawal_key P req = Inr (prep_withdrawal_key (ra_prepared a))
            \<and> request_next_capability_hash P req = Inr (next_capability_hash (ra_request a))
            \<and> unat (rec_delay_blocks (last (wc_history c))) = unat (ra_delay_blocks a) + 10)"

definition pending_ok :: "'m transfer_lib_scheme \<Rightarrow> wallet_state \<Rightarrow> bool" where
  "pending_ok P s \<longleftrightarrow>
     (case ws_pending s of
        None \<Rightarrow> True
      | Some (PendingRegistration csk cap reg) \<Rightarrow> ws_coin s = None
          \<and> reg_client_pubkey reg = xonly_of P csk
          \<and> initial_capability_hash (reg_request reg) = capability_hash P cap
      | Some (PendingRecovery r) \<Rightarrow>
          (\<exists>c. ws_coin s = Some c \<and> attempt_ok P c (pr_purpose r) (attempt_of (pr_stage r))))"

definition wallet_ok :: "'m transfer_lib_scheme \<Rightarrow> wallet_state \<Rightarrow> bool" where
  "wallet_ok P s \<longleftrightarrow>
     ws_format_version s = FILE_FORMAT_VERSION
     \<and> (\<forall>c. ws_coin s = Some c \<longrightarrow> coin_ok P c)
     \<and> pending_ok P s
     \<and> (ws_incoming s \<noteq> None \<longrightarrow> ws_coin s = None \<and> ws_pending s = None)"

lemma wallet_ok_empty: "wallet_ok P empty_wallet"
  by (simp add: wallet_ok_def empty_wallet_def pending_ok_def)

lemma begin_registration_ok:
  assumes "wallet_ok P s" and "begin_registration P rnd s = (Inr req, s')"
  shows "wallet_ok P s'"
  using assms
  by (auto simp: begin_registration_def ok wallet_ok_def pending_ok_def prepare_registration_def Let_def
      split: option.splits pending_operation.splits)

lemma complete_registration_keys:
  "complete_registration P reg st = Inr keys \<Longrightarrow> client_pubkey keys = reg_client_pubkey reg"
  by (auto simp: complete_registration_def ok)

lemma wallet_complete_registration_ok:
  assumes "wallet_ok P s" and "wallet_complete_registration P s st = (Inr u, s')"
  shows "wallet_ok P s'"
proof -
  from assms(2) obtain csk cap reg keys where
    *: "ws_pending s = Some (PendingRegistration csk cap reg)" "ws_coin s = None"
      "complete_registration P reg st = Inr keys"
    and s': "s' = s\<lparr>ws_coin := Some (registered_coin csk cap keys), ws_pending := None\<rparr>"
    by (auto simp: wallet_complete_registration_def ok)
  from assms(1) *(1) have "reg_client_pubkey reg = xonly_of P csk" "ws_incoming s = None"
    "ws_format_version s = FILE_FORMAT_VERSION"
    by (auto simp: wallet_ok_def pending_ok_def)
  with complete_registration_keys [OF *(3)] show ?thesis
    by (simp add: s' wallet_ok_def pending_ok_def coin_ok_def registered_coin_def)
qed

lemma prepare_recovery_attempt:
  assumes "prepare_recovery P m st csk cap handoff nch wk delay conf = Inr (req, prep)"
  shows "prep_request prep = req" "prep_metadata prep = m" "prep_withdrawal_key prep = wk"
    "prep_delay_blocks prep = delay" "next_capability_hash req = nch"
  using assms by (auto elim!: prepare_recovery_Inr)

lemma begin_funding_ok:
  assumes "wallet_ok P s"
    and "begin_funding P rnd s net sk src st amount delay rate fee reaction = (Inr req, s')"
  shows "wallet_ok P s'"
proof -
  from assms(2) obtain c m prep cap handoff and pf :: prepared_source_funding where
    c: "ws_coin s = Some c" "wc_history c = []" "ws_pending s = None"
    and m: "m = keys_metadata (wc_keys c) net (psf_outpoint pf) amount"
    and prep: "prepare_recovery P m st (wc_client_secret c) cap handoff
      (capability_hash P (fd_next_capability rnd)) (xonly_of P (fd_withdrawal rnd)) delay 0
      = Inr (req, prep)"
    and s': "s' = s\<lparr>ws_coin := Some (c\<lparr>wc_metadata := Some m,
                wc_funding := Some \<lparr>fj_transaction = psf_transaction pf, fj_delay_blocks = delay,
                  fj_fee_rate_sat_vb = rate, fj_max_fee_sat = fee,
                  fj_fee_sat = psf_fee_sat pf, fj_stage = FundingPrepared\<rparr>\<rparr>),
             ws_pending := Some (PendingRecovery
               \<lparr>pr_purpose = PurposeFund (fd_next_capability rnd) (secret_bytes (fd_withdrawal rnd)),
                pr_stage = StagePrepared
                  \<lparr>ra_expected_signature_count = cs_signature_count st, ra_delay_blocks = delay,
                   ra_request = req, ra_prepared = prep\<rparr>\<rparr>)\<rparr>"
    by (auto simp: begin_funding_def ok Let_def split: prod.splits)
  from assms(1) c have "coin_ok P c" "ws_incoming s = None" "ws_format_version s = FILE_FORMAT_VERSION"
    by (auto simp: wallet_ok_def)
  with c prepare_recovery_attempt [OF prep] show ?thesis
    by (simp add: s' wallet_ok_def pending_ok_def coin_ok_def attempt_ok_def attempt_of_def
        keys_metadata_def m)
qed

lemma record_sign_response_ok:
  assumes "wallet_ok P s" and "record_sign_response s resp = (r, s')"
  shows "wallet_ok P s'"
  using assms
  by (auto simp: record_sign_response_def wallet_ok_def pending_ok_def attempt_of_def Let_def
      split: option.splits pending_operation.splits recovery_stage.splits)

lemma complete_funding_recovery_ok:
  assumes "wallet_ok P s" and "complete_funding_recovery P s st = (Inr u, s')"
  shows "wallet_ok P s'"
proof -
  from assms(2) obtain r nc w a resp c recovery f where
    p: "ws_pending s = Some (PendingRecovery r)" "pr_purpose r = PurposeFund nc w"
      "pr_stage r = StageResponded a resp"
    and c: "ws_coin s = Some c" "wc_funding c = Some f"
    and rec: "complete_recovery P (ra_request a) resp (ra_prepared a) (wc_client_secret c) = Inr recovery"
    and s': "s' = s\<lparr>ws_coin := Some (c\<lparr>wc_history := wc_history c @ [recovery],
                wc_funding := Some (f\<lparr>fj_stage := RecoverySecured\<rparr>),
                wc_current_capability := Some nc,
                wc_current_handoff := Some (next_handoff resp),
                wc_withdrawal_secret := Some w,
                wc_withdrawal_recovery_index := Some (length (wc_history c @ [recovery]) - 1)\<rparr>),
             ws_pending := None\<rparr>"
    by (auto simp: complete_funding_recovery_def ok)
  from assms(1) p c have "coin_ok P c" "ws_incoming s = None" "ws_format_version s = FILE_FORMAT_VERSION"
    "attempt_ok P c (PurposeFund nc w) a"
    by (auto simp: wallet_ok_def pending_ok_def attempt_of_def)
  with complete_recovery_sound [OF rec] show ?thesis
    by (simp add: s' wallet_ok_def pending_ok_def coin_ok_def attempt_ok_def nth_opt_def)
qed

lemma funding_transaction_Inr:
  assumes "funding_transaction P s = Inr t"
  obtains c m f r where "ws_coin s = Some c" "wc_metadata c = Some m" "wc_funding c = Some f"
    "fj_stage f = RecoverySecured \<or> fj_stage f = Broadcast" "t = fj_transaction f"
    "validate_finalized_funding P m t = Inr ()" "first_opt (wc_history c) = Some r"
    "rec_delay_blocks r = fj_delay_blocks f" "verify_recovery P m r = Inr ()"
  using assms that by (auto simp: funding_transaction_def ok)

lemma mark_funding_broadcast_ok:
  assumes "wallet_ok P s" and "mark_funding_broadcast P s txid = (Inr u, s')"
  shows "wallet_ok P s'"
proof -
  from assms(2) obtain t where t: "funding_transaction P s = Inr t"
    and s': "s' = s\<lparr>ws_coin := map_option
      (\<lambda>c. c\<lparr>wc_funding := map_option (\<lambda>f. f\<lparr>fj_stage := Broadcast\<rparr>) (wc_funding c)\<rparr>) (ws_coin s)\<rparr>"
    by (auto simp: mark_funding_broadcast_def ok)
  from t show ?thesis
  proof (rule funding_transaction_Inr)
    fix c m f r
    assume *: "ws_coin s = Some c" "wc_funding c = Some f" "first_opt (wc_history c) = Some r"
    then have "wc_history c \<noteq> []" by (auto simp: first_opt_Some)
    with assms(1) * show ?thesis
      by (simp add: s' wallet_ok_def pending_ok_def coin_ok_def attempt_ok_def
          split: option.splits pending_operation.splits recovery_purpose.splits)
  qed
qed

lemma begin_transfer_request_ok:
  assumes "wallet_ok P s"
    and "begin_transfer_request P rnd s net cid op amount reaction = (Inr req, s')"
  shows "wallet_ok P s'"
proof -
  from assms(2) have "ws_coin s = None" "ws_pending s = None"
    and "s' = s \<or> (\<exists>i. s' = s\<lparr>ws_incoming := Some i\<rparr>)"
    by (auto simp: begin_transfer_request_def ok Let_def split: option.splits)
  with assms(1) show ?thesis by (auto simp: wallet_ok_def pending_ok_def)
qed

lemma validate_outgoing_Inr:
  assumes "validate_outgoing_transfer_request P s net req = Inr u"
  obtains c m where "ws_coin s = Some c" "wc_metadata c = Some m" "wc_history c \<noteq> []"
    "\<forall>f. wc_funding c = Some f \<longrightarrow> fj_stage f = Broadcast"
    "request_validate P req = Inr ()" "request_coin_id P req = Inr (keys_coin_id (wc_keys c))"
    "tr_network req = net" "md_network m = net" "request_outpoint P req = Inr (md_outpoint m)"
    "tr_expected_amount_sat req = md_amount_sat m"
  using assms that by (auto simp: validate_outgoing_transfer_request_def ok split: option.splits)

lemma saved_withdrawal_key_Inr:
  "saved_withdrawal_key P c = Inr sk \<longleftrightarrow>
    (\<exists>w. wc_withdrawal_secret c = Some w \<and> secret_from_slice P w = Some sk)"
  by (auto simp: saved_withdrawal_key_def ok)

lemma next_delay_Inr:
  "next_delay c = Inr d \<longleftrightarrow> unat (rec_delay_blocks (last (wc_history c))) = unat d + 10"
  by (simp add: next_delay_def ok checked_sub_unat DELAY_STEP_def)

text \<open>What a successful \<open>begin_transfer\<close> checked, and the attempt it saves.\<close>

lemma begin_transfer_Inr:
  assumes "begin_transfer P s net req st obs minc reaction = (Inr sign_req, s')"
  obtains c m cap handoff sk delay nch wk prep template where
    "ws_pending s = None" "validate_outgoing_transfer_request P s net req = Inr ()"
    "ws_coin s = Some c" "wc_outgoing c = None" "wc_metadata c = Some m"
    "verify_observed_funding P m obs minc = Inr ()"
    "wc_current_capability c = Some cap" "wc_current_handoff c = Some handoff"
    "saved_withdrawal_key P c = Inr sk"
    "verify_history P m st (wc_client_secret c) cap handoff (secret_xonly P sk)
      (obs_confirmations obs) (wc_history c) = Inr ()"
    "next_delay c = Inr delay"
    "require_reaction_margin (obs_confirmations obs) delay (max reaction (tr_min_reaction_blocks req))
      = Inr ()"
    "request_next_capability_hash P req = Inr nch" "request_withdrawal_key P req = Inr wk"
    "prepare_recovery P m st (wc_client_secret c) cap handoff nch wk delay (obs_confirmations obs)
      = Inr (sign_req, prep)"
    "recovery_serialization_template P prep = Inr template"
    "s' = s\<lparr>ws_pending := Some (PendingRecovery
             \<lparr>pr_purpose = PurposeTransfer req,
              pr_stage = StagePrepared
                \<lparr>ra_expected_signature_count = cs_signature_count st, ra_delay_blocks = delay,
                 ra_request = sign_req, ra_prepared = prep\<rparr>\<rparr>)\<rparr>"
  using assms unfolding begin_transfer_def ok
  by (elim exE conjE) (auto simp: ok split: prod.splits intro: that)

lemma begin_transfer_ok:
  assumes "wallet_ok P s" and "begin_transfer P s net req st obs minc reaction = (Inr sign_req, s')"
  shows "wallet_ok P s'"
  using assms(2)
proof (rule begin_transfer_Inr)
  fix c m cap handoff sk delay nch wk prep template
  assume c: "ws_coin s = Some c" "wc_outgoing c = None" "wc_metadata c = Some m"
    and v: "validate_outgoing_transfer_request P s net req = Inr ()"
    and d: "next_delay c = Inr delay"
    and r: "request_next_capability_hash P req = Inr nch" "request_withdrawal_key P req = Inr wk"
    and prep: "prepare_recovery P m st (wc_client_secret c) cap handoff nch wk delay
        (obs_confirmations obs) = Inr (sign_req, prep)"
    and s': "s' = s\<lparr>ws_pending := Some (PendingRecovery
             \<lparr>pr_purpose = PurposeTransfer req,
              pr_stage = StagePrepared
                \<lparr>ra_expected_signature_count = cs_signature_count st, ra_delay_blocks = delay,
                 ra_request = sign_req, ra_prepared = prep\<rparr>\<rparr>)\<rparr>"
  from v c(1) have "wc_history c \<noteq> []" by (auto elim: validate_outgoing_Inr)
  moreover from assms(1) c(1) have "coin_ok P c" "ws_incoming s = None"
    "ws_format_version s = FILE_FORMAT_VERSION" by (auto simp: wallet_ok_def)
  ultimately show ?thesis
    using c d r prepare_recovery_attempt [OF prep]
    by (simp add: s' wallet_ok_def pending_ok_def attempt_ok_def attempt_of_def next_delay_Inr)
qed

text \<open>What a successful \<open>complete_transfer\<close> checked, and the wallet it leaves.\<close>

lemma complete_transfer_Inr:
  assumes "complete_transfer P mat s st = (Inr env, s')"
  obtains r req a resp c m recovery i retained rid where
    "ws_pending s = Some (PendingRecovery r)" "pr_purpose r = PurposeTransfer req"
    "pr_stage r = StageResponded a resp" "request_validate P req = Inr ()"
    "ws_coin s = Some c" "wc_metadata c = Some m"
    "request_coin_id P req = Inr (keys_coin_id (wc_keys c))" "tr_network req = md_network m"
    "request_outpoint P req = Inr (md_outpoint m)" "tr_expected_amount_sat req = md_amount_sat m"
    "verify_status (wc_keys c) st = Inr ()"
    "verify_sign_response P (ra_request a) (ra_expected_signature_count a) st resp = Inr ()"
    "complete_recovery P (ra_request a) resp (ra_prepared a) (wc_client_secret c) = Inr recovery"
    "rec_delay_blocks recovery = ra_delay_blocks a"
    "wc_withdrawal_recovery_index c = Some i" "nth_opt (wc_history c) i = Some retained"
    "request_id_of P req = Inr rid"
    "encrypt_transfer P mat req \<lparr>tp_format_version = FILE_FORMAT_VERSION,
       tp_protocol_version = PROTOCOL_VERSION, tp_request_id = rid,
       tp_client_secret = wc_client_secret c, tp_current_handoff = next_handoff resp,
       tp_metadata = m, tp_history = wc_history c @ [recovery]\<rparr> = Inr env"
    "s' = s\<lparr>ws_coin := Some (c\<lparr>wc_history := [retained], wc_withdrawal_recovery_index := Some 0,
        wc_current_capability := None, wc_current_handoff := None,
        wc_outgoing := Some \<lparr>ot_request = req, ot_envelope = env\<rparr>\<rparr>), ws_pending := None\<rparr>"
  using assms unfolding complete_transfer_def ok
  by (elim exE conjE) (auto simp: ok Let_def split: prod.splits intro: that)

lemma complete_transfer_ok:
  assumes "wallet_ok P s" and "complete_transfer P mat s st = (Inr env, s')"
  shows "wallet_ok P s'"
  using assms(2)
proof (rule complete_transfer_Inr)
  fix r req a resp c m recovery i retained rid
  assume c: "ws_coin s = Some c" "wc_metadata c = Some m" "wc_withdrawal_recovery_index c = Some i"
      "nth_opt (wc_history c) i = Some retained"
    and p: "ws_pending s = Some (PendingRecovery r)"
    and s': "s' = s\<lparr>ws_coin := Some (c\<lparr>wc_history := [retained], wc_withdrawal_recovery_index := Some 0,
        wc_current_capability := None, wc_current_handoff := None,
        wc_outgoing := Some \<lparr>ot_request = req, ot_envelope = env\<rparr>\<rparr>), ws_pending := None\<rparr>"
  from c(4) have retained: "retained \<in> set (wc_history c)" by (auto simp: nth_opt_Some)
  then have "wc_history c \<noteq> []" by auto
  with assms(1) c p retained show ?thesis
    by (auto simp: s' wallet_ok_def pending_ok_def coin_ok_def nth_opt_def)
qed

text \<open>What a successful \<open>accept_transfer\<close> of a new coin checked.\<close>

lemma accept_transfer_Inr:
  assumes "accept_transfer P s net req env st obs minc reaction = (Inr True, s')"
  obtains incoming p sk where
    "ws_coin s = None" "ws_pending s = None" "ws_incoming s = Some incoming"
    "it_request incoming = req" "request_validate P req = Inr ()"
    "decrypt_transfer P req (it_transport_secret incoming) env = Inr p"
    "md_network (tp_metadata p) = net" "tr_network req = net"
    "request_coin_id P req = Inr (keys_coin_id (md_keys (tp_metadata p)))"
    "request_outpoint P req = Inr (md_outpoint (tp_metadata p))"
    "md_amount_sat (tp_metadata p) = tr_expected_amount_sat req"
    "xonly_of P (tp_client_secret p) = client_pubkey (md_keys (tp_metadata p))"
    "tp_history p \<noteq> []"
    "request_withdrawal_key P req = Inr (rec_withdrawal_key (last (tp_history p)))"
    "request_next_capability_hash P req = Inr (capability_hash P (it_capability incoming))"
    "verify_observed_funding P (tp_metadata p) obs minc = Inr ()"
    "secret_from_slice P (it_withdrawal_secret incoming) = Some sk"
    "verify_history P (tp_metadata p) st (tp_client_secret p) (it_capability incoming)
      (tp_current_handoff p) (xonly_of P sk) (obs_confirmations obs) (tp_history p) = Inr ()"
    "require_reaction_margin (obs_confirmations obs) (rec_delay_blocks (last (tp_history p)))
      (max reaction (tr_min_reaction_blocks req)) = Inr ()"
    "s' = s\<lparr>ws_coin := Some (accepted_coin P incoming req env p), ws_incoming := None\<rparr>"
proof -
  from assms have none: "ws_coin s = None"
    by (auto simp: accept_transfer_def ok split: option.splits)
  from assms show thesis
    unfolding accept_transfer_def ok none
    by (elim exE conjE)
      (auto simp: ok last_opt_Some secret_xonly_def payload_validate_expected_amount_def
        split: option.splits intro: that none)
qed

lemma accept_transfer_False:
  assumes "accept_transfer P s net req env st obs minc reaction = (Inr False, s')"
  shows "s' = s"
  using assms by (auto simp: accept_transfer_def ok split: option.splits)

lemma accept_transfer_ok:
  assumes "secret_slice_correct P" and "wallet_ok P s"
    and "accept_transfer P s net req env st obs minc reaction = (Inr b, s')"
  shows "wallet_ok P s'"
proof (cases b)
  case False
  with assms(2,3) show ?thesis using accept_transfer_False by metis
next
  case True
  with assms(3) have "accept_transfer P s net req env st obs minc reaction = (Inr True, s')" by simp
  then show ?thesis
  proof (rule accept_transfer_Inr)
    fix incoming p sk
    assume *: "xonly_of P (tp_client_secret p) = client_pubkey (md_keys (tp_metadata p))"
      "tp_history p \<noteq> []" "secret_from_slice P (it_withdrawal_secret incoming) = Some sk"
      "verify_history P (tp_metadata p) st (tp_client_secret p) (it_capability incoming)
        (tp_current_handoff p) (xonly_of P sk) (obs_confirmations obs) (tp_history p) = Inr ()"
      "ws_pending s = None"
      and s': "s' = s\<lparr>ws_coin := Some (accepted_coin P incoming req env p), ws_incoming := None\<rparr>"
    from assms(1) *(3) have sk: "sk = SecretKey (it_withdrawal_secret incoming)"
      by (simp add: secret_slice_correct_def)
    from verify_history_Inr(4,5) [OF *(4)] *(2)
    have "rec_withdrawal_key (last (tp_history p)) = xonly_of P sk"
      "\<forall>r \<in> set (tp_history p). verify_recovery P (tp_metadata p) r = Inr ()"
      by (auto simp: last_opt_def split: if_splits)
    with assms(2) *(1,2,5) show ?thesis
      by (simp add: s' wallet_ok_def pending_ok_def coin_ok_def accepted_coin_def nth_opt_def
          last_conv_nth sk)
  qed
qed

lemma wallet_step_ok:
  assumes "secret_slice_correct P" and "wallet_ok P s" and "wallet_step P op s = (r, s')"
  shows "wallet_ok P s'"
proof (cases r)
  case (Inl e)
  with assms(2,3) wallet_step_keeps [of s P op] show ?thesis by (simp add: err_keeps_def)
next
  case (Inr u)
  with assms(2,3) show ?thesis
    by (cases op)
      (auto simp: wallet_step_def drop_result_Inr intro: begin_registration_ok
        wallet_complete_registration_ok begin_funding_ok record_sign_response_ok
        complete_funding_recovery_ok mark_funding_broadcast_ok begin_transfer_request_ok
        begin_transfer_ok complete_transfer_ok accept_transfer_ok [OF assms(1)])
qed

lemma wallet_reachable_ok:
  assumes "secret_slice_correct P" and "wallet_reachable P s"
  shows "wallet_ok P s"
  using assms(2) by (induction rule: wallet_reachable.induct)
    (auto intro: wallet_ok_empty wallet_step_ok [OF assms(1)])

subsection \<open>Properties\<close>

lemma reachable_can_exit_coin:
  assumes "secret_slice_correct P" and "wallet_reachable P s" and "ws_coin s = Some c"
    and "wc_history c \<noteq> []"
  shows "\<exists>m i r w. wc_metadata c = Some m \<and> wc_withdrawal_recovery_index c = Some i
    \<and> nth_opt (wc_history c) i = Some r \<and> verify_recovery P m r = Inr ()
    \<and> wc_withdrawal_secret c = Some w \<and> rec_withdrawal_key r = xonly_of P (SecretKey w)
    \<and> (\<forall>r' \<in> set (wc_history c). verify_recovery P m r' = Inr ())"
proof -
  from wallet_reachable_ok [OF assms(1,2)] assms(3) have "coin_ok P c" by (simp add: wallet_ok_def)
  with assms(4) obtain m i r w where
    *: "wc_metadata c = Some m" "\<forall>r \<in> set (wc_history c). verify_recovery P m r = Inr ()"
      "wc_withdrawal_recovery_index c = Some i" "nth_opt (wc_history c) i = Some r"
      "wc_withdrawal_secret c = Some w" "rec_withdrawal_key r = xonly_of P (SecretKey w)"
    unfolding coin_ok_def by blast
  from *(4) have "r \<in> set (wc_history c)" by (auto simp: nth_opt_Some)
  with * show ?thesis by blast
qed

text \<open>C22. A wallet that holds a coin with a history can always leave on its own: in every
  reachable wallet the owned recovery exists, is accepted by \<open>verify_recovery\<close> against the
  coin's metadata (as is the whole history), and pays the key of the saved withdrawal secret.\<close>

theorem reachable_wallet_can_exit:
  assumes "secret_slice_correct P" and "wallet_reachable P s" and "ws_coin s = Some c"
    and "wc_history c \<noteq> []"
  shows "\<exists>m i r w. wc_metadata c = Some m \<and> wc_withdrawal_recovery_index c = Some i
    \<and> nth_opt (wc_history c) i = Some r \<and> verify_recovery P m r = Inr ()
    \<and> wc_withdrawal_secret c = Some w \<and> rec_withdrawal_key r = xonly_of P (SecretKey w)
    \<and> (\<forall>r' \<in> set (wc_history c). verify_recovery P m r' = Inr ())"
  by (rule reachable_can_exit_coin [OF assms])

lemma validate_finalized_funding_Inr:
  assumes "validate_finalized_funding P m t = Inr u"
  shows "validate_funding_inputs P t = Inr ()" and "compute_txid P t = op_txid (md_outpoint m)"
    and "nth_opt (outputs t) (unat (op_vout (md_outpoint m)))
      = Some \<lparr>txout_value = md_amount_sat m, script_pubkey = funding_script P (md_keys m)\<rparr>"
  using assms by (auto simp: validate_finalized_funding_def ok Let_def verify_funding_utxo_Inr)

text \<open>C4. The deposit is never locked without a way out: whenever a reachable wallet hands out a
  funding transaction for broadcast, it holds a recovery, signed by the enclave and the client,
  that spends exactly the output this transaction creates for the coin and pays its whole
  amount to a key whose secret the wallet has saved.\<close>

theorem no_broadcast_without_recovery:
  assumes "secret_slice_correct P" and "height_sequence P" and "wallet_reachable P s"
    and "funding_transaction P s = Inr t"
  shows "\<exists>c m i r w i'. ws_coin s = Some c \<and> wc_metadata c = Some m
    \<and> nth_opt (outputs t) (unat (op_vout (md_outpoint m)))
        = Some \<lparr>txout_value = md_amount_sat m, script_pubkey = funding_script P (md_keys m)\<rparr>
    \<and> wc_withdrawal_secret c = Some w \<and> wc_withdrawal_recovery_index c = Some i
    \<and> nth_opt (wc_history c) i = Some r \<and> verify_recovery P m r = Inr ()
    \<and> inputs (rec_transaction r) = [i']
    \<and> previous_output i' = OutPoint (compute_txid P t) (op_vout (md_outpoint m))
    \<and> signed_by_both P (rec_transaction r) (md_amount_sat m) (md_keys m) (witness i')
    \<and> outputs (rec_transaction r)
        = [\<lparr>txout_value = md_amount_sat m, script_pubkey = new_p2tr P (xonly_of P (SecretKey w))\<rparr>]"
  using assms(4)
proof (rule funding_transaction_Inr)
  fix c m f r0
  assume c: "ws_coin s = Some c" "wc_metadata c = Some m"
    and v: "validate_finalized_funding P m t = Inr ()" and "first_opt (wc_history c) = Some r0"
  then have "wc_history c \<noteq> []" by (auto simp: first_opt_Some)
  from reachable_can_exit_coin [OF assms(1,3) c(1) this] c(2) obtain i r w where
    r: "wc_withdrawal_recovery_index c = Some i" "nth_opt (wc_history c) i = Some r"
      "verify_recovery P m r = Inr ()" "wc_withdrawal_secret c = Some w"
      "rec_withdrawal_key r = xonly_of P (SecretKey w)" by auto
  from verified_recovery_spends [OF assms(2) r(3)] obtain i' where
    "inputs (rec_transaction r) = [i']" "previous_output i' = md_outpoint m"
    "signed_by_both P (rec_transaction r) (md_amount_sat m) (md_keys m) (witness i')"
    "outputs (rec_transaction r)
      = [\<lparr>txout_value = md_amount_sat m, script_pubkey = new_p2tr P (rec_withdrawal_key r)\<rparr>]" by blast
  moreover have "md_outpoint m = OutPoint (compute_txid P t) (op_vout (md_outpoint m))"
    using validate_finalized_funding_Inr(2) [OF v] by (cases "md_outpoint m") simp
  ultimately show ?thesis
    using c r validate_finalized_funding_Inr(3) [OF v]
    by (intro exI [of _ c] exI [of _ m] exI [of _ i] exI [of _ r] exI [of _ w] exI [of _ i']) simp
qed

lemma begin_registration_saves:
  assumes "begin_registration P rnd s = (Inr req, s1)"
  shows "validate_version s1 = Inr () \<and> ws_coin s1 = None \<and> ws_incoming s1 = None
    \<and> (\<exists>csk cap reg. ws_pending s1 = Some (PendingRegistration csk cap reg) \<and> req = reg_request reg)"
proof -
  from assms have s: "validate_version s = Inr ()" "ws_coin s = None" "ws_incoming s = None"
    by (auto simp: begin_registration_def ok)
  show ?thesis
  proof (cases "ws_pending s")
    case None
    with assms s show ?thesis
      by (simp add: begin_registration_def Let_def validate_version_def) auto
  next
    case (Some q)
    with assms s show ?thesis by (cases q) (auto simp: begin_registration_def)
  qed
qed

text \<open>Beginning again resumes: after a successful \<open>begin_registration\<close> or
  \<open>begin_transfer_request\<close>, calling it again with the same arguments, whatever it draws, returns
  the saved request and changes nothing. No second coin or request is ever generated by a retry.\<close>

theorem begin_again_resumes:
  assumes "hex_correct P" and "text_forms_correct P"
    and "begin_registration P rnd s = (Inr reg, s1)"
    and "begin_transfer_request P rnd' t net cid op amount reaction = (Inr req, t1)"
  shows "begin_registration P rnd2 s1 = (Inr reg, s1)
    \<and> begin_transfer_request P rnd2' t1 net cid op amount reaction = (Inr req, t1)"
proof
  show "begin_registration P rnd2 s1 = (Inr reg, s1)"
    using begin_registration_saves [OF assms(3)] by (auto simp: begin_registration_def)
next
  from assms(4) have args: "validate_version t = Inr ()" "ws_coin t = None" "ws_pending t = None"
    "\<not> outpoint_is_null P op" "DELAY_STEP \<le> reaction"
    by (auto simp: begin_transfer_request_def ok)
  have saved: "begin_transfer_request P rnd2' u net cid op amount reaction = (Inr req, u)"
    if "validate_version u = Inr ()" "ws_coin u = None" "ws_pending u = None" "ws_incoming u = Some i"
      "it_request i = req" "request_coin_id P req = Inr cid" "request_outpoint P req = Inr op"
      "tr_network req = net" "tr_expected_amount_sat req = amount" "tr_min_reaction_blocks req = reaction"
    for u i
    using that args(4,5) by (simp add: begin_transfer_request_def)
  show "begin_transfer_request P rnd2' t1 net cid op amount reaction = (Inr req, t1)"
  proof (cases "ws_incoming t")
    case (Some i)
    with assms(4) have "t1 = t" "it_request i = req" "request_coin_id P req = Inr cid"
      "request_outpoint P req = Inr op" "tr_network req = net" "tr_expected_amount_sat req = amount"
      "tr_min_reaction_blocks req = reaction"
      by (auto simp: begin_transfer_request_def ok)
    with saved [OF args(1-3) Some] show ?thesis by simp
  next
    case None
    let ?req = "new_transfer_request P (td_request_id rnd') cid net op amount
      (secret_xonly P (td_withdrawal rnd')) (capability_hash P (td_capability rnd'))
      (public_of P (td_transport rnd')) reaction"
    from None assms(4) obtain i where i: "req = ?req" "request_validate P ?req = Inr ()"
      "t1 = t\<lparr>ws_incoming := Some i\<rparr>" "it_request i = req"
      by (auto simp: begin_transfer_request_def ok Let_def)
    from i(2) have "amount \<le> max_money P"
      by (auto elim!: request_validate_canonical simp: new_transfer_request_def)
    from new_request_reads_back [OF assms(1,2) args(4) this i(1)] i(3,4) args(1-3)
    show ?thesis
      by (intro saved [of t1 i]) (simp_all add: validate_version_def i(1) new_transfer_request_def)
  qed
qed

text \<open>The request that was signed is the request that stays: recording the enclave's
  response does not change the pending request, recording the same response again changes
  nothing, and a different response is refused. So a crash between any two saves resumes with
  the very request the enclave has cached.\<close>

theorem record_response_once:
  assumes "record_sign_response s resp = (Inr (), s1)"
  shows "pending_sign_request s1 = pending_sign_request s
    \<and> record_sign_response s1 resp = (Inr (), s1)
    \<and> (resp' \<noteq> resp \<longrightarrow>
        record_sign_response s1 resp' = (Inl (Msg ''enclave response does not match saved response''), s1))
    \<and> ws_coin s1 = ws_coin s \<and> ws_incoming s1 = ws_incoming s"
  using assms
  by (auto simp: record_sign_response_def pending_sign_request_def Let_def
      split: option.splits pending_operation.splits recovery_stage.splits if_splits)

text \<open>C12. Completing a transfer gives the coin away and keeps the sender's own exit: the wallet
  forgets the capability and the handoff, keeps of the history exactly its own recovery, holds the
  envelope for delivery and refuses another transfer; and the envelope decrypts, for the
  receiver's transport secret, to the coin's keys and the whole history extended by a verified
  recovery that pays the receiver and matures ten blocks before the sender's latest.\<close>

theorem complete_transfer_hands_over:
  assumes "secret_slice_correct P" and "hex_correct P" and "text_forms_correct P" and "aead_correct P"
    and "payload_json_correct P" and "ecdh_correct P"
    and "wallet_reachable P s" and "complete_transfer P mat s st = (Inr env, s')"
  shows "\<exists>c c' m req i own r. ws_coin s = Some c \<and> ws_coin s' = Some c' \<and> ws_pending s' = None
    \<and> wc_metadata c = Some m \<and> wc_withdrawal_recovery_index c = Some i
    \<and> nth_opt (wc_history c) i = Some own
    \<and> wc_history c' = [own] \<and> wc_current_capability c' = None \<and> wc_current_handoff c' = None
    \<and> wc_outgoing c' = Some \<lparr>ot_request = req, ot_envelope = env\<rparr>
    \<and> isl (fst (begin_transfer P s' net req' st' obs minc reaction))
    \<and> request_withdrawal_key P req = Inr (rec_withdrawal_key r) \<and> verify_recovery P m r = Inr ()
    \<and> unat (rec_delay_blocks (last (wc_history c))) = unat (rec_delay_blocks r) + 10
    \<and> (\<forall>ts tsk. secret_from_slice P ts = Some tsk \<and> request_transport_key P req = Inr (public_of P tsk)
        \<longrightarrow> (\<exists>p. decrypt_transfer P req ts env = Inr p \<and> tp_metadata p = m
              \<and> tp_client_secret p = wc_client_secret c \<and> tp_history p = wc_history c @ [r]))"
  using assms(8)
proof (rule complete_transfer_Inr)
  fix pr :: pending_recovery and req :: transfer_request and a :: recovery_attempt
    and resp :: sign_response and c :: wallet_coin and m :: coin_metadata
    and r own :: signed_recovery and i :: nat and rid :: bytes32
  let ?payload = "\<lparr>tp_format_version = FILE_FORMAT_VERSION,
       tp_protocol_version = PROTOCOL_VERSION, tp_request_id = rid,
       tp_client_secret = wc_client_secret c, tp_current_handoff = next_handoff resp,
       tp_metadata = m, tp_history = wc_history c @ [r]\<rparr>"
  let ?c' = "c\<lparr>wc_history := [own], wc_withdrawal_recovery_index := Some 0,
        wc_current_capability := None, wc_current_handoff := None,
        wc_outgoing := Some \<lparr>ot_request = req, ot_envelope = env\<rparr>\<rparr>"
  assume p: "ws_pending s = Some (PendingRecovery pr)" "pr_purpose pr = PurposeTransfer req"
      "pr_stage pr = StageResponded a resp"
    and c: "ws_coin s = Some c" "wc_metadata c = Some m" "wc_withdrawal_recovery_index c = Some i"
      "nth_opt (wc_history c) i = Some own"
    and rec: "complete_recovery P (ra_request a) resp (ra_prepared a) (wc_client_secret c) = Inr r"
      "rec_delay_blocks r = ra_delay_blocks a"
    and enc: "encrypt_transfer P mat req ?payload = Inr env"
    and s': "s' = s\<lparr>ws_coin := Some ?c', ws_pending := None\<rparr>"
  from wallet_reachable_ok [OF assms(1,7)] p c(1)
  have "attempt_ok P c (PurposeTransfer req) a"
    by (auto simp: wallet_ok_def pending_ok_def attempt_of_def)
  with complete_recovery_sound [OF rec(1)] c(2) rec(2)
  have r: "verify_recovery P m r = Inr ()" "request_withdrawal_key P req = Inr (rec_withdrawal_key r)"
    "unat (rec_delay_blocks (last (wc_history c))) = unat (rec_delay_blocks r) + 10"
    by (simp_all add: attempt_ok_def)
  have "\<nexists>y. fst (begin_transfer P s' net req' st' obs minc reaction) = Inr y"
  proof
    assume "\<exists>y. fst (begin_transfer P s' net req' st' obs minc reaction) = Inr y"
    then obtain y t where "begin_transfer P s' net req' st' obs minc reaction = (Inr y, t)"
      by (metis prod.collapse)
    then show False by (rule begin_transfer_Inr) (auto simp: s')
  qed
  then have "isl (fst (begin_transfer P s' net req' st' obs minc reaction))"
    by (metis isl_def sum.exhaust)
  moreover have "keys_valid (payload_keys ?payload)"
    using verify_recovery_keys [OF r(1)] by (simp add: payload_keys_def)
  ultimately show ?thesis
    using c r decrypt_encrypted [OF assms(2-6) enc]
    by (intro exI [of _ c] exI [of _ ?c'] exI [of _ m] exI [of _ req] exI [of _ i] exI [of _ own]
        exI [of _ r]) (simp add: s')
qed

text \<open>C11. What a receiver has when \<open>accept_transfer\<close> succeeds with a new coin: the funding
  output it asked for is unspent and confirmed; the coin's client key is the metadata's and the
  enclave's status is that of the coin, with a commitment to the receiver's own capability and
  the handoff it was given; the saved history is complete and genuine, every recovery of it
  verifies and the enclave has signed exactly that many; the latest pays the whole amount to
  the receiver's key and matures later than the confirmations plus both reaction margins; and
  every earlier owner's recovery matures exactly ten blocks later per signature that followed
  it. Accepting the same envelope again succeeds without effect.\<close>

theorem accept_transfer_guarantees:
  assumes "accept_transfer P s net req env st obs minc reaction = (Inr True, s')"
  shows "\<exists>c m cap handoff w sk latest. ws_coin s' = Some c \<and> wc_metadata c = Some m
    \<and> obs_unspent obs \<and> minc \<le> obs_confirmations obs \<and> obs_outpoint obs = md_outpoint m
    \<and> obs_output obs = \<lparr>txout_value = md_amount_sat m, script_pubkey = funding_script P (md_keys m)\<rparr>
    \<and> request_outpoint P req = Inr (md_outpoint m) \<and> md_amount_sat m = tr_expected_amount_sat req
    \<and> wc_current_capability c = Some cap \<and> wc_current_handoff c = Some handoff
    \<and> verify_status (md_keys m) st = Inr ()
    \<and> client_xonly P (wc_client_secret c) = client_pubkey (md_keys m)
    \<and> cs_authorization st = authorization P (keys_coin_id (md_keys m)) (capability_hash P cap) handoff
    \<and> cs_signature_count st = of_nat (length (wc_history c))
    \<and> (\<forall>r \<in> set (wc_history c). verify_recovery P m r = Inr ())
    \<and> wc_withdrawal_secret c = Some w \<and> secret_from_slice P w = Some sk
    \<and> last_opt (wc_history c) = Some latest \<and> rec_withdrawal_key latest = xonly_of P sk
    \<and> verify_recovery P m latest = Inr ()
    \<and> unat (obs_confirmations obs) + unat (max reaction (tr_min_reaction_blocks req))
        < unat (rec_delay_blocks latest)
    \<and> (\<forall>i j. i < j \<and> j < length (wc_history c) \<longrightarrow>
        unat (rec_delay_blocks (wc_history c ! i))
          = unat (rec_delay_blocks (wc_history c ! j)) + 10 * (j - i))
    \<and> accept_transfer P s' net' req env st' obs' minc' reaction' = (Inr False, s')"
  using assms
proof (rule accept_transfer_Inr)
  fix incoming :: incoming_transfer and p :: transfer_payload and sk :: secret_key
  let ?c = "accepted_coin P incoming req env p" and ?m = "tp_metadata p"
  assume v: "request_validate P req = Inr ()"
    "request_outpoint P req = Inr (md_outpoint ?m)" "md_amount_sat ?m = tr_expected_amount_sat req"
    and h: "tp_history p \<noteq> []" "secret_from_slice P (it_withdrawal_secret incoming) = Some sk"
    "verify_history P ?m st (tp_client_secret p) (it_capability incoming)
      (tp_current_handoff p) (xonly_of P sk) (obs_confirmations obs) (tp_history p) = Inr ()"
    and obs: "verify_observed_funding P ?m obs minc = Inr ()"
    and margin: "require_reaction_margin (obs_confirmations obs) (rec_delay_blocks (last (tp_history p)))
      (max reaction (tr_min_reaction_blocks req)) = Inr ()"
    and s': "s' = s\<lparr>ws_coin := Some ?c, ws_incoming := None\<rparr>"
  note vh = verify_history_Inr [OF h(3)]
  have version: "validate_version s = Inr ()"
    using assms by (auto simp: accept_transfer_def ok)
  then have "validate_version s' = Inr ()"
    by (auto simp: s' validate_version_def accepted_coin_def ok)
  then have again: "accept_transfer P s' net' req env st' obs' minc' reaction' = (Inr False, s')"
    using v(1) by (simp add: accept_transfer_def) (simp add: s' accepted_coin_def)
  from history_latest [OF h(3)] vh(5) have "rec_withdrawal_key (last (tp_history p)) = xonly_of P sk"
    "verify_recovery P ?m (last (tp_history p)) = Inr ()" by simp_all
  with obs margin v(2,3) h(1,2) vh(1,2,3,5,8) history_delays [OF h(3)] again show ?thesis
    by (intro exI [of _ ?c] exI [of _ ?m] exI [of _ "it_capability incoming"]
        exI [of _ "tp_current_handoff p"] exI [of _ "it_withdrawal_secret incoming"] exI [of _ sk]
        exI [of _ "last (tp_history p)"])
      (simp add: s' accepted_coin_def verify_observed_funding_def ok last_opt_def
        verify_observed_funding_output_Inr require_reaction_margin_Inr)
qed

end
