(* ===== verification/Exit.thy ===== *)
theory Exit
  imports Ownership
begin

text \<open>
  Leaving on one's own: \<^verbatim>\<open>wallet-core/src/exit.rs\<close>. An exit package is the owned
  recovery and a child that pays its fee; its journal follows the same discipline as a sweep's.
\<close>

subsection \<open>Data\<close>

record exit_package =
  ep_format_version :: u32
  ep_network :: network_id
  ep_destination :: string
  ep_fee_rate :: u64
  ep_max_fee :: u64
  ep_fee :: u64
  ep_recovery_delay :: u32
  ep_parent :: transaction
  ep_child :: transaction

datatype exit_stage = ExitPrepared | ExitSubmissionArmed | ExitObserved

record exit_journal =
  ej_package :: exit_package
  ej_stage :: exit_stage

subsection \<open>The chain's view of the funding output\<close>

text \<open>\<open>coin.history[spending_index]\<close> cannot panic: \<open>position\<close> returned the index.\<close>

definition verify_exit_funding ::
  "'m bitcoin_lib_scheme \<Rightarrow> wallet_coin \<Rightarrow> observed_funding \<Rightarrow> u32 \<Rightarrow> txid option \<Rightarrow> bool
    \<Rightarrow> txid option \<Rightarrow> anyhow + unit" where
  "verify_exit_funding P c obs minimum_confirmations spending_txid spending_confirmed saved_exit_parent =
     with_context (wc_metadata c) (Msg ''coin has no verified funding'') (\<lambda>m.
     and_then (verify_observed_funding_output P m obs minimum_confirmations) (\<lambda>_.
     if obs_unspent obs then Inr ()
     else
     with_context spending_txid (Msg ''spent funding output has no spending txid'') (\<lambda>spender.
     with_context (position (\<lambda>r. compute_txid P (rec_transaction r) = spender) (wc_history c))
       (Msg ''funding output was spent by an unknown transaction'') (\<lambda>spending_index.
     with_context (wc_withdrawal_recovery_index c) (Msg ''wallet has no owned recovery'')
       (\<lambda>owned_index.
     ensure (spending_index \<le> owned_index)
       (Msg ''a newer owner's recovery is already in the mempool'')
     (and_then (from_client (verify_recovery P m (wc_history c ! spending_index))) (\<lambda>_.
     ensure (\<not> spending_confirmed
         \<or> (spending_index = owned_index
            \<and> (case saved_exit_parent of None \<Rightarrow> True | Some parent \<Rightarrow> parent = spender)))
       (Msg ''a different recovery has already confirmed'')
     (Inr ()))))))))"

subsection \<open>The owned recovery\<close>

definition owned_recovery ::
  "'m transfer_lib_scheme \<Rightarrow> wallet_coin \<Rightarrow> network_id
    \<Rightarrow> anyhow + coin_metadata \<times> signed_recovery \<times> secret_key" where
  "owned_recovery P c net =
     with_context (wc_metadata c) (Msg ''coin has no verified funding'') (\<lambda>m.
     ensure (md_network m = net) (Msg ''exit network mismatch'')
     (ensure (case wc_funding c of None \<Rightarrow> True | Some f \<Rightarrow> fj_stage f = Broadcast)
       (Msg ''funding has not been broadcast'')
     (with_context (wc_withdrawal_secret c) (Msg ''wallet has no current withdrawal key'') (\<lambda>w.
     with_context (secret_from_slice P w) (Msg ''saved withdrawal key is invalid'') (\<lambda>sk.
     with_context (wc_withdrawal_recovery_index c) (Msg ''wallet has no owned recovery'') (\<lambda>i.
     with_context (nth_opt (wc_history c) i) (Msg ''owned recovery index is invalid'') (\<lambda>r.
     ensure (secret_xonly P sk = rec_withdrawal_key r)
       (Msg ''saved withdrawal key does not match owned recovery'')
     (and_then (from_client (verify_recovery P m r)) (\<lambda>_.
     Inr (m, r, sk))))))))))"

subsection \<open>The package\<close>

text \<open>\<open>child.output[0]\<close> cannot panic: \<open>build_exit_child\<close> returns a child with one output.\<close>

definition exit_validate :: "'m transfer_lib_scheme \<Rightarrow> exit_package \<Rightarrow> wallet_coin \<Rightarrow> anyhow + unit" where
  "exit_validate P p c =
     ensure (ep_format_version p = FILE_FORMAT_VERSION)
       (Fmt ''unsupported exit package version {}'' [unat (ep_format_version p)])
     (ensure (0 < ep_fee_rate p) (Msg ''exit fee rate must be positive'')
     (with_context (address_from_str P (ep_destination p)) (Msg ''invalid saved exit destination'')
       (\<lambda>unchecked.
     with_context (require_network P unchecked (bitcoin_network (ep_network p)))
       (Msg ''saved exit destination is for the wrong network'') (\<lambda>dest.
     and_then (owned_recovery P c (ep_network p)) (\<lambda>(m, r, sk).
     ensure (rec_delay_blocks r = ep_recovery_delay p \<and> rec_transaction r = ep_parent p)
       (Msg ''saved exit parent does not match the owned recovery'')
     (and_then (from_client (build_exit_child P r (md_amount_sat m) sk (address_script P dest)
         (ep_fee_rate p))) (\<lambda>expected_child.
     ensure (expected_child = ep_child p) (Msg ''saved exit child is not canonical'')
     (with_context (checked_sub (md_amount_sat m) (txout_value (outputs (ep_child p) ! 0)))
       (Msg ''exit fee exceeds the coin amount'') (\<lambda>fee.
     ensure (fee = ep_fee p) (Msg ''saved exit fee is inconsistent'')
     (ensure (fee \<le> ep_max_fee p)
       (Fmt ''exit fee {} sat exceeds maximum {} sat'' [unat fee, unat (ep_max_fee p)])
     (Inr ())))))))))))"

definition exit_package_prepare ::
  "'m transfer_lib_scheme \<Rightarrow> wallet_coin \<Rightarrow> network_id \<Rightarrow> string \<Rightarrow> u32 \<Rightarrow> u64 \<Rightarrow> u64
    \<Rightarrow> anyhow + exit_package" where
  "exit_package_prepare P c net destination confirmations fee_rate max_fee =
     ensure (0 < fee_rate) (Msg ''exit fee rate must be positive'')
     (with_context (address_from_str P destination) (Msg ''invalid destination address'') (\<lambda>unchecked.
     with_context (require_network P unchecked (bitcoin_network net))
       (Msg ''destination address is for the wrong network'') (\<lambda>dest.
     and_then (owned_recovery P c net) (\<lambda>(m, r, sk).
     ensure (rec_delay_blocks r \<le> confirmations)
       (Fmt ''recovery is not final until funding has {} confirmations (currently {})''
          [unat (rec_delay_blocks r), unat confirmations])
     (and_then (from_client (build_exit_child P r (md_amount_sat m) sk (address_script P dest)
         fee_rate)) (\<lambda>child.
     with_context (checked_sub (md_amount_sat m) (txout_value (outputs child ! 0)))
       (Msg ''exit fee exceeds the coin amount'') (\<lambda>fee.
     ensure (fee \<le> max_fee)
       (Fmt ''exit fee {} sat exceeds maximum {} sat'' [unat fee, unat max_fee])
     (let package = \<lparr>ep_format_version = FILE_FORMAT_VERSION, ep_network = net,
            ep_destination = address_string P dest, ep_fee_rate = fee_rate, ep_max_fee = max_fee,
            ep_fee = fee, ep_recovery_delay = rec_delay_blocks r, ep_parent = rec_transaction r,
            ep_child = child\<rparr>
      in and_then (exit_validate P package c) (\<lambda>_. Inr package)))))))))"

subsection \<open>The journal\<close>

definition exit_prepare ::
  "'m transfer_lib_scheme \<Rightarrow> wallet_coin \<Rightarrow> network_id \<Rightarrow> string \<Rightarrow> u32 \<Rightarrow> u64 \<Rightarrow> u64
    \<Rightarrow> anyhow + exit_journal" where
  "exit_prepare P c net destination confirmations fee_rate max_fee =
     and_then (exit_package_prepare P c net destination confirmations fee_rate max_fee) (\<lambda>p.
     Inr \<lparr>ej_package = p, ej_stage = ExitPrepared\<rparr>)"

definition exit_journal_validate ::
  "'m transfer_lib_scheme \<Rightarrow> exit_journal \<Rightarrow> wallet_coin \<Rightarrow> anyhow + unit" where
  "exit_journal_validate P j c = exit_validate P (ej_package j) c"

definition exit_arm_submission ::
  "'m transfer_lib_scheme \<Rightarrow> exit_journal \<Rightarrow> wallet_coin \<Rightarrow> (anyhow + unit) \<times> exit_journal" where
  "exit_arm_submission P j c =
     commit j (exit_journal_validate P j c) (\<lambda>_. (Inr (), j\<lparr>ej_stage := ExitSubmissionArmed\<rparr>))"

definition validate_observed_parent ::
  "'m transfer_lib_scheme \<Rightarrow> exit_journal \<Rightarrow> wallet_coin \<Rightarrow> transaction \<Rightarrow> anyhow + unit" where
  "validate_observed_parent P j c parent =
     and_then (exit_journal_validate P j c) (\<lambda>_.
     ensure (compute_txid P parent = compute_txid P (ep_parent (ej_package j)))
       (Msg ''observed exit parent has the wrong txid'')
     (and_then (owned_recovery P c (ep_network (ej_package j))) (\<lambda>(m, r, _).
     and_then (from_client (verify_recovery P m
         \<lparr>rec_transaction = parent, rec_withdrawal_key = rec_withdrawal_key r,
          rec_delay_blocks = rec_delay_blocks r\<rparr>)) (\<lambda>_.
     Inr ()))))"

definition exit_mark_observed ::
  "'m transfer_lib_scheme \<Rightarrow> exit_journal \<Rightarrow> wallet_coin \<Rightarrow> transaction \<Rightarrow> transaction
    \<Rightarrow> (anyhow + unit) \<times> exit_journal" where
  "exit_mark_observed P j c parent child =
     commit j
       (and_then (exit_journal_validate P j c) (\<lambda>_.
        ensure (ej_stage j = ExitSubmissionArmed)
          (Msg ''exit package was not armed for submission'')
        (and_then (validate_observed_parent P j c parent) (\<lambda>_.
        ensure (child = ep_child (ej_package j))
          (Msg ''observed exit child bytes do not match the saved package'') (Inr ())))))
       (\<lambda>_. (Inr (), j\<lparr>ej_stage := ExitObserved\<rparr>))"

subsection \<open>Lemmas\<close>

lemma owned_recovery_Inr:
  "owned_recovery P c net = Inr (m, r, sk) \<longleftrightarrow>
    (\<exists>w i. wc_metadata c = Some m \<and> md_network m = net
      \<and> (\<forall>f. wc_funding c = Some f \<longrightarrow> fj_stage f = Broadcast)
      \<and> wc_withdrawal_secret c = Some w \<and> secret_from_slice P w = Some sk
      \<and> wc_withdrawal_recovery_index c = Some i \<and> nth_opt (wc_history c) i = Some r
      \<and> rec_withdrawal_key r = xonly_of P sk \<and> verify_recovery P m r = Inr ())"
  by (auto simp: owned_recovery_def ok secret_xonly_def split: option.splits)

lemma build_exit_child_output:
  "build_exit_child P r amount sk dest rate = Inr child \<Longrightarrow> length (outputs child) = 1"
  by (auto simp: build_exit_child_def Let_def ok exit_child_def)

lemma exit_validate_Inr:
  assumes "exit_validate P p c = Inr u"
  obtains d m r sk where
    "ep_format_version p = FILE_FORMAT_VERSION" "0 < ep_fee_rate p"
    "Option.bind (address_from_str P (ep_destination p))
      (\<lambda>a. require_network P a (bitcoin_network (ep_network p))) = Some d"
    "owned_recovery P c (ep_network p) = Inr (m, r, sk)"
    "rec_delay_blocks r = ep_recovery_delay p" "rec_transaction r = ep_parent p"
    "build_exit_child P r (md_amount_sat m) sk (address_script P d) (ep_fee_rate p)
      = Inr (ep_child p)"
    "unat (md_amount_sat m) = unat (ep_fee p) + unat (txout_value (outputs (ep_child p) ! 0))"
    "ep_fee p \<le> ep_max_fee p"
  using assms unfolding exit_validate_def ok
  by (elim exE conjE) (auto simp: ok checked_sub_unat split: prod.splits intro: that)

lemma exit_package_prepare_Inr:
  assumes "exit_package_prepare P c net destination conf rate max_fee = Inr p"
  obtains d m r sk where
    "Option.bind (address_from_str P destination)
      (\<lambda>a. require_network P a (bitcoin_network net)) = Some d"
    "owned_recovery P c net = Inr (m, r, sk)" "rec_delay_blocks r \<le> conf"
    "build_exit_child P r (md_amount_sat m) sk (address_script P d) rate = Inr (ep_child p)"
    "p = \<lparr>ep_format_version = FILE_FORMAT_VERSION, ep_network = net,
       ep_destination = address_string P d, ep_fee_rate = rate, ep_max_fee = max_fee,
       ep_fee = ep_fee p, ep_recovery_delay = rec_delay_blocks r, ep_parent = rec_transaction r,
       ep_child = ep_child p\<rparr>"
    "unat (md_amount_sat m) = unat (ep_fee p) + unat (txout_value (outputs (ep_child p) ! 0))"
    "ep_fee p \<le> max_fee" "exit_validate P p c = Inr ()"
  using assms unfolding exit_package_prepare_def ok
  by (elim exE conjE) (auto simp: ok Let_def checked_sub_unat split: prod.splits intro: that)

text \<open>C26. An exit pays what it says: a prepared package validates, its parent is the owned
  recovery, accepted by \<open>verify_recovery\<close> and final at the given number of confirmations, and the
  coin's amount is split without loss between the single output, which is not dust and pays the
  destination, and a fee that is exactly the feerate times the size of the two transactions and
  at most the caller's maximum. The child spends the parent's only output.\<close>

theorem exit_prepare_conserves:
  assumes "vsize_by_shape P"
    and "exit_prepare P c net destination conf rate max_fee = Inr j"
  shows "\<exists>m r d out. wc_metadata c = Some m \<and> r \<in> set (wc_history c)
    \<and> verify_recovery P m r = Inr () \<and> ep_parent (ej_package j) = rec_transaction r
    \<and> rec_delay_blocks r \<le> conf
    \<and> Option.bind (address_from_str P destination)
        (\<lambda>a. require_network P a (bitcoin_network net)) = Some d
    \<and> outputs (ep_child (ej_package j)) = [\<lparr>txout_value = out, script_pubkey = address_script P d\<rparr>]
    \<and> minimal_non_dust P (address_script P d) \<le> out
    \<and> map previous_output (inputs (ep_child (ej_package j)))
        = [OutPoint (compute_txid P (rec_transaction r)) 0]
    \<and> unat (md_amount_sat m) = unat out + unat (ep_fee (ej_package j))
    \<and> unat (ep_fee (ej_package j)) = unat rate * unat (vsize P (ep_parent (ej_package j))
        + vsize P (ep_child (ej_package j)))
    \<and> ep_fee (ej_package j) \<le> max_fee
    \<and> exit_journal_validate P j c = Inr () \<and> ej_stage j = ExitPrepared"
proof -
  from assms(2) obtain p where p: "exit_package_prepare P c net destination conf rate max_fee = Inr p"
    "j = \<lparr>ej_package = p, ej_stage = ExitPrepared\<rparr>" by (auto simp: exit_prepare_def ok)
  from p(1) show ?thesis
  proof (rule exit_package_prepare_Inr)
    fix d m r sk
    assume *: "Option.bind (address_from_str P destination)
        (\<lambda>a. require_network P a (bitcoin_network net)) = Some d"
      "owned_recovery P c net = Inr (m, r, sk)" "rec_delay_blocks r \<le> conf"
      "build_exit_child P r (md_amount_sat m) sk (address_script P d) rate = Inr (ep_child p)"
      "p = \<lparr>ep_format_version = FILE_FORMAT_VERSION, ep_network = net,
         ep_destination = address_string P d, ep_fee_rate = rate, ep_max_fee = max_fee,
         ep_fee = ep_fee p, ep_recovery_delay = rec_delay_blocks r, ep_parent = rec_transaction r,
         ep_child = ep_child p\<rparr>"
      "unat (md_amount_sat m) = unat (ep_fee p) + unat (txout_value (outputs (ep_child p) ! 0))"
      "ep_fee p \<le> max_fee" "exit_validate P p c = Inr ()"
    from *(5) have parent: "ep_parent p = rec_transaction r" by (metis exit_package.select_convs(8))
    from *(2) have owned: "wc_metadata c = Some m" "r \<in> set (wc_history c)" "verify_recovery P m r = Inr ()"
      by (auto simp: owned_recovery_Inr nth_opt_Some)
    from exit_child_balance [OF assms(1) *(4)] obtain out where
      out: "outputs (ep_child p) = [\<lparr>txout_value = out, script_pubkey = address_script P d\<rparr>]"
      "unat (md_amount_sat m) = unat out
        + unat rate * unat (vsize P (rec_transaction r) + vsize P (ep_child p))"
      "minimal_non_dust P (address_script P d) \<le> out"
      "map previous_output (inputs (ep_child p)) = [OutPoint (compute_txid P (rec_transaction r)) 0]"
      by auto
    with * parent owned p(2) show ?thesis
      by (intro exI [of _ m] exI [of _ r] exI [of _ d] exI [of _ out])
        (simp add: exit_journal_validate_def)
  qed
qed

text \<open>C29. A saved package cannot be bent: two packages that validate for one coin with the same
  network, destination and feerate have the same parent, the same child and the same fee.\<close>

theorem exit_package_canonical:
  assumes "exit_validate P p c = Inr ()" and "exit_validate P q c = Inr ()"
    and "ep_network p = ep_network q" and "ep_destination p = ep_destination q"
    and "ep_fee_rate p = ep_fee_rate q" and "ep_max_fee p = ep_max_fee q"
  shows "p = q"
  using assms(1)
proof (rule exit_validate_Inr)
  fix d m r sk
  assume p: "ep_format_version p = FILE_FORMAT_VERSION"
    "Option.bind (address_from_str P (ep_destination p))
      (\<lambda>a. require_network P a (bitcoin_network (ep_network p))) = Some d"
    "owned_recovery P c (ep_network p) = Inr (m, r, sk)"
    "rec_delay_blocks r = ep_recovery_delay p" "rec_transaction r = ep_parent p"
    "build_exit_child P r (md_amount_sat m) sk (address_script P d) (ep_fee_rate p)
      = Inr (ep_child p)"
    "unat (md_amount_sat m) = unat (ep_fee p) + unat (txout_value (outputs (ep_child p) ! 0))"
  from assms(2) show ?thesis
  proof (rule exit_validate_Inr)
    fix d' m' r' sk'
    assume q: "ep_format_version q = FILE_FORMAT_VERSION"
      "Option.bind (address_from_str P (ep_destination q))
        (\<lambda>a. require_network P a (bitcoin_network (ep_network q))) = Some d'"
      "owned_recovery P c (ep_network q) = Inr (m', r', sk')"
      "rec_delay_blocks r' = ep_recovery_delay q" "rec_transaction r' = ep_parent q"
      "build_exit_child P r' (md_amount_sat m') sk' (address_script P d') (ep_fee_rate q)
        = Inr (ep_child q)"
      "unat (md_amount_sat m') = unat (ep_fee q) + unat (txout_value (outputs (ep_child q) ! 0))"
    from p(3) q(3) assms(3) have same: "m' = m" "r' = r" "sk' = sk" by simp_all
    from p(2) q(2) assms(3,4) have "d' = d" by simp
    with p q assms(5) same have child: "ep_child p = ep_child q" by simp
    with p(7) q(7) same have "ep_fee p = ep_fee q" by (simp add: word_unat_eq_iff)
    with p q same child assms(3-6) show ?thesis by simp
  qed
qed

lemma position_iff:
  "position p xs = Some i \<longleftrightarrow> i < length xs \<and> p (xs ! i) \<and> (\<forall>j < i. \<not> p (xs ! j))"
proof
  assume r: "i < length xs \<and> p (xs ! i) \<and> (\<forall>j < i. \<not> p (xs ! j))"
  then obtain k where k: "position p xs = Some k"
    using position_None [of p xs] by fastforce
  from position_Some [OF k] r have "k = i" by (metis linorder_neqE_nat)
  with k show "position p xs = Some i" by simp
qed (rule position_Some)

text \<open>C28. The chain's report on the funding output: an exit goes on exactly if the output is the
  coin's, deep enough, and either unspent, or spent by a recovery of the history that verifies
  and is not newer than the wallet's own; once the spender is confirmed it must be the wallet's
  own recovery, and the parent of the saved exit if there is one.\<close>

theorem exit_funding_decision:
  "verify_exit_funding P c obs minc spender confirmed saved = Inr () \<longleftrightarrow>
    (\<exists>m. wc_metadata c = Some m \<and> obs_outpoint obs = md_outpoint m
      \<and> keys_validate (md_keys m) = Inr ()
      \<and> obs_output obs = \<lparr>txout_value = md_amount_sat m, script_pubkey = funding_script P (md_keys m)\<rparr>
      \<and> minc \<le> obs_confirmations obs \<and> (obs_coinbase obs \<longrightarrow> 100 \<le> obs_confirmations obs)
      \<and> (obs_unspent obs \<or> (\<exists>t i own. spender = Some t \<and> wc_withdrawal_recovery_index c = Some own
          \<and> i \<le> own \<and> i < length (wc_history c)
          \<and> compute_txid P (rec_transaction (wc_history c ! i)) = t
          \<and> (\<forall>j < i. compute_txid P (rec_transaction (wc_history c ! j)) \<noteq> t)
          \<and> verify_recovery P m (wc_history c ! i) = Inr ()
          \<and> (confirmed \<longrightarrow> i = own \<and> (saved = None \<or> saved = Some t)))))"
proof -
  have saved: "(case saved of None \<Rightarrow> True | Some p \<Rightarrow> p = t) \<longleftrightarrow> saved = None \<or> saved = Some t" for t
    by (cases saved) auto
  show ?thesis
  proof (cases "obs_unspent obs")
    case True
    then show ?thesis by (simp add: verify_exit_funding_def ok verify_observed_funding_output_Inr)
  next
    case False
    show ?thesis (is "?l = ?r")
    proof
      assume ?l
      then show ?r
        unfolding verify_exit_funding_def ok verify_observed_funding_output_Inr position_iff saved
        using False by (elim exE conjE) (simp add: ok position_iff, blast)
    next
      assume ?r
      then show ?l
        unfolding verify_exit_funding_def ok verify_observed_funding_output_Inr
        using False by (elim exE conjE) (simp add: ok position_iff saved, blast)
    qed
  qed
qed

subsection \<open>The journal's discipline\<close>

definition exit_with_stage :: "exit_stage \<Rightarrow> exit_journal \<Rightarrow> exit_journal" where
  "exit_with_stage st j = j\<lparr>ej_stage := st\<rparr>"

lemma exit_checks_ignore_stage [simp]:
  "exit_journal_validate P (j\<lparr>ej_stage := st\<rparr>) c = exit_journal_validate P j c"
  "validate_observed_parent P (j\<lparr>ej_stage := st\<rparr>) c parent = validate_observed_parent P j c parent"
  by (simp_all add: exit_journal_validate_def validate_observed_parent_def)

lemma exit_arm_keeps: "err_keeps j (exit_arm_submission P j c)"
  by (simp add: exit_arm_submission_def keeps)

lemma exit_mark_keeps: "err_keeps j (exit_mark_observed P j c parent child)"
  by (simp add: exit_mark_observed_def keeps)

lemma exit_arm_Inr:
  "exit_arm_submission P j c = (Inr u, j') \<longleftrightarrow>
    exit_journal_validate P j c = Inr () \<and> j' = j\<lparr>ej_stage := ExitSubmissionArmed\<rparr>"
  by (auto simp: exit_arm_submission_def ok)

lemma exit_mark_Inr:
  "exit_mark_observed P j c parent child = (Inr u, j') \<longleftrightarrow>
    exit_journal_validate P j c = Inr () \<and> ej_stage j = ExitSubmissionArmed
    \<and> validate_observed_parent P j c parent = Inr () \<and> child = ep_child (ej_package j)
    \<and> j' = j\<lparr>ej_stage := ExitObserved\<rparr>"
  by (auto simp: exit_mark_observed_def ok)

text \<open>What an observation must match: the saved child, and a parent the journal accepts.\<close>

definition exit_matches ::
  "'m transfer_lib_scheme \<Rightarrow> wallet_coin \<Rightarrow> exit_journal \<Rightarrow> transaction \<times> transaction \<Rightarrow> bool" where
  "exit_matches P c j x \<longleftrightarrow>
     validate_observed_parent P j c (fst x) = Inr () \<and> snd x = ep_child (ej_package j)"

interpretation exit_log: staged_journal
  "\<lambda>j. exit_arm_submission P j c" "\<lambda>j x. exit_mark_observed P j c (fst x) (snd x)"
  "\<lambda>j. exit_journal_validate P j c = Inr ()" "exit_matches P c" ej_stage exit_with_stage
  ExitPrepared ExitSubmissionArmed ExitObserved
  for P :: "'m transfer_lib_scheme" and c :: wallet_coin
proof (unfold_locales, goal_cases)
  case (9 j e)
  then show ?case
    using exit_arm_keeps [of j P c] by (cases "exit_arm_submission P j c") (simp add: err_keeps_def)
next
  case (10 j u)
  then show ?case
    by (simp add: exit_arm_submission_def commit_def exit_with_stage_def split: sum.splits)
next
  case (11 j x e)
  then show ?case
    using exit_mark_keeps [of j P c "fst x" "snd x"]
    by (cases "exit_mark_observed P j c (fst x) (snd x)") (simp add: err_keeps_def)
next
  case (12 j x u)
  then have "exit_mark_observed P j c (fst x) (snd x)
      = (Inr u, snd (exit_mark_observed P j c (fst x) (snd x)))" by (metis prod.collapse)
  from this [unfolded exit_mark_Inr] show ?case
    unfolding exit_with_stage_def exit_matches_def by blast
qed (simp_all add: exit_with_stage_def exit_matches_def)

text \<open>C27. The discipline of an exit's journal: a prepared exit validates, whatever arming and
  observing happens afterwards only its stage changes, and if it ends up observed, then it was
  armed before, and the saved child was observed with a parent that has the saved parent's txid
  and is accepted by \<open>verify_recovery\<close>.\<close>

theorem exit_journal_discipline:
  assumes "exit_prepare P c net destination conf rate max_fee = Inr j"
    and "j' = journal_run (\<lambda>j. exit_arm_submission P j c)
      (\<lambda>j x. exit_mark_observed P j c (fst x) (snd x)) j evs"
  shows "exit_journal_validate P j' c = Inr () \<and> j' = j\<lparr>ej_stage := ej_stage j'\<rparr>
    \<and> (ej_stage j' = ExitSubmissionArmed \<longrightarrow> Arm \<in> set evs)
    \<and> (ej_stage j' = ExitObserved \<longrightarrow>
        (\<exists>xs parent ys m r. evs = xs @ Observe (parent, ep_child (ej_package j)) # ys \<and> Arm \<in> set xs
          \<and> compute_txid P parent = compute_txid P (ep_parent (ej_package j))
          \<and> wc_metadata c = Some m \<and> verify_recovery P m r = Inr () \<and> rec_transaction r = parent))"
proof -
  from assms(1) have prep: "exit_journal_validate P j c = Inr ()" "ej_stage j = ExitPrepared"
    by (auto simp: exit_prepare_def ok exit_journal_validate_def elim: exit_package_prepare_Inr)
  have j': "j' = j\<lparr>ej_stage := ej_stage j'\<rparr>"
    unfolding assms(2) by (rule exit_log.run_only_stage [unfolded exit_with_stage_def])
  have "exit_journal_validate P j' c = exit_journal_validate P j c"
    by (subst j') (rule exit_checks_ignore_stage)
  with prep(1) have valid: "exit_journal_validate P j' c = Inr ()" by simp
  have accepted: "compute_txid P (fst x) = compute_txid P (ep_parent (ej_package j))
      \<and> (\<exists>m r. wc_metadata c = Some m \<and> verify_recovery P m r = Inr () \<and> rec_transaction r = fst x)
      \<and> snd x = ep_child (ej_package j)" if "exit_matches P c j x" for x
    using that
    by (auto simp: exit_matches_def validate_observed_parent_def ok owned_recovery_Inr)
      (metis signed_recovery.select_convs(1))
  from exit_log.run_stage [OF prep(2), of P c evs] accepted valid j' show ?thesis
    unfolding assms(2) [symmetric] by (cases "ej_stage j'") (auto, (metis prod.collapse)+)
qed

subsection \<open>An exit is always available\<close>

text \<open>Documented: the text of an address parses back to that address on its network.\<close>

definition address_text_correct :: "'m wallet_lib_scheme \<Rightarrow> bool" where
  "address_text_correct P \<longleftrightarrow>
     (\<forall>str u net d. address_from_str P str = Some u \<and> require_network P u net = Some d \<longrightarrow>
        Option.bind (address_from_str P (address_string P d)) (\<lambda>u. require_network P u net) = Some d)"

text \<open>The fee of an exit at a feerate: the size of the recovery and its child.\<close>

definition exit_fee :: "'m bitcoin_lib_scheme \<Rightarrow> signed_recovery \<Rightarrow> script \<Rightarrow> u64 \<Rightarrow> nat" where
  "exit_fee P r dest rate = unat rate * unat (vsize P (rec_transaction r)
     + vsize P (exit_child P (rec_transaction r) [replicate 64 0] 0 dest))"

lemma build_exit_child_available:
  assumes "schnorr_correct P" and "sighash_defined P" and "height_sequence P" and "vsize_by_shape P"
    and "verify_recovery P m r = Inr ()" and "rec_withdrawal_key r = xonly_of P sk"
    and "exit_fee P r dest rate + unat (minimal_non_dust P dest) \<le> unat (md_amount_sat m)"
  shows "\<exists>child. build_exit_child P r (md_amount_sat m) sk dest rate = Inr child
    \<and> unat (md_amount_sat m) = unat (txout_value (outputs child ! 0)) + exit_fee P r dest rate"
proof -
  let ?parent = "rec_transaction r" and ?amount = "md_amount_sat m"
  let ?spent = "\<lparr>txout_value = ?amount, script_pubkey = new_p2tr P (xonly_of P sk)\<rparr>"
  let ?place = "exit_child P ?parent [replicate 64 0]"
  let ?fee = "ucast rate * ucast (vsize P ?parent + vsize P (?place ?amount dest)) :: u128"
  from verified_recovery_spends [OF assms(3,5)] assms(6)
  have parent: "length (inputs ?parent) = 1" "outputs ?parent = [?spent]" by auto
  have "same_shape (?place ?amount dest) (?place 0 dest)" by (simp add: same_shape_def exit_child_def)
  from vsize_by_shapeD [OF assms(4) this] have fee: "unat ?fee = exit_fee P r dest rate"
    by (simp add: exit_fee_def u128_product)
  let ?rest = "(ucast ?amount :: u128) - ?fee"
  have wide: "unat (ucast ?amount :: u128) = unat ?amount" by (simp add: unat_ucast_up)
  with assms(7) fee have le: "?fee \<le> ucast ?amount" by (simp add: word_le_nat_alt)
  then have rest: "unat ?rest = unat ?amount - exit_fee P r dest rate"
    using wide fee by (simp add: unat_sub)
  moreover have "unat ?amount < 2 ^ 64" using unsigned_less [of ?amount] by simp
  ultimately have small: "try_from_word ?rest = Some (ucast ?rest :: u64)"
    by (simp add: try_from_word_def)
  from unat_try_from [OF this] rest
  have out: "unat (ucast ?rest :: u64) = unat ?amount - exit_fee P r dest rate" by simp
  with assms(7) have dust: "\<not> (ucast ?rest :: u64) < minimal_non_dust P dest"
    by (simp add: word_less_nat_alt)
  obtain h where h: "key_spend_sighash P (?place (ucast ?rest) dest) 0 [?spent] = Some h"
    using assms(2) by (fastforce simp: sighash_defined_def exit_child_def)
  have "build_exit_child P r ?amount sk dest rate
      = Inr (exit_child P ?parent [signature_bytes (schnorr_sign P (tap_tweak P sk) h)] (ucast ?rest) dest)"
    using parent assms(6) le small dust h schnorr_correctD [OF assms(1)]
    by (simp add: build_exit_child_def first_opt_def checked_sub_def Let_def)
  with out assms(7) show ?thesis by (simp add: exit_child_def)
qed

lemma reachable_exits:
  assumes "schnorr_correct P" and "sighash_defined P" and "height_sequence P" and "vsize_by_shape P"
    and "address_text_correct P" and "secret_slice_correct P"
    and "wallet_reachable P s" and "ws_coin s = Some c" and "wc_history c \<noteq> []"
    and "\<forall>f. wc_funding c = Some f \<longrightarrow> fj_stage f = Broadcast"
    and "\<forall>w. wc_withdrawal_secret c = Some w \<longrightarrow> secret_from_slice P w \<noteq> None"
    and "wc_metadata c = Some m" and "wc_withdrawal_recovery_index c = Some i"
    and "address_from_str P destination = Some u"
    and "require_network P u (bitcoin_network (md_network m)) = Some d"
    and "rec_delay_blocks (wc_history c ! i) \<le> conf" and "0 < rate"
    and "exit_fee P (wc_history c ! i) (address_script P d) rate
      + unat (minimal_non_dust P (address_script P d)) \<le> unat (md_amount_sat m)"
    and "exit_fee P (wc_history c ! i) (address_script P d) rate \<le> unat max_fee"
  shows "\<exists>j. exit_prepare P c (md_network m) destination conf rate max_fee = Inr j"
proof -
  let ?r = "wc_history c ! i" and ?net = "md_network m"
  from reachable_can_exit_coin [OF assms(6-9)] assms(12,13) obtain w where
    r: "nth_opt (wc_history c) i = Some ?r" "verify_recovery P m ?r = Inr ()"
      "wc_withdrawal_secret c = Some w" "rec_withdrawal_key ?r = xonly_of P (SecretKey w)"
    by (auto simp: nth_opt_Some)
  with assms(6,11) have sk: "secret_from_slice P w = Some (SecretKey w)"
    by (auto simp: secret_slice_correct_def)
  from r sk assms(10,12,13) have owned: "owned_recovery P c ?net = Inr (m, ?r, SecretKey w)"
    by (simp add: owned_recovery_Inr)
  from build_exit_child_available [OF assms(1-4) r(2,4) assms(18)] obtain child where
    child: "build_exit_child P ?r (md_amount_sat m) (SecretKey w) (address_script P d) rate = Inr child"
    and bal: "unat (md_amount_sat m)
      = unat (txout_value (outputs child ! 0)) + exit_fee P ?r (address_script P d) rate" by blast
  obtain fee where fee: "checked_sub (md_amount_sat m) (txout_value (outputs child ! 0)) = Some fee"
    using bal by (auto simp: checked_sub_def word_le_nat_alt)
  with bal assms(19) have max: "fee \<le> max_fee"
    by (simp add: checked_sub_unat word_le_nat_alt)
  obtain u' where "address_from_str P (address_string P d) = Some u'"
    "require_network P u' (bitcoin_network ?net) = Some d"
    using assms(5,14,15) by (fastforce simp: address_text_correct_def bind_eq_Some_conv)
  then show ?thesis
    using owned child fee max assms(14-17)
    by (simp add: exit_prepare_def exit_package_prepare_def exit_validate_def)
qed

text \<open>C5. A wallet can always leave on its own: in every reachable wallet whose funding was
  broadcast, once the owned recovery is final and the coin's amount covers the fee and the dust
  limit, preparing an exit to any valid destination succeeds; no enclave and no other party is
  asked.\<close>

theorem reachable_wallet_exits:
  assumes "schnorr_correct P" and "sighash_defined P" and "height_sequence P" and "vsize_by_shape P"
    and "address_text_correct P" and "secret_slice_correct P"
    and "wallet_reachable P s" and "ws_coin s = Some c" and "wc_history c \<noteq> []"
    and "\<forall>f. wc_funding c = Some f \<longrightarrow> fj_stage f = Broadcast"
    and "\<forall>w. wc_withdrawal_secret c = Some w \<longrightarrow> secret_from_slice P w \<noteq> None"
    and "wc_metadata c = Some m" and "wc_withdrawal_recovery_index c = Some i"
    and "address_from_str P destination = Some u"
    and "require_network P u (bitcoin_network (md_network m)) = Some d"
    and "rec_delay_blocks (wc_history c ! i) \<le> conf" and "0 < rate"
    and "exit_fee P (wc_history c ! i) (address_script P d) rate
      + unat (minimal_non_dust P (address_script P d)) \<le> unat (md_amount_sat m)"
    and "exit_fee P (wc_history c ! i) (address_script P d) rate \<le> unat max_fee"
  shows "\<exists>j. exit_prepare P c (md_network m) destination conf rate max_fee = Inr j"
  by (rule reachable_exits [OF assms])

end
