(* ===== verification/Wallet_Demo.thy ===== *)
theory Wallet_Demo
  imports Ownership
begin

text \<open>
  A wallet's life on the demonstration instance: registering, funding, securing the recovery,
  requesting, sending and accepting a transfer. The runs are the witnesses of the properties of
  \<open>Ownership\<close>: they show that the hypotheses hold in wallets the code really reaches.
\<close>

subsection \<open>Signing on the extended instance\<close>

text \<open>The client's functions read only the Bitcoin part of the parameter, so what was computed on
  \<open>demo_bitcoin\<close> holds of its extensions.\<close>

lemma bitcoin_part_fields:
  "sha256 (bitcoin_lib.truncate P) = sha256 P"
  "xonly_of (bitcoin_lib.truncate P) = xonly_of P"
  "schnorr_sign (bitcoin_lib.truncate P) = schnorr_sign P"
  "schnorr_verify (bitcoin_lib.truncate P) = schnorr_verify P"
  "into_script (bitcoin_lib.truncate P) = into_script P"
  "new_p2tr (bitcoin_lib.truncate P) = new_p2tr P"
  "new_p2tr_tweaked (bitcoin_lib.truncate P) = new_p2tr_tweaked P"
  "minimal_non_dust (bitcoin_lib.truncate P) = minimal_non_dust P"
  "outpoint_is_null (bitcoin_lib.truncate P) = outpoint_is_null P"
  "max_money (bitcoin_lib.truncate P) = max_money P"
  "lock_time_zero (bitcoin_lib.truncate P) = lock_time_zero P"
  "sequence_from_height (bitcoin_lib.truncate P) = sequence_from_height P"
  "tap_leaf_hash (bitcoin_lib.truncate P) = tap_leaf_hash P"
  "script_spend_sighash (bitcoin_lib.truncate P) = script_spend_sighash P"
  "taproot_output_key (bitcoin_lib.truncate P) = taproot_output_key P"
  "taproot_control_block (bitcoin_lib.truncate P) = taproot_control_block P"
  "control_serialize (bitcoin_lib.truncate P) = control_serialize P"
  "control_decode (bitcoin_lib.truncate P) = control_decode P"
  "verify_taproot_commitment (bitcoin_lib.truncate P) = verify_taproot_commitment P"
  "signature_from_slice (bitcoin_lib.truncate P) = signature_from_slice P"
  by (simp_all add: bitcoin_lib.defs)

lemma bitcoin_part:
  "canonical_recovery (bitcoin_lib.truncate P) op a wk d = canonical_recovery P op a wk d"
  "recovery_sighash (bitcoin_lib.truncate P) t a k = recovery_sighash P t a k"
  "funding_tapscript (bitcoin_lib.truncate P) k = funding_tapscript P k"
  "funding_control_block (bitcoin_lib.truncate P) k = funding_control_block P k"
  "funding_material_of (bitcoin_lib.truncate P) k = funding_material_of P k"
  "capability_hash (bitcoin_lib.truncate P) c = capability_hash P c"
  "authorization (bitcoin_lib.truncate P) i c h = authorization P i c h"
  "verify_signature (bitcoin_lib.truncate P) sg m pk e = verify_signature P sg m pk e"
  "client_xonly (bitcoin_lib.truncate P) sk = client_xonly P sk"
  by (simp_all add: bitcoin_part_fields canonical_recovery_def capability_hash_def authorization_def
      tagged_hash_def tagged_preimage_def verify_signature_def client_xonly_def Let_def
      funding_tapscript_def funding_script_def funding_control_block_def funding_material_of_def
      recovery_sighash_def cong: option.case_cong if_cong)

lemma bitcoin_part_prepare:
  "prepare_recovery (bitcoin_lib.truncate P) m st csk cap h nch wk d conf
    = prepare_recovery P m st csk cap h nch wk d conf"
  by (simp add: prepare_recovery_def bitcoin_part Let_def cong: if_cong)

lemma bitcoin_part_complete:
  "complete_recovery (bitcoin_lib.truncate P) req resp prep csk = complete_recovery P req resp prep csk"
  by (simp add: complete_recovery_def verify_signed_recovery_def bitcoin_part bitcoin_part_fields
      Let_def cong: if_cong)

lemma bitcoin_part_verify:
  "verify_recovery (bitcoin_lib.truncate P) m r = verify_recovery P m r"
  by (simp add: verify_recovery_def verify_signed_recovery_def bitcoin_part bitcoin_part_fields
      Let_def cong: sum.case_cong if_cong)

lemma demo_truncate: "bitcoin_lib.truncate (demo_transfer_with ps) = demo_bitcoin"
  by (simp add: demo_transfer_with_def demo_wallet_def demo_bitcoin_def demo_secp_def
      bitcoin_lib.defs wallet_lib.defs secp.defs)

lemma demo_T_prepare:
  "conf < 100 \<Longrightarrow> prepare_recovery (demo_transfer_with ps) demo_md demo_status (SecretKey 21) 1 0 98
    (XOnlyKey 31) 100 conf = Inr (demo_req, demo_prep)"
  using demo_prepare [of conf] bitcoin_part_prepare [of "demo_transfer_with ps"]
  by (simp add: demo_truncate)

lemma demo_T_complete:
  "complete_recovery (demo_transfer_with ps) demo_req demo_resp demo_prep (SecretKey 21)
    = Inr (demo_recovery 100)"
  using demo_complete bitcoin_part_complete [of "demo_transfer_with ps"]
  by (simp add: demo_truncate)

lemma demo_T_verify:
  "1 \<le> d \<Longrightarrow> d < 1000 \<Longrightarrow> verify_recovery (demo_transfer_with ps) demo_md (demo_recovery d) = Inr ()"
  using demo_verify [of d] bitcoin_part_verify [of "demo_transfer_with ps"]
  by (simp add: demo_truncate)

lemma demo_T_hashes [simp]:
  "capability_hash (demo_transfer_with ps) c = 96 + ucast (ucast c :: byte)"
  "authorization (demo_transfer_with ps) i c h = 160 + ucast (ucast h :: byte)"
  "xonly_of (demo_transfer_with ps) k = XOnlyKey (secret_bytes k)"
  "schnorr_verify (demo_transfer_with ps) g h pk \<longleftrightarrow> g = Signature (word_cat (xonly_bytes pk) h)"
  by (rule length_hash_capability length_hash_authorization, simp add: demo_transfer_simps)+
    (simp_all add: demo_transfer_simps)

subsection \<open>Registering and funding\<close>

definition demo_w1 :: wallet_state where
  "demo_w1 = empty_wallet\<lparr>ws_pending := Some (PendingRegistration (SecretKey 21) 1
     \<lparr>reg_protocol_version = 1, reg_request = \<lparr>rr_coin_id = 7, initial_capability_hash = 97\<rparr>,
      reg_client_pubkey = XOnlyKey 21\<rparr>)\<rparr>"

lemma demo_begin_registration:
  "begin_registration (demo_transfer_with ps) \<lparr>rd_client_secret = SecretKey 21, rd_capability = 1,
     rd_coin_id = 7\<rparr> empty_wallet
    = (Inr \<lparr>rr_coin_id = 7, initial_capability_hash = 97\<rparr>, demo_w1)"
  by (simp add: begin_registration_def empty_wallet_def validate_version_def prepare_registration_def
      demo_w1_def PROTOCOL_VERSION_def)

definition demo_w2 :: wallet_state where
  "demo_w2 = empty_wallet\<lparr>ws_coin := Some (registered_coin (SecretKey 21) 1 demo_keys)\<rparr>"

lemma demo_complete_registration:
  "wallet_complete_registration (demo_transfer_with ps) demo_w1 demo_status = (Inr (), demo_w2)"
  by (simp add: wallet_complete_registration_def demo_w1_def empty_wallet_def validate_version_def
      complete_registration_def demo_status_def PROTOCOL_VERSION_def INITIAL_HANDOFF_def demo_w2_def
      demo_keys_def)

definition demo_funding_tx :: transaction where
  "demo_funding_tx = \<lparr>version = 2, lock_time = 0,
     inputs = [\<lparr>previous_output = OutPoint 50 0, script_sig = [], sequence = 0xffffffff,
       witness = [signature_bytes (Signature (word_cat (40 :: bytes32) (9 :: bytes32)))]\<rparr>],
     outputs = [\<lparr>txout_value = 100000, script_pubkey = [0x51, 0x20]\<rparr>,
                \<lparr>txout_value = 99800, script_pubkey = ascii ''dep''\<rparr>]\<rparr>"

lemma demo_T_fields [simp]:
  "minimal_non_dust (demo_transfer_with ps) sc = 330"
  "funding_script (demo_transfer_with ps) k = [0x51, 0x20]"
  "sequence_max (demo_transfer_with ps) = 0xffffffff"
  "sequence_is_rbf (demo_transfer_with ps) sq \<longleftrightarrow> sq < 0xfffffffe"
  "key_spend_sighash (demo_transfer_with ps) t i outs = Some 9"
  "lock_time_zero (demo_transfer_with ps) = 0"
  "vsize (demo_transfer_with ps) t = 100"
  "compute_txid (demo_transfer_with ps) t = 77"
  "tap_tweak (demo_transfer_with ps) sk = sk"
  "tx_weight (demo_transfer_with ps) t = 400"
  "address_script (demo_transfer_with ps) a = ascii (address_text a)"
  "p2tr_address (demo_transfer_with ps) pk hrp = Address ''dep''"
  "version_two (demo_transfer_with ps) = 2"
  "schnorr_sign (demo_transfer_with ps) sk h = Signature (word_cat (secret_bytes sk) h)"
  by (simp_all add: demo_transfer_simps funding_script_def)

lemma demo_T_build:
  "build_source_funding (demo_transfer_with ps) demo_keys RegtestId (SecretKey 40) (demo_source 0)
     100000 2 500
    = Inr \<lparr>psf_transaction = demo_funding_tx, psf_outpoint = OutPoint 77 0, psf_fee_sat = 200\<rparr>"
  by (simp add: build_source_funding_def source_funding_address_def Let_def demo_funding_tx_def
      funding_transaction_with_def fee_at_def checked_mul_def try_from_word_def checked_sub_def
      validate_funding_inputs_def validate_funding_input_def)

definition demo_attempt :: recovery_attempt where
  "demo_attempt = \<lparr>ra_expected_signature_count = 0, ra_delay_blocks = 100, ra_request = demo_req,
     ra_prepared = demo_prep\<rparr>"

definition demo_funding_journal :: "funding_stage \<Rightarrow> funding_journal" where
  "demo_funding_journal stg = \<lparr>fj_transaction = demo_funding_tx, fj_delay_blocks = 100,
     fj_fee_rate_sat_vb = 2, fj_max_fee_sat = 500, fj_fee_sat = 200, fj_stage = stg\<rparr>"

definition demo_funding_coin :: wallet_coin where
  "demo_funding_coin = (registered_coin (SecretKey 21) 1 demo_keys)
     \<lparr>wc_metadata := Some demo_md, wc_funding := Some (demo_funding_journal FundingPrepared)\<rparr>"

definition demo_w3 :: wallet_state where
  "demo_w3 = empty_wallet\<lparr>ws_coin := Some demo_funding_coin,
     ws_pending := Some (PendingRecovery \<lparr>pr_purpose = PurposeFund 2 31,
       pr_stage = StagePrepared demo_attempt\<rparr>)\<rparr>"

lemma demo_begin_funding:
  "begin_funding (demo_transfer_with ps) \<lparr>fd_next_capability = 2, fd_withdrawal = SecretKey 31\<rparr> demo_w2
     RegtestId (SecretKey 40) (demo_source 0) demo_status 100000 100 2 500 20 = (Inr demo_req, demo_w3)"
proof -
  let ?c = "registered_coin (SecretKey 21) 1 demo_keys"
  have live: "verify_live_status (demo_transfer_with ps) ?c demo_status = Inr ()"
    by (simp add: verify_live_status_def registered_coin_def verify_status_def demo_status_def
        demo_metadata_ok INITIAL_HANDOFF_def)
  have margin: "require_reaction_margin 0 100 20 = Inr ()"
    by (simp add: require_reaction_margin_Inr)
  have md: "keys_metadata demo_keys RegtestId (OutPoint 77 0) 100000 = demo_md"
    by (simp add: demo_md_def)
  have count: "cs_signature_count demo_status = 0" by (simp add: demo_status_def)
  show ?thesis
    using live
    by (simp add: begin_funding_def demo_w2_def empty_wallet_def validate_version_def margin count)
      (simp add: registered_coin_def demo_T_build md demo_T_prepare Let_def INITIAL_HANDOFF_def demo_w3_def
        empty_wallet_def demo_funding_coin_def demo_funding_journal_def demo_attempt_def)
qed

definition demo_w4 :: wallet_state where
  "demo_w4 = demo_w3\<lparr>ws_pending := Some (PendingRecovery \<lparr>pr_purpose = PurposeFund 2 31,
     pr_stage = StageResponded demo_attempt demo_resp\<rparr>)\<rparr>"

lemma demo_record: "record_sign_response demo_w3 demo_resp = (Inr (), demo_w4)"
  by (simp add: record_sign_response_def demo_w3_def demo_w4_def)

definition demo_status1 :: coin_status where
  "demo_status1 = \<lparr>cs_coin_id = 7, signing_pubkey = XOnlyKey 3, cs_authorization = 171,
     cs_signature_count = 1\<rparr>"

definition demo_coin5 :: "funding_stage \<Rightarrow> wallet_coin" where
  "demo_coin5 stg = demo_funding_coin\<lparr>wc_history := [demo_recovery 100],
     wc_funding := Some (demo_funding_journal stg), wc_current_capability := Some 2,
     wc_current_handoff := Some 11, wc_withdrawal_secret := Some 31,
     wc_withdrawal_recovery_index := Some 0\<rparr>"

definition demo_w5 :: "funding_stage \<Rightarrow> wallet_state" where
  "demo_w5 stg = empty_wallet\<lparr>ws_coin := Some (demo_coin5 stg)\<rparr>"

lemma demo_secure:
  "complete_funding_recovery (demo_transfer_with ps) demo_w4 demo_status1
    = (Inr (), demo_w5 RecoverySecured)"
proof -
  have "verify_sign_response (demo_transfer_with ps) demo_req 0 demo_status1 demo_resp = Inr ()"
    by (simp add: verify_sign_response_def checked_add_def demo_status1_def verify_signature_def)
      (simp add: demo_resp_def demo_req_def)
  moreover have "verify_status demo_keys demo_status1 = Inr ()"
    by (simp add: verify_status_def demo_metadata_ok demo_status1_def)
  ultimately show ?thesis
    using demo_T_complete [of ps]
    by (simp add: complete_funding_recovery_def demo_w4_def demo_w3_def demo_attempt_def
        demo_funding_coin_def registered_coin_def demo_funding_journal_def demo_rec demo_w5_def
        demo_coin5_def empty_wallet_def)
      (simp add: demo_resp_def)
qed

subsection \<open>Witnesses: errors, invariant, resuming\<close>

theorem wallet_error_keeps_state_witness:
  "wallet_step (demo_transfer_with []) (OpMarkFundingBroadcast 77) demo_w2
    = (Inl (Msg ''coin is not funded''), demo_w2)"
proof -
  have "wallet_step (demo_transfer_with []) (OpMarkFundingBroadcast 77) demo_w2
      = (Inl (Msg ''coin is not funded''), snd (wallet_step (demo_transfer_with []) (OpMarkFundingBroadcast 77) demo_w2))"
    by (simp add: wallet_step_def mark_funding_broadcast_def funding_transaction_def demo_w2_def
        registered_coin_def)
  from this wallet_error_keeps_state [OF this] show ?thesis by simp
qed

lemma demo_secret_slice: "secret_slice_correct (demo_transfer_with ps)"
  by (simp add: secret_slice_correct_def)

lemma demo_reachable: "wallet_reachable (demo_transfer_with ps) (demo_w5 RecoverySecured)"
proof -
  let ?P = "demo_transfer_with ps"
  have "wallet_reachable ?P demo_w1"
    by (rule wallet_reachable.step [OF wallet_reachable.empty, where op =
        "OpBeginRegistration \<lparr>rd_client_secret = SecretKey 21, rd_capability = 1, rd_coin_id = 7\<rparr>"])
      (simp add: wallet_step_def demo_begin_registration drop_result_def)
  then have "wallet_reachable ?P demo_w2"
    by (rule wallet_reachable.step [where op = "OpCompleteRegistration demo_status"])
      (simp add: wallet_step_def demo_complete_registration)
  then have "wallet_reachable ?P demo_w3"
    by (rule wallet_reachable.step [where op = "OpBeginFunding \<lparr>fd_next_capability = 2,
        fd_withdrawal = SecretKey 31\<rparr> RegtestId (SecretKey 40) (demo_source 0) demo_status 100000 100
        2 500 20"])
      (simp add: wallet_step_def demo_begin_funding drop_result_def)
  then have "wallet_reachable ?P demo_w4"
    by (rule wallet_reachable.step [where op = "OpRecordSignResponse demo_resp"])
      (simp add: wallet_step_def demo_record)
  then show ?thesis
    by (rule wallet_reachable.step [where op = "OpCompleteFundingRecovery demo_status1"])
      (simp add: wallet_step_def demo_secure)
qed

theorem reachable_wallet_can_exit_witness:
  "\<exists>m i r. wc_metadata (demo_coin5 RecoverySecured) = Some m
    \<and> nth_opt (wc_history (demo_coin5 RecoverySecured)) i = Some r
    \<and> verify_recovery (demo_transfer_with []) m r = Inr ()"
  using reachable_wallet_can_exit [OF demo_secret_slice demo_reachable [of "[]"]]
  by (auto simp: demo_w5_def demo_coin5_def)

lemma demo_funding_transaction:
  "funding_transaction (demo_transfer_with ps) (demo_w5 RecoverySecured) = Inr demo_funding_tx"
  by (simp add: funding_transaction_def demo_w5_def demo_coin5_def demo_funding_coin_def
      demo_funding_journal_def validate_finalized_funding_def validate_funding_inputs_def
      validate_funding_input_def demo_funding_tx_def nth_opt_def verify_funding_utxo_def
      demo_metadata_ok first_opt_def demo_rec demo_T_verify ascii_def)

theorem no_broadcast_without_recovery_witness:
  "\<exists>r i'. verify_recovery (demo_transfer_with []) demo_md r = Inr ()
    \<and> inputs (rec_transaction r) = [i'] \<and> previous_output i' = OutPoint 77 0"
  using no_broadcast_without_recovery [OF demo_secret_slice demo_transfer_laws(7) demo_reachable
      demo_funding_transaction, of "[]"]
  by (auto simp: demo_w5_def demo_coin5_def demo_funding_coin_def)

definition demo_r1 :: wallet_state where
  "demo_r1 = empty_wallet\<lparr>ws_incoming := Some \<lparr>it_request = demo_request, it_capability = 3,
     it_withdrawal_secret = 31, it_transport_secret = 61\<rparr>\<rparr>"

definition demo_request_draws :: transfer_request_draws where
  "demo_request_draws = \<lparr>td_capability = 3, td_withdrawal = SecretKey 31, td_transport = SecretKey 61,
     td_request_id = 60\<rparr>"

lemma demo_begin_request:
  "begin_transfer_request (demo_transfer_with ps) demo_request_draws empty_wallet RegtestId 7
     (OutPoint 77 0) 100000 20 = (Inr demo_request, demo_r1)"
  using demo_request_any_table [of ps, symmetric] demo_request_canonical(1) [of ps]
  by (simp add: begin_transfer_request_def empty_wallet_def validate_version_def DELAY_STEP_def
      demo_request_draws_def secret_xonly_def demo_r1_def)

theorem begin_again_resumes_witness:
  "begin_registration (demo_transfer_with []) \<lparr>rd_client_secret = SecretKey 22, rd_capability = 4,
      rd_coin_id = 8\<rparr> demo_w1 = (Inr \<lparr>rr_coin_id = 7, initial_capability_hash = 97\<rparr>, demo_w1)
    \<and> begin_transfer_request (demo_transfer_with []) (demo_request_draws\<lparr>td_request_id := 1\<rparr>) demo_r1
      RegtestId 7 (OutPoint 77 0) 100000 20 = (Inr demo_request, demo_r1)"
  by (rule begin_again_resumes [OF demo_transfer_laws(1,2) demo_begin_registration
      demo_begin_request])

theorem record_response_once_witness:
  "record_sign_response demo_w4 demo_resp = (Inr (), demo_w4)
    \<and> pending_sign_request demo_w4 = pending_sign_request demo_w3"
  using record_response_once [OF demo_record] by simp

subsection \<open>Sending\<close>

definition demo_req2 :: sign_request where
  "demo_req2 = \<lparr>sr_coin_id = 7, current_capability = 2, current_handoff = 11,
     next_capability_hash = 99, sighash = 9\<rparr>"

definition demo_prep2 :: prepared_recovery where
  "demo_prep2 = \<lparr>prep_request = demo_req2, prep_metadata = demo_md,
     prep_transaction = demo_parent 90 [], prep_withdrawal_key = XOnlyKey 31,
     prep_delay_blocks = 90\<rparr>"

definition demo_resp2 :: sign_response where
  "demo_resp2 = \<lparr>signature = Signature (word_cat (3 :: bytes32) (9 :: bytes32)), next_handoff = 12\<rparr>"

definition demo_status2 :: coin_status where
  "demo_status2 = \<lparr>cs_coin_id = 7, signing_pubkey = XOnlyKey 3, cs_authorization = 172,
     cs_signature_count = 2\<rparr>"

definition demo_obs :: observed_funding where
  "demo_obs = \<lparr>obs_outpoint = OutPoint 77 0,
     obs_output = \<lparr>txout_value = 100000, script_pubkey = [0x51, 0x20]\<rparr>, obs_confirmations = 6,
     obs_unspent = True, obs_coinbase = False\<rparr>"

lemma demo_T_canonical:
  "canonical_recovery (demo_transfer_with ps) (OutPoint 77 0) 100000 (XOnlyKey 31) 90
    = Inr (demo_parent 90 [])"
proof -
  have "canonical_recovery demo_bitcoin (OutPoint 77 0) 100000 (XOnlyKey 31) 90
      = Inr (demo_parent 90 [])"
    by (simp add: canonical_recovery_def try_from_word_def demo_parent_def TRUC_VERSION_def)
  with bitcoin_part(1) [of "demo_transfer_with ps"] show ?thesis by (simp add: demo_truncate)
qed

lemma demo_T_sighash: "recovery_sighash (demo_transfer_with ps) t a k = Inr 9"
  using demo_sighash bitcoin_part(2) [of "demo_transfer_with ps"] by (simp add: demo_truncate)

lemma demo_T_signed:
  "verify_signed_recovery (demo_transfer_with ps) (rec_transaction (demo_recovery 90)) 100000 demo_keys
    = Inr ()"
proof -
  have "verify_signed_recovery (bitcoin_lib.truncate P) t a k = verify_signed_recovery P t a k"
    for P :: "'z bitcoin_lib_scheme" and t a k
    by (simp add: verify_signed_recovery_def bitcoin_part bitcoin_part_fields Let_def cong: if_cong)
  from this [of "demo_transfer_with ps"] show ?thesis
    using demo_signed [of 90 100000] by (simp add: demo_truncate)
qed

lemma demo_T_leaf:
  "funding_tapscript (demo_transfer_with ps) k = funding_tapscript demo_bitcoin k"
  "control_serialize (demo_transfer_with ps) (funding_control_block (demo_transfer_with ps) k)
    = control_serialize demo_bitcoin (funding_control_block demo_bitcoin k)"
  using bitcoin_part(3,4) [of "demo_transfer_with ps" k]
    bitcoin_part_fields(17) [of "demo_transfer_with ps"]
  by (simp_all add: demo_truncate)

lemma demo_fields2 [simp]:
  "prep_request demo_prep2 = demo_req2" "prep_metadata demo_prep2 = demo_md"
  "prep_transaction demo_prep2 = demo_parent 90 []" "prep_withdrawal_key demo_prep2 = XOnlyKey 31"
  "prep_delay_blocks demo_prep2 = 90" "sr_coin_id demo_req2 = 7" "sighash demo_req2 = 9"
  "signature demo_resp2 = Signature (word_cat (3 :: bytes32) (9 :: bytes32))"
  "next_handoff demo_resp2 = 12" "next_capability_hash demo_req2 = 99"
  by (simp_all add: demo_prep2_def demo_req2_def demo_resp2_def)

lemma demo_prepare2:
  "prepare_recovery (demo_transfer_with ps) demo_md demo_status1 (SecretKey 21) 2 11 99 (XOnlyKey 31)
     90 6 = Inr (demo_req2, demo_prep2)"
  by (simp add: prepare_recovery_def demo_metadata_ok verify_status_def demo_status1_def
      require_future_delay_def client_xonly_def demo_T_canonical demo_T_sighash Let_def)
    (simp add: demo_req2_def demo_prep2_def)

lemma demo_complete2:
  "complete_recovery (demo_transfer_with ps) demo_req2 demo_resp2 demo_prep2 (SecretKey 21)
    = Inr (demo_recovery 90)"
  using demo_T_signed [of ps]
  by (simp add: complete_recovery_def Let_def demo_metadata_ok client_xonly_def demo_T_canonical
      demo_T_sighash verify_signature_def demo_push demo_T_leaf)
    (simp add: demo_recovery_def)

definition demo_template :: signed_recovery where
  "demo_template = \<lparr>rec_transaction = demo_parent 90
      [replicate 64 0xff, replicate 64 0xff, funding_tapscript demo_bitcoin demo_keys,
       control_serialize demo_bitcoin (funding_control_block demo_bitcoin demo_keys)],
     rec_withdrawal_key = XOnlyKey 31, rec_delay_blocks = 90\<rparr>"

definition demo_payload_of :: "bytes32 \<Rightarrow> handoff_token \<Rightarrow> signed_recovery \<Rightarrow> transfer_payload" where
  "demo_payload_of rid handoff r = \<lparr>tp_format_version = FILE_FORMAT_VERSION,
     tp_protocol_version = PROTOCOL_VERSION, tp_request_id = rid, tp_client_secret = SecretKey 21,
     tp_current_handoff = handoff, tp_metadata = demo_md, tp_history = [demo_recovery 100, r]\<rparr>"

text \<open>The parameter of the transfer runs: its table holds the two payloads the sender encodes.\<close>

definition demo_lib :: transfer_lib where
  "demo_lib = demo_transfer_with
     [demo_payload_of 60 12 (demo_recovery 90), demo_payload_of (- 1) (- 1) demo_template]"

lemma demo_payload_vec:
  "payload_to_vec demo_lib (demo_payload_of 60 12 (demo_recovery 90)) = Some []"
  "\<exists>b. payload_to_vec demo_lib (demo_payload_of (- 1) (- 1) demo_template) = Some b \<and> length b < 1000"
  by (simp_all add: demo_lib_def demo_transfer_simps)

lemma demo_template_is:
  "recovery_serialization_template (demo_transfer_with ps) demo_prep2 = Inr demo_template"
  by (simp add: recovery_serialization_template_def demo_push demo_T_leaf demo_template_def)

definition demo_w6 :: wallet_state where
  "demo_w6 = (demo_w5 Broadcast)\<lparr>ws_pending := Some (PendingRecovery
     \<lparr>pr_purpose = PurposeTransfer demo_request,
      pr_stage = StagePrepared \<lparr>ra_expected_signature_count = 1, ra_delay_blocks = 90,
        ra_request = demo_req2, ra_prepared = demo_prep2\<rparr>\<rparr>)\<rparr>"

lemma demo_broadcast:
  "mark_funding_broadcast (demo_transfer_with ps) (demo_w5 RecoverySecured) 77
    = (Inr (), demo_w5 Broadcast)"
  using demo_funding_transaction [of ps]
  by (simp add: mark_funding_broadcast_def)
    (simp add: demo_w5_def demo_coin5_def demo_funding_coin_def demo_funding_journal_def)

lemma demo_request_fields [simp]:
  "tr_network demo_request = RegtestId" "tr_expected_amount_sat demo_request = 100000"
  "tr_min_reaction_blocks demo_request = 20"
  by (simp_all add: demo_request_def new_transfer_request_def)

lemma demo_coin5_fields [simp]:
  "wc_keys (demo_coin5 stg) = demo_keys" "wc_metadata (demo_coin5 stg) = Some demo_md"
  "wc_client_secret (demo_coin5 stg) = SecretKey 21"
  "wc_history (demo_coin5 stg) = [demo_recovery 100]"
  "wc_funding (demo_coin5 stg) = Some (demo_funding_journal stg)"
  "wc_current_capability (demo_coin5 stg) = Some 2" "wc_current_handoff (demo_coin5 stg) = Some 11"
  "wc_withdrawal_secret (demo_coin5 stg) = Some 31"
  "wc_withdrawal_recovery_index (demo_coin5 stg) = Some 0" "wc_outgoing (demo_coin5 stg) = None"
  "ws_coin (demo_w5 stg) = Some (demo_coin5 stg)" "ws_pending (demo_w5 stg) = None"
  "fj_stage (demo_funding_journal stg) = stg" "md_network demo_md = RegtestId"
  by (simp_all add: demo_coin5_def demo_funding_coin_def registered_coin_def demo_w5_def
      empty_wallet_def demo_funding_journal_def demo_md_def keys_metadata_def)

lemma demo_outgoing_request:
  "validate_outgoing_transfer_request (demo_transfer_with ps) (demo_w5 Broadcast) RegtestId demo_request
    = Inr ()"
proof -
  have "validate_version (demo_w5 Broadcast) = Inr ()"
    by (simp add: validate_version_def)
      (simp add: demo_w5_def demo_coin5_def demo_funding_coin_def registered_coin_def empty_wallet_def)
  then show ?thesis
    by (simp add: validate_outgoing_transfer_request_def demo_request_canonical)
qed

lemma demo_observed:
  "verify_observed_funding (demo_transfer_with ps) demo_md demo_obs 6 = Inr ()"
proof -
  have "verify_observed_funding_output (demo_transfer_with ps) demo_md demo_obs 6 = Inr ()"
    unfolding verify_observed_funding_output_Inr by (simp add: demo_obs_def demo_metadata_ok)
  then show ?thesis by (simp add: verify_observed_funding_def) (simp add: demo_obs_def)
qed

lemma demo_history1:
  "verify_history (demo_transfer_with ps) demo_md demo_status1 (SecretKey 21) 2 11 (XOnlyKey 31) 6
    [demo_recovery 100] = Inr ()"
  by (simp add: verify_history_def verify_status_def demo_metadata_ok demo_status1_def client_xonly_def
      demo_T_verify windows2_def last_opt_def demo_rec)

lemma demo_begin_transfer:
  "begin_transfer demo_lib (demo_w5 Broadcast) RegtestId demo_request demo_status1 demo_obs 6 20
    = (Inr demo_req2, demo_w6)"
proof -
  let ?ps = "[demo_payload_of 60 12 (demo_recovery 90), demo_payload_of (- 1) (- 1) demo_template]"
  obtain b where b: "payload_to_vec demo_lib (demo_payload_of (- 1) (- 1) demo_template) = Some b"
    "length b < 1000" using demo_payload_vec(2) by blast
  have size: "validate_transfer_payload_size demo_lib \<lparr>tp_format_version = FILE_FORMAT_VERSION,
      tp_protocol_version = PROTOCOL_VERSION, tp_request_id = - 1, tp_client_secret = SecretKey 21,
      tp_current_handoff = - 1, tp_metadata = demo_md, tp_history = [demo_recovery 100, demo_template]\<rparr>
    = Inr ()"
    using b by (simp add: demo_payload_of_def validate_transfer_payload_size_def
        validate_transfer_plaintext_size_def MAX_TRANSFER_CIPHERTEXT_SIZE_def)
  have delay: "next_delay (demo_coin5 Broadcast) = Inr 90"
    by (simp add: next_delay_def demo_rec checked_sub_def DELAY_STEP_def)
  have margin: "require_reaction_margin 6 90 20 = Inr ()" by (simp add: require_reaction_margin_Inr)
  have saved: "saved_withdrawal_key demo_lib (demo_coin5 Broadcast) = Inr (SecretKey 31)"
    by (simp add: saved_withdrawal_key_def demo_lib_def)
  have conf: "obs_confirmations demo_obs = 6" "cs_signature_count demo_status1 = 1"
    by (simp_all add: demo_obs_def demo_status1_def)
  show ?thesis
    using saved delay margin size demo_outgoing_request [of ?ps] demo_observed [of ?ps]
      demo_history1 [of ?ps] demo_prepare2 [of ?ps] demo_template_is [of ?ps]
      demo_request_canonical [of ?ps] conf
    by (simp add: begin_transfer_def demo_lib_def [symmetric])
      (simp add: secret_xonly_def demo_lib_def demo_w6_def)
qed

definition demo_w7 :: wallet_state where
  "demo_w7 = demo_w6\<lparr>ws_pending := Some (PendingRecovery
     \<lparr>pr_purpose = PurposeTransfer demo_request,
      pr_stage = StageResponded \<lparr>ra_expected_signature_count = 1, ra_delay_blocks = 90,
        ra_request = demo_req2, ra_prepared = demo_prep2\<rparr> demo_resp2\<rparr>)\<rparr>"

lemma demo_record2: "record_sign_response demo_w6 demo_resp2 = (Inr (), demo_w7)"
  by (simp add: record_sign_response_def demo_w6_def demo_w7_def)

lemma demo_reachable7: "wallet_reachable demo_lib demo_w7"
proof -
  have "wallet_reachable demo_lib (demo_w5 Broadcast)"
    unfolding demo_lib_def
    by (rule wallet_reachable.step [OF demo_reachable, where op = "OpMarkFundingBroadcast 77"])
      (simp add: wallet_step_def demo_broadcast)
  then have "wallet_reachable demo_lib demo_w6"
    by (rule wallet_reachable.step [where op =
        "OpBeginTransfer RegtestId demo_request demo_status1 demo_obs 6 20"])
      (simp add: wallet_step_def demo_begin_transfer drop_result_def)
  then show ?thesis
    by (rule wallet_reachable.step [where op = "OpRecordSignResponse demo_resp2"])
      (simp add: wallet_step_def demo_record2)
qed

definition demo_material :: transfer_material where
  "demo_material = \<lparr>mat_ephemeral = SecretKey 62, mat_nonce = 5\<rparr>"

lemma demo_complete_transfer:
  "\<exists>env s'. encrypt_transfer demo_lib demo_material demo_request (demo_payload_of 60 12 (demo_recovery 90))
      = Inr env \<and> complete_transfer demo_lib demo_material demo_w7 demo_status2 = (Inr env, s')"
proof -
  let ?ps = "[demo_payload_of 60 12 (demo_recovery 90), demo_payload_of (- 1) (- 1) demo_template]"
  have "\<exists>env. encrypt_transfer (demo_transfer_with ?ps) \<lparr>mat_ephemeral = SecretKey 62, mat_nonce = 5\<rparr>
      demo_request (demo_payload_of 60 12 (demo_recovery 90)) = Inr env"
    using demo_payload_vec(1)
    by (intro demo_encrypt [where plaintext = "[]"])
      (simp_all add: demo_lib_def demo_payload_of_def FILE_FORMAT_VERSION_def PROTOCOL_VERSION_def)
  then obtain env where env: "encrypt_transfer demo_lib demo_material demo_request
      (demo_payload_of 60 12 (demo_recovery 90)) = Inr env"
    unfolding demo_lib_def demo_material_def ..
  have status: "verify_status demo_keys demo_status2 = Inr ()"
    by (simp add: verify_status_def demo_metadata_ok demo_status2_def)
  have "verify_sign_response (demo_transfer_with ?ps) demo_req2 1 demo_status2 demo_resp2 = Inr ()"
    by (simp add: verify_sign_response_def checked_add_def demo_status2_def verify_signature_def)
  then have resp: "verify_sign_response demo_lib demo_req2 1 demo_status2 demo_resp2 = Inr ()"
    unfolding demo_lib_def .
  have "ws_coin demo_w7 = Some (demo_coin5 Broadcast)" by (simp add: demo_w7_def demo_w6_def)
  then have "\<exists>s'. complete_transfer demo_lib demo_material demo_w7 demo_status2 = (Inr env, s')"
    using env [unfolded demo_payload_of_def] status resp demo_complete2 [of ?ps, folded demo_lib_def]
      demo_request_canonical [of ?ps, folded demo_lib_def]
    by (simp add: complete_transfer_def demo_w7_def demo_w6_def demo_rec nth_opt_def Let_def)
  with env show ?thesis by blast
qed

text \<open>Nothing in the hypotheses of the hand-over is a conclusion: the witness starts in a wallet
  reached by the run and lets the theorem give what the receiver decrypts.\<close>

theorem complete_transfer_hands_over_witness:
  "\<exists>env s' c' r p. complete_transfer demo_lib demo_material demo_w7 demo_status2 = (Inr env, s')
    \<and> ws_coin s' = Some c' \<and> wc_current_capability c' = None
    \<and> verify_recovery demo_lib demo_md r = Inr () \<and> rec_withdrawal_key r = XOnlyKey 31
    \<and> decrypt_transfer demo_lib demo_request 61 env = Inr p
    \<and> tp_history p = [demo_recovery 100, r]"
proof -
  let ?ps = "[demo_payload_of 60 12 (demo_recovery 90), demo_payload_of (- 1) (- 1) demo_template]"
  obtain env s' where run: "complete_transfer demo_lib demo_material demo_w7 demo_status2 = (Inr env, s')"
    using demo_complete_transfer by blast
  note laws = demo_transfer_laws [of ?ps, folded demo_lib_def]
  have slice: "secret_from_slice demo_lib 61 = Some (SecretKey 61)" by (simp add: demo_lib_def)
  have req: "request_withdrawal_key demo_lib demo_request = Inr (XOnlyKey 31)"
    "request_transport_key demo_lib demo_request = Inr (public_of demo_lib (SecretKey 61))"
    using demo_request_canonical [of ?ps] by (simp_all add: demo_lib_def)
  have coin: "ws_coin demo_w7 = Some (demo_coin5 Broadcast)" by (simp add: demo_w7_def demo_w6_def)
  have env: "wc_outgoing c' = Some \<lparr>ot_request = r, ot_envelope = env\<rparr> \<Longrightarrow> r = demo_request"
    if "ws_coin s' = Some c'" for c' r
    using that by (rule_tac complete_transfer_Inr [OF run]) (auto simp: demo_w7_def)
  from complete_transfer_hands_over [OF demo_secret_slice [of ?ps, folded demo_lib_def] laws(1,2,4,5,6)
      demo_reachable7 run, where net = RegtestId and req' = demo_request and st' = demo_status2
      and obs = demo_obs and minc = 6 and reaction = 20]
  obtain c c' m r q where c: "ws_coin demo_w7 = Some c" "ws_coin s' = Some c'"
      "wc_current_capability c' = None" "wc_metadata c = Some m"
      "wc_outgoing c' = Some \<lparr>ot_request = q, ot_envelope = env\<rparr>"
      "request_withdrawal_key demo_lib q = Inr (rec_withdrawal_key r)"
      "verify_recovery demo_lib m r = Inr ()"
    and dec: "\<forall>ts tsk. secret_from_slice demo_lib ts = Some tsk
        \<and> request_transport_key demo_lib q = Inr (public_of demo_lib tsk)
      \<longrightarrow> (\<exists>p. decrypt_transfer demo_lib q ts env = Inr p \<and> tp_metadata p = m
            \<and> tp_client_secret p = wc_client_secret c \<and> tp_history p = wc_history c @ [r])"
    by (elim exE conjE) (rule that)
  have q: "q = demo_request" using env [OF c(2,5)] .
  have m: "c = demo_coin5 Broadcast" "m = demo_md" using c(1,4) coin by auto
  from dec slice req(2) obtain p where "decrypt_transfer demo_lib demo_request 61 env = Inr p"
      "tp_history p = [demo_recovery 100, r]"
    by (auto simp: q m)
  with run c(2,3,6,7) req(1) show ?thesis by (auto simp: q m)
qed

subsection \<open>Receiving\<close>

lemma demo_history2:
  "verify_history (demo_transfer_with ps) demo_md demo_status2 (SecretKey 21) 3 12 (XOnlyKey 31) 6
    [demo_recovery 100, demo_recovery 90] = Inr ()"
  by (simp add: verify_history_def verify_status_def demo_metadata_ok demo_status2_def client_xonly_def
      demo_T_verify windows2_def last_opt_def demo_rec validate_reaction_window_def
      require_future_delay_def checked_sub_def DELAY_STEP_def)

lemma demo_accept:
  assumes "decrypt_transfer demo_lib demo_request 61 env = Inr (demo_payload_of 60 12 (demo_recovery 90))"
  shows "\<exists>s'. accept_transfer demo_lib demo_r1 RegtestId demo_request env demo_status2 demo_obs 6 20
    = (Inr True, s')"
proof -
  let ?ps = "[demo_payload_of 60 12 (demo_recovery 90), demo_payload_of (- 1) (- 1) demo_template]"
  have version: "validate_version demo_r1 = Inr ()"
    by (simp add: validate_version_def demo_r1_def empty_wallet_def)
  have cap: "capability_hash demo_lib 3 = 99" by (simp add: demo_lib_def)
  have margin: "require_reaction_margin 6 90 20 = Inr ()" by (simp add: require_reaction_margin_Inr)
  have conf: "obs_confirmations demo_obs = 6" by (simp add: demo_obs_def)
  have keys: "secret_xonly demo_lib (SecretKey w) = XOnlyKey w"
    "secret_from_slice demo_lib w = Some (SecretKey w)" for w
    by (simp_all add: secret_xonly_def demo_lib_def)
  show ?thesis
    using assms [unfolded demo_payload_of_def] version cap margin conf keys
      demo_observed [of ?ps, folded demo_lib_def] demo_history2 [of ?ps, folded demo_lib_def]
      demo_request_canonical [of ?ps, folded demo_lib_def]
    by (simp add: accept_transfer_def demo_r1_def empty_wallet_def last_opt_def demo_rec payload_validate_expected_amount_def)
qed

theorem accept_transfer_guarantees_witness:
  "\<exists>env s' c latest. accept_transfer demo_lib demo_r1 RegtestId demo_request env demo_status2 demo_obs 6 20
      = (Inr True, s') \<and> ws_coin s' = Some c \<and> last_opt (wc_history c) = Some latest
    \<and> verify_recovery demo_lib demo_md latest = Inr () \<and> 26 < unat (rec_delay_blocks latest)"
proof -
  let ?ps = "[demo_payload_of 60 12 (demo_recovery 90), demo_payload_of (- 1) (- 1) demo_template]"
  note laws = demo_transfer_laws [of ?ps, folded demo_lib_def]
  have slice: "secret_from_slice demo_lib 61 = Some (SecretKey 61)" by (simp add: demo_lib_def)
  have tk: "request_transport_key demo_lib demo_request = Inr (public_of demo_lib (SecretKey 61))"
    using demo_request_canonical [of ?ps] by (simp add: demo_lib_def)
  obtain env where env: "encrypt_transfer demo_lib demo_material demo_request
      (demo_payload_of 60 12 (demo_recovery 90)) = Inr env"
    using demo_complete_transfer by blast
  have dec: "decrypt_transfer demo_lib demo_request 61 env
      = Inr (demo_payload_of 60 12 (demo_recovery 90))"
    using decrypt_encrypted [OF laws(1,2,4,5,6) env slice tk]
    by (simp add: payload_keys_def demo_payload_of_def demo_md_def keys_metadata_def demo_metadata_ok(2))
  obtain s' where run: "accept_transfer demo_lib demo_r1 RegtestId demo_request env demo_status2 demo_obs 6 20
      = (Inr True, s')"
    using demo_accept [OF dec] by blast
  have md: "wc_metadata c = Some m \<Longrightarrow> m = demo_md" if "ws_coin s' = Some c" for c m
    using that by (rule_tac accept_transfer_Inr [OF run]) (auto simp: accepted_coin_def demo_r1_def dec demo_payload_of_def)
  from accept_transfer_guarantees [OF run, where net' = RegtestId and st' = demo_status2
      and obs' = demo_obs and minc' = 6 and reaction' = 20]
  obtain c m latest where c: "ws_coin s' = Some c" "wc_metadata c = Some m"
    "last_opt (wc_history c) = Some latest" "verify_recovery demo_lib m latest = Inr ()"
    "unat (obs_confirmations demo_obs) + unat (max 20 (tr_min_reaction_blocks demo_request))
      < unat (rec_delay_blocks latest)"
    by (elim exE conjE) (rule that)
  from c(4,5) md [OF c(1,2)] have "verify_recovery demo_lib demo_md latest = Inr ()"
    "26 < unat (rec_delay_blocks latest)" by (simp_all add: demo_obs_def)
  with run c(1,3) show ?thesis by blast
qed

end
