(* ===== verification/Exit_Demo.thy ===== *)
theory Exit_Demo
  imports Exit Wallet_Demo
begin

text \<open>The witnesses of \<open>Exit\<close>: the wallet of \<open>Wallet_Demo\<close>, whose funding was broadcast,
  leaves at five satoshis per virtual byte.\<close>

lemma demo_exit_fields [simp]:
  "address_from_str (demo_transfer_with ps) str = (if str = [] then None else Some (UncheckedAddress str))"
  "require_network (demo_transfer_with ps) (UncheckedAddress str) net = Some (Address str)"
  "address_string (demo_transfer_with ps) a = address_text a"
  by (simp_all add: demo_transfer_simps)

lemma demo_exit_laws:
  "schnorr_correct (demo_transfer_with ps)" "sighash_defined (demo_transfer_with ps)"
  "vsize_by_shape (demo_transfer_with ps)" "address_text_correct (demo_transfer_with ps)"
  by (auto simp: schnorr_correct_def sighash_defined_def vsize_by_shape_def address_text_correct_def
      demo_transfer_simps split: if_splits)

lemma demo_funded: "wallet_reachable (demo_transfer_with ps) (demo_w5 Broadcast)"
  by (rule wallet_reachable.step [OF demo_reachable, where op = "OpMarkFundingBroadcast 77"])
    (simp add: wallet_step_def demo_broadcast)

lemma demo_exit_fee: "exit_fee (demo_transfer_with ps) r dest rate = unat rate * 200"
  by (simp add: exit_fee_def)

lemma demo_exit:
  "\<exists>j. exit_prepare (demo_transfer_with ps) (demo_coin5 Broadcast) RegtestId ''out'' 100 5 2000 = Inr j"
  using reachable_exits [OF demo_exit_laws(1,2) demo_transfer_laws(7) demo_exit_laws(3,4)
      demo_secret_slice demo_funded [of ps], of "demo_coin5 Broadcast" demo_md 0 "''out''"
      "UncheckedAddress ''out''" "Address ''out''" 100 5 2000]
  by (simp add: demo_exit_fee demo_rec)

theorem reachable_wallet_exits_witness:
  "\<exists>j. exit_prepare (demo_transfer_with []) (demo_coin5 Broadcast) RegtestId ''out'' 100 5 2000 = Inr j"
  using reachable_wallet_exits [OF demo_exit_laws(1,2) demo_transfer_laws(7) demo_exit_laws(3,4)
      demo_secret_slice demo_funded [of "[]"], of "demo_coin5 Broadcast" demo_md 0 "''out''"
      "UncheckedAddress ''out''" "Address ''out''" 100 5 2000]
  by (simp add: demo_exit_fee demo_rec)

theorem exit_prepare_conserves_witness:
  "\<exists>j out. exit_prepare (demo_transfer_with []) (demo_coin5 Broadcast) RegtestId ''out'' 100 5 2000
      = Inr j \<and> outputs (ep_child (ej_package j)) = [\<lparr>txout_value = out, script_pubkey = ascii ''out''\<rparr>]
    \<and> (100000 :: nat) = unat out + unat (ep_fee (ej_package j)) \<and> unat (ep_fee (ej_package j)) = 1000"
proof -
  from demo_exit obtain j where j: "exit_prepare (demo_transfer_with []) (demo_coin5 Broadcast)
    RegtestId ''out'' 100 5 2000 = Inr j" by blast
  from exit_prepare_conserves [OF demo_exit_laws(3) j] j show ?thesis by auto
qed

theorem exit_package_canonical_witness:
  "\<exists>p q. exit_validate (demo_transfer_with []) p (demo_coin5 Broadcast) = Inr ()
    \<and> exit_validate (demo_transfer_with []) q (demo_coin5 Broadcast) = Inr () \<and> q = p
    \<and> exit_validate (demo_transfer_with []) (p\<lparr>ep_fee := ep_fee p + 1\<rparr>) (demo_coin5 Broadcast) \<noteq> Inr ()"
proof -
  from demo_exit [of "[]"] obtain p where
    p: "exit_validate (demo_transfer_with []) p (demo_coin5 Broadcast) = Inr ()"
    by (auto simp: exit_prepare_def ok elim: exit_package_prepare_Inr)
  have "ep_fee (p\<lparr>ep_fee := ep_fee p + 1\<rparr>) \<noteq> ep_fee p" by simp
  then have "p \<noteq> p\<lparr>ep_fee := ep_fee p + 1\<rparr>" by metis
  then have "exit_validate (demo_transfer_with []) (p\<lparr>ep_fee := ep_fee p + 1\<rparr>) (demo_coin5 Broadcast) \<noteq> Inr ()"
    using exit_package_canonical [OF p, of "p\<lparr>ep_fee := ep_fee p + 1\<rparr>"] by fastforce
  with p show ?thesis by blast
qed

theorem exit_funding_decision_witness:
  "verify_exit_funding (demo_transfer_with []) (demo_coin5 Broadcast) (demo_obs\<lparr>obs_unspent := False\<rparr>)
      6 (Some 77) True (Some 77) = Inr ()
    \<and> verify_exit_funding (demo_transfer_with []) (demo_coin5 Broadcast)
      (demo_obs\<lparr>obs_unspent := False\<rparr>) 6 (Some 78) False None \<noteq> Inr ()"
  unfolding exit_funding_decision
  using demo_T_verify [of 100 "[]"] by (simp add: demo_obs_def demo_metadata_ok)

theorem exit_journal_discipline_witness:
  "\<exists>j. exit_prepare (demo_transfer_with []) (demo_coin5 Broadcast) RegtestId ''out'' 100 5 2000 = Inr j
    \<and> exit_journal_validate (demo_transfer_with [])
      (journal_run (\<lambda>j. exit_arm_submission (demo_transfer_with []) j (demo_coin5 Broadcast))
        (\<lambda>j x. exit_mark_observed (demo_transfer_with []) j (demo_coin5 Broadcast) (fst x) (snd x)) j
        [Arm, Observe (ep_parent (ej_package j), ep_child (ej_package j))])
      (demo_coin5 Broadcast) = Inr ()"
proof -
  from demo_exit obtain j where j: "exit_prepare (demo_transfer_with []) (demo_coin5 Broadcast)
    RegtestId ''out'' 100 5 2000 = Inr j" by blast
  from exit_journal_discipline [OF j refl,
      of "[Arm, Observe (ep_parent (ej_package j), ep_child (ej_package j))]"] j
  show ?thesis by blast
qed

end
