(* ===== verification/Codec.thy ===== *)
theory Codec
  imports Wallet_State
begin

text \<open>
  The encrypted form of saved states: \<^verbatim>\<open>wallet-core/src/codec.rs\<close>. A value is serialized,
  encrypted under a key derived from the password, and wrapped in a JSON document that carries
  the parameters of the derivation. Reading checks those parameters before it derives a key.
\<close>

subsection \<open>Data\<close>

definition STATE_AAD :: bytes where
  "STATE_AAD = ascii ''tinylayer-wallet-state-v1''"

definition KDF_MEMORY_KIB :: u32 where
  "KDF_MEMORY_KIB = 19456"

definition KDF_ITERATIONS :: u32 where
  "KDF_ITERATIONS = 2"

definition KDF_PARALLELISM :: u32 where
  "KDF_PARALLELISM = 1"

record kdf_parameters =
  kdf_algorithm :: string
  kdf_memory_kib :: u32
  kdf_iterations :: u32
  kdf_parallelism :: u32
  kdf_salt :: string

record encrypted_state =
  es_format_version :: u32
  es_kdf :: kdf_parameters
  es_cipher :: string
  es_nonce :: string
  es_ciphertext :: string

text \<open>The packages this module adds: Argon2id (whether its parameters are accepted, and the
  32-byte hash of a password and a salt, or nothing on an error) and the JSON form of the
  document. How a value of the type parameter \<open>T\<close> is written and read is an argument of the
  functions that are generic in it.\<close>

record codec_lib = transfer_lib +
  argon2_params :: "u32 \<Rightarrow> u32 \<Rightarrow> u32 \<Rightarrow> bool"
  argon2_hash :: "u32 \<Rightarrow> u32 \<Rightarrow> u32 \<Rightarrow> string \<Rightarrow> bytes \<Rightarrow> bytes32 option"
  document_to_vec_pretty :: "encrypted_state \<Rightarrow> bytes option"
  document_from_slice :: "bytes \<Rightarrow> encrypted_state option"

type_synonym salt16 = "128 word"

subsection \<open>Keys\<close>

definition wallet_state_aad ::
  "'m secp_scheme \<Rightarrow> ('b \<Rightarrow> bytes option) \<Rightarrow> 'b \<Rightarrow> anyhow + bytes" where
  "wallet_state_aad P to_vec binding =
     with_context (to_vec binding) (Msg ''serde_json'') (\<lambda>json.
     Inr (STATE_AAD @ be_bytes (sha256 P json)))"

definition validate_kdf :: "kdf_parameters \<Rightarrow> anyhow + unit" where
  "validate_kdf kdf =
     ensure (8 \<le> kdf_memory_kib kdf \<and> kdf_memory_kib kdf \<le> 262144)
       (Msg ''wallet KDF memory cost is outside supported limits'')
     (ensure (1 \<le> kdf_iterations kdf \<and> kdf_iterations kdf \<le> 10)
       (Msg ''wallet KDF iteration cost is outside supported limits'')
     (ensure (1 \<le> kdf_parallelism kdf \<and> kdf_parallelism kdf \<le> 16)
       (Msg ''wallet KDF parallelism is outside supported limits'')
     (Inr ())))"

definition derive_key ::
  "'m codec_lib_scheme \<Rightarrow> string \<Rightarrow> kdf_parameters \<Rightarrow> bytes \<Rightarrow> anyhow + bytes32" where
  "derive_key P password kdf salt =
     ensure (argon2_params P (kdf_memory_kib kdf) (kdf_iterations kdf) (kdf_parallelism kdf))
       (Msg ''invalid wallet KDF parameters'')
     (with_context (argon2_hash P (kdf_memory_kib kdf) (kdf_iterations kdf) (kdf_parallelism kdf)
         password salt) (Msg ''failed to derive wallet encryption key'') (\<lambda>key.
     Inr key))"

definition decode_hex :: "'m transfer_lib_scheme \<Rightarrow> string \<Rightarrow> string \<Rightarrow> anyhow + bytes" where
  "decode_hex P label str =
     with_context (hex_decode P str) (Msg (''invalid '' @ label)) (\<lambda>bs. Inr bs)"

subsection \<open>Sealing\<close>

text \<open>The two random draws are arguments.\<close>

definition seal_encrypted_json ::
  "'m codec_lib_scheme \<Rightarrow> ('v \<Rightarrow> bytes option) \<Rightarrow> salt16 \<Rightarrow> nonce24 \<Rightarrow> 'v \<Rightarrow> string \<Rightarrow> bytes
    \<Rightarrow> anyhow + bytes" where
  "seal_encrypted_json P to_vec salt nonce value password aad =
     with_context (to_vec value) (Msg ''serde_json'') (\<lambda>plaintext.
     let kdf = \<lparr>kdf_algorithm = ''argon2id'', kdf_memory_kib = KDF_MEMORY_KIB,
           kdf_iterations = KDF_ITERATIONS, kdf_parallelism = KDF_PARALLELISM,
           kdf_salt = hex_encode P (be_bytes salt)\<rparr> in
     and_then (derive_key P password kdf (be_bytes salt)) (\<lambda>key.
     ensure (aead_key_ok P key) (Msg ''invalid wallet encryption key'')
     (with_context (aead_encrypt P key (be_bytes nonce) aad plaintext)
       (Msg ''failed to encrypt wallet state'') (\<lambda>ciphertext.
     with_context (document_to_vec_pretty P
         \<lparr>es_format_version = FILE_FORMAT_VERSION, es_kdf = kdf, es_cipher = ''xchacha20poly1305'',
          es_nonce = hex_encode P (be_bytes nonce), es_ciphertext = hex_encode P ciphertext\<rparr>)
       (Msg ''serde_json'') (\<lambda>encoded.
     Inr (encoded @ [0x0a]))))))"

definition seal_wallet_state ::
  "'m codec_lib_scheme \<Rightarrow> (wallet_state \<Rightarrow> bytes option) \<Rightarrow> salt16 \<Rightarrow> nonce24 \<Rightarrow> wallet_state \<Rightarrow> string
    \<Rightarrow> bytes \<Rightarrow> anyhow + bytes" where
  "seal_wallet_state P to_vec salt nonce s password aad =
     and_then (validate_version s) (\<lambda>_. seal_encrypted_json P to_vec salt nonce s password aad)"

subsection \<open>Opening\<close>

definition open_encrypted_json ::
  "'m codec_lib_scheme \<Rightarrow> (bytes \<Rightarrow> 'v option) \<Rightarrow> bytes \<Rightarrow> string \<Rightarrow> bytes \<Rightarrow> anyhow + 'v" where
  "open_encrypted_json P from_slice data password aad =
     with_context (document_from_slice P data) (Msg ''encrypted wallet state is invalid'') (\<lambda>encrypted.
     ensure (es_format_version encrypted = FILE_FORMAT_VERSION)
       (Fmt ''unsupported encrypted wallet version {}'' [unat (es_format_version encrypted)])
     (ensure (kdf_algorithm (es_kdf encrypted) = ''argon2id'') (Msg ''unsupported wallet KDF'')
     (ensure (es_cipher encrypted = ''xchacha20poly1305'') (Msg ''unsupported wallet cipher'')
     (and_then (validate_kdf (es_kdf encrypted)) (\<lambda>_.
     and_then (decode_hex P ''wallet salt'' (kdf_salt (es_kdf encrypted))) (\<lambda>salt.
     ensure (length salt = 16) (Msg ''invalid wallet salt length'')
     (and_then (decode_hex P ''wallet nonce'' (es_nonce encrypted)) (\<lambda>nonce.
     ensure (length nonce = 24) (Msg ''invalid wallet nonce length'')
     (and_then (decode_hex P ''wallet ciphertext'' (es_ciphertext encrypted)) (\<lambda>ciphertext.
     and_then (derive_key P password (es_kdf encrypted) salt) (\<lambda>key.
     ensure (aead_key_ok P key) (Msg ''invalid wallet encryption key'')
     (with_context (aead_decrypt P key nonce aad ciphertext)
       (Msg ''wallet password is incorrect or state is corrupted'') (\<lambda>plaintext.
     with_context (from_slice plaintext) (Msg ''decrypted wallet state is invalid'') (\<lambda>value.
     Inr value))))))))))))))"

definition open_wallet_state ::
  "'m codec_lib_scheme \<Rightarrow> (bytes \<Rightarrow> wallet_state option) \<Rightarrow> bytes \<Rightarrow> string \<Rightarrow> bytes
    \<Rightarrow> anyhow + wallet_state" where
  "open_wallet_state P from_slice data password aad =
     and_then (open_encrypted_json P (deserialize wallet_keys from_slice) data password aad) (\<lambda>s.
     and_then (validate_version s) (\<lambda>_. Inr s))"

subsection \<open>Documented behaviour\<close>

text \<open>A document reads back from its pretty-printed form, also with the newline after it; a
  value's JSON form reads back as the value with the parser serde derives, which has
  \<open>CoinKeysWire\<close> for \<open>CoinKeys\<close>.\<close>

definition document_json_correct :: "'m codec_lib_scheme \<Rightarrow> bool" where
  "document_json_correct P \<longleftrightarrow>
     (\<forall>e b. document_to_vec_pretty P e = Some b \<longrightarrow> document_from_slice P (b @ [0x0a]) = Some e)"

definition json_correct :: "('v \<Rightarrow> bytes option) \<Rightarrow> (bytes \<Rightarrow> 'v option) \<Rightarrow> bool" where
  "json_correct to_vec from_slice \<longleftrightarrow> (\<forall>v b. to_vec v = Some b \<longrightarrow> from_slice b = Some v)"

subsection \<open>Lemmas\<close>

lemma written_kdf_valid:
  "kdf_memory_kib k = KDF_MEMORY_KIB \<Longrightarrow> kdf_iterations k = KDF_ITERATIONS
    \<Longrightarrow> kdf_parallelism k = KDF_PARALLELISM \<Longrightarrow> validate_kdf k = Inr ()"
  by (simp add: validate_kdf_def KDF_MEMORY_KIB_def KDF_ITERATIONS_def KDF_PARALLELISM_def)

lemma open_sealed:
  assumes "hex_correct P" and "aead_correct P" and "document_json_correct P"
    and "json_correct to_vec from_slice"
    and "seal_encrypted_json P to_vec salt nonce v password aad = Inr data"
  shows "open_encrypted_json P (deserialize keys_in from_slice) data password aad =
    (if keys_valid (keys_in v) then Inr v else Inl (Msg ''decrypted wallet state is invalid''))"
proof -
  let ?kdf = "\<lparr>kdf_algorithm = ''argon2id'', kdf_memory_kib = KDF_MEMORY_KIB,
     kdf_iterations = KDF_ITERATIONS, kdf_parallelism = KDF_PARALLELISM,
     kdf_salt = hex_encode P (be_bytes salt)\<rparr>"
  from assms(5) obtain plaintext key ciphertext encoded where
    *: "to_vec v = Some plaintext" "derive_key P password ?kdf (be_bytes salt) = Inr key"
      "aead_key_ok P key" "aead_encrypt P key (be_bytes nonce) aad plaintext = Some ciphertext"
      "document_to_vec_pretty P \<lparr>es_format_version = FILE_FORMAT_VERSION, es_kdf = ?kdf,
         es_cipher = ''xchacha20poly1305'', es_nonce = hex_encode P (be_bytes nonce),
         es_ciphertext = hex_encode P ciphertext\<rparr> = Some encoded"
      "data = encoded @ [0x0a]"
    unfolding seal_encrypted_json_def Let_def ok by auto
  have hex: "decode_hex P l (hex_encode P b) = Inr b" for l b
    using assms(1) by (simp add: hex_correct_def decode_hex_def)
  have "validate_kdf ?kdf = Inr ()" by (rule written_kdf_valid) simp_all
  moreover have "aead_decrypt P key (be_bytes nonce) aad ciphertext = Some plaintext"
    using assms(2) *(4) by (auto simp: aead_correct_def)
  moreover have "from_slice plaintext = Some v" using assms(4) *(1) by (simp add: json_correct_def)
  moreover have "document_from_slice P data = Some \<lparr>es_format_version = FILE_FORMAT_VERSION,
      es_kdf = ?kdf, es_cipher = ''xchacha20poly1305'', es_nonce = hex_encode P (be_bytes nonce),
      es_ciphertext = hex_encode P ciphertext\<rparr>"
    using assms(3) *(5,6) by (simp add: document_json_correct_def)
  ultimately show ?thesis
    using *(2,3) by (simp add: open_encrypted_json_def hex deserialize_valid)
qed

text \<open>C25. What was sealed opens again: a wallet state sealed under a password and a binding opens
  under the same password and binding as exactly that state, whatever salt and nonce were drawn,
  and is refused as invalid if the state holds coin keys that do not validate;
  in particular the parameters the code writes are within the limits it reads.\<close>

theorem open_sealed_wallet_state:
  assumes "hex_correct P" and "aead_correct P" and "document_json_correct P"
    and "json_correct to_vec from_slice"
    and "seal_wallet_state P to_vec salt nonce s password aad = Inr data"
  shows "open_wallet_state P from_slice data password aad =
    (if keys_valid (wallet_keys s) then Inr s else Inl (Msg ''decrypted wallet state is invalid''))"
proof -
  from assms(5) have "validate_version s = Inr ()"
    "seal_encrypted_json P to_vec salt nonce s password aad = Inr data"
    by (simp_all add: seal_wallet_state_def ok)
  with open_sealed [OF assms(1-4)] show ?thesis by (simp add: open_wallet_state_def)
qed

text \<open>C36. A hostile file cannot make the wallet spend more than its limits on deriving a key: a
  document outside the limits, or with a salt that is not 16 bytes long, is refused with the
  same error whatever the key derivation would do; a document that opens is within them.\<close>

theorem opening_bounds_key_derivation:
  assumes "document_from_slice P data = Some e"
  shows "(open_encrypted_json P from_slice data password aad = Inr v \<longrightarrow>
      8 \<le> unat (kdf_memory_kib (es_kdf e)) \<and> unat (kdf_memory_kib (es_kdf e)) \<le> 262144
      \<and> 1 \<le> unat (kdf_iterations (es_kdf e)) \<and> unat (kdf_iterations (es_kdf e)) \<le> 10
      \<and> 1 \<le> unat (kdf_parallelism (es_kdf e)) \<and> unat (kdf_parallelism (es_kdf e)) \<le> 16
      \<and> (\<exists>salt nonce. hex_decode P (kdf_salt (es_kdf e)) = Some salt \<and> length salt = 16
          \<and> hex_decode P (es_nonce e) = Some nonce \<and> length nonce = 24))
    \<and> (validate_kdf (es_kdf e) = Inl err \<or> hex_decode P (kdf_salt (es_kdf e)) = None
        \<or> (\<exists>salt. hex_decode P (kdf_salt (es_kdf e)) = Some salt \<and> length salt \<noteq> 16) \<longrightarrow>
        open_encrypted_json (P\<lparr>argon2_params := pa, argon2_hash := ha\<rparr>) from_slice data password aad
          = open_encrypted_json P from_slice data password aad
        \<and> isl (open_encrypted_json P from_slice data password aad))"
proof (intro conjI impI)
  assume "open_encrypted_json P from_slice data password aad = Inr v"
  with assms show "8 \<le> unat (kdf_memory_kib (es_kdf e))"
    "unat (kdf_memory_kib (es_kdf e)) \<le> 262144" "1 \<le> unat (kdf_iterations (es_kdf e))"
    "unat (kdf_iterations (es_kdf e)) \<le> 10" "1 \<le> unat (kdf_parallelism (es_kdf e))"
    "unat (kdf_parallelism (es_kdf e)) \<le> 16"
    "\<exists>salt nonce. hex_decode P (kdf_salt (es_kdf e)) = Some salt \<and> length salt = 16
      \<and> hex_decode P (es_nonce e) = Some nonce \<and> length nonce = 24"
    by (auto simp: open_encrypted_json_def ok validate_kdf_def decode_hex_def word_le_nat_alt)
next
  let ?P = "P\<lparr>argon2_params := pa, argon2_hash := ha\<rparr>"
  assume bad: "validate_kdf (es_kdf e) = Inl err \<or> hex_decode P (kdf_salt (es_kdf e)) = None
        \<or> (\<exists>salt. hex_decode P (kdf_salt (es_kdf e)) = Some salt \<and> length salt \<noteq> 16)"
  have eq: "document_from_slice ?P = document_from_slice P" "hex_decode ?P = hex_decode P" by simp_all
  from bad assms show "open_encrypted_json ?P from_slice data password aad
      = open_encrypted_json P from_slice data password aad"
    unfolding open_encrypted_json_def eq decode_hex_def
    by (cases "validate_kdf (es_kdf e)"; cases "hex_decode P (kdf_salt (es_kdf e))")
      (auto simp: ensure_def)
  from bad assms show "isl (open_encrypted_json P from_slice data password aad)"
    unfolding open_encrypted_json_def decode_hex_def
    by (cases "validate_kdf (es_kdf e)"; cases "hex_decode P (kdf_salt (es_kdf e))")
      (auto simp: ensure_def)
qed

text \<open>The binding fixes its context: two bindings with one associated data have the same
  serialized form, or those two forms are a collision of SHA-256.\<close>

theorem wallet_state_aad_binds:
  assumes "to_vec b = Some x" and "to_vec b' = Some y"
    and "wallet_state_aad P to_vec b = wallet_state_aad P to_vec b'"
  shows "x = y \<or> sha256_collision P x y"
  using assms by (auto simp: wallet_state_aad_def sha256_collision_def fw_b32.enc_eq_iff)

subsection \<open>Witnesses\<close>

text \<open>The demonstration instance with a document format that knows one document.\<close>

definition demo_document :: encrypted_state where
  "demo_document = \<lparr>es_format_version = FILE_FORMAT_VERSION,
     es_kdf = \<lparr>kdf_algorithm = ''argon2id'', kdf_memory_kib = KDF_MEMORY_KIB,
       kdf_iterations = KDF_ITERATIONS, kdf_parallelism = KDF_PARALLELISM,
       kdf_salt = demo_hex (be_bytes (5 :: salt16))\<rparr>,
     es_cipher = ''xchacha20poly1305'', es_nonce = demo_hex (be_bytes (6 :: nonce24)),
     es_ciphertext = demo_hex (1 # replicate 16 0)\<rparr>"

definition demo_codec :: "encrypted_state \<Rightarrow> codec_lib" where
  "demo_codec e = transfer_lib.extend (demo_transfer_with [])
     \<lparr>argon2_params = (\<lambda>m t p. True),
      argon2_hash = (\<lambda>m t p pw salt. Some 7),
      document_to_vec_pretty = (\<lambda>d. if d = e then Some [0x7b, 0x7d] else None),
      document_from_slice = (\<lambda>b. if b = [0x7b, 0x7d, 0x0a] then Some e else None)\<rparr>"

lemmas demo_codec_simps = demo_codec_def transfer_lib.defs demo_transfer_simps

definition demo_state_to_vec :: "wallet_state \<Rightarrow> bytes option" where
  "demo_state_to_vec s = (if s = empty_wallet then Some [1] else None)"

definition demo_state_from_slice :: "bytes \<Rightarrow> wallet_state option" where
  "demo_state_from_slice b = (if b = [1] then Some empty_wallet else None)"

lemma demo_codec_laws:
  "hex_correct (demo_codec e)" "aead_correct (demo_codec e)" "document_json_correct (demo_codec e)"
  "json_correct demo_state_to_vec demo_state_from_slice"
  by (auto simp: hex_correct_def aead_correct_def document_json_correct_def json_correct_def
      demo_state_to_vec_def demo_state_from_slice_def demo_codec_simps demo_unhex_hex split: if_splits)

lemma demo_seal:
  "seal_wallet_state (demo_codec demo_document) demo_state_to_vec 5 6 empty_wallet ''pw'' []
    = Inr [0x7b, 0x7d, 0x0a]"
proof -
  have "validate_version empty_wallet = Inr ()" by (simp add: validate_version_def empty_wallet_def)
  then show ?thesis
    by (simp add: seal_wallet_state_def seal_encrypted_json_def demo_state_to_vec_def derive_key_def
        demo_codec_simps)
      (simp add: demo_document_def)
qed

theorem open_sealed_wallet_state_witness:
  "open_wallet_state (demo_codec demo_document) demo_state_from_slice [0x7b, 0x7d, 0x0a] ''pw'' []
    = Inr empty_wallet"
  using open_sealed_wallet_state [OF demo_codec_laws demo_seal]
  by (simp add: wallet_keys_def empty_wallet_def)

theorem opening_bounds_key_derivation_witness:
  "isl (open_encrypted_json (demo_codec (demo_document\<lparr>es_kdf := (es_kdf demo_document)
      \<lparr>kdf_memory_kib := 300000\<rparr>\<rparr>)) demo_state_from_slice [0x7b, 0x7d, 0x0a] ''pw'' [])"
proof -
  let ?e = "demo_document\<lparr>es_kdf := (es_kdf demo_document)\<lparr>kdf_memory_kib := 300000\<rparr>\<rparr>"
  have "document_from_slice (demo_codec ?e) [0x7b, 0x7d, 0x0a] = Some ?e"
    by (simp add: demo_codec_simps)
  moreover have "validate_kdf (es_kdf ?e)
      = Inl (Msg ''wallet KDF memory cost is outside supported limits'')"
    by (simp add: validate_kdf_def)
  ultimately show ?thesis
    using opening_bounds_key_derivation [of "demo_codec ?e" "[0x7b, 0x7d, 0x0a]" ?e
        demo_state_from_slice "''pw''" "[]"] by blast
qed

theorem wallet_state_aad_binds_witness:
  "wallet_state_aad demo_secp (\<lambda>b. Some b) [1, 5] = wallet_state_aad demo_secp (\<lambda>b. Some b) [9, 5]
    \<and> sha256_collision demo_secp [1, 5] [9, 5]"
proof -
  have "wallet_state_aad demo_secp (\<lambda>b. Some b) [1, 5] = wallet_state_aad demo_secp (\<lambda>b. Some b) [9, 5]"
    by (simp add: wallet_state_aad_def demo_secp_def)
  with wallet_state_aad_binds [OF refl refl this] show ?thesis by simp
qed

end
