(* ===== verification/File_System.thy ===== *)
theory File_System
  imports Codec
begin

text \<open>
  The files under the wallet, and the two ways \<^verbatim>\<open>wallet/src/store.rs\<close> writes them. The
  operating system is a state: what running processes see (\<open>live\<close>), what would be there after
  a power failure (\<open>disk\<close>), which directories are locked. Every system call consumes one entry
  of a list of faults: it works, it fails (a write may then have written a part), or, when the
  list is empty, the machine stops there. A statement about all lists of faults is a statement
  about every error and every crash at every point.
\<close>

subsection \<open>The operating system\<close>

datatype node_kind = RegularFile | DirectoryNode | SymlinkNode

record node =
  nd_kind :: node_kind
  nd_mode :: u32
  nd_content :: bytes
  nd_synced :: bool

datatype fault = Works | Breaks nat

type_synonym entry = "string \<times> string"

record world =
  dirs :: "string \<rightharpoonup> node"
  live :: "entry \<rightharpoonup> node"
  disk :: "entry \<rightharpoonup> node"
  locks :: "string set"
  console :: bytes
  faults :: "fault list"

text \<open>A computation returns a value, returns an error, or is cut off.\<close>

datatype 'a outcome = Crashed | Failed anyhow | Done 'a

type_synonym 'a io = "world \<Rightarrow> 'a outcome \<times> world"

definition io_return :: "'a \<Rightarrow> 'a io" where
  "io_return x w = (Done x, w)"

definition io_fail :: "anyhow \<Rightarrow> 'a io" where
  "io_fail e w = (Failed e, w)"

definition io_bind :: "'a io \<Rightarrow> ('a \<Rightarrow> 'b io) \<Rightarrow> 'b io" where
  "io_bind m f w =
     (case m w of
        (Crashed, w') \<Rightarrow> (Crashed, w')
      | (Failed e, w') \<Rightarrow> (Failed e, w')
      | (Done x, w') \<Rightarrow> f x w')"

definition io_ensure :: "bool \<Rightarrow> anyhow \<Rightarrow> 'a io \<Rightarrow> 'a io" where
  "io_ensure c e k = (if c then k else io_fail e)"

definition io_lift :: "anyhow + 'a \<Rightarrow> 'a io" where
  "io_lift r = (case r of Inl e \<Rightarrow> io_fail e | Inr x \<Rightarrow> io_return x)"

definition syscall :: "(nat \<Rightarrow> world \<Rightarrow> world) \<Rightarrow> anyhow \<Rightarrow> 'a io \<Rightarrow> 'a io" where
  "syscall partial e act w =
     (case faults w of
        [] \<Rightarrow> (Crashed, w)
      | Works # fs \<Rightarrow> act (w\<lparr>faults := fs\<rparr>)
      | Breaks n # fs \<Rightarrow> (Failed e, partial n (w\<lparr>faults := fs\<rparr>)))"

definition io_error :: anyhow where
  "io_error = Msg ''io error''"

subsection \<open>System calls\<close>

text \<open>\<open>Path::is_dir\<close> turns an error into \<open>false\<close>.\<close>

definition fs_is_dir :: "string \<Rightarrow> bool io" where
  "fs_is_dir d w =
     (case faults w of
        [] \<Rightarrow> (Crashed, w)
      | Works # fs \<Rightarrow>
          (Done (case dirs w d of Some n \<Rightarrow> nd_kind n = DirectoryNode | None \<Rightarrow> False), w\<lparr>faults := fs\<rparr>)
      | Breaks n # fs \<Rightarrow> (Done False, w\<lparr>faults := fs\<rparr>))"

definition fs_create_new :: "anyhow \<Rightarrow> entry \<Rightarrow> u32 \<Rightarrow> unit io" where
  "fs_create_new e f mode = syscall (\<lambda>_ w. w) e
     (\<lambda>w. if live w f \<noteq> None then (Failed e, w)
          else (Done (), w\<lparr>live := (live w)(f \<mapsto>
            \<lparr>nd_kind = RegularFile, nd_mode = mode, nd_content = [], nd_synced = False\<rparr>)\<rparr>))"

definition append_content :: "entry \<Rightarrow> bytes \<Rightarrow> world \<Rightarrow> world" where
  "append_content f bs w =
     w\<lparr>live := (live w)(f := map_option
         (\<lambda>n. n\<lparr>nd_content := nd_content n @ bs, nd_synced := False\<rparr>) (live w f))\<rparr>"

definition fs_write_all :: "entry \<Rightarrow> bytes \<Rightarrow> unit io" where
  "fs_write_all f bs = syscall (\<lambda>n. append_content f (take n bs)) io_error
     (\<lambda>w. (Done (), append_content f bs w))"

definition fs_sync_all :: "entry \<Rightarrow> unit io" where
  "fs_sync_all f = syscall (\<lambda>_ w. w) io_error
     (\<lambda>w. (Done (), w\<lparr>live := (live w)(f := map_option (\<lambda>n. n\<lparr>nd_synced := True\<rparr>) (live w f))\<rparr>))"

definition fs_rename :: "anyhow \<Rightarrow> entry \<Rightarrow> entry \<Rightarrow> unit io" where
  "fs_rename e f g = syscall (\<lambda>_ w. w) e
     (\<lambda>w. if live w f = None then (Failed e, w)
          else (Done (), w\<lparr>live := (live w)(g := live w f, f := None)\<rparr>))"

text \<open>Syncing a directory writes its entries.\<close>

definition fs_sync_dir :: "string \<Rightarrow> unit io" where
  "fs_sync_dir d = syscall (\<lambda>_ w. w) io_error
     (\<lambda>w. (Done (), w\<lparr>disk := (\<lambda>f. if fst f = d then live w f else disk w f)\<rparr>))"

definition fs_remove_file :: "entry \<Rightarrow> unit io" where
  "fs_remove_file f = syscall (\<lambda>_ w. w) io_error
     (\<lambda>w. if live w f = None then (Failed io_error, w)
          else (Done (), w\<lparr>live := (live w)(f := None)\<rparr>))"

datatype link_outcome = Linked | LinkExists

definition fs_hard_link :: "anyhow \<Rightarrow> entry \<Rightarrow> entry \<Rightarrow> link_outcome io" where
  "fs_hard_link e f g = syscall (\<lambda>_ w. w) e
     (\<lambda>w. if live w g \<noteq> None then (Done LinkExists, w)
          else if live w f = None then (Failed e, w)
          else (Done Linked, w\<lparr>live := (live w)(g := live w f)\<rparr>))"

definition fs_read :: "anyhow \<Rightarrow> entry \<Rightarrow> bytes io" where
  "fs_read e f = syscall (\<lambda>_ w. w) e
     (\<lambda>w. case live w f of None \<Rightarrow> (Failed e, w) | Some n \<Rightarrow> (Done (nd_content n), w))"

subsection \<open>Limits\<close>

definition MAX_FILE_SIZE :: nat where
  "MAX_FILE_SIZE = 16 * 1024 * 1024"

definition MAX_STATE_FILE_SIZE :: nat where
  "MAX_STATE_FILE_SIZE = 64 * 1024 * 1024"

definition ensure_output_size :: "bytes \<Rightarrow> anyhow + unit" where
  "ensure_output_size bs =
     ensure (length bs \<le> MAX_FILE_SIZE) (Msg ''output exceeds 16 MiB limit'') (Inr ())"

definition ensure_state_size :: "bytes \<Rightarrow> anyhow + unit" where
  "ensure_state_size bs =
     ensure (length bs \<le> MAX_STATE_FILE_SIZE)
       (Msg ''encrypted wallet state exceeds 64 MiB limit'') (Inr ())"

text \<open>\<open>reader.take(limit + 1).read_to_end\<close>, then the check.\<close>

definition read_limited_with_limit :: "bytes \<Rightarrow> nat \<Rightarrow> string \<Rightarrow> anyhow + bytes" where
  "read_limited_with_limit input limit message =
     (let bs = take (limit + 1) input in
      ensure (length bs \<le> limit) (Msg message) (Inr bs))"

definition read_limited :: "bytes \<Rightarrow> anyhow + bytes" where
  "read_limited input = read_limited_with_limit input MAX_FILE_SIZE ''input exceeds 16 MiB limit''"

definition read_state_limited :: "bytes \<Rightarrow> anyhow + bytes" where
  "read_state_limited input = read_limited_with_limit input MAX_STATE_FILE_SIZE
     ''encrypted wallet state exceeds 64 MiB limit''"

subsection \<open>Writing\<close>

text \<open>A path as the code takes it apart: \<open>parent()\<close> and \<open>file_name().and_then(to_str)\<close>.\<close>

record path =
  path_parent :: "string option"
  path_name :: "string option"

definition target_dir :: "path \<Rightarrow> string" where
  "target_dir p = (case path_parent p of None \<Rightarrow> ''.'' | Some d \<Rightarrow> if d = [] then ''.'' else d)"

definition temporary_name :: "'m transfer_lib_scheme \<Rightarrow> u64 \<Rightarrow> string \<Rightarrow> string" where
  "temporary_name P rnd name = ''.'' @ name @ ''.tmp-'' @ hex_encode P (be_bytes rnd)"

definition display_entry :: "entry \<Rightarrow> string" where
  "display_entry f = fst f @ ''/'' @ snd f"

definition PRIVATE_MODE :: u32 where
  "PRIVATE_MODE = 0x180"

text \<open>\<open>if result.is_err() { let _ = fs::remove_file(&temporary); }\<close>.\<close>

definition cleanup_on_error :: "entry \<Rightarrow> 'a io \<Rightarrow> 'a io" where
  "cleanup_on_error tmp m w =
     (case m w of
        (Failed e, w') \<Rightarrow>
          (case fs_remove_file tmp w' of
             (Crashed, w'') \<Rightarrow> (Crashed, w'')
           | (Failed _, w'') \<Rightarrow> (Failed e, w'')
           | (Done _, w'') \<Rightarrow> (Failed e, w''))
      | (Crashed, w') \<Rightarrow> (Crashed, w')
      | (Done x, w') \<Rightarrow> (Done x, w'))"

definition write_bytes_atomic_inner ::
  "'m transfer_lib_scheme \<Rightarrow> u64 \<Rightarrow> path \<Rightarrow> bytes \<Rightarrow> unit io" where
  "write_bytes_atomic_inner P rnd p bs =
     io_bind (fs_is_dir (target_dir p)) (\<lambda>is_dir.
     io_ensure is_dir (Msg (''output directory does not exist: '' @ target_dir p))
     (case path_name p of
        None \<Rightarrow> io_fail (Msg ''output path has no file name'')
      | Some name \<Rightarrow>
        let target = (target_dir p, name);
            tmp = (target_dir p, temporary_name P rnd name)
        in cleanup_on_error tmp
             (io_bind (fs_create_new (Msg (''create temporary file for '' @ display_entry target))
                 tmp PRIVATE_MODE) (\<lambda>_.
              io_bind (fs_write_all tmp bs) (\<lambda>_.
              io_bind (fs_sync_all tmp) (\<lambda>_.
              io_bind (fs_rename (Msg (''replace '' @ display_entry target @ '' atomically''))
                 tmp target) (\<lambda>_.
              fs_sync_dir (target_dir p))))))))"

definition write_bytes_atomic :: "'m transfer_lib_scheme \<Rightarrow> u64 \<Rightarrow> path \<Rightarrow> bytes \<Rightarrow> unit io" where
  "write_bytes_atomic P rnd p bs =
     io_bind (io_lift (ensure_output_size bs)) (\<lambda>_. write_bytes_atomic_inner P rnd p bs)"

definition write_state_bytes_atomic :: "'m transfer_lib_scheme \<Rightarrow> u64 \<Rightarrow> path \<Rightarrow> bytes \<Rightarrow> unit io" where
  "write_state_bytes_atomic P rnd p bs =
     io_bind (io_lift (ensure_state_size bs)) (\<lambda>_. write_bytes_atomic_inner P rnd p bs)"

definition write_bytes_destination ::
  "'m transfer_lib_scheme \<Rightarrow> u64 \<Rightarrow> path \<Rightarrow> bytes \<Rightarrow> unit io" where
  "write_bytes_destination P rnd p bs =
     io_bind (io_lift (ensure_output_size bs)) (\<lambda>_.
     io_bind (fs_is_dir (target_dir p)) (\<lambda>is_dir.
     io_ensure is_dir (Msg (''output directory does not exist: '' @ target_dir p))
     (case path_name p of
        None \<Rightarrow> io_fail (Msg ''output path has no file name'')
      | Some name \<Rightarrow>
        let target = (target_dir p, name);
            tmp = (target_dir p, temporary_name P rnd name)
        in cleanup_on_error tmp
             (io_bind (fs_create_new (Msg (''create temporary file for '' @ display_entry target))
                 tmp PRIVATE_MODE) (\<lambda>_.
              io_bind (fs_write_all tmp bs) (\<lambda>_.
              io_bind (fs_sync_all tmp) (\<lambda>_.
              io_bind (fs_hard_link (Msg (''create output '' @ display_entry target
                   @ '' without overwrite'')) tmp target) (\<lambda>linked.
              io_bind (case linked of
                  Linked \<Rightarrow> io_return ()
                | LinkExists \<Rightarrow>
                    io_bind (fs_read (Msg (''read existing output '' @ display_entry target)) target)
                      (\<lambda>content.
                    io_bind (io_lift (read_limited content)) (\<lambda>existing.
                    io_ensure (existing = bs)
                      (Msg (''refusing to overwrite existing file: '' @ display_entry target))
                      (io_return ())))) (\<lambda>_.
              io_bind (fs_remove_file tmp) (\<lambda>_.
              fs_sync_dir (target_dir p)))))))))))"

subsection \<open>Reasoning about computations that may be cut off\<close>

text \<open>From a state in \<open>P\<close>: a value is returned in \<open>Q\<close>, and an error or a crash leaves \<open>E\<close>.\<close>

definition io_spec :: "(world \<Rightarrow> bool) \<Rightarrow> 'a io \<Rightarrow> ('a \<Rightarrow> world \<Rightarrow> bool) \<Rightarrow> (world \<Rightarrow> bool) \<Rightarrow> bool" where
  "io_spec P m Q E \<longleftrightarrow>
     (\<forall>w. P w \<longrightarrow> (case m w of (Done x, w') \<Rightarrow> Q x w' | (Failed e, w') \<Rightarrow> E w' | (Crashed, w') \<Rightarrow> E w'))"

named_theorems io "rules of the specification logic"

lemma io_specD:
  assumes "io_spec P m Q E" and "P w" and "m w = (out, w')"
  shows "case out of Done x \<Rightarrow> Q x w' | Failed e \<Rightarrow> E w' | Crashed \<Rightarrow> E w'"
  using assms by (auto simp: io_spec_def split: outcome.splits)

lemma io_spec_bind [io]:
  assumes "io_spec P m R E" and "\<And>x. io_spec (R x) (f x) Q E"
  shows "io_spec P (io_bind m f) Q E"
  unfolding io_spec_def
proof (intro allI impI)
  fix w
  assume "P w"
  obtain out w' where m: "m w = (out, w')" by (cases "m w")
  from io_specD [OF assms(1) \<open>P w\<close> m] assms(2)
  show "case io_bind m f w of (Done x, w') \<Rightarrow> Q x w' | (Failed e, w') \<Rightarrow> E w' | (Crashed, w') \<Rightarrow> E w'"
    by (cases out) (auto simp: io_bind_def m io_spec_def)
qed

lemma io_spec_return [io]: "(\<And>w. P w \<Longrightarrow> Q x w) \<Longrightarrow> io_spec P (io_return x) Q E"
  by (simp add: io_spec_def io_return_def)

lemma io_spec_fail [io]: "(\<And>w. P w \<Longrightarrow> E w) \<Longrightarrow> io_spec P (io_fail e) Q E"
  by (simp add: io_spec_def io_fail_def)

lemma io_spec_ensure [io]:
  "(c \<Longrightarrow> io_spec P k Q E) \<Longrightarrow> (\<And>w. P w \<Longrightarrow> E w) \<Longrightarrow> io_spec P (io_ensure c e k) Q E"
  by (simp add: io_ensure_def io_spec_fail)

lemma io_spec_lift [io]:
  "(\<And>w. P w \<Longrightarrow> E w) \<Longrightarrow> (\<And>x w. r = Inr x \<Longrightarrow> P w \<Longrightarrow> Q x w) \<Longrightarrow> io_spec P (io_lift r) Q E"
  by (simp add: io_lift_def io_spec_def io_fail_def io_return_def split: sum.splits)

lemma io_spec_syscall:
  assumes "\<And>w. P w \<Longrightarrow> E w" and "\<And>n w fs. P w \<Longrightarrow> E (partial n (w\<lparr>faults := fs\<rparr>))"
    and "\<And>w fs. P w \<Longrightarrow> case act (w\<lparr>faults := fs\<rparr>) of
      (Done x, w') \<Rightarrow> Q x w' | (Failed e, w') \<Rightarrow> E w' | (Crashed, w') \<Rightarrow> E w'"
  shows "io_spec P (syscall partial e act) Q E"
  using assms by (auto simp: io_spec_def syscall_def split: list.splits fault.splits)

lemma io_spec_pre: "io_spec P m Q E \<Longrightarrow> (\<And>w. P' w \<Longrightarrow> P w) \<Longrightarrow> io_spec P' m Q E"
  by (simp add: io_spec_def)

lemma io_spec_cleanup [io]:
  assumes "io_spec P m Q E" and "io_spec E (fs_remove_file tmp) (\<lambda>_. E) E"
  shows "io_spec P (cleanup_on_error tmp m) Q E"
  unfolding io_spec_def
proof (intro allI impI)
  fix w
  assume "P w"
  obtain out w' where m: "m w = (out, w')" by (cases "m w")
  obtain out' w'' where r: "fs_remove_file tmp w' = (out', w'')" by (cases "fs_remove_file tmp w'")
  from io_specD [OF assms(1) \<open>P w\<close> m] io_specD [OF assms(2) _ r]
  show "case cleanup_on_error tmp m w of
      (Done x, w') \<Rightarrow> Q x w' | (Failed e, w') \<Rightarrow> E w' | (Crashed, w') \<Rightarrow> E w'"
    by (cases out; cases out') (auto simp: cleanup_on_error_def m r)
qed

subsection \<open>Atomic replacement\<close>

definition written_node :: "bytes \<Rightarrow> node" where
  "written_node bs = \<lparr>nd_kind = RegularFile, nd_mode = PRIVATE_MODE, nd_content = bs, nd_synced = True\<rparr>"

text \<open>Everything but the files in \<open>X\<close> is as in \<open>w0\<close>; syncing may have written it to disk.\<close>

definition others_kept :: "world \<Rightarrow> entry set \<Rightarrow> world \<Rightarrow> bool" where
  "others_kept w0 X w \<longleftrightarrow> dirs w = dirs w0 \<and> locks w = locks w0
     \<and> (\<forall>f. f \<notin> X \<longrightarrow> live w f = live w0 f \<and> (disk w f = disk w0 f \<or> disk w f = live w0 f))"

lemma others_kept_refl: "others_kept w X w"
  by (simp add: others_kept_def)

lemma others_kept_faults [simp]: "others_kept w0 X (w\<lparr>faults := fs\<rparr>) = others_kept w0 X w"
  by (simp add: others_kept_def)

text \<open>The target holds its old file or the new one, complete and synced, both for running
  processes and on the disk.\<close>

definition old_or_new :: "world \<Rightarrow> entry \<Rightarrow> entry \<Rightarrow> bytes \<Rightarrow> world \<Rightarrow> bool" where
  "old_or_new w0 target tmp bs w \<longleftrightarrow> others_kept w0 {target, tmp} w
     \<and> live w target \<in> {live w0 target, Some (written_node bs)}
     \<and> disk w target \<in> {disk w0 target, Some (written_node bs)}"

definition temporary_is :: "world \<Rightarrow> entry \<Rightarrow> entry \<Rightarrow> node option \<Rightarrow> world \<Rightarrow> bool" where
  "temporary_is w0 target tmp v w \<longleftrightarrow> others_kept w0 {target, tmp} w
     \<and> live w target = live w0 target \<and> disk w target = disk w0 target \<and> live w tmp = v"

lemma temporary_is_faults [simp]:
  "temporary_is w0 target tmp v (w\<lparr>faults := fs\<rparr>) = temporary_is w0 target tmp v w"
  "old_or_new w0 target tmp bs (w\<lparr>faults := fs\<rparr>) = old_or_new w0 target tmp bs w"
  by (simp_all add: temporary_is_def old_or_new_def)

lemma temporary_is_safe: "temporary_is w0 target tmp v w \<Longrightarrow> old_or_new w0 target tmp bs w"
  by (simp add: temporary_is_def old_or_new_def)

definition draft_node :: "bytes \<Rightarrow> node" where
  "draft_node bs = (written_node bs)\<lparr>nd_synced := False\<rparr>"

lemmas file_specs = temporary_is_def old_or_new_def others_kept_def draft_node_def written_node_def

lemma spec_create:
  "tmp \<noteq> target \<Longrightarrow> io_spec (temporary_is w0 target tmp v) (fs_create_new e tmp PRIVATE_MODE)
    (\<lambda>_. temporary_is w0 target tmp (Some (draft_node []))) (old_or_new w0 target tmp bs)"
  unfolding fs_create_new_def by (intro io_spec_syscall) (auto simp: file_specs)

lemma spec_write:
  "tmp \<noteq> target \<Longrightarrow> io_spec (temporary_is w0 target tmp (Some (draft_node []))) (fs_write_all tmp bs)
    (\<lambda>_. temporary_is w0 target tmp (Some (draft_node bs))) (old_or_new w0 target tmp bs)"
  unfolding fs_write_all_def by (intro io_spec_syscall) (auto simp: file_specs append_content_def)

lemma spec_sync:
  "tmp \<noteq> target \<Longrightarrow> io_spec (temporary_is w0 target tmp (Some (draft_node bs))) (fs_sync_all tmp)
    (\<lambda>_. temporary_is w0 target tmp (Some (written_node bs))) (old_or_new w0 target tmp bs)"
  unfolding fs_sync_all_def by (intro io_spec_syscall) (auto simp: file_specs)

definition replaced :: "world \<Rightarrow> entry \<Rightarrow> entry \<Rightarrow> bytes \<Rightarrow> world \<Rightarrow> bool" where
  "replaced w0 target tmp bs w \<longleftrightarrow> old_or_new w0 target tmp bs w
     \<and> live w target = Some (written_node bs) \<and> live w tmp = None"

lemma spec_rename:
  "tmp \<noteq> target \<Longrightarrow> io_spec (temporary_is w0 target tmp (Some (written_node bs))) (fs_rename e tmp target)
    (\<lambda>_. replaced w0 target tmp bs) (old_or_new w0 target tmp bs)"
  unfolding fs_rename_def by (intro io_spec_syscall) (auto simp: file_specs replaced_def)

lemma spec_sync_dir:
  "io_spec (replaced w0 target tmp bs) (fs_sync_dir (fst target))
    (\<lambda>_ w. replaced w0 target tmp bs w \<and> disk w target = Some (written_node bs))
    (old_or_new w0 target tmp bs)"
  unfolding fs_sync_dir_def by (intro io_spec_syscall) (auto simp: file_specs replaced_def)

lemma spec_remove:
  "tmp \<noteq> target \<Longrightarrow> io_spec (old_or_new w0 target tmp bs) (fs_remove_file tmp)
    (\<lambda>_. old_or_new w0 target tmp bs) (old_or_new w0 target tmp bs)"
  unfolding fs_remove_file_def by (intro io_spec_syscall) (auto simp: file_specs)

lemma spec_is_dir:
  "(\<And>w fs. R (w\<lparr>faults := fs\<rparr>) = R w) \<Longrightarrow> (\<And>w. R w \<Longrightarrow> E w) \<Longrightarrow> io_spec R (fs_is_dir d) (\<lambda>_. R) E"
  by (auto simp: io_spec_def fs_is_dir_def split: list.splits fault.splits)

lemma temporary_differs: "temporary_name P rnd name \<noteq> name"
proof
  assume "temporary_name P rnd name = name"
  then have "length (temporary_name P rnd name) = length name" by simp
  then show False by (simp add: temporary_name_def)
qed

lemma replace_spec:
  assumes "tmp \<noteq> target"
  shows "io_spec (temporary_is w0 target tmp v)
    (cleanup_on_error tmp
      (io_bind (fs_create_new e tmp PRIVATE_MODE) (\<lambda>_.
       io_bind (fs_write_all tmp bs) (\<lambda>_.
       io_bind (fs_sync_all tmp) (\<lambda>_.
       io_bind (fs_rename e' tmp target) (\<lambda>_. fs_sync_dir (fst target)))))))
    (\<lambda>_ w. replaced w0 target tmp bs w \<and> disk w target = Some (written_node bs))
    (old_or_new w0 target tmp bs)"
  by (rule io_spec_cleanup [OF _ spec_remove [OF assms]], rule io_spec_bind [OF spec_create [OF assms]],
      rule io_spec_bind [OF spec_write [OF assms]], rule io_spec_bind [OF spec_sync [OF assms]],
      rule io_spec_bind [OF spec_rename [OF assms]], rule spec_sync_dir)

lemma write_atomic_spec:
  assumes "path_name p = Some name"
  shows "io_spec (temporary_is w0 (target_dir p, name) (target_dir p, temporary_name P rnd name) v)
    (write_bytes_atomic_inner P rnd p bs)
    (\<lambda>_ w. replaced w0 (target_dir p, name) (target_dir p, temporary_name P rnd name) bs w
      \<and> disk w (target_dir p, name) = Some (written_node bs))
    (old_or_new w0 (target_dir p, name) (target_dir p, temporary_name P rnd name) bs)"
proof -
  have "(target_dir p, temporary_name P rnd name) \<noteq> (target_dir p, name)"
    using temporary_differs by simp
  note body = replace_spec [OF this, simplified fst_conv]
  show ?thesis
    unfolding write_bytes_atomic_inner_def assms option.case Let_def
    by (rule io_spec_bind [OF spec_is_dir io_spec_ensure [OF body]]) (simp_all add: temporary_is_safe)
qed

lemma replacement_atomic:
  assumes "path_name p = Some name" and "target = (target_dir p, name)"
    and "tmp = (target_dir p, temporary_name P rnd name)"
    and "write_bytes_atomic_inner P rnd p bs w = (out, w')"
  shows "live w' target \<in> {live w target, Some (written_node bs)}
    \<and> disk w' target \<in> {disk w target, Some (written_node bs)}
    \<and> (\<forall>f. f \<noteq> target \<and> f \<noteq> tmp \<longrightarrow> live w' f = live w f \<and> disk w' f \<in> {disk w f, live w f})
    \<and> (out = Done () \<longrightarrow> live w' target = Some (written_node bs) \<and> live w' tmp = None
        \<and> disk w' target = Some (written_node bs))"
proof -
  have "temporary_is w target tmp (live w tmp) w"
    by (simp add: temporary_is_def others_kept_refl)
  from io_specD [OF write_atomic_spec [OF assms(1), of w P rnd "live w tmp" bs,
      folded assms(2,3)] this assms(4)]
  show ?thesis by (cases out) (auto simp: replaced_def old_or_new_def others_kept_def)
qed

text \<open>C21. Replacing a file is atomic under every error and every crash: whatever system call
  fails or is the last one before the machine stops, the target holds either its old file or
  the new one, complete and synced, and so does the disk; no other file but the temporary one
  changes. When the call returns, the new file is in place and on the disk.\<close>

theorem atomic_replacement:
  assumes "path_name p = Some name" and "target = (target_dir p, name)"
    and "tmp = (target_dir p, temporary_name P rnd name)"
    and "write_bytes_atomic_inner P rnd p bs w = (out, w')"
  shows "live w' target \<in> {live w target, Some (written_node bs)}
    \<and> disk w' target \<in> {disk w target, Some (written_node bs)}
    \<and> (\<forall>f. f \<noteq> target \<and> f \<noteq> tmp \<longrightarrow> live w' f = live w f \<and> disk w' f \<in> {disk w f, live w f})
    \<and> (out = Done () \<longrightarrow> live w' target = Some (written_node bs) \<and> live w' tmp = None
        \<and> disk w' target = Some (written_node bs))"
  by (rule replacement_atomic [OF assms])

text \<open>On a machine that works, the call returns.\<close>

lemma atomic_replacement_returns:
  assumes "path_name p = Some name" and "dirs w (target_dir p) = Some n" and "nd_kind n = DirectoryNode"
    and "live w (target_dir p, temporary_name P rnd name) = None"
    and "faults w = replicate 6 Works @ fs"
  shows "\<exists>w'. write_bytes_atomic_inner P rnd p bs w = (Done (), w') \<and> faults w' = fs"
  using assms
  by (simp add: write_bytes_atomic_inner_def io_bind_def fs_is_dir_def io_ensure_def Let_def
      cleanup_on_error_def fs_create_new_def syscall_def fs_write_all_def append_content_def
      fs_sync_all_def fs_rename_def fs_sync_dir_def numeral_eq_Suc)

subsection \<open>Writing without overwriting\<close>

definition not_overwritten :: "world \<Rightarrow> entry \<Rightarrow> entry \<Rightarrow> bytes \<Rightarrow> world \<Rightarrow> bool" where
  "not_overwritten w0 target tmp bs w \<longleftrightarrow> others_kept w0 {target, tmp} w
     \<and> (live w target = live w0 target
        \<or> live w0 target = None \<and> live w target = Some (written_node bs))
     \<and> (disk w target \<in> {disk w0 target, live w0 target}
        \<or> live w0 target = None \<and> disk w target = Some (written_node bs))"

definition linked_or_same :: "world \<Rightarrow> entry \<Rightarrow> entry \<Rightarrow> bytes \<Rightarrow> world \<Rightarrow> bool" where
  "linked_or_same w0 target tmp bs w \<longleftrightarrow> not_overwritten w0 target tmp bs w
     \<and> (live w0 target = None \<and> live w target = Some (written_node bs)
        \<or> (\<exists>n. live w0 target = Some n \<and> nd_content n = bs \<and> live w target = Some n))"

lemmas destination_specs = not_overwritten_def linked_or_same_def file_specs

lemma temporary_is_kept: "temporary_is w0 target tmp v w \<Longrightarrow> not_overwritten w0 target tmp bs w"
  by (simp add: temporary_is_def not_overwritten_def)

lemma io_spec_weaken:
  assumes "io_spec P m Q E" and "\<And>w. E w \<Longrightarrow> E' w"
  shows "io_spec P m Q E'"
  using assms by (fastforce simp: io_spec_def split: prod.splits outcome.splits)

lemma spec_create_new:
  "tmp \<noteq> target \<Longrightarrow> io_spec (temporary_is w0 target tmp v) (fs_create_new e tmp PRIVATE_MODE)
    (\<lambda>_. temporary_is w0 target tmp (Some (draft_node []))) (not_overwritten w0 target tmp bs)"
  unfolding fs_create_new_def by (intro io_spec_syscall) (auto simp: destination_specs)

lemma spec_write_new:
  "tmp \<noteq> target \<Longrightarrow> io_spec (temporary_is w0 target tmp (Some (draft_node []))) (fs_write_all tmp bs)
    (\<lambda>_. temporary_is w0 target tmp (Some (draft_node bs))) (not_overwritten w0 target tmp bs)"
  unfolding fs_write_all_def by (intro io_spec_syscall) (auto simp: destination_specs append_content_def)

lemma spec_sync_new:
  "tmp \<noteq> target \<Longrightarrow> io_spec (temporary_is w0 target tmp (Some (draft_node bs))) (fs_sync_all tmp)
    (\<lambda>_. temporary_is w0 target tmp (Some (written_node bs))) (not_overwritten w0 target tmp bs)"
  unfolding fs_sync_all_def by (intro io_spec_syscall) (auto simp: destination_specs)

lemma spec_link:
  "tmp \<noteq> target \<Longrightarrow> io_spec (temporary_is w0 target tmp (Some (written_node bs))) (fs_hard_link e tmp target)
    (\<lambda>l. case l of Linked \<Rightarrow> linked_or_same w0 target tmp bs
      | LinkExists \<Rightarrow> (\<lambda>w. temporary_is w0 target tmp (Some (written_node bs)) w \<and> live w0 target \<noteq> None))
    (not_overwritten w0 target tmp bs)"
  unfolding fs_hard_link_def by (intro io_spec_syscall) (auto simp: destination_specs)

lemma spec_read_existing:
  "io_spec (\<lambda>w. temporary_is w0 target tmp v w \<and> live w0 target \<noteq> None) (fs_read e target)
    (\<lambda>content w. temporary_is w0 target tmp v w
      \<and> (\<exists>n. live w0 target = Some n \<and> nd_content n = content))
    (not_overwritten w0 target tmp bs)"
  unfolding fs_read_def by (intro io_spec_syscall) (auto simp: destination_specs)

lemma read_limited_Inr: "read_limited content = Inr x \<Longrightarrow> x = content"
  by (auto simp: read_limited_def read_limited_with_limit_def Let_def ok)

lemma spec_keep_same:
  "io_spec (case l of Linked \<Rightarrow> linked_or_same w0 target tmp bs
      | LinkExists \<Rightarrow> (\<lambda>w. temporary_is w0 target tmp (Some (written_node bs)) w \<and> live w0 target \<noteq> None))
    (case l of Linked \<Rightarrow> io_return ()
      | LinkExists \<Rightarrow> io_bind (fs_read e target) (\<lambda>content.
          io_bind (io_lift (read_limited content)) (\<lambda>existing.
          io_ensure (existing = bs) e' (io_return ()))))
    (\<lambda>_. linked_or_same w0 target tmp bs) (not_overwritten w0 target tmp bs)"
proof (cases l)
  case Linked
  then show ?thesis by (simp add: io_spec_return)
next
  case LinkExists
  have "io_spec (\<lambda>w. temporary_is w0 target tmp (Some (written_node bs)) w
      \<and> (\<exists>n. live w0 target = Some n \<and> nd_content n = content))
    (io_bind (io_lift (read_limited content)) (\<lambda>existing.
       io_ensure (existing = bs) e' (io_return ())))
    (\<lambda>_. linked_or_same w0 target tmp bs) (not_overwritten w0 target tmp bs)" for content
    by (rule io_spec_bind [where R = "\<lambda>x w. temporary_is w0 target tmp (Some (written_node bs)) w
          \<and> (\<exists>n. live w0 target = Some n \<and> nd_content n = x)",
        OF io_spec_lift io_spec_ensure [OF io_spec_return]])
      (auto simp: destination_specs dest: read_limited_Inr)
  then show ?thesis
    unfolding LinkExists link_outcome.case by (rule io_spec_bind [OF spec_read_existing])
qed

lemma spec_remove_temporary:
  "tmp \<noteq> target \<Longrightarrow> io_spec (not_overwritten w0 target tmp bs) (fs_remove_file tmp)
    (\<lambda>_. not_overwritten w0 target tmp bs) (not_overwritten w0 target tmp bs)"
  "tmp \<noteq> target \<Longrightarrow> io_spec (linked_or_same w0 target tmp bs) (fs_remove_file tmp)
    (\<lambda>_. linked_or_same w0 target tmp bs) (not_overwritten w0 target tmp bs)"
  unfolding fs_remove_file_def by (intro io_spec_syscall; auto simp: destination_specs)+

lemma spec_sync_linked:
  "io_spec (linked_or_same w0 target tmp bs) (fs_sync_dir d)
    (\<lambda>_. linked_or_same w0 target tmp bs) (not_overwritten w0 target tmp bs)"
  unfolding fs_sync_dir_def by (intro io_spec_syscall) (auto simp: destination_specs)

lemma place_spec:
  assumes "tmp \<noteq> target"
  shows "io_spec (temporary_is w0 target tmp v)
    (cleanup_on_error tmp
      (io_bind (fs_create_new e tmp PRIVATE_MODE) (\<lambda>_.
       io_bind (fs_write_all tmp bs) (\<lambda>_.
       io_bind (fs_sync_all tmp) (\<lambda>_.
       io_bind (fs_hard_link e' tmp target) (\<lambda>linked.
       io_bind (case linked of Linked \<Rightarrow> io_return ()
           | LinkExists \<Rightarrow> io_bind (fs_read e'' target) (\<lambda>content.
               io_bind (io_lift (read_limited content)) (\<lambda>existing.
               io_ensure (existing = bs) e3 (io_return ())))) (\<lambda>_.
       io_bind (fs_remove_file tmp) (\<lambda>_. fs_sync_dir d))))))))
    (\<lambda>_. linked_or_same w0 target tmp bs) (not_overwritten w0 target tmp bs)"
  by (rule io_spec_cleanup [OF _ spec_remove_temporary(1) [OF assms]],
      rule io_spec_bind [OF spec_create_new [OF assms]],
      rule io_spec_bind [OF spec_write_new [OF assms]],
      rule io_spec_bind [OF spec_sync_new [OF assms]],
      rule io_spec_bind [OF spec_link [OF assms]],
      rule io_spec_bind [OF spec_keep_same],
      rule io_spec_bind [OF spec_remove_temporary(2) [OF assms]], rule spec_sync_linked)

lemma write_destination_spec:
  assumes "path_name p = Some name" and "target = (target_dir p, name)"
    and "tmp = (target_dir p, temporary_name P rnd name)"
  shows "io_spec (temporary_is w0 target tmp v) (write_bytes_destination P rnd p bs)
    (\<lambda>_. linked_or_same w0 target tmp bs) (not_overwritten w0 target tmp bs)"
proof -
  have "tmp \<noteq> target" using temporary_differs by (simp add: assms(2,3))
  note body = place_spec [OF this]
  show ?thesis
    unfolding write_bytes_destination_def assms(1) option.case Let_def assms(2,3) [symmetric]
    by (rule io_spec_bind [OF io_spec_lift io_spec_bind [OF spec_is_dir io_spec_ensure [OF body]]])
      (auto intro: temporary_is_kept)
qed

text \<open>C37. An output file is never overwritten: whatever fails, and wherever the machine stops, a
  file that was there keeps its content, and a new one appears only complete and synced. When
  the call returns, the target holds exactly the given bytes; writing the same artifact again
  therefore succeeds or fails without changing it.\<close>

theorem destination_never_overwritten:
  assumes "path_name p = Some name" and "target = (target_dir p, name)"
    and "tmp = (target_dir p, temporary_name P rnd name)"
    and "write_bytes_destination P rnd p bs w = (out, w')"
  shows "(live w target \<noteq> None \<longrightarrow> live w' target = live w target)
    \<and> live w' target \<in> {live w target, Some (written_node bs)}
    \<and> (\<forall>f. f \<noteq> target \<and> f \<noteq> tmp \<longrightarrow> live w' f = live w f)
    \<and> (out = Done () \<longrightarrow> (\<exists>n. live w' target = Some n \<and> nd_content n = bs))"
proof -
  have "temporary_is w target tmp (live w tmp) w"
    by (simp add: temporary_is_def others_kept_refl)
  from io_specD [OF write_destination_spec [OF assms(1-3)] this assms(4)]
  show ?thesis
    by (cases out) (auto simp: linked_or_same_def not_overwritten_def others_kept_def written_node_def)
qed

end
