(* ===== verification/Store.thy ===== *)
theory Store
  imports File_System Exit
begin

text \<open>
  The native wallet's saved state: \<^verbatim>\<open>wallet/src/model.rs\<close> and \<^verbatim>\<open>wallet/src/store.rs\<close>.
  One directory holds a configuration, the encrypted state and a lock. The state is bound to the
  configuration by the associated data of its encryption and is replaced atomically.
\<close>

subsection \<open>The native state\<close>

definition NATIVE_STATE_FORMAT_VERSION :: u32 where
  "NATIVE_STATE_FORMAT_VERSION = 1"

record native_state =
  nw_format_version :: u32
  nw_funding_secret :: secret_key
  nw_wallet :: wallet_state
  nw_exit :: "exit_journal option"
  nw_source_sweep :: "sweep_journal option"

definition new_native_state :: "secret_key \<Rightarrow> wallet_state \<Rightarrow> native_state" where
  "new_native_state funding_secret s =
     \<lparr>nw_format_version = NATIVE_STATE_FORMAT_VERSION, nw_funding_secret = funding_secret,
      nw_wallet = s, nw_exit = None, nw_source_sweep = None\<rparr>"

definition native_validate ::
  "'m transfer_lib_scheme \<Rightarrow> native_state \<Rightarrow> network_id \<Rightarrow> anyhow + unit" where
  "native_validate P n net =
     ensure (nw_format_version n = NATIVE_STATE_FORMAT_VERSION)
       (Fmt ''unsupported native wallet version {}'' [unat (nw_format_version n)])
     (and_then (validate_version (nw_wallet n)) (\<lambda>_.
      and_then
        (case nw_exit n of None \<Rightarrow> Inr ()
         | Some j \<Rightarrow>
             ensure (ep_network (ej_package j) = net) (Msg ''saved exit network mismatch'')
             (with_context (ws_coin (nw_wallet n)) (Msg ''saved exit has no wallet coin'') (\<lambda>c.
              exit_journal_validate P j c))) (\<lambda>_.
      case nw_source_sweep n of None \<Rightarrow> Inr ()
      | Some j \<Rightarrow>
          ensure (sj_network j = net) (Msg ''saved source sweep network mismatch'')
          (sweep_validate P j (nw_funding_secret n)))))"

subsection \<open>The configuration\<close>

datatype enclave_config =
  Production (enclave_url: string) (cfg_pcr0: string) (cfg_pcr1: string) (cfg_pcr2: string)
| Debug (enclave_url: string) (cfg_pcr0: string) (cfg_pcr1: string) (cfg_pcr2: string)
| UnsafePlaintext (enclave_url: string)

definition mode_name :: "enclave_config \<Rightarrow> string" where
  "mode_name e =
     (case e of Production _ _ _ _ \<Rightarrow> ''production'' | Debug _ _ _ _ \<Rightarrow> ''debug''
      | UnsafePlaintext _ \<Rightarrow> ''unsafe_plaintext'')"

datatype chain_config =
  ExplorerConfig (explorer_url: string)
| CoreRpcConfig (rpc_url: string) (cookie_file: string) (rpc_wallet_name: string)

record config =
  cfg_format_version :: u32
  cfg_protocol_version :: u32
  cfg_network :: network_id
  cfg_enclave :: enclave_config
  cfg_chain :: chain_config
  cfg_min_confirmations :: u32
  cfg_min_reaction_blocks :: u32

definition config_validate_version :: "config \<Rightarrow> anyhow + unit" where
  "config_validate_version cfg =
     ensure (cfg_format_version cfg = FILE_FORMAT_VERSION)
       (Fmt ''unsupported wallet configuration version {}'' [unat (cfg_format_version cfg)])
     (ensure (cfg_protocol_version cfg = PROTOCOL_VERSION)
       (Fmt ''unsupported wallet protocol version {}'' [unat (cfg_protocol_version cfg)])
     (Inr ()))"

text \<open>The coin keys in a native state are those of its wallet: the journals have none.\<close>

definition native_keys :: "native_state \<Rightarrow> coin_keys list" where
  "native_keys n = wallet_keys (nw_wallet n)"

text \<open>The JSON forms of the two files; the parser of native states is the one with \<open>CoinKeysWire\<close>.\<close>

record store_lib = codec_lib +
  native_to_vec :: "native_state \<Rightarrow> bytes option"
  native_from_slice :: "bytes \<Rightarrow> native_state option"
  config_to_vec :: "config \<Rightarrow> bytes option"
  config_to_vec_pretty :: "config \<Rightarrow> bytes option"
  config_from_slice :: "bytes \<Rightarrow> config option"
  string_from_utf8 :: "bytes \<Rightarrow> string option"

subsection \<open>Paths\<close>

definition CONFIG_FILE :: string where "CONFIG_FILE = ''config.json''"
definition STATE_FILE :: string where "STATE_FILE = ''wallet.enc''"
definition LOCK_FILE :: string where "LOCK_FILE = ''.lock''"

definition join :: "string \<Rightarrow> string \<Rightarrow> path" where
  "join d name = \<lparr>path_parent = Some d, path_name = Some name\<rparr>"

definition entry_of :: "string \<Rightarrow> string \<Rightarrow> entry" where
  "entry_of d name = (target_dir (join d name), name)"

datatype location = Dir string | File entry

definition node_at :: "world \<Rightarrow> location \<Rightarrow> node option" where
  "node_at w loc = (case loc of Dir d \<Rightarrow> dirs w d | File f \<Rightarrow> live w f)"

definition display_location :: "location \<Rightarrow> string" where
  "display_location loc = (case loc of Dir d \<Rightarrow> d | File f \<Rightarrow> display_entry f)"

definition fs_symlink_metadata :: "anyhow \<Rightarrow> location \<Rightarrow> node io" where
  "fs_symlink_metadata e loc = syscall (\<lambda>_ w. w) e
     (\<lambda>w. case node_at w loc of None \<Rightarrow> (Failed e, w) | Some n \<Rightarrow> (Done n, w))"

text \<open>\<open>Path::exists\<close> turns an error into \<open>false\<close>.\<close>

definition fs_exists :: "location \<Rightarrow> bool io" where
  "fs_exists loc w =
     (case faults w of
        [] \<Rightarrow> (Crashed, w)
      | Works # fs \<Rightarrow> (Done (node_at w loc \<noteq> None), w\<lparr>faults := fs\<rparr>)
      | Breaks n # fs \<Rightarrow> (Done False, w\<lparr>faults := fs\<rparr>))"

definition fs_create_dir :: "anyhow \<Rightarrow> string \<Rightarrow> unit io" where
  "fs_create_dir e d = syscall (\<lambda>_ w. w) e
     (\<lambda>w. (Done (), if dirs w d \<noteq> None then w else w\<lparr>dirs := (dirs w)(d \<mapsto>
        \<lparr>nd_kind = DirectoryNode, nd_mode = 0x1C0, nd_content = [], nd_synced = False\<rparr>)\<rparr>))"

definition ensure_private_path :: "location \<Rightarrow> bool \<Rightarrow> unit io" where
  "ensure_private_path loc directory =
     io_bind (fs_symlink_metadata (Msg (''wallet path does not exist: '' @ display_location loc)) loc)
       (\<lambda>n.
     io_ensure (nd_kind n \<noteq> SymlinkNode) (Msg ''wallet paths cannot be symlinks'')
     (io_bind
       (if directory
        then io_ensure (nd_kind n = DirectoryNode) (Msg ''wallet data path is not a directory'')
               (io_return ())
        else io_ensure (nd_kind n = RegularFile) (Msg ''wallet data path is not a regular file'')
               (io_return ())) (\<lambda>_.
     io_ensure (and (nd_mode n) 0x3F = 0)
       (Msg (''wallet path is accessible by group or other users: '' @ display_location loc))
       (io_return ()))))"

definition ensure_secure_directory :: "string \<Rightarrow> unit io" where
  "ensure_secure_directory d =
     io_bind (fs_exists (Dir d)) (\<lambda>present.
     io_bind (if present then io_return ()
              else fs_create_dir (Msg (''create wallet directory '' @ d)) d) (\<lambda>_.
     ensure_private_path (Dir d) True))"

subsection \<open>The lock\<close>

definition fs_open_lock_file :: "string \<Rightarrow> unit io" where
  "fs_open_lock_file d = syscall (\<lambda>_ w. w) (Msg ''open wallet lock'')
     (\<lambda>w. (Done (), if live w (entry_of d LOCK_FILE) \<noteq> None then w
        else w\<lparr>live := (live w)(entry_of d LOCK_FILE \<mapsto>
          \<lparr>nd_kind = RegularFile, nd_mode = PRIVATE_MODE, nd_content = [], nd_synced = False\<rparr>)\<rparr>))"

definition fs_try_lock :: "string \<Rightarrow> unit io" where
  "fs_try_lock d = syscall (\<lambda>_ w. w) (Msg ''wallet is already open by another process'')
     (\<lambda>w. if d \<in> locks w then (Failed (Msg ''wallet is already open by another process''), w)
          else (Done (), w\<lparr>locks := insert d (locks w)\<rparr>))"

definition open_lock :: "string \<Rightarrow> unit io" where
  "open_lock d = io_bind (fs_open_lock_file d) (\<lambda>_. fs_try_lock d)"

text \<open>The lock is released when its file handle is dropped: at the end of a scope, or at an early
  return from it.\<close>

definition unlock :: "string \<Rightarrow> world \<Rightarrow> world" where
  "unlock d w = w\<lparr>locks := locks w - {d}\<rparr>"

definition drop_after :: "string \<Rightarrow> 'a io \<Rightarrow> 'a io" where
  "drop_after d m w =
     (case m w of (Crashed, w') \<Rightarrow> (Crashed, w') | (Failed e, w') \<Rightarrow> (Failed e, unlock d w')
      | (Done x, w') \<Rightarrow> (Done x, unlock d w'))"

definition drop_on_error :: "string \<Rightarrow> 'a io \<Rightarrow> 'a io" where
  "drop_on_error d m w =
     (case m w of (Crashed, w') \<Rightarrow> (Crashed, w') | (Failed e, w') \<Rightarrow> (Failed e, unlock d w')
      | (Done x, w') \<Rightarrow> (Done x, w'))"

subsection \<open>The store\<close>

record wallet_store =
  st_directory :: string
  st_password :: string
  st_config :: config
  st_aad :: bytes

definition state_aad :: "'m store_lib_scheme \<Rightarrow> config \<Rightarrow> anyhow + bytes" where
  "state_aad P cfg = wallet_state_aad P (config_to_vec P) cfg"

definition load_native :: "'m store_lib_scheme \<Rightarrow> wallet_store \<Rightarrow> native_state io" where
  "load_native P st =
     io_bind (fs_read io_error (entry_of (st_directory st) STATE_FILE)) (\<lambda>content.
     io_bind (io_lift (read_state_limited content)) (\<lambda>bs.
     io_bind (io_lift (open_encrypted_json P (deserialize native_keys (native_from_slice P)) bs
         (st_password st) (st_aad st))) (\<lambda>n.
     io_bind (io_lift (native_validate P n (cfg_network (st_config st)))) (\<lambda>_.
     io_return n))))"

definition load :: "'m store_lib_scheme \<Rightarrow> wallet_store \<Rightarrow> wallet_state io" where
  "load P st = io_bind (load_native P st) (\<lambda>n. io_return (nw_wallet n))"

record write_draws =
  wd_salt :: salt16
  wd_nonce :: nonce24
  wd_temporary :: u64

definition write_native ::
  "'m store_lib_scheme \<Rightarrow> write_draws \<Rightarrow> wallet_store \<Rightarrow> native_state \<Rightarrow> unit io" where
  "write_native P rnd st n =
     io_bind (io_lift (seal_encrypted_json P (native_to_vec P) (wd_salt rnd) (wd_nonce rnd) n
       (st_password st) (st_aad st))) (\<lambda>bs.
     write_state_bytes_atomic P (wd_temporary rnd) (join (st_directory st) STATE_FILE) bs)"

definition save_native ::
  "'m store_lib_scheme \<Rightarrow> write_draws \<Rightarrow> wallet_store \<Rightarrow> native_state \<Rightarrow> unit io" where
  "save_native P rnd st n =
     io_bind (io_lift (native_validate P n (cfg_network (st_config st)))) (\<lambda>_.
     write_native P rnd st n)"

text \<open>\<open>NativeWalletStateRef\<close> has the fields of \<open>NativeWalletState\<close> and serializes like it.\<close>

definition save :: "'m store_lib_scheme \<Rightarrow> write_draws \<Rightarrow> wallet_store \<Rightarrow> wallet_state \<Rightarrow> unit io" where
  "save P rnd st s =
     io_bind (io_lift (validate_version s)) (\<lambda>_.
     io_bind (load_native P st) (\<lambda>n.
     io_bind (io_lift (seal_encrypted_json P (native_to_vec P) (wd_salt rnd) (wd_nonce rnd)
         \<lparr>nw_format_version = nw_format_version n, nw_funding_secret = nw_funding_secret n,
          nw_wallet = s, nw_exit = nw_exit n, nw_source_sweep = nw_source_sweep n\<rparr>
         (st_password st) (st_aad st))) (\<lambda>bs.
     write_state_bytes_atomic P (wd_temporary rnd) (join (st_directory st) STATE_FILE) bs)))"

definition write_json_atomic :: "'m store_lib_scheme \<Rightarrow> u64 \<Rightarrow> path \<Rightarrow> config \<Rightarrow> unit io" where
  "write_json_atomic P rnd p cfg =
     io_bind (io_lift (with_context (config_to_vec_pretty P cfg) (Msg ''serde_json'') Inr)) (\<lambda>bs.
     write_bytes_atomic P rnd p (bs @ [0x0a]))"

record initialize_draws =
  id_funding_secret :: secret_key
  id_state :: write_draws
  id_config_temporary :: u64

definition initialize ::
  "'m store_lib_scheme \<Rightarrow> initialize_draws \<Rightarrow> string \<Rightarrow> config \<Rightarrow> string \<Rightarrow> unit io" where
  "initialize P rnd d cfg password =
     io_bind (io_lift (config_validate_version cfg)) (\<lambda>_.
     io_bind (ensure_secure_directory d) (\<lambda>_.
     io_bind (open_lock d) (\<lambda>_.
     drop_after d
       (io_bind (fs_exists (File (entry_of d CONFIG_FILE))) (\<lambda>config_exists.
        io_bind (if config_exists then io_return True else fs_exists (File (entry_of d STATE_FILE)))
          (\<lambda>exists.
        io_ensure (\<not> exists) (Msg (''wallet is already initialized at '' @ d))
        (io_bind (io_lift (state_aad P cfg)) (\<lambda>aad.
         let st = \<lparr>st_directory = d, st_password = password, st_config = cfg, st_aad = aad\<rparr> in
         io_bind (save_native P (id_state rnd) st
             (new_native_state (id_funding_secret rnd) empty_wallet)) (\<lambda>_.
         write_json_atomic P (id_config_temporary rnd) (join d CONFIG_FILE) cfg))))))))) "

definition read_json_path :: "'m store_lib_scheme \<Rightarrow> entry \<Rightarrow> config io" where
  "read_json_path P f =
     io_bind (fs_read (Msg (''open '' @ display_entry f)) f) (\<lambda>content.
     io_bind (io_lift (read_limited content)) (\<lambda>bs.
     io_lift (with_context (config_from_slice P bs) (Msg (''invalid JSON in '' @ display_entry f)) Inr)))"

definition load_config :: "'m store_lib_scheme \<Rightarrow> string \<Rightarrow> config io" where
  "load_config P d =
     io_bind (ensure_private_path (Dir d) True) (\<lambda>_.
     io_bind (ensure_private_path (File (entry_of d CONFIG_FILE)) False) (\<lambda>_.
     io_bind (read_json_path P (entry_of d CONFIG_FILE)) (\<lambda>cfg.
     io_bind (io_lift (config_validate_version cfg)) (\<lambda>_. io_return cfg))))"

definition open_store :: "'m store_lib_scheme \<Rightarrow> string \<Rightarrow> string \<Rightarrow> wallet_store io" where
  "open_store P d password =
     io_bind (ensure_private_path (Dir d) True) (\<lambda>_.
     io_bind (ensure_private_path (File (entry_of d STATE_FILE)) False) (\<lambda>_.
     io_bind (open_lock d) (\<lambda>_.
     drop_on_error d
       (io_bind (ensure_private_path (File (entry_of d CONFIG_FILE)) False) (\<lambda>_.
        io_bind (load_config P d) (\<lambda>cfg.
        io_bind (io_lift (state_aad P cfg)) (\<lambda>aad.
        io_return \<lparr>st_directory = d, st_password = password, st_config = cfg, st_aad = aad\<rparr>)))))))"

subsection \<open>Passwords\<close>

text \<open>Trailing line ends are dropped from the end of the buffer.\<close>

definition strip_line_ends :: "bytes \<Rightarrow> bytes" where
  "strip_line_ends bs = rev (dropWhile (\<lambda>b. b = 0x0a \<or> b = 0x0d) (rev bs))"

definition password_from_file :: "'m store_lib_scheme \<Rightarrow> bytes \<Rightarrow> anyhow + string" where
  "password_from_file P content =
     and_then (read_limited content) (\<lambda>bs.
     let password = strip_line_ends bs in
     ensure (password \<noteq> []) (Msg ''wallet password cannot be empty'')
     (with_context (string_from_utf8 P password) (Msg ''password file is not UTF-8'') Inr))"

text \<open>The process environment of \<open>read_password\<close>: the variable, whether the input is a
  terminal, and what is typed at the two prompts (nothing on an error).\<close>

record password_source =
  env_password :: "string option"
  stdin_is_terminal :: bool
  typed :: "string option"
  typed_again :: "string option"

definition read_password ::
  "'m store_lib_scheme \<Rightarrow> password_source \<Rightarrow> entry option \<Rightarrow> bool \<Rightarrow> string io" where
  "read_password P src pathname confirm =
     (case pathname of
        Some f \<Rightarrow>
          io_bind (ensure_private_path (File f) False) (\<lambda>_.
          io_bind (fs_read (Msg ''open password file'') f) (\<lambda>content.
          io_lift (password_from_file P content)))
      | None \<Rightarrow>
          io_lift
            (case env_password src of
               Some password \<Rightarrow>
                 ensure (password \<noteq> []) (Msg ''wallet password cannot be empty'') (Inr password)
             | None \<Rightarrow>
                 ensure (stdin_is_terminal src)
                   (Msg ''set ENCLAVIA_WALLET_PASSWORD or use --password-file in non-interactive mode'')
                 (with_context (typed src) io_error (\<lambda>password.
                  ensure (password \<noteq> []) (Msg ''wallet password cannot be empty'')
                  (if confirm
                   then with_context (typed_again src) io_error (\<lambda>repeated.
                     ensure (password = repeated) (Msg ''wallet passwords do not match'')
                       (Inr password))
                   else Inr password)))))"

subsection \<open>Artifacts\<close>

text \<open>Requests, envelopes and reports go to a file or, for the path \<open>-\<close>, to the console. The JSON
  form of the artifact is an argument.\<close>

datatype destination = Console | ToPath path

definition fs_print :: "bytes \<Rightarrow> unit io" where
  "fs_print bs = syscall (\<lambda>n w. w\<lparr>console := console w @ take n bs\<rparr>) io_error
     (\<lambda>w. (Done (), w\<lparr>console := console w @ bs\<rparr>))"

definition write_json_destination ::
  "'m store_lib_scheme \<Rightarrow> u64 \<Rightarrow> ('v \<Rightarrow> bytes option) \<Rightarrow> destination \<Rightarrow> 'v \<Rightarrow> unit io" where
  "write_json_destination P rnd to_vec_pretty dest value =
     io_bind (io_lift (with_context (to_vec_pretty value) (Msg ''serde_json'') Inr)) (\<lambda>json.
     let bs = json @ [0x0a] in
     io_bind (io_lift (ensure_output_size bs)) (\<lambda>_.
     case dest of Console \<Rightarrow> fs_print bs | ToPath p \<Rightarrow> write_bytes_destination P rnd p bs))"

definition write_text_destination ::
  "'m store_lib_scheme \<Rightarrow> u64 \<Rightarrow> destination \<Rightarrow> string \<Rightarrow> unit io" where
  "write_text_destination P rnd dest value =
     (let bs = ascii (value @ [CHR 0x0A]) in
     io_bind (io_lift (ensure_output_size bs)) (\<lambda>_.
     case dest of Console \<Rightarrow> fs_print bs | ToPath p \<Rightarrow> write_bytes_destination P rnd p bs))"

text \<open>\<open>symlink_metadata\<close> either finds the path, does not find it, or fails.\<close>

definition ensure_destination_available :: "destination \<Rightarrow> unit io" where
  "ensure_destination_available dest =
     (case dest of Console \<Rightarrow> io_return ()
      | ToPath p \<Rightarrow>
        (case path_name p of None \<Rightarrow> io_fail (Msg ''inspect output path'')
         | Some name \<Rightarrow>
           let f = (target_dir p, name) in
           syscall (\<lambda>_ w. w) (Msg (''inspect output path '' @ display_entry f))
             (\<lambda>w. if live w f \<noteq> None
                  then (Failed (Msg (''refusing to overwrite existing file: '' @ display_entry f)), w)
                  else (Done (), w))))"

definition read_json_source ::
  "'m store_lib_scheme \<Rightarrow> (bytes \<Rightarrow> 'v option) \<Rightarrow> bytes \<Rightarrow> entry option \<Rightarrow> 'v io" where
  "read_json_source P from_slice stdin source =
     (case source of
        None \<Rightarrow>
          io_bind (io_lift (read_limited stdin)) (\<lambda>bs.
          io_lift (with_context (from_slice bs) (Msg ''invalid JSON from standard input'') Inr))
      | Some f \<Rightarrow>
          io_bind (fs_read (Msg (''open '' @ display_entry f)) f) (\<lambda>content.
          io_bind (io_lift (read_limited content)) (\<lambda>bs.
          io_lift (with_context (from_slice bs) (Msg (''invalid JSON in '' @ display_entry f)) Inr))))"

end
