(* ===== verification/Remote.thy ===== *)
theory Remote
  imports Store
begin

text \<open>
  Talking to other machines: what \<^verbatim>\<open>wallet/src/services.rs\<close> sends to an explorer, a Bitcoin
  Core node or an enclave, and what comes back. Nothing is assumed of the others: a peer is any
  function of the requests sent so far, so every sequence of answers, consistent or not, is
  covered. A computation returns its result and the requests sent.
\<close>

subsection \<open>Requests\<close>

text \<open>HTTP requests carry the whole URL; RPC requests are the calls of \<open>bitcoincore_rpc\<close> and the
  methods that the code names itself.\<close>

datatype rpc_request =
  GetRawTransactionInfo txid
| GetTransaction txid
| GetMempoolEntry txid
| GetTxOut txid u32
| GetTxSpendingPrevout outpoint
| SendRawTransaction transaction
| TestMempoolAccept transaction
| LockUnspent "outpoint list"
| GetWalletInfo
| GetBlockchainInfo
| WalletCreateFundedPsbt string u64 u64
| WalletProcessPsbt string
| FinalizePsbt string
| SubmitPackage string string

datatype remote_request =
  HttpGet string
| HttpPostText string string
| HttpPostPair string string string
| HttpPostRequest string request
| Rpc rpc_request
| SdkConnect string bool
| SdkHealth
| SdkCall request

type_synonym sent = "remote_request list"

subsection \<open>Answers\<close>

text \<open>An HTTP exchange fails before the response, or has a status, a content length if the
  header is there, and a body in chunks that may break off with an error.\<close>

record http_response =
  hr_status :: u16
  hr_content_length :: "u64 option"
  hr_chunks :: "bytes list"
  hr_breaks_off :: bool

type_synonym block_hash = bytes32

text \<open>An error answer of the node with its code, or any other error of the client.\<close>

datatype rpc_error = RpcCode int | RpcOther

record raw_transaction_info =
  ri_txid :: txid
  ri_in_active_chain :: "bool option"
  ri_hex :: bytes
  ri_confirmations :: "u32 option"

record wallet_transaction =
  wt_confirmations :: "32 word"
  wt_txid :: txid
  wt_walletconflicts :: "txid list"
  wt_hex :: string

record tx_out_info =
  to_best_block :: block_hash
  to_confirmations :: u32
  to_value :: u64
  to_script :: "script option"
  to_coinbase :: bool

record spending_prevout =
  sp_txid :: txid
  sp_vout :: u32
  sp_spending_txid :: "txid option"

record mempool_acceptance =
  ma_txid :: txid
  ma_allowed :: bool
  ma_reject_reason :: "string option"
  ma_base_fee :: "u64 option"

record wallet_info =
  wi_wallet_name :: string
  wi_private_keys_enabled :: bool

record chain_info =
  ci_chain :: string
  ci_blocks :: u64
  ci_best_block_hash :: block_hash

record peers =
  http :: "sent \<Rightarrow> remote_request \<Rightarrow> http_response option"
  rpc_raw_transaction_info :: "sent \<Rightarrow> txid \<Rightarrow> rpc_error + raw_transaction_info"
  rpc_transaction :: "sent \<Rightarrow> txid \<Rightarrow> rpc_error + wallet_transaction"
  rpc_mempool_entry :: "sent \<Rightarrow> txid \<Rightarrow> rpc_error + unit"
  rpc_tx_out :: "sent \<Rightarrow> txid \<Rightarrow> u32 \<Rightarrow> rpc_error + tx_out_info option"
  rpc_spending_prevout :: "sent \<Rightarrow> outpoint \<Rightarrow> rpc_error + spending_prevout list"
  rpc_send_raw_transaction :: "sent \<Rightarrow> transaction \<Rightarrow> rpc_error + txid"
  rpc_test_mempool_accept :: "sent \<Rightarrow> transaction \<Rightarrow> rpc_error + mempool_acceptance list"
  rpc_lock_unspent :: "sent \<Rightarrow> outpoint list \<Rightarrow> rpc_error + bool"
  rpc_wallet_info :: "sent \<Rightarrow> rpc_error + wallet_info"
  rpc_blockchain_info :: "sent \<Rightarrow> rpc_error + chain_info"
  rpc_create_funded_psbt :: "sent \<Rightarrow> string \<Rightarrow> u64 \<Rightarrow> u64 \<Rightarrow> rpc_error + string \<times> u64"
  rpc_process_psbt :: "sent \<Rightarrow> string \<Rightarrow> rpc_error + string \<times> bool"
  rpc_finalize_psbt :: "sent \<Rightarrow> string \<Rightarrow> rpc_error + bytes option \<times> bool"
  rpc_submit_package :: "sent \<Rightarrow> string \<Rightarrow> string \<Rightarrow> rpc_error + string option"
  rpc_client_opens :: "string \<Rightarrow> string \<Rightarrow> bool"
  sdk_connect :: "sent \<Rightarrow> bool \<Rightarrow> string \<Rightarrow> pcrs \<Rightarrow> string + unit"
  sdk :: "sent \<Rightarrow> enclave_sdk"

subsection \<open>Computations\<close>

type_synonym 'a talk = "sent \<Rightarrow> (anyhow + 'a) \<times> sent"

definition talk_return :: "'a \<Rightarrow> 'a talk" where
  "talk_return x tr = (Inr x, tr)"

definition talk_fail :: "anyhow \<Rightarrow> 'a talk" where
  "talk_fail e tr = (Inl e, tr)"

definition talk_bind :: "'a talk \<Rightarrow> ('a \<Rightarrow> 'b talk) \<Rightarrow> 'b talk" where
  "talk_bind m f tr = (case m tr of (Inl e, tr') \<Rightarrow> (Inl e, tr') | (Inr x, tr') \<Rightarrow> f x tr')"

definition talk_lift :: "anyhow + 'a \<Rightarrow> 'a talk" where
  "talk_lift r tr = (r, tr)"

definition talk_ensure :: "bool \<Rightarrow> anyhow \<Rightarrow> 'a talk \<Rightarrow> 'a talk" where
  "talk_ensure c e m = (if c then m else talk_fail e)"

definition talk_context :: "'a option \<Rightarrow> anyhow \<Rightarrow> ('a \<Rightarrow> 'b talk) \<Rightarrow> 'b talk" where
  "talk_context r e f = (case r of None \<Rightarrow> talk_fail e | Some x \<Rightarrow> f x)"

text \<open>One request and its answer.\<close>

definition talk_ask :: "(sent \<Rightarrow> 'r) \<Rightarrow> remote_request \<Rightarrow> ('r \<Rightarrow> 'a talk) \<Rightarrow> 'a talk" where
  "talk_ask answer q f tr = f (answer tr) (tr @ [q])"

text \<open>An error of a package that \<open>?\<close> passes on without a context.\<close>

definition transport_error :: anyhow where
  "transport_error = Msg ''transport error''"

subsection \<open>Successful runs\<close>

named_theorems talk_ok \<open>what a successful run of a computation did\<close>

lemma talk_return_ok [talk_ok]: "talk_return x tr = (Inr y, tr') \<longleftrightarrow> y = x \<and> tr' = tr"
  by (auto simp: talk_return_def)

lemma talk_fail_ok [talk_ok]: "talk_fail e tr = (Inr y, tr') \<longleftrightarrow> False"
  by (simp add: talk_fail_def)

lemma talk_bind_ok [talk_ok]:
  "talk_bind m f tr = (Inr y, tr') \<longleftrightarrow> (\<exists>x tr1. m tr = (Inr x, tr1) \<and> f x tr1 = (Inr y, tr'))"
  by (auto simp: talk_bind_def split: prod.splits sum.splits)

lemma talk_lift_ok [talk_ok]: "talk_lift r tr = (Inr y, tr') \<longleftrightarrow> r = Inr y \<and> tr' = tr"
  by (auto simp: talk_lift_def)

lemma talk_ensure_ok [talk_ok]: "talk_ensure c e m tr = (Inr y, tr') \<longleftrightarrow> c \<and> m tr = (Inr y, tr')"
  by (simp add: talk_ensure_def talk_fail_def)

lemma talk_context_ok [talk_ok]:
  "talk_context r e f tr = (Inr y, tr') \<longleftrightarrow> (\<exists>x. r = Some x \<and> f x tr = (Inr y, tr'))"
  by (cases r) (simp_all add: talk_context_def talk_fail_def)

lemma talk_ask_ok [talk_ok]:
  "talk_ask answer q f tr = (Inr y, tr') \<longleftrightarrow> f (answer tr) (tr @ [q]) = (Inr y, tr')"
  by (simp add: talk_ask_def)

lemma talk_if_ok [talk_ok]:
  "(if c then m else n) tr = (Inr y, tr') \<longleftrightarrow> (c \<and> m tr = (Inr y, tr') \<or> \<not> c \<and> n tr = (Inr y, tr'))"
  by auto

subsection \<open>What a run may send\<close>

text \<open>Every request that a computation adds, whether it succeeds or not, satisfies \<open>ok\<close>.\<close>

definition only_sends :: "(remote_request \<Rightarrow> bool) \<Rightarrow> 'a talk \<Rightarrow> bool" where
  "only_sends ok m \<longleftrightarrow> (\<forall>tr r tr'. m tr = (r, tr') \<longrightarrow> (\<exists>qs. tr' = tr @ qs \<and> (\<forall>q \<in> set qs. ok q)))"

lemma only_sendsD: "only_sends ok m \<Longrightarrow> m tr = (r, tr') \<Longrightarrow> \<exists>qs. tr' = tr @ qs \<and> (\<forall>q \<in> set qs. ok q)"
  by (simp add: only_sends_def)

lemma only_sends_return [simp]: "only_sends ok (talk_return x)"
  by (simp add: only_sends_def talk_return_def)

lemma only_sends_fail [simp]: "only_sends ok (talk_fail e)"
  by (simp add: only_sends_def talk_fail_def)

lemma only_sends_lift [simp]: "only_sends ok (talk_lift r)"
  by (simp add: only_sends_def talk_lift_def)

lemma only_sends_bind [intro]:
  assumes "only_sends ok m" and "\<And>x. only_sends ok (f x)"
  shows "only_sends ok (talk_bind m f)"
  unfolding only_sends_def
proof (intro allI impI)
  fix tr r tr'
  assume run: "talk_bind m f tr = (r, tr')"
  obtain r1 tr1 where m: "m tr = (r1, tr1)" by (cases "m tr")
  from only_sendsD [OF assms(1) m] obtain qs where qs: "tr1 = tr @ qs" "\<forall>q \<in> set qs. ok q" by blast
  show "\<exists>qs. tr' = tr @ qs \<and> (\<forall>q \<in> set qs. ok q)"
  proof (cases r1)
    case (Inl e)
    with run m qs show ?thesis by (auto simp: talk_bind_def)
  next
    case (Inr x)
    with run m have "f x tr1 = (r, tr')" by (simp add: talk_bind_def)
    from only_sendsD [OF assms(2) this] obtain qs' where "tr' = tr1 @ qs'" "\<forall>q \<in> set qs'. ok q" by blast
    with qs show ?thesis by (intro exI [of _ "qs @ qs'"]) auto
  qed
qed

lemma only_sends_ensure [intro]: "(c \<Longrightarrow> only_sends ok m) \<Longrightarrow> only_sends ok (talk_ensure c e m)"
  by (simp add: talk_ensure_def)

lemma only_sends_context [intro]: "(\<And>x. r = Some x \<Longrightarrow> only_sends ok (f x)) \<Longrightarrow> only_sends ok (talk_context r e f)"
  by (cases r) (simp_all add: talk_context_def)

lemma only_sends_ask [intro]:
  assumes "ok q" and "\<And>r. only_sends ok (f r)"
  shows "only_sends ok (talk_ask answer q f)"
  unfolding only_sends_def talk_ask_def
proof (intro allI impI)
  fix tr r tr'
  assume "f (answer tr) (tr @ [q]) = (r, tr')"
  from only_sendsD [OF assms(2) this] obtain qs where "tr' = (tr @ [q]) @ qs" "\<forall>q \<in> set qs. ok q" by blast
  with assms(1) show "\<exists>qs. tr' = tr @ qs \<and> (\<forall>q \<in> set qs. ok q)"
    by (intro exI [of _ "q # qs"]) auto
qed

lemma only_sends_if [intro]: "(c \<Longrightarrow> only_sends ok m) \<Longrightarrow> (\<not> c \<Longrightarrow> only_sends ok n) \<Longrightarrow> only_sends ok (if c then m else n)"
  by simp

end
