(* ===== verification/Rust_Text.thy ===== *)
theory Rust_Text
  imports Prelude
begin

text \<open>
  What the code uses of Rust's strings: a string is its UTF-8 bytes, one \<open>char\<close> each.
  \<open>trim\<close> drops the characters with the Unicode property \<open>White_Space\<close>; \<open>parse\<close> and formatting
  of unsigned integers are decimal.
\<close>

subsection \<open>Trimming\<close>

text \<open>The white space characters in UTF-8.\<close>

definition white_space :: "string list" where
  "white_space = map (map char_of)
     ([[9], [10], [11], [12], [13], [32], [0xC2, 0x85], [0xC2, 0xA0], [0xE1, 0x9A, 0x80]]
      @ map (\<lambda>n. [0xE2, 0x80, n]) [0x80..<0x8B]
      @ [[0xE2, 0x80, 0xA8], [0xE2, 0x80, 0xA9], [0xE2, 0x80, 0xAF], [0xE2, 0x81, 0x9F],
         [0xE3, 0x80, 0x80 :: nat]])"

fun strip_prefix :: "string \<Rightarrow> string \<Rightarrow> string option" where
  "strip_prefix [] s = Some s"
| "strip_prefix (c # w) [] = None"
| "strip_prefix (c # w) (d # s) = (if c = d then strip_prefix w s else None)"

fun strip_any :: "string list \<Rightarrow> string \<Rightarrow> string option" where
  "strip_any [] s = None"
| "strip_any (w # ws) s =
     (case (if w = [] then None else strip_prefix w s) of None \<Rightarrow> strip_any ws s | Some s' \<Rightarrow> Some s')"

lemma strip_prefix_Some: "strip_prefix w s = Some s' \<longleftrightarrow> s = w @ s'"
  by (induction w s rule: strip_prefix.induct) auto

lemma strip_any_Some: "strip_any ws s = Some s' \<Longrightarrow> \<exists>w \<in> set ws. w \<noteq> [] \<and> s = w @ s'"
  by (induction ws) (auto simp: strip_prefix_Some split: option.splits if_splits)

lemma strip_any_shorter: "strip_any ws s = Some s' \<Longrightarrow> length s' < length s"
  by (auto dest!: strip_any_Some)

function trim_start_of :: "string list \<Rightarrow> string \<Rightarrow> string" where
  "trim_start_of ws s = (case strip_any ws s of None \<Rightarrow> s | Some s' \<Rightarrow> trim_start_of ws s')"
  by pat_completeness auto

termination
  by (relation "measure (\<lambda>(ws, s). length s)") (simp_all add: strip_any_shorter)

declare trim_start_of.simps [simp del]

definition trim :: "string \<Rightarrow> string" where
  "trim s = rev (trim_start_of (map rev white_space) (rev (trim_start_of white_space s)))"

lemma trim_id:
  assumes "strip_any white_space s = None" and "strip_any (map rev white_space) (rev s) = None"
  shows "trim s = s"
  using assms by (simp add: trim_def trim_start_of.simps)

definition trim_end_slashes :: "string \<Rightarrow> string" where
  "trim_end_slashes s = rev (dropWhile (\<lambda>c. c = CHR ''/'') (rev s))"

subsection \<open>Decimal numbers\<close>

definition digit :: "nat \<Rightarrow> char" where
  "digit d = char_of (48 + d)"

definition digit_value :: "char \<Rightarrow> nat option" where
  "digit_value c = (if 48 \<le> (of_char c :: nat) \<and> (of_char c :: nat) \<le> 57 then Some (of_char c - 48) else None)"

fun decimal :: "nat \<Rightarrow> string" where
  "decimal n = (if n < 10 then [digit n] else decimal (n div 10) @ [digit (n mod 10)])"

declare decimal.simps [simp del]

text \<open>The value of digits, from the left; every character has to be one.\<close>

fun digits_value :: "nat \<Rightarrow> string \<Rightarrow> nat option" where
  "digits_value acc [] = Some acc"
| "digits_value acc (c # cs) =
     (case digit_value c of None \<Rightarrow> None | Some d \<Rightarrow> digits_value (10 * acc + d) cs)"

text \<open>\<open>parse::<u32>()\<close>: an optional plus sign, at least one digit, and no overflow.\<close>

definition parse_u32 :: "string \<Rightarrow> u32 option" where
  "parse_u32 s =
     (let ds = (case s of c # cs \<Rightarrow> if c = CHR ''+'' then cs else s | [] \<Rightarrow> []) in
      if ds = [] then None
      else case digits_value 0 ds of None \<Rightarrow> None
      | Some n \<Rightarrow> if n < 2 ^ 32 then Some (of_nat n) else None)"

lemma digit_value_digit: "d < 10 \<Longrightarrow> digit_value (digit d) = Some d"
  by (simp add: digit_value_def digit_def of_char_of)

lemma digits_value_append:
  "digits_value acc (xs @ ys) = Option.bind (digits_value acc xs) (\<lambda>a. digits_value a ys)"
  by (induction xs arbitrary: acc) (auto split: option.splits)

lemma digits_value_decimal: "digits_value 0 (decimal n) = Some n"
proof (induction n rule: decimal.induct)
  case (1 n)
  then show ?case
    by (subst decimal.simps) (auto simp: digit_value_digit digits_value_append)
qed

lemma decimal_head: "decimal n = c # cs \<Longrightarrow> digit_value c \<noteq> None"
  using digits_value_decimal [of n] by (auto split: option.splits)

text \<open>A number that was formatted parses as itself.\<close>

lemma parse_decimal: "parse_u32 (decimal (unat n)) = Some n"
proof -
  obtain c cs where d: "decimal (unat n) = c # cs"
    using digits_value_decimal [of "unat n"] by (cases "decimal (unat n)") (auto simp: decimal.simps)
  have plus: "digit_value (CHR ''+'') = None" by (simp add: digit_value_def)
  from decimal_head [OF d] plus have "c \<noteq> CHR ''+''" by metis
  with d have "parse_u32 (decimal (unat n)) = (case digits_value 0 (decimal (unat n)) of None \<Rightarrow> None
      | Some n \<Rightarrow> if n < 2 ^ 32 then Some (of_nat n) else None)"
    by (simp add: parse_u32_def Let_def)
  also have "\<dots> = Some n"
    using unsigned_less [of n] by (simp add: digits_value_decimal)
  finally show ?thesis .
qed

subsection \<open>Loopback hosts\<close>

text \<open>\<open>parse::<IpAddr>()\<close> and \<open>is_loopback\<close> on the host of a URL. The \<open>url\<close> crate writes an IPv6
  host in brackets, which \<open>IpAddr\<close> refuses, so only the IPv4 form can succeed: four numbers up to
  255 without leading zeros.\<close>

definition octet :: "string \<Rightarrow> nat option" where
  "octet s =
     (if s = [] \<or> 3 < length s \<or> (1 < length s \<and> hd s = CHR ''0'') then None
      else case digits_value 0 s of None \<Rightarrow> None | Some n \<Rightarrow> if n \<le> 255 then Some n else None)"

fun split_dots :: "string \<Rightarrow> string list" where
  "split_dots [] = [[]]"
| "split_dots (c # cs) =
     (if c = CHR ''.'' then [] # split_dots cs
      else case split_dots cs of w # ws \<Rightarrow> (c # w) # ws | [] \<Rightarrow> [[c]])"

definition host_is_loopback :: "string \<Rightarrow> bool" where
  "host_is_loopback host =
     (case map octet (split_dots host) of
        [Some a, Some b, Some c, Some d] \<Rightarrow> a = 127
      | _ \<Rightarrow> False)"

text \<open>\<open>eq_ignore_ascii_case\<close>.\<close>

definition ascii_lower :: "char \<Rightarrow> char" where
  "ascii_lower c = (let n = (of_char c :: nat) in if 65 \<le> n \<and> n \<le> 90 then char_of (n + 32) else c)"

definition eq_ignore_ascii_case :: "string \<Rightarrow> string \<Rightarrow> bool" where
  "eq_ignore_ascii_case s t \<longleftrightarrow> map ascii_lower s = map ascii_lower t"

end
