(* ===== verification/Explorer.thy ===== *)
theory Explorer
  imports Remote Rust_Text Complex_Main
begin

text \<open>
  The explorer back end of \<^verbatim>\<open>wallet/src/services.rs\<close>: an Esplora-compatible HTTP service,
  whose answers are checked and never trusted. The JSON and consensus decoders are parameters.
\<close>

subsection \<open>Answers of the explorer\<close>

record explorer_tx_status =
  xs_confirmed :: bool
  xs_block_height :: "u32 option"
  xs_block_hash :: "block_hash option"

record explorer_tx =
  xt_txid :: txid
  xt_status :: explorer_tx_status

record explorer_address_utxo =
  xu_txid :: txid
  xu_vout :: u32
  xu_value :: u64
  xu_status :: explorer_tx_status

record explorer_outspend =
  xo_spent :: bool
  xo_txid :: "txid option"
  xo_status :: "explorer_tx_status option"

text \<open>A finite \<open>f64\<close> is a rational number.\<close>

datatype f64 = Finite rat | NotFinite

text \<open>What the checks of URLs read of a parsed URL.\<close>

record url =
  url_scheme :: string
  url_username :: string
  url_password :: "string option"
  url_host :: "string option"
  url_path :: string
  url_query :: "string option"
  url_fragment :: "string option"

record web_lib = store_lib +
  txid_to_string :: "txid \<Rightarrow> string"
  txid_parse :: "string \<Rightarrow> txid option"
  block_hash_to_string :: "block_hash \<Rightarrow> string"
  block_hash_parse :: "string \<Rightarrow> block_hash option"
  genesis_block_hash :: "network \<Rightarrow> block_hash"
  tx_serialize :: "transaction \<Rightarrow> bytes"
  tx_deserialize :: "bytes \<Rightarrow> transaction option"
  is_coinbase :: "transaction \<Rightarrow> bool"
  explorer_tx_from_str :: "string \<Rightarrow> explorer_tx option"
  address_utxos_from_str :: "string \<Rightarrow> explorer_address_utxo list option"
  outspend_from_str :: "string \<Rightarrow> explorer_outspend option"
  fastest_fee_from_str :: "string \<Rightarrow> f64 option"
  package_msg_from_str :: "string \<Rightarrow> string option"
  response_of_json :: "bytes \<Rightarrow> response option"
  url_parse :: "string \<Rightarrow> url option"
  url_with_segments :: "url \<Rightarrow> string list \<Rightarrow> string option"
  status_to_string :: "u16 \<Rightarrow> string"
  utf8_lossy :: "bytes \<Rightarrow> string"
  pcrs_from_hex :: "string \<Rightarrow> string \<Rightarrow> string \<Rightarrow> pcrs option"

subsection \<open>Observations of the chain\<close>

record funding_observation =
  fo_tip_height :: u32
  fo_confirmations :: u32

record transaction_observation =
  tob_transaction :: transaction
  tob_tip_height :: u32
  tob_confirmations :: u32
  tob_raw_bytes_observed :: bool

record outspend_observation =
  oso_spent :: bool
  oso_spending_txid :: "txid option"
  oso_spending_confirmed :: bool

record detailed_funding_observation =
  dfo_funding :: observed_funding
  dfo_tip_height :: u32
  dfo_spending_txid :: "txid option"
  dfo_spending_confirmed :: bool

subsection \<open>HTTP\<close>

definition MAX_HTTP_RESPONSE_SIZE :: nat where
  "MAX_HTTP_RESPONSE_SIZE = 16 * 1024 * 1024"

definition MAX_SOURCE_UTXO_CANDIDATES :: nat where
  "MAX_SOURCE_UTXO_CANDIDATES = 256"

definition MUTINYNET_CHECKPOINT_HEIGHT :: u32 where
  "MUTINYNET_CHECKPOINT_HEIGHT = 1"

definition MUTINYNET_CHECKPOINT_HASH :: string where
  "MUTINYNET_CHECKPOINT_HASH = ''000002855893a0a9b24eaffc5efc770558a326fee4fc10c9da22fc19cd2954f9''"

fun read_chunks :: "bytes \<Rightarrow> bytes list \<Rightarrow> bool \<Rightarrow> anyhow + bytes" where
  "read_chunks acc [] breaks_off = (if breaks_off then Inl transport_error else Inr acc)"
| "read_chunks acc (chunk # chunks) breaks_off =
     (let length = length acc + length chunk in
      if 2 ^ 64 \<le> length then Inl (Msg ''HTTP response length overflow'')
      else if MAX_HTTP_RESPONSE_SIZE < length then Inl (Msg ''HTTP response exceeds 16 MiB limit'')
      else read_chunks (acc @ chunk) chunks breaks_off)"

definition response_bytes_limited :: "http_response \<Rightarrow> anyhow + bytes" where
  "response_bytes_limited resp =
     ensure (case hr_content_length resp of None \<Rightarrow> True | Some n \<Rightarrow> unat n \<le> MAX_HTTP_RESPONSE_SIZE)
       (Msg ''HTTP response exceeds 16 MiB limit'')
     (read_chunks [] (hr_chunks resp) (hr_breaks_off resp))"

definition is_success :: "u16 \<Rightarrow> bool" where
  "is_success st \<longleftrightarrow> 200 \<le> st \<and> st < 300"

definition NOT_FOUND :: u16 where
  "NOT_FOUND = 404"

record explorer =
  ex_base_url :: string
  ex_network :: network_id

definition get_text_optional ::
  "'m web_lib_scheme \<Rightarrow> peers \<Rightarrow> explorer \<Rightarrow> string \<Rightarrow> string option talk" where
  "get_text_optional P E x path =
     (let q = HttpGet (ex_base_url x @ path) in
      talk_ask (\<lambda>tr. http E tr q) q (\<lambda>reply.
      talk_context reply (Msg (''query explorer '' @ path)) (\<lambda>resp.
      talk_bind (talk_lift (response_bytes_limited resp)) (\<lambda>bytes.
      talk_context (string_from_utf8 P bytes) (Msg (''explorer returned non-UTF-8 data for '' @ path)) (\<lambda>body.
      if hr_status resp = NOT_FOUND then talk_return None
      else talk_ensure (is_success (hr_status resp))
        (Msg (''explorer returned HTTP '' @ decimal (unat (hr_status resp)) @ '' for '' @ path @ '': '' @ body))
        (talk_return (Some body)))))))"

definition get_text ::
  "'m web_lib_scheme \<Rightarrow> peers \<Rightarrow> explorer \<Rightarrow> string \<Rightarrow> string talk" where
  "get_text P E x path =
     talk_bind (get_text_optional P E x path) (\<lambda>body.
     talk_context body (Msg (''explorer returned HTTP 404 for '' @ path)) talk_return)"

definition get_json ::
  "'m web_lib_scheme \<Rightarrow> peers \<Rightarrow> explorer \<Rightarrow> (string \<Rightarrow> 'v option) \<Rightarrow> string \<Rightarrow> 'v talk" where
  "get_json P E x from_str path =
     talk_bind (get_text P E x path) (\<lambda>body.
     talk_context (from_str body) (Msg (''invalid explorer response at '' @ path)) talk_return)"

definition get_json_optional ::
  "'m web_lib_scheme \<Rightarrow> peers \<Rightarrow> explorer \<Rightarrow> (string \<Rightarrow> 'v option) \<Rightarrow> string \<Rightarrow> 'v option talk" where
  "get_json_optional P E x from_str path =
     talk_bind (get_text_optional P E x path) (\<lambda>body.
     case body of None \<Rightarrow> talk_return None
     | Some text \<Rightarrow> talk_context (from_str text) (Msg (''invalid explorer response at '' @ path))
         (\<lambda>v. talk_return (Some v)))"

subsection \<open>Blocks and transactions\<close>

definition block_hash_at_height ::
  "'m web_lib_scheme \<Rightarrow> peers \<Rightarrow> explorer \<Rightarrow> u32 \<Rightarrow> block_hash talk" where
  "block_hash_at_height P E x height =
     talk_bind (get_text P E x (''/block-height/'' @ decimal (unat height))) (\<lambda>text.
     talk_context (block_hash_parse P (trim text)) (Msg ''explorer returned an invalid block hash'')
       talk_return)"

definition explorer_tip_height :: "'m web_lib_scheme \<Rightarrow> peers \<Rightarrow> explorer \<Rightarrow> u32 talk" where
  "explorer_tip_height P E x =
     talk_bind (get_text P E x ''/blocks/tip/height'') (\<lambda>text.
     talk_context (parse_u32 (trim text)) (Msg ''explorer returned an invalid chain tip height'')
       talk_return)"

definition status_confirmations ::
  "'m web_lib_scheme \<Rightarrow> peers \<Rightarrow> explorer \<Rightarrow> explorer_tx_status \<Rightarrow> u32 \<Rightarrow> u32 talk" where
  "status_confirmations P E x tx_status tip_height =
     (if \<not> xs_confirmed tx_status then
        talk_ensure (xs_block_height tx_status = None \<and> xs_block_hash tx_status = None)
          (Msg ''unconfirmed explorer transaction has block metadata'') (talk_return 0)
      else
        talk_context (xs_block_height tx_status)
          (Msg ''confirmed explorer transaction has no block height'') (\<lambda>block_height.
        talk_context (xs_block_hash tx_status)
          (Msg ''confirmed explorer transaction has no block hash'') (\<lambda>block_hash.
        talk_bind (block_hash_at_height P E x block_height) (\<lambda>best.
        talk_ensure (best = block_hash) (Msg ''transaction block is not in the current best chain'')
        (talk_context (Option.bind (checked_sub tip_height block_height) (\<lambda>depth. checked_add depth 1))
          (Msg ''transaction block is above the chain tip'') talk_return)))))"

definition raw_transaction_optional ::
  "'m web_lib_scheme \<Rightarrow> peers \<Rightarrow> explorer \<Rightarrow> txid \<Rightarrow> transaction option talk" where
  "raw_transaction_optional P E x txid =
     talk_bind (get_text_optional P E x (''/tx/'' @ txid_to_string P txid @ ''/hex'')) (\<lambda>body.
     case body of None \<Rightarrow> talk_return None
     | Some text \<Rightarrow>
       talk_context (hex_decode P (trim text)) (Msg ''explorer returned invalid transaction hex'') (\<lambda>bytes.
       talk_context (tx_deserialize P bytes) (Msg ''explorer returned an invalid raw transaction'') (\<lambda>t.
       talk_ensure (compute_txid P t = txid) (Msg ''explorer raw transaction has the wrong txid'')
         (talk_return (Some t)))))"

definition explorer_transaction_observation ::
  "'m web_lib_scheme \<Rightarrow> peers \<Rightarrow> explorer \<Rightarrow> txid \<Rightarrow> transaction_observation option talk" where
  "explorer_transaction_observation P E x txid =
     talk_bind (get_json_optional P E x (explorer_tx_from_str P) (''/tx/'' @ txid_to_string P txid)) (\<lambda>found.
     case found of None \<Rightarrow> talk_return None
     | Some summary \<Rightarrow>
       talk_ensure (xt_txid summary = txid) (Msg ''explorer transaction has the wrong txid'')
       (talk_bind (raw_transaction_optional P E x txid) (\<lambda>raw.
        talk_context raw (Msg ''explorer transaction summary has no raw transaction'') (\<lambda>t.
        talk_bind (explorer_tip_height P E x) (\<lambda>tip_height.
        talk_bind (status_confirmations P E x (xt_status summary) tip_height) (\<lambda>confirmations.
        talk_return (Some \<lparr>tob_transaction = t, tob_tip_height = tip_height,
          tob_confirmations = confirmations, tob_raw_bytes_observed = True\<rparr>)))))))"

definition explorer_outspend_of ::
  "'m web_lib_scheme \<Rightarrow> peers \<Rightarrow> explorer \<Rightarrow> outpoint \<Rightarrow> outspend_observation talk" where
  "explorer_outspend_of P E x op =
     talk_bind (get_json P E x (outspend_from_str P)
         (''/tx/'' @ txid_to_string P (op_txid op) @ ''/outspend/'' @ decimal (unat (op_vout op)))) (\<lambda>outspend.
     if \<not> xo_spent outspend then
       talk_ensure (xo_txid outspend = None)
         (Msg ''unspent explorer output unexpectedly names a spender'')
         (talk_return \<lparr>oso_spent = False, oso_spending_txid = None, oso_spending_confirmed = False\<rparr>)
     else
       talk_context (xo_txid outspend) (Msg ''spent explorer output has no spending txid'') (\<lambda>spender.
       talk_context (xo_status outspend) (Msg ''spent explorer output has no spending status'') (\<lambda>status.
       talk_bind (explorer_tip_height P E x) (\<lambda>tip_height.
       talk_bind (status_confirmations P E x status tip_height) (\<lambda>confirmations.
       talk_return \<lparr>oso_spent = True, oso_spending_txid = Some spender,
         oso_spending_confirmed = 0 < confirmations\<rparr>)))))"

subsection \<open>The coin's funding\<close>

definition explorer_observe_funding ::
  "'m web_lib_scheme \<Rightarrow> peers \<Rightarrow> explorer \<Rightarrow> coin_metadata \<Rightarrow> detailed_funding_observation talk" where
  "explorer_observe_funding P E x m =
     talk_ensure (md_network m = ex_network x) (Msg ''funding network does not match explorer'')
     (talk_bind (explorer_transaction_observation P E x (op_txid (md_outpoint m))) (\<lambda>found.
      talk_context found (Msg ''funding transaction is missing'') (\<lambda>observed.
      talk_context (nth_opt (outputs (tob_transaction observed)) (unat (op_vout (md_outpoint m))))
        (Msg ''funding output index is missing'') (\<lambda>output.
      talk_bind (talk_lift (from_client (verify_funding_utxo P m (md_outpoint m) output))) (\<lambda>_.
      talk_ensure (\<not> is_coinbase P (tob_transaction observed) \<or> 100 \<le> tob_confirmations observed)
        (Msg ''coinbase funding output is not mature'')
      (talk_bind (explorer_outspend_of P E x (md_outpoint m)) (\<lambda>outspend.
       talk_return
         \<lparr>dfo_funding =
            \<lparr>obs_outpoint = md_outpoint m, obs_output = output,
             obs_confirmations = tob_confirmations observed,
             obs_unspent = (\<not> oso_spent outspend),
             obs_coinbase = is_coinbase P (tob_transaction observed)\<rparr>,
          dfo_tip_height = tob_tip_height observed,
          dfo_spending_txid = oso_spending_txid outspend,
          dfo_spending_confirmed = oso_spending_confirmed outspend\<rparr>)))))))"

definition explorer_verify_funding ::
  "'m web_lib_scheme \<Rightarrow> peers \<Rightarrow> explorer \<Rightarrow> coin_metadata \<Rightarrow> u32 \<Rightarrow> funding_observation talk" where
  "explorer_verify_funding P E x m minimum_confirmations =
     talk_bind (explorer_observe_funding P E x m) (\<lambda>observed.
     talk_ensure (obs_unspent (dfo_funding observed))
       (Msg (''funding output is spent by '' @ (case dfo_spending_txid observed of
          None \<Rightarrow> ''an unknown transaction'' | Some t \<Rightarrow> txid_to_string P t)))
     (talk_ensure (minimum_confirmations \<le> obs_confirmations (dfo_funding observed))
       (Fmt ''funding output has {} confirmations; {} required''
         [unat (obs_confirmations (dfo_funding observed)), unat minimum_confirmations])
     (talk_return \<lparr>fo_tip_height = dfo_tip_height observed,
        fo_confirmations = obs_confirmations (dfo_funding observed)\<rparr>)))"

subsection \<open>Deposits\<close>

text \<open>The comparator of the candidates: larger values first, then the outpoints in order.\<close>

datatype candidate_key = CandidateKey u64 outpoint

instantiation candidate_key :: linorder
begin

fun less_candidate_key :: "candidate_key \<Rightarrow> candidate_key \<Rightarrow> bool" where
  "less_candidate_key (CandidateKey v a) (CandidateKey w b) \<longleftrightarrow> w < v \<or> v = w \<and> a < b"

definition less_eq_candidate_key :: "candidate_key \<Rightarrow> candidate_key \<Rightarrow> bool" where
  "less_eq_candidate_key a b \<longleftrightarrow> a < b \<or> a = b"

instance
proof (standard, goal_cases)
  case (1 a b)
  then show ?case by (cases a; cases b) (auto simp: less_eq_candidate_key_def)
next
  case (3 a b c)
  then show ?case by (cases a; cases b; cases c) (auto simp: less_eq_candidate_key_def)
next
  case (4 a b)
  then show ?case by (cases a; cases b) (auto simp: less_eq_candidate_key_def)
next
  case (5 a b)
  then show ?case by (cases a; cases b) (auto simp: less_eq_candidate_key_def)
qed (simp add: less_eq_candidate_key_def)

end

definition utxo_outpoint :: "explorer_address_utxo \<Rightarrow> outpoint" where
  "utxo_outpoint u = OutPoint (xu_txid u) (xu_vout u)"

definition source_candidates :: "explorer_address_utxo list \<Rightarrow> explorer_address_utxo list" where
  "source_candidates listed =
     take MAX_SOURCE_UTXO_CANDIDATES
       (sort_key (\<lambda>u. CandidateKey (xu_value u) (utxo_outpoint u)) listed)"

definition check_source_utxo ::
  "'m web_lib_scheme \<Rightarrow> peers \<Rightarrow> explorer \<Rightarrow> address \<Rightarrow> explorer_address_utxo \<Rightarrow> source_utxo talk" where
  "check_source_utxo P E x address listed =
     talk_bind (explorer_transaction_observation P E x (xu_txid listed)) (\<lambda>found.
     talk_context found (Msg ''explorer listed a missing deposit transaction'') (\<lambda>observed.
     talk_ensure (0 < tob_confirmations observed)
       (Msg ''explorer listed an unconfirmed deposit as confirmed'')
     (talk_context (nth_opt (outputs (tob_transaction observed)) (unat (xu_vout listed)))
       (Msg ''deposit output index is missing'') (\<lambda>output.
     talk_ensure (txout_value output = xu_value listed)
       (Msg ''explorer deposit amount does not match its raw transaction'')
     (talk_ensure (script_pubkey output = address_script P address)
       (Msg ''explorer deposit does not pay the local deposit address'')
     (talk_bind (explorer_outspend_of P E x (utxo_outpoint listed)) (\<lambda>outspend.
      talk_ensure (\<not> oso_spent outspend) (Msg ''explorer listed a spent deposit output'')
      (talk_return
         \<lparr>su_outpoint = utxo_outpoint listed, su_output = output,
          su_confirmations = tob_confirmations observed,
          su_coinbase = is_coinbase P (tob_transaction observed)\<rparr>))))))))"

fun check_source_utxos ::
  "'m web_lib_scheme \<Rightarrow> peers \<Rightarrow> explorer \<Rightarrow> address \<Rightarrow> explorer_address_utxo list
    \<Rightarrow> source_utxo list talk" where
  "check_source_utxos P E x address [] = talk_return []"
| "check_source_utxos P E x address (listed # rest) =
     talk_bind (check_source_utxo P E x address listed) (\<lambda>source.
     talk_bind (check_source_utxos P E x address rest) (\<lambda>sources.
     talk_return (source # sources)))"

definition explorer_confirmed_source_utxos ::
  "'m web_lib_scheme \<Rightarrow> peers \<Rightarrow> explorer \<Rightarrow> address \<Rightarrow> source_utxo list talk" where
  "explorer_confirmed_source_utxos P E x address =
     talk_bind (get_json P E x (address_utxos_from_str P)
         (''/address/'' @ address_string P address @ ''/utxo'')) (\<lambda>all.
     let listed = filter (\<lambda>u. xs_confirmed (xu_status u)) all in
     talk_ensure (distinct (map (\<lambda>u. (xu_txid u, xu_vout u)) listed))
       (Msg ''explorer returned a duplicate deposit output'')
     (talk_bind (check_source_utxos P E x address (source_candidates listed)) (\<lambda>sources.
      talk_return (sort_key su_outpoint sources))))"

subsection \<open>Broadcasting\<close>

definition explorer_exact_transaction_is_observed ::
  "'m web_lib_scheme \<Rightarrow> peers \<Rightarrow> explorer \<Rightarrow> transaction \<Rightarrow> bool talk" where
  "explorer_exact_transaction_is_observed P E x expected =
     talk_bind (explorer_transaction_observation P E x (compute_txid P expected)) (\<lambda>found.
     case found of None \<Rightarrow> talk_return False
     | Some observed \<Rightarrow>
       talk_ensure (tob_transaction observed = expected)
         (Msg ''explorer transaction bytes do not match the saved transaction'') (talk_return True))"

definition explorer_broadcast_exact ::
  "'m web_lib_scheme \<Rightarrow> peers \<Rightarrow> explorer \<Rightarrow> transaction \<Rightarrow> txid talk" where
  "explorer_broadcast_exact P E x t =
     talk_bind (talk_lift (validate_funding_inputs P t)) (\<lambda>_.
     let expected = compute_txid P t;
         q = HttpPostText (ex_base_url x @ ''/tx'') (hex_encode P (tx_serialize P t))
     in
     talk_bind (explorer_exact_transaction_is_observed P E x t) (\<lambda>already.
     if already then talk_return expected
     else talk_ask (\<lambda>tr. http E tr q) q (\<lambda>reply.
     case reply of
       None \<Rightarrow>
         talk_bind (explorer_exact_transaction_is_observed P E x t) (\<lambda>seen.
         if seen then talk_return expected else talk_fail (Msg ''broadcast exact transaction''))
     | Some resp \<Rightarrow>
         talk_bind (talk_lift (response_bytes_limited resp)) (\<lambda>bytes.
         talk_context (string_from_utf8 P bytes)
           (Msg ''explorer returned a non-UTF-8 broadcast response'') (\<lambda>body.
         if \<not> is_success (hr_status resp) then
           talk_bind (explorer_exact_transaction_is_observed P E x t) (\<lambda>seen.
           if seen then talk_return expected
           else talk_fail (Msg (''explorer rejected transaction with HTTP ''
             @ decimal (unat (hr_status resp)) @ '': '' @ body)))
         else
           talk_context (txid_parse P (trim body))
             (Msg ''explorer returned an invalid broadcast txid'') (\<lambda>returned.
           talk_ensure (returned = expected) (Msg ''explorer returned the wrong broadcast txid'')
           (talk_bind (explorer_exact_transaction_is_observed P E x t) (\<lambda>seen.
            talk_ensure seen
              (Msg ''explorer accepted the transaction but did not expose its exact bytes'')
              (talk_return expected)))))))))"

text \<open>The package is posted to a second path if the first does not exist.\<close>

definition explorer_post_package ::
  "peers \<Rightarrow> explorer \<Rightarrow> string \<Rightarrow> string \<Rightarrow> string \<Rightarrow> http_response talk" where
  "explorer_post_package E x path parent_hex child_hex =
     (let q = HttpPostPair (ex_base_url x @ path) parent_hex child_hex in
      talk_ask (\<lambda>tr. http E tr q) q (\<lambda>reply.
      talk_context reply (Msg (''submit recovery package to '' @ path)) talk_return))"

definition explorer_submit_package ::
  "'m web_lib_scheme \<Rightarrow> peers \<Rightarrow> explorer \<Rightarrow> string \<Rightarrow> string \<Rightarrow> unit talk" where
  "explorer_submit_package P E x parent_hex child_hex =
     talk_bind (explorer_post_package E x ''/txs/package'' parent_hex child_hex) (\<lambda>first.
     talk_bind (if hr_status first = NOT_FOUND
                then explorer_post_package E x ''/v1/txs/package'' parent_hex child_hex
                else talk_return first) (\<lambda>resp.
     talk_bind (talk_lift (response_bytes_limited resp)) (\<lambda>bytes.
     talk_context (string_from_utf8 P bytes)
       (Msg ''explorer returned a non-UTF-8 package response'') (\<lambda>body.
     talk_ensure (is_success (hr_status resp))
       (Msg (''explorer rejected the recovery package with HTTP ''
         @ decimal (unat (hr_status resp)) @ '': '' @ body))
     (talk_context (package_msg_from_str P body) (Msg ''invalid package submission response'') (\<lambda>msg.
      talk_ensure (msg = ''success'') (Msg (''recovery package was not accepted: '' @ body))
        (talk_return ())))))))"

subsection \<open>Fees\<close>

definition explorer_recommended_fee_rate ::
  "'m web_lib_scheme \<Rightarrow> peers \<Rightarrow> explorer \<Rightarrow> u64 talk" where
  "explorer_recommended_fee_rate P E x =
     talk_bind (get_json P E x (fastest_fee_from_str P) ''/v1/fees/recommended'') (\<lambda>fee.
     case fee of
       NotFinite \<Rightarrow> talk_fail (Msg ''explorer returned an invalid fee recommendation'')
     | Finite r \<Rightarrow>
       talk_ensure (0 < r \<and> r \<le> 1000000) (Msg ''explorer returned an invalid fee recommendation'')
         (talk_return (word_of_int \<lceil>r\<rceil>)))"

subsection \<open>Connecting\<close>

definition network_name :: "network_id \<Rightarrow> string" where
  "network_name net =
     (case net of Mutinynet \<Rightarrow> ''mutinynet'' | Mainnet \<Rightarrow> ''mainnet'' | RegtestId \<Rightarrow> ''regtest'')"

definition default_explorer_url :: "network_id \<Rightarrow> string option" where
  "default_explorer_url net =
     (case net of Mutinynet \<Rightarrow> Some ''https://mutinynet.com/api'' | Mainnet \<Rightarrow> None | RegtestId \<Rightarrow> None)"

definition loopback_host :: "url \<Rightarrow> bool" where
  "loopback_host u =
     (case url_host u of None \<Rightarrow> False
      | Some host \<Rightarrow> eq_ignore_ascii_case host ''localhost'' \<or> host_is_loopback host)"

definition validate_explorer_url :: "'m web_lib_scheme \<Rightarrow> string \<Rightarrow> anyhow + unit" where
  "validate_explorer_url P text =
     with_context (url_parse P text) (Msg ''invalid explorer URL'') (\<lambda>u.
     ensure (url_scheme u = ''https'' \<or> (url_scheme u = ''http'' \<and> loopback_host u))
       (Msg ''explorer URL must use HTTPS (plain HTTP is loopback-only)'')
     (ensure (url_username u = [] \<and> url_password u = None)
       (Msg ''explorer URL cannot contain credentials'')
     (ensure (url_query u = None \<and> url_fragment u = None)
       (Msg ''explorer URL cannot contain a query or fragment'')
     (Inr ()))))"

definition explorer_connect ::
  "'m web_lib_scheme \<Rightarrow> string \<Rightarrow> network_id \<Rightarrow> anyhow + explorer" where
  "explorer_connect P text net =
     and_then (validate_explorer_url P text) (\<lambda>_.
     Inr \<lparr>ex_base_url = trim_end_slashes text, ex_network = net\<rparr>)"

definition explorer_verify_network ::
  "'m web_lib_scheme \<Rightarrow> peers \<Rightarrow> explorer \<Rightarrow> unit talk" where
  "explorer_verify_network P E x =
     talk_bind (block_hash_at_height P E x 0) (\<lambda>observed.
     talk_ensure (observed = genesis_block_hash P (bitcoin_network (ex_network x)))
       (Msg (''explorer genesis '' @ block_hash_to_string P observed @ '' does not match ''
         @ network_name (ex_network x)))
     (if ex_network x = Mutinynet then
        talk_bind (block_hash_at_height P E x MUTINYNET_CHECKPOINT_HEIGHT) (\<lambda>checkpoint.
        talk_context (block_hash_parse P MUTINYNET_CHECKPOINT_HASH)
          (Msg ''invalid built-in Mutinynet checkpoint'') (\<lambda>expected.
        talk_ensure (checkpoint = expected)
          (Msg ''explorer is Signet but does not match the Mutinynet checkpoint'')
          (talk_return ())))
      else talk_return ()))"

end
