(* ===== verification/Core.thy ===== *)
theory Core
  imports Explorer
begin

text \<open>
  The Bitcoin Core back end of \<^verbatim>\<open>wallet/src/services.rs\<close>, which local regression tests use.
  The RPC client decodes the answers; what they claim is checked here.
\<close>

record core =
  co_wallet_name :: string
  co_network :: network_id

datatype funding_transaction_state = FundingUnknown | FundingEvicted | FundingKnown

record prepared_funding =
  pf_transaction :: transaction
  pf_outpoint :: outpoint
  pf_fee_sat :: u64

definition is_rpc_not_found :: "rpc_error \<Rightarrow> bool" where
  "is_rpc_not_found e \<longleftrightarrow> e = RpcCode (-5)"

text \<open>An RPC whose error gets a context.\<close>

definition rpc_ask :: "(sent \<Rightarrow> rpc_error + 'r) \<Rightarrow> rpc_request \<Rightarrow> string \<Rightarrow> ('r \<Rightarrow> 'a talk) \<Rightarrow> 'a talk" where
  "rpc_ask answer q message f =
     talk_ask answer (Rpc q) (\<lambda>reply. case reply of Inl e \<Rightarrow> talk_fail (Msg message) | Inr x \<Rightarrow> f x)"

text \<open>\<open>u32::try_from\<close> of a confirmation count, which is an \<open>i32\<close>.\<close>

definition u32_from_i32 :: "32 word \<Rightarrow> u32 option" where
  "u32_from_i32 n = (if 0 \<le> sint n then Some n else None)"

subsection \<open>The chain\<close>

definition core_chain_info :: "peers \<Rightarrow> core \<Rightarrow> chain_info talk" where
  "core_chain_info E x =
     rpc_ask (rpc_blockchain_info E) GetBlockchainInfo ''query Bitcoin Core chain'' (\<lambda>info.
     talk_ensure (ci_chain info = network_name (co_network x))
       (Msg (''Bitcoin Core is on '' @ ci_chain info @ '', expected '' @ network_name (co_network x)))
       (talk_return info))"

definition blocks_height :: "chain_info \<Rightarrow> u32 talk" where
  "blocks_height info =
     talk_context (try_from_word (ci_blocks info)) (Msg ''Bitcoin Core block height exceeds u32'')
       talk_return"

definition core_tip_height :: "peers \<Rightarrow> core \<Rightarrow> u32 talk" where
  "core_tip_height E x = talk_bind (core_chain_info E x) blocks_height"

text \<open>An observation has to be from the best block, which is asked for again once.\<close>

definition current_chain :: "peers \<Rightarrow> core \<Rightarrow> block_hash \<Rightarrow> chain_info \<Rightarrow> chain_info talk" where
  "current_chain E x best chain =
     (if best \<noteq> ci_best_block_hash chain then core_chain_info E x else talk_return chain)"

definition core_transaction_observation ::
  "'m web_lib_scheme \<Rightarrow> peers \<Rightarrow> core \<Rightarrow> txid \<Rightarrow> transaction_observation option talk" where
  "core_transaction_observation P E x txid =
     talk_ask (\<lambda>tr. rpc_raw_transaction_info E tr txid) (Rpc (GetRawTransactionInfo txid)) (\<lambda>reply.
     case reply of
       Inr info \<Rightarrow>
         talk_ensure (ri_txid info = txid) (Msg ''Bitcoin Core returned the wrong txid'')
         (talk_ensure (ri_in_active_chain info \<noteq> Some False)
           (Msg ''Bitcoin Core transaction is not in the active chain'')
         (talk_context (tx_deserialize P (ri_hex info))
           (Msg ''Bitcoin Core returned an invalid raw transaction'') (\<lambda>t.
         talk_bind (core_tip_height E x) (\<lambda>tip_height.
         talk_return (Some \<lparr>tob_transaction = t, tob_tip_height = tip_height,
           tob_confirmations = (case ri_confirmations info of None \<Rightarrow> 0 | Some n \<Rightarrow> n),
           tob_raw_bytes_observed = True\<rparr>)))))
     | Inl e \<Rightarrow>
       if \<not> is_rpc_not_found e then talk_fail (Msg ''query Bitcoin Core raw transaction'')
       else talk_ask (\<lambda>tr. rpc_transaction E tr txid) (Rpc (GetTransaction txid)) (\<lambda>reply2.
       case reply2 of
         Inl e2 \<Rightarrow> if is_rpc_not_found e2 then talk_return None
                  else talk_fail (Msg ''query Bitcoin Core wallet transaction'')
       | Inr result \<Rightarrow>
         talk_ensure (wt_txid result = txid)
           (Msg ''Bitcoin Core returned a mismatched wallet transaction'')
         (talk_ensure (0 \<le> sint (wt_confirmations result) \<and> wt_walletconflicts result = [])
           (Msg ''Bitcoin Core transaction is conflicted'')
         (talk_bind
           (if wt_confirmations result = 0 then
              talk_ask (\<lambda>tr. rpc_mempool_entry E tr txid) (Rpc (GetMempoolEntry txid)) (\<lambda>reply3.
              case reply3 of
                Inr _ \<Rightarrow> talk_return True
              | Inl e3 \<Rightarrow> if is_rpc_not_found e3 then talk_return False
                         else talk_fail (Msg ''query Bitcoin Core mempool entry''))
            else talk_return True) (\<lambda>present.
          if \<not> present then talk_return None
          else
          talk_context (hex_decode P (wt_hex result))
            (Msg ''Bitcoin Core returned invalid transaction hex'') (\<lambda>bytes.
          talk_context (tx_deserialize P bytes)
            (Msg ''Bitcoin Core returned an invalid wallet transaction'') (\<lambda>t.
          talk_ensure (compute_txid P t = txid)
            (Msg ''Bitcoin Core wallet transaction has the wrong txid'')
          (talk_bind (core_tip_height E x) (\<lambda>tip_height.
           talk_context (u32_from_i32 (wt_confirmations result))
             (Msg ''Bitcoin Core returned negative confirmations'') (\<lambda>confirmations.
           talk_return (Some \<lparr>tob_transaction = t, tob_tip_height = tip_height,
             tob_confirmations = confirmations, tob_raw_bytes_observed = True\<rparr>)))))))))))"

text \<open>The outputs of an authorized transaction, in order, until one is still unspent.\<close>

fun core_observe_outputs ::
  "'m web_lib_scheme \<Rightarrow> peers \<Rightarrow> core \<Rightarrow> transaction \<Rightarrow> chain_info \<Rightarrow> nat \<Rightarrow> txout list
    \<Rightarrow> transaction_observation option talk" where
  "core_observe_outputs P E x t chain vout [] = talk_return None"
| "core_observe_outputs P E x t chain vout (expected # rest) =
     (let txid = compute_txid P t in
      talk_context (if vout < 2 ^ 32 then Some (of_nat vout :: u32) else None)
        (Msg ''transaction output index exceeds u32'') (\<lambda>index.
      rpc_ask (\<lambda>tr. rpc_tx_out E tr txid index) (GetTxOut txid index)
        ''query Bitcoin Core authorized transaction output'' (\<lambda>found.
      case found of
        None \<Rightarrow> core_observe_outputs P E x t chain (vout + 1) rest
      | Some result \<Rightarrow>
        talk_ensure (0 < to_confirmations result)
          (Msg ''Bitcoin Core hid an unconfirmed authorized transaction's raw bytes'')
        (talk_bind (current_chain E x (to_best_block result) chain) (\<lambda>current.
         talk_ensure (to_best_block result = ci_best_block_hash current)
           (Msg ''Bitcoin Core authorized transaction observation is not from the current best block'')
         (talk_context (to_script result)
           (Msg ''Bitcoin Core returned an invalid transaction output script'') (\<lambda>script.
          talk_ensure (\<lparr>txout_value = to_value result, script_pubkey = script\<rparr> = expected)
            (Msg ''Bitcoin Core transaction output does not match the authorized transaction'')
          (talk_bind (blocks_height current) (\<lambda>tip_height.
           talk_return (Some \<lparr>tob_transaction = t, tob_tip_height = tip_height,
             tob_confirmations = to_confirmations result, tob_raw_bytes_observed = False\<rparr>))))))))))"

definition core_observe_authorized_transaction ::
  "'m web_lib_scheme \<Rightarrow> peers \<Rightarrow> core \<Rightarrow> transaction \<Rightarrow> transaction_observation option talk" where
  "core_observe_authorized_transaction P E x t =
     talk_bind (core_transaction_observation P E x (compute_txid P t)) (\<lambda>found.
     case found of
       Some observed \<Rightarrow>
         talk_ensure (tob_transaction observed = t)
           (Msg ''Bitcoin Core transaction bytes do not match the authorized transaction'')
           (talk_return (Some observed))
     | None \<Rightarrow>
         talk_bind (core_chain_info E x) (\<lambda>chain.
         core_observe_outputs P E x t chain 0 (outputs t)))"

definition core_outspend ::
  "'m web_lib_scheme \<Rightarrow> peers \<Rightarrow> core \<Rightarrow> outpoint \<Rightarrow> outspend_observation talk" where
  "core_outspend P E x op =
     rpc_ask (\<lambda>tr. rpc_spending_prevout E tr op) (GetTxSpendingPrevout op)
       ''query Bitcoin Core outspend'' (\<lambda>results.
     talk_context (first_opt results) (Msg ''Bitcoin Core returned no outspend result'') (\<lambda>result.
     talk_ensure (length results = 1 \<and> sp_txid result = op_txid op \<and> sp_vout result = op_vout op)
       (Msg ''Bitcoin Core returned a mismatched outspend result'')
     (talk_bind
       (case sp_spending_txid result of
          Some spender \<Rightarrow>
            talk_bind (core_transaction_observation P E x spender) (\<lambda>found.
            talk_return (case found of None \<Rightarrow> False | Some observed \<Rightarrow> 0 < tob_confirmations observed))
        | None \<Rightarrow> talk_return False) (\<lambda>spending_confirmed.
      talk_bind
        (if sp_spending_txid result \<noteq> None then talk_return True
         else rpc_ask (\<lambda>tr. rpc_tx_out E tr (op_txid op) (op_vout op)) (GetTxOut (op_txid op) (op_vout op))
           ''query Bitcoin Core output'' (\<lambda>found. talk_return (found = None))) (\<lambda>spent.
      talk_return \<lparr>oso_spent = spent, oso_spending_txid = sp_spending_txid result,
        oso_spending_confirmed =
          (spending_confirmed \<or> (spent \<and> sp_spending_txid result = None))\<rparr>)))))"

subsection \<open>The coin's funding\<close>

definition core_observe_funding ::
  "'m web_lib_scheme \<Rightarrow> peers \<Rightarrow> core \<Rightarrow> coin_metadata \<Rightarrow> detailed_funding_observation talk" where
  "core_observe_funding P E x m =
     (let op = md_outpoint m in
      talk_ensure (md_network m = co_network x) (Msg ''funding network does not match Bitcoin Core'')
      (rpc_ask (\<lambda>tr. rpc_tx_out E tr (op_txid op) (op_vout op)) (GetTxOut (op_txid op) (op_vout op))
        ''query Bitcoin Core funding UTXO'' (\<lambda>found.
      case found of
        Some result \<Rightarrow>
          talk_bind (core_chain_info E x) (\<lambda>chain.
          talk_bind (current_chain E x (to_best_block result) chain) (\<lambda>current.
          talk_ensure (to_best_block result = ci_best_block_hash current)
            (Msg ''Bitcoin Core funding observation is not from the current best block'')
          (talk_context (to_script result)
            (Msg ''Bitcoin Core returned an invalid funding script'') (\<lambda>script.
          let output = \<lparr>txout_value = to_value result, script_pubkey = script\<rparr> in
          talk_bind (talk_lift (from_client (verify_funding_utxo P m op output))) (\<lambda>_.
          talk_ensure (\<not> to_coinbase result \<or> 100 \<le> to_confirmations result)
            (Msg ''coinbase funding output is not mature'')
          (talk_bind (blocks_height current) (\<lambda>tip_height.
           talk_return
             \<lparr>dfo_funding =
                \<lparr>obs_outpoint = op, obs_output = output,
                 obs_confirmations = to_confirmations result, obs_unspent = True,
                 obs_coinbase = to_coinbase result\<rparr>,
              dfo_tip_height = tip_height, dfo_spending_txid = None,
              dfo_spending_confirmed = False\<rparr>)))))))
      | None \<Rightarrow>
          talk_bind (core_transaction_observation P E x (op_txid op)) (\<lambda>found2.
          talk_context found2 (Msg ''spent funding transaction is unavailable from Bitcoin Core'') (\<lambda>observed.
          talk_context (nth_opt (outputs (tob_transaction observed)) (unat (op_vout op)))
            (Msg ''funding output index is missing'') (\<lambda>output.
          talk_bind (talk_lift (from_client (verify_funding_utxo P m op output))) (\<lambda>_.
          let coinbase = is_coinbase P (tob_transaction observed) in
          talk_ensure (\<not> coinbase \<or> 100 \<le> tob_confirmations observed)
            (Msg ''coinbase funding output is not mature'')
          (talk_bind (core_outspend P E x op) (\<lambda>outspend.
           talk_return
             \<lparr>dfo_funding =
                \<lparr>obs_outpoint = op, obs_output = output,
                 obs_confirmations = tob_confirmations observed, obs_unspent = False,
                 obs_coinbase = coinbase\<rparr>,
              dfo_tip_height = tob_tip_height observed,
              dfo_spending_txid = oso_spending_txid outspend,
              dfo_spending_confirmed = oso_spending_confirmed outspend\<rparr>)))))))))"

definition core_verify_funding ::
  "'m web_lib_scheme \<Rightarrow> peers \<Rightarrow> core \<Rightarrow> coin_metadata \<Rightarrow> u32 \<Rightarrow> funding_observation talk" where
  "core_verify_funding P E x m minimum_confirmations =
     (let op = md_outpoint m in
      talk_bind (core_chain_info E x) (\<lambda>chain.
      rpc_ask (\<lambda>tr. rpc_tx_out E tr (op_txid op) (op_vout op)) (GetTxOut (op_txid op) (op_vout op))
        ''query funding UTXO'' (\<lambda>found.
      talk_context found (Msg ''funding output is spent or missing'') (\<lambda>result.
      talk_bind (current_chain E x (to_best_block result) chain) (\<lambda>current.
      talk_ensure (to_best_block result = ci_best_block_hash current)
        (Msg ''Bitcoin Core funding observation is not from the current best block'')
      (talk_ensure (minimum_confirmations \<le> to_confirmations result)
        (Fmt ''funding output has {} confirmations; {} required''
          [unat (to_confirmations result), unat minimum_confirmations])
      (talk_ensure (\<not> to_coinbase result \<or> 100 \<le> to_confirmations result)
        (Msg ''coinbase funding output is not mature'')
      (talk_context (to_script result)
        (Msg ''Bitcoin Core returned an invalid funding script'') (\<lambda>script.
       talk_bind (talk_lift (from_client (verify_funding_utxo P m op
           \<lparr>txout_value = to_value result, script_pubkey = script\<rparr>))) (\<lambda>_.
       talk_bind (blocks_height current) (\<lambda>tip_height.
       talk_return \<lparr>fo_tip_height = tip_height,
         fo_confirmations = to_confirmations result\<rparr>)))))))))))"

subsection \<open>Broadcasting\<close>

definition core_check_exact ::
  "transaction \<Rightarrow> txid \<Rightarrow> transaction_observation \<Rightarrow> txid talk" where
  "core_check_exact t expected observed =
     talk_ensure (tob_transaction observed = t)
       (Msg ''Bitcoin Core transaction bytes do not match the saved transaction'')
       (talk_return expected)"

definition core_broadcast_exact ::
  "'m web_lib_scheme \<Rightarrow> peers \<Rightarrow> core \<Rightarrow> transaction \<Rightarrow> txid talk" where
  "core_broadcast_exact P E x t =
     talk_bind (talk_lift (validate_funding_inputs P t)) (\<lambda>_.
     let expected = compute_txid P t in
     talk_bind (core_transaction_observation P E x expected) (\<lambda>before.
     case before of
       Some observed \<Rightarrow> core_check_exact t expected observed
     | None \<Rightarrow>
       talk_ask (\<lambda>tr. rpc_send_raw_transaction E tr t) (Rpc (SendRawTransaction t)) (\<lambda>reply.
       case reply of
         Inl e \<Rightarrow>
           talk_bind (core_transaction_observation P E x expected) (\<lambda>after.
           case after of
             Some observed \<Rightarrow> core_check_exact t expected observed
           | None \<Rightarrow> talk_fail (Msg ''broadcast exact transaction''))
       | Inr returned \<Rightarrow>
           talk_ensure (returned = expected) (Msg ''Bitcoin Core returned the wrong txid'')
           (talk_bind (core_transaction_observation P E x expected) (\<lambda>after.
            talk_context after
              (Msg ''Bitcoin Core accepted the transaction but it is not observable'')
              (core_check_exact t expected))))))"

text \<open>The answer is read for its message only; the error leaves out the rest of the answer.\<close>

definition core_submit_package ::
  "peers \<Rightarrow> core \<Rightarrow> string \<Rightarrow> string \<Rightarrow> unit talk" where
  "core_submit_package E x parent_hex child_hex =
     rpc_ask (\<lambda>tr. rpc_submit_package E tr parent_hex child_hex) (SubmitPackage parent_hex child_hex)
       ''submit recovery package'' (\<lambda>message.
     talk_ensure ((case message of None \<Rightarrow> [] | Some m \<Rightarrow> m) = ''success'')
       (Msg ''recovery package was not accepted'') (talk_return ()))"

subsection \<open>Funding from the node's wallet\<close>

definition core_verify_wallet :: "peers \<Rightarrow> core \<Rightarrow> unit talk" where
  "core_verify_wallet E x =
     rpc_ask (rpc_wallet_info E) GetWalletInfo ''query Bitcoin Core funding wallet'' (\<lambda>info.
     talk_ensure (wi_wallet_name info = co_wallet_name x)
       (Msg (''Bitcoin Core opened wallet '' @ wi_wallet_name info @ '', expected '' @ co_wallet_name x))
     (talk_ensure (wi_private_keys_enabled info)
       (Msg ''Bitcoin Core funding wallet has private keys disabled'') (talk_return ())))"

definition core_ensure_inputs_locked :: "peers \<Rightarrow> transaction \<Rightarrow> unit talk" where
  "core_ensure_inputs_locked E t =
     (let ops = map previous_output (inputs t) in
      rpc_ask (\<lambda>tr. rpc_lock_unspent E tr ops) (LockUnspent ops)
        ''persistently lock funding transaction inputs'' (\<lambda>locked.
      talk_ensure locked (Msg ''Bitcoin Core did not lock every funding input'') (talk_return ())))"

definition core_test_prepared_funding ::
  "'m web_lib_scheme \<Rightarrow> peers \<Rightarrow> transaction \<Rightarrow> u64 option \<Rightarrow> unit talk" where
  "core_test_prepared_funding P E t expected_fee =
     rpc_ask (\<lambda>tr. rpc_test_mempool_accept E tr t) (TestMempoolAccept t)
       ''test unbroadcast funding transaction'' (\<lambda>results.
     talk_context (first_opt results) (Msg ''Bitcoin Core returned no funding mempool result'') (\<lambda>result.
     talk_ensure (length results = 1 \<and> ma_txid result = compute_txid P t)
       (Msg ''Bitcoin Core returned a mismatched funding mempool result'')
     (talk_ensure (ma_allowed result)
       (Msg (''funding transaction is not mempool-acceptable: ''
         @ (case ma_reject_reason result of None \<Rightarrow> ''unknown reason'' | Some r \<Rightarrow> r)))
     (case expected_fee of
        None \<Rightarrow> talk_return ()
      | Some fee \<Rightarrow>
          talk_ensure (ma_base_fee result = Some fee)
            (Msg ''Bitcoin Core funding fee changed during finalization'') (talk_return ())))))"

definition matching_outputs :: "script \<Rightarrow> transaction \<Rightarrow> (nat \<times> txout) list" where
  "matching_outputs script t =
     filter (\<lambda>(i, output). script_pubkey output = script) (enumerate 0 (outputs t))"

definition core_prepare_funding ::
  "'m web_lib_scheme \<Rightarrow> peers \<Rightarrow> core \<Rightarrow> coin_keys \<Rightarrow> u64 \<Rightarrow> u64 \<Rightarrow> u64 \<Rightarrow> prepared_funding talk" where
  "core_prepare_funding P E x keys amount fee_rate max_fee =
     talk_bind (core_verify_wallet E x) (\<lambda>_.
     talk_ensure (0 < fee_rate) (Msg ''funding fee rate must be positive'')
     (talk_ensure (amount \<le> max_money P) (Msg ''funding amount exceeds Bitcoin MAX_MONEY'')
     (let address = address_string P (funding_address P keys (co_network x)) in
      rpc_ask (\<lambda>tr. rpc_create_funded_psbt E tr address amount fee_rate)
        (WalletCreateFundedPsbt address amount fee_rate)
        ''create unbroadcast funding PSBT'' (\<lambda>(psbt, fee).
      talk_ensure (fee \<le> max_fee)
        (Fmt ''funding fee {} sat exceeds maximum {} sat'' [unat fee, unat max_fee])
      (rpc_ask (\<lambda>tr. rpc_process_psbt E tr psbt) (WalletProcessPsbt psbt)
        ''sign funding PSBT with Bitcoin Core wallet'' (\<lambda>(processed, processed_complete).
       talk_ensure processed_complete
         (Msg ''Bitcoin Core did not completely sign the funding PSBT'')
       (rpc_ask (\<lambda>tr. rpc_finalize_psbt E tr processed) (FinalizePsbt processed)
         ''finalize funding PSBT'' (\<lambda>(hex, finalized_complete).
        talk_ensure finalized_complete
          (Msg ''Bitcoin Core did not completely finalize the funding PSBT'')
        (talk_context hex (Msg ''finalized funding PSBT has no transaction'') (\<lambda>bytes.
         talk_context (tx_deserialize P bytes)
           (Msg ''Bitcoin Core returned an invalid funding transaction'') (\<lambda>t.
         talk_bind (talk_lift (validate_funding_inputs P t)) (\<lambda>_.
         let matching = matching_outputs (funding_script P keys) t in
         talk_ensure (length matching = 1)
           (Msg ''funding transaction must contain exactly one Tinylayer output'')
         (let (vout, output) = hd matching in
          talk_ensure (txout_value output = amount)
            (Msg ''funding transaction changed the Tinylayer output amount'')
          (talk_context (if vout < 2 ^ 32 then Some (of_nat vout :: u32) else None)
            (Msg ''funding output index exceeds u32'') (\<lambda>index.
           talk_bind (core_test_prepared_funding P E t (Some fee)) (\<lambda>_.
           talk_return \<lparr>pf_transaction = t, pf_outpoint = OutPoint (compute_txid P t) index,
             pf_fee_sat = fee\<rparr>))))))))))))))))"

definition core_validate_prepared_funding ::
  "'m web_lib_scheme \<Rightarrow> peers \<Rightarrow> core \<Rightarrow> coin_metadata \<Rightarrow> transaction \<Rightarrow> unit talk" where
  "core_validate_prepared_funding P E x m t =
     talk_bind (core_verify_wallet E x) (\<lambda>_.
     talk_bind (talk_lift (validate_finalized_funding P m t)) (\<lambda>_.
     talk_bind (core_ensure_inputs_locked E t) (\<lambda>_.
     core_test_prepared_funding P E t None)))"

definition core_funding_transaction_state ::
  "'m web_lib_scheme \<Rightarrow> peers \<Rightarrow> transaction \<Rightarrow> funding_transaction_state talk" where
  "core_funding_transaction_state P E t =
     (let txid = compute_txid P t in
      talk_ask (\<lambda>tr. rpc_transaction E tr txid) (Rpc (GetTransaction txid)) (\<lambda>reply.
      case reply of
        Inl e \<Rightarrow> if is_rpc_not_found e then talk_return FundingUnknown
                else talk_fail (Msg ''query Bitcoin Core funding transaction'')
      | Inr result \<Rightarrow>
        talk_ensure (wt_txid result = txid)
          (Msg ''Bitcoin Core returned a mismatched funding transaction'')
        (talk_context (hex_decode P (wt_hex result))
          (Msg ''Bitcoin Core returned invalid funding hex'') (\<lambda>bytes.
         talk_context (tx_deserialize P bytes)
           (Msg ''Bitcoin Core returned an invalid funding transaction'') (\<lambda>observed.
         talk_ensure (observed = t)
           (Msg ''Bitcoin Core funding transaction bytes do not match the journal'')
         (talk_ensure (0 \<le> sint (wt_confirmations result) \<and> wt_walletconflicts result = [])
           (Msg ''funding transaction is conflicted'')
         (if 0 < sint (wt_confirmations result) then talk_return FundingKnown
          else talk_ask (\<lambda>tr. rpc_mempool_entry E tr txid) (Rpc (GetMempoolEntry txid)) (\<lambda>reply2.
          case reply2 of
            Inr _ \<Rightarrow> talk_return FundingKnown
          | Inl e \<Rightarrow> if is_rpc_not_found e then talk_return FundingEvicted
                    else talk_fail (Msg ''query Bitcoin Core funding mempool entry'')))))))))"

definition core_broadcast_funding ::
  "'m web_lib_scheme \<Rightarrow> peers \<Rightarrow> core \<Rightarrow> coin_metadata \<Rightarrow> transaction \<Rightarrow> txid talk" where
  "core_broadcast_funding P E x m t =
     talk_bind (core_verify_wallet E x) (\<lambda>_.
     talk_bind (talk_lift (validate_finalized_funding P m t)) (\<lambda>_.
     let expected = compute_txid P t in
     talk_bind (core_funding_transaction_state P E t) (\<lambda>state.
     if state = FundingKnown then talk_return expected
     else
     talk_bind (if state = FundingUnknown then core_ensure_inputs_locked E t else talk_return ()) (\<lambda>_.
     talk_bind (core_test_prepared_funding P E t None) (\<lambda>_.
     talk_ask (\<lambda>tr. rpc_send_raw_transaction E tr t) (Rpc (SendRawTransaction t)) (\<lambda>reply.
     case reply of
       Inr returned \<Rightarrow>
         talk_ensure (returned = expected) (Msg ''Bitcoin Core returned the wrong funding txid'')
           (talk_return returned)
     | Inl e \<Rightarrow>
         talk_bind (core_funding_transaction_state P E t) (\<lambda>state2.
         if state2 = FundingKnown then talk_return expected
         else talk_fail (Msg ''broadcast funding transaction''))))))))"

end
