(* ===== verification/Session.thy ===== *)
theory Session
  imports Core
begin

text \<open>
  A command of the wallet runs on a machine with files and talks to others. A session is the
  machine, the requests sent so far, each with the files as they were when it was sent, and the
  number of saves, which picks the random values of the next one. A run stops when the machine
  stops (\<open>Crashed\<close>), returns an error (\<open>Failed\<close>), or returns a value (\<open>Done\<close>).
\<close>

record session =
  os :: world
  asked :: "(remote_request \<times> world) list"
  saves :: nat

type_synonym 'a act = "session \<Rightarrow> 'a outcome \<times> session"

definition act_return :: "'a \<Rightarrow> 'a act" where
  "act_return x s = (Done x, s)"

definition act_fail :: "anyhow \<Rightarrow> 'a act" where
  "act_fail e s = (Failed e, s)"

definition act_bind :: "'a act \<Rightarrow> ('a \<Rightarrow> 'b act) \<Rightarrow> 'b act" where
  "act_bind m f s =
     (case m s of (Crashed, s') \<Rightarrow> (Crashed, s') | (Failed e, s') \<Rightarrow> (Failed e, s')
      | (Done x, s') \<Rightarrow> f x s')"

definition act_lift :: "anyhow + 'a \<Rightarrow> 'a act" where
  "act_lift r = (case r of Inl e \<Rightarrow> act_fail e | Inr x \<Rightarrow> act_return x)"

definition act_ensure :: "bool \<Rightarrow> anyhow \<Rightarrow> 'a act \<Rightarrow> 'a act" where
  "act_ensure c e m = (if c then m else act_fail e)"

definition act_context :: "'a option \<Rightarrow> anyhow \<Rightarrow> ('a \<Rightarrow> 'b act) \<Rightarrow> 'b act" where
  "act_context r e f = (case r of None \<Rightarrow> act_fail e | Some x \<Rightarrow> f x)"

text \<open>A method on \<open>&mut self\<close> of a value the command holds: the error ends the command, otherwise
  it goes on with the result and the new value.\<close>

definition act_method :: "(anyhow + 'a) \<times> 'v \<Rightarrow> ('a \<Rightarrow> 'v \<Rightarrow> 'b act) \<Rightarrow> 'b act" where
  "act_method r f = (case r of (Inl e, v) \<Rightarrow> act_fail e | (Inr x, v) \<Rightarrow> f x v)"

definition act_io :: "'a io \<Rightarrow> 'a act" where
  "act_io m s = (case m (os s) of (r, w) \<Rightarrow> (r, s\<lparr>os := w\<rparr>))"

definition sent_of :: "session \<Rightarrow> sent" where
  "sent_of s = map fst (asked s)"

definition act_talk :: "'a talk \<Rightarrow> 'a act" where
  "act_talk m s =
     (case m (sent_of s) of (r, tr) \<Rightarrow>
        (case r of Inl e \<Rightarrow> Failed e | Inr x \<Rightarrow> Done x,
         s\<lparr>asked := asked s @ map (\<lambda>q. (q, os s)) (drop (length (asked s)) tr)\<rparr>))"

text \<open>\<open>WalletStore::save_native\<close> and \<open>save\<close> with the next random values.\<close>

definition act_save_native ::
  "'m store_lib_scheme \<Rightarrow> (nat \<Rightarrow> write_draws) \<Rightarrow> wallet_store \<Rightarrow> native_state \<Rightarrow> unit act" where
  "act_save_native P D st n s =
     act_io (save_native P (D (saves s)) st n) (s\<lparr>saves := saves s + 1\<rparr>)"

definition act_save ::
  "'m store_lib_scheme \<Rightarrow> (nat \<Rightarrow> write_draws) \<Rightarrow> wallet_store \<Rightarrow> wallet_state \<Rightarrow> unit act" where
  "act_save P D st n s =
     act_io (save P (D (saves s)) st n) (s\<lparr>saves := saves s + 1\<rparr>)"

end
