(* ===== verification/Chain.thy ===== *)
theory Chain
  imports Session
begin

text \<open>
  The two enumerations of \<^verbatim>\<open>wallet/src/services.rs\<close> the commands work with: the chain
  back end, an explorer or a Bitcoin Core node, and the connection to the enclave.
\<close>

subsection \<open>The chain\<close>

datatype chain = OnExplorer explorer | OnCore core

text \<open>\<open>validate_core_config\<close>: the URL, then the cookie file.\<close>

definition validate_core_url :: "'m web_lib_scheme \<Rightarrow> string \<Rightarrow> anyhow + unit" where
  "validate_core_url P text =
     with_context (url_parse P text) (Msg ''invalid Bitcoin Core RPC URL'') (\<lambda>u.
     ensure (url_scheme u = ''http'') (Msg ''Bitcoin Core RPC URL must use local HTTP'')
     (ensure (url_username u = [] \<and> url_password u = None)
       (Msg ''Bitcoin Core RPC URL cannot contain credentials'')
     (ensure (url_query u = None \<and> url_fragment u = None)
       (Msg ''Bitcoin Core RPC URL cannot contain a query or fragment'')
     (ensure (url_path u = ''/'' \<or> url_path u = [])
       (Msg ''Bitcoin Core RPC URL cannot contain a path; use --bitcoin-wallet'')
     (with_context (url_host u) (Msg ''Bitcoin Core RPC URL has no host'') (\<lambda>host.
     ensure (host_is_loopback host)
       (Msg ''Bitcoin Core RPC is restricted to a numeric loopback address'')
     (Inr ())))))))"

definition validate_core_config :: "'m web_lib_scheme \<Rightarrow> string \<Rightarrow> entry \<Rightarrow> unit io" where
  "validate_core_config P core_url cookie =
     io_bind (io_lift (validate_core_url P core_url)) (\<lambda>_.
     io_bind (fs_symlink_metadata (Msg (''inspect Bitcoin Core cookie '' @ display_entry cookie))
       (File cookie)) (\<lambda>n.
     io_ensure (nd_kind n = RegularFile) (Msg ''Bitcoin Core cookie must be a regular file'')
     (io_ensure (and (nd_mode n) 0x3F = 0)
       (Msg ''Bitcoin Core cookie is accessible by group or other users'')
     (io_return ()))))"

definition validate_core_wallet_name :: "string \<Rightarrow> anyhow + unit" where
  "validate_core_wallet_name name =
     ensure (trim name \<noteq> [] \<and> name = trim name)
       (Msg ''Bitcoin Core wallet name cannot be empty or surrounded by whitespace'') (Inr ())"

definition wallet_rpc_url :: "'m web_lib_scheme \<Rightarrow> string \<Rightarrow> string \<Rightarrow> anyhow + string" where
  "wallet_rpc_url P text name =
     with_context (url_parse P text) (Msg ''invalid Bitcoin Core RPC URL'') (\<lambda>u.
     with_context (url_with_segments P u [''wallet'', name])
       (Msg ''Bitcoin Core RPC URL cannot be a base URL'') Inr)"

text \<open>The cookie file of a configuration, by its directory and name.\<close>

definition entry_of_path :: "string \<Rightarrow> entry" where
  "entry_of_path text =
     (let name = rev (takeWhile (\<lambda>c. c \<noteq> CHR ''/'') (rev text)) in
      (take (length text - length name - 1) text, name))"

definition core_connect ::
  "'m web_lib_scheme \<Rightarrow> peers \<Rightarrow> string \<Rightarrow> string \<Rightarrow> string \<Rightarrow> network_id \<Rightarrow> core io" where
  "core_connect P E core_url cookie name net =
     io_bind (validate_core_config P core_url (entry_of_path cookie)) (\<lambda>_.
     io_bind (io_lift (validate_core_wallet_name name)) (\<lambda>_.
     io_bind (io_lift (wallet_rpc_url P core_url name)) (\<lambda>wallet_url.
     io_ensure (rpc_client_opens E wallet_url cookie) (Msg ''create Bitcoin Core RPC client'')
     (io_return \<lparr>co_wallet_name = name, co_network = net\<rparr>))))"

definition chain_connect ::
  "'m web_lib_scheme \<Rightarrow> peers \<Rightarrow> chain_config \<Rightarrow> network_id \<Rightarrow> chain act" where
  "chain_connect P E cfg net =
     act_ensure (net \<noteq> Mainnet) (Msg ''mainnet is not supported by this wallet'')
     (case cfg of
        ExplorerConfig text \<Rightarrow>
          act_bind (act_lift (explorer_connect P text net)) (\<lambda>x.
          act_bind (act_talk (explorer_verify_network P E x)) (\<lambda>_.
          act_return (OnExplorer x)))
      | CoreRpcConfig core_url cookie name \<Rightarrow>
          act_ensure (net = RegtestId) (Msg ''Bitcoin Core RPC is restricted to regtest'')
          (act_bind (act_io (core_connect P E core_url cookie name net)) (\<lambda>x.
           act_return (OnCore x))))"

definition chain_verify_funding ::
  "'m web_lib_scheme \<Rightarrow> peers \<Rightarrow> chain \<Rightarrow> coin_metadata \<Rightarrow> u32 \<Rightarrow> funding_observation talk" where
  "chain_verify_funding P E c m minc =
     (case c of OnExplorer x \<Rightarrow> explorer_verify_funding P E x m minc
      | OnCore x \<Rightarrow> core_verify_funding P E x m minc)"

definition chain_tip_height :: "'m web_lib_scheme \<Rightarrow> peers \<Rightarrow> chain \<Rightarrow> u32 talk" where
  "chain_tip_height P E c =
     (case c of OnExplorer x \<Rightarrow> explorer_tip_height P E x | OnCore x \<Rightarrow> core_tip_height E x)"

definition chain_confirmed_source_utxos ::
  "'m web_lib_scheme \<Rightarrow> peers \<Rightarrow> chain \<Rightarrow> address \<Rightarrow> source_utxo list talk" where
  "chain_confirmed_source_utxos P E c address =
     (case c of OnExplorer x \<Rightarrow> explorer_confirmed_source_utxos P E x address
      | OnCore _ \<Rightarrow> talk_fail (Msg ''local deposit funding requires an explorer backend''))"

definition chain_transaction ::
  "'m web_lib_scheme \<Rightarrow> peers \<Rightarrow> chain \<Rightarrow> txid \<Rightarrow> transaction_observation option talk" where
  "chain_transaction P E c t =
     (case c of OnExplorer x \<Rightarrow> explorer_transaction_observation P E x t
      | OnCore x \<Rightarrow> core_transaction_observation P E x t)"

definition chain_observe_authorized_transaction ::
  "'m web_lib_scheme \<Rightarrow> peers \<Rightarrow> chain \<Rightarrow> transaction \<Rightarrow> transaction_observation option talk" where
  "chain_observe_authorized_transaction P E c t =
     (case c of
        OnExplorer x \<Rightarrow>
          talk_bind (explorer_transaction_observation P E x (compute_txid P t)) (\<lambda>found.
          talk_ensure (case found of None \<Rightarrow> True | Some observed \<Rightarrow> tob_transaction observed = t)
            (Msg ''explorer transaction bytes do not match the authorized transaction'')
            (talk_return found))
      | OnCore x \<Rightarrow> core_observe_authorized_transaction P E x t)"

definition chain_outspend ::
  "'m web_lib_scheme \<Rightarrow> peers \<Rightarrow> chain \<Rightarrow> outpoint \<Rightarrow> outspend_observation talk" where
  "chain_outspend P E c op =
     (case c of OnExplorer x \<Rightarrow> explorer_outspend_of P E x op | OnCore x \<Rightarrow> core_outspend P E x op)"

definition chain_observe_funding ::
  "'m web_lib_scheme \<Rightarrow> peers \<Rightarrow> chain \<Rightarrow> coin_metadata \<Rightarrow> detailed_funding_observation talk" where
  "chain_observe_funding P E c m =
     (case c of OnExplorer x \<Rightarrow> explorer_observe_funding P E x m
      | OnCore x \<Rightarrow> core_observe_funding P E x m)"

definition chain_broadcast_exact ::
  "'m web_lib_scheme \<Rightarrow> peers \<Rightarrow> chain \<Rightarrow> transaction \<Rightarrow> txid talk" where
  "chain_broadcast_exact P E c t =
     (case c of OnExplorer x \<Rightarrow> explorer_broadcast_exact P E x t
      | OnCore x \<Rightarrow> core_broadcast_exact P E x t)"

definition chain_prepare_funding ::
  "'m web_lib_scheme \<Rightarrow> peers \<Rightarrow> chain \<Rightarrow> coin_keys \<Rightarrow> u64 \<Rightarrow> u64 \<Rightarrow> u64 \<Rightarrow> prepared_funding talk" where
  "chain_prepare_funding P E c keys amount fee_rate max_fee =
     (case c of OnCore x \<Rightarrow> core_prepare_funding P E x keys amount fee_rate max_fee
      | OnExplorer _ \<Rightarrow> talk_fail (Msg ''automatic funding requires a Bitcoin Core wallet backend''))"

definition chain_validate_prepared_funding ::
  "'m web_lib_scheme \<Rightarrow> peers \<Rightarrow> chain \<Rightarrow> coin_metadata \<Rightarrow> transaction \<Rightarrow> unit talk" where
  "chain_validate_prepared_funding P E c m t =
     (case c of OnCore x \<Rightarrow> core_validate_prepared_funding P E x m t
      | OnExplorer _ \<Rightarrow> talk_fail (Msg ''prepared funding requires a Bitcoin Core wallet backend''))"

definition chain_broadcast_funding ::
  "'m web_lib_scheme \<Rightarrow> peers \<Rightarrow> chain \<Rightarrow> coin_metadata \<Rightarrow> transaction \<Rightarrow> txid talk" where
  "chain_broadcast_funding P E c m t =
     (case c of OnCore x \<Rightarrow> core_broadcast_funding P E x m t
      | OnExplorer _ \<Rightarrow> talk_fail (Msg ''automatic funding requires a Bitcoin Core wallet backend''))"

definition chain_recommended_fee_rate ::
  "'m web_lib_scheme \<Rightarrow> peers \<Rightarrow> chain \<Rightarrow> u64 talk" where
  "chain_recommended_fee_rate P E c =
     (case c of OnExplorer x \<Rightarrow> explorer_recommended_fee_rate P E x | OnCore _ \<Rightarrow> talk_return 1)"

definition chain_submit_package ::
  "'m web_lib_scheme \<Rightarrow> peers \<Rightarrow> chain \<Rightarrow> string \<Rightarrow> string \<Rightarrow> unit talk" where
  "chain_submit_package P E c parent_hex child_hex =
     (case c of OnExplorer x \<Rightarrow> explorer_submit_package P E x parent_hex child_hex
      | OnCore x \<Rightarrow> core_submit_package E x parent_hex child_hex)"

subsection \<open>The enclave\<close>

datatype enclave_connection = Attested | Plaintext string

definition validate_plaintext_url :: "'m web_lib_scheme \<Rightarrow> string \<Rightarrow> anyhow + unit" where
  "validate_plaintext_url P text =
     with_context (url_parse P text) (Msg ''invalid plaintext enclave URL'') (\<lambda>u.
     ensure (url_scheme u = ''http'') (Msg ''plaintext test enclave URL must use http'')
     (ensure (url_username u = [] \<and> url_password u = None)
       (Msg ''enclave URL cannot contain credentials'')
     (ensure (url_path u = ''/'' \<or> url_path u = []) (Msg ''enclave URL cannot contain a path'')
     (with_context (url_host u) (Msg ''plaintext enclave URL has no host'') (\<lambda>host.
     ensure (eq_ignore_ascii_case host ''localhost'' \<or> host_is_loopback host)
       (Msg ''plaintext enclave transport is restricted to loopback'')
     (Inr ()))))))"

text \<open>\<open>RemoteEnclave::connect\<close> with the SDK of the moment, and \<open>connect_debug\<close>, which does not
  check the measurements.\<close>

definition enclave_connect ::
  "'m web_lib_scheme \<Rightarrow> peers \<Rightarrow> enclave_config \<Rightarrow> enclave_connection talk" where
  "enclave_connect P E cfg =
     (case cfg of
        Production text hex0 hex1 hex2 \<Rightarrow>
          talk_context (pcrs_from_hex P hex0 hex1 hex2) (Msg ''invalid PCR policy'') (\<lambda>p.
          talk_ask (\<lambda>tr. remote_connect (sdk_connect E tr False) text p) (SdkConnect text False) (\<lambda>r.
          case r of Inl e \<Rightarrow> talk_fail (Msg ''connect to attested enclave'')
          | Inr _ \<Rightarrow> talk_return Attested))
      | Debug text hex0 hex1 hex2 \<Rightarrow>
          talk_context (pcrs_from_hex P hex0 hex1 hex2) (Msg ''invalid PCR policy'') (\<lambda>p.
          talk_ask (\<lambda>tr. sdk_connect E tr True text p) (SdkConnect text True) (\<lambda>r.
          case r of Inl e \<Rightarrow> talk_fail (Msg ''connect to debug enclave'')
          | Inr _ \<Rightarrow> talk_return Attested))
      | UnsafePlaintext text \<Rightarrow>
          talk_bind (talk_lift (validate_plaintext_url P text)) (\<lambda>_.
          talk_return (Plaintext (trim_end_slashes text))))"

definition enclave_health ::
  "'m web_lib_scheme \<Rightarrow> peers \<Rightarrow> enclave_connection \<Rightarrow> unit talk" where
  "enclave_health P E c =
     (case c of
        Attested \<Rightarrow>
          talk_ask (\<lambda>tr. remote_health (sdk E tr)) SdkHealth (\<lambda>r.
          case r of Inl e \<Rightarrow> talk_fail (Msg ''enclave health check'') | Inr _ \<Rightarrow> talk_return ())
      | Plaintext url \<Rightarrow>
          let q = HttpGet (url @ ''/health'') in
          talk_ask (\<lambda>tr. http E tr q) q (\<lambda>reply.
          talk_context reply (Msg ''enclave health check'') (\<lambda>resp.
          talk_ensure (is_success (hr_status resp))
            (Msg (''enclave health check returned HTTP '' @ status_to_string P (hr_status resp)))
            (talk_return ()))))"

definition call_plain ::
  "'m web_lib_scheme \<Rightarrow> peers \<Rightarrow> string \<Rightarrow> request \<Rightarrow> response talk" where
  "call_plain P E url req =
     (let q = HttpPostRequest (url @ ''/v1'') req in
      talk_ask (\<lambda>tr. http E tr q) q (\<lambda>reply.
      talk_context reply (Msg ''call plaintext test enclave'') (\<lambda>resp.
      talk_bind (talk_lift (response_bytes_limited resp)) (\<lambda>bytes.
      if \<not> is_success (hr_status resp)
        then talk_fail (Msg (''enclave returned HTTP '' @ decimal (unat (hr_status resp)) @ '': ''
          @ utf8_lossy P bytes))
      else talk_context (response_of_json P bytes) (Msg ''invalid enclave response'') talk_return))))"

definition enclave_register ::
  "'m web_lib_scheme \<Rightarrow> peers \<Rightarrow> enclave_connection \<Rightarrow> register_request \<Rightarrow> coin_status talk" where
  "enclave_register P E c req =
     (case c of
        Attested \<Rightarrow>
          talk_ask (\<lambda>tr. remote_register (sdk E tr) req) (SdkCall (ReqRegister req)) (\<lambda>r.
          case r of Inl e \<Rightarrow> talk_fail (Msg ''register coin'') | Inr st \<Rightarrow> talk_return st)
      | Plaintext url \<Rightarrow>
          talk_bind (call_plain P E url (ReqRegister req)) (\<lambda>r.
          case r of RespStatus st \<Rightarrow> talk_return st
          | RespSignature _ \<Rightarrow> talk_fail (Msg ''enclave returned an unexpected registration response'')))"

definition enclave_status ::
  "'m web_lib_scheme \<Rightarrow> peers \<Rightarrow> enclave_connection \<Rightarrow> coin_id \<Rightarrow> coin_status talk" where
  "enclave_status P E c cid =
     (case c of
        Attested \<Rightarrow>
          talk_ask (\<lambda>tr. remote_status (sdk E tr) cid) (SdkCall (ReqStatus cid)) (\<lambda>r.
          case r of Inl e \<Rightarrow> talk_fail (Msg ''query coin status'') | Inr st \<Rightarrow> talk_return st)
      | Plaintext url \<Rightarrow>
          talk_bind (call_plain P E url (ReqStatus cid)) (\<lambda>r.
          case r of RespStatus st \<Rightarrow> talk_return st
          | RespSignature _ \<Rightarrow> talk_fail (Msg ''enclave returned an unexpected status response'')))"

definition enclave_sign ::
  "'m web_lib_scheme \<Rightarrow> peers \<Rightarrow> enclave_connection \<Rightarrow> sign_request \<Rightarrow> sign_response talk" where
  "enclave_sign P E c req =
     (case c of
        Attested \<Rightarrow>
          talk_ask (\<lambda>tr. remote_sign (sdk E tr) req) (SdkCall (ReqSign req)) (\<lambda>r.
          case r of Inl e \<Rightarrow> talk_fail (Msg ''sign recovery'') | Inr resp \<Rightarrow> talk_return resp)
      | Plaintext url \<Rightarrow>
          talk_bind (call_plain P E url (ReqSign req)) (\<lambda>r.
          case r of RespSignature resp \<Rightarrow> talk_return resp
          | RespStatus _ \<Rightarrow> talk_fail (Msg ''enclave returned an unexpected sign response'')))"

end
