(* ===== verification/Chain_Spec.thy ===== *)
theory Chain_Spec
  imports Chain
begin

text \<open>
  What the chain back ends guarantee whatever their service answers: which requests an
  operation sends, and what a successful one has checked.
\<close>

subsection \<open>Case distinctions in successful runs\<close>

lemma talk_option_ok [talk_ok]:
  "(case r of None \<Rightarrow> m | Some x \<Rightarrow> f x) tr = (Inr y, tr') \<longleftrightarrow>
     (r = None \<and> m tr = (Inr y, tr')) \<or> (\<exists>x. r = Some x \<and> f x tr = (Inr y, tr'))"
  by (cases r) auto

lemma talk_sum_ok [talk_ok]:
  "(case r of Inl e \<Rightarrow> g e | Inr x \<Rightarrow> f x) tr = (Inr y, tr') \<longleftrightarrow>
     (\<exists>e. r = Inl e \<and> g e tr = (Inr y, tr')) \<or> (\<exists>x. r = Inr x \<and> f x tr = (Inr y, tr'))"
  by (cases r) auto

lemma rpc_ask_ok [talk_ok]:
  "rpc_ask answer q message f tr = (Inr y, tr') \<longleftrightarrow>
     (\<exists>x. answer tr = Inr x \<and> f x (tr @ [Rpc q]) = (Inr y, tr'))"
  by (auto simp: rpc_ask_def talk_ok)

subsection \<open>What is sent\<close>

text \<open>A request that changes nothing that anyone else can see: everything but posting a
  transaction or a package, and registering or signing at the enclave.\<close>

fun effect_free :: "remote_request \<Rightarrow> bool" where
  "effect_free (HttpPostText _ _) = False"
| "effect_free (HttpPostPair _ _ _) = False"
| "effect_free (HttpPostRequest _ (ReqStatus _)) = True"
| "effect_free (HttpPostRequest _ _) = False"
| "effect_free (SdkCall (ReqStatus _)) = True"
| "effect_free (SdkCall _) = False"
| "effect_free (Rpc (SendRawTransaction _)) = False"
| "effect_free (Rpc (SubmitPackage _ _)) = False"
| "effect_free _ = True"

lemma only_sends_weaken: "only_sends ok m \<Longrightarrow> (\<And>q. ok q \<Longrightarrow> ok' q) \<Longrightarrow> only_sends ok' m"
  unfolding only_sends_def by meson

lemma only_sends_option [intro]:
  "(r = None \<Longrightarrow> only_sends ok m) \<Longrightarrow> (\<And>x. r = Some x \<Longrightarrow> only_sends ok (f x))
    \<Longrightarrow> only_sends ok (case r of None \<Rightarrow> m | Some x \<Rightarrow> f x)"
  by (cases r) auto

lemma only_sends_sum [intro]:
  "(\<And>e. r = Inl e \<Longrightarrow> only_sends ok (g e)) \<Longrightarrow> (\<And>x. r = Inr x \<Longrightarrow> only_sends ok (f x))
    \<Longrightarrow> only_sends ok (case r of Inl e \<Rightarrow> g e | Inr x \<Rightarrow> f x)"
  by (cases r) auto

lemma only_sends_prod [intro]:
  "(\<And>a b. r = (a, b) \<Longrightarrow> only_sends ok (f a b)) \<Longrightarrow> only_sends ok (case r of (a, b) \<Rightarrow> f a b)"
  by (cases r) auto

lemma only_sends_f64 [intro]:
  "(\<And>q. only_sends ok (f q)) \<Longrightarrow> only_sends ok m
    \<Longrightarrow> only_sends ok (case fee of NotFinite \<Rightarrow> m | Finite q \<Rightarrow> f q)"
  by (cases fee) auto

lemma only_sends_rpc [intro]:
  "ok (Rpc q) \<Longrightarrow> (\<And>x. only_sends ok (f x)) \<Longrightarrow> only_sends ok (rpc_ask answer q message f)"
  unfolding rpc_ask_def by (intro only_sends_ask only_sends_sum only_sends_fail)

lemmas only_sends_rules =
  only_sends_bind only_sends_ensure only_sends_context only_sends_ask only_sends_rpc only_sends_if
  only_sends_option only_sends_sum only_sends_prod

lemma only_sends_get [intro]:
  assumes "\<And>url. ok (HttpGet url)"
  shows "only_sends ok (get_text_optional P E x path)" and "only_sends ok (get_text P E x path)"
    and "only_sends ok (get_json P E x from_str path)"
    and "only_sends ok (get_json_optional P E x from_str path)"
  unfolding get_text_optional_def get_text_def get_json_def get_json_optional_def Let_def
  by (intro only_sends_rules only_sends_return only_sends_lift only_sends_fail assms)+

text \<open>An explorer is only asked, except for the posts.\<close>

lemma explorer_reads [intro]:
  assumes "\<And>url. ok (HttpGet url)"
  shows "only_sends ok (block_hash_at_height P E x h)" and "only_sends ok (explorer_tip_height P E x)"
    and "only_sends ok (status_confirmations P E x st tip)"
    and "only_sends ok (raw_transaction_optional P E x t)"
    and "only_sends ok (explorer_transaction_observation P E x t)"
    and "only_sends ok (explorer_outspend_of P E x op)"
    and "only_sends ok (explorer_observe_funding P E x m)"
    and "only_sends ok (explorer_verify_funding P E x m minc)"
    and "only_sends ok (check_source_utxo P E x address u)"
    and "only_sends ok (explorer_exact_transaction_is_observed P E x tx)"
    and "only_sends ok (explorer_verify_network P E x)"
    and "only_sends ok (explorer_recommended_fee_rate P E x)"
proof -
  note r = only_sends_rules only_sends_return only_sends_lift only_sends_fail only_sends_get [where ok = ok, OF assms]
  show hash: "only_sends ok (block_hash_at_height P E x h)" for h
    unfolding block_hash_at_height_def by (intro r)
  show tip: "only_sends ok (explorer_tip_height P E x)"
    unfolding explorer_tip_height_def by (intro r)
  show conf: "only_sends ok (status_confirmations P E x st tip)" for st tip
    unfolding status_confirmations_def by (intro r hash)
  show raw: "only_sends ok (raw_transaction_optional P E x t)" for t
    unfolding raw_transaction_optional_def by (intro r)
  show obs: "only_sends ok (explorer_transaction_observation P E x t)" for t
    unfolding explorer_transaction_observation_def by (intro r raw tip conf)
  show spent: "only_sends ok (explorer_outspend_of P E x op)" for op
    unfolding explorer_outspend_of_def by (intro r tip conf)
  show fund: "only_sends ok (explorer_observe_funding P E x m)"
    unfolding explorer_observe_funding_def by (intro r obs spent)
  show "only_sends ok (explorer_verify_funding P E x m minc)"
    unfolding explorer_verify_funding_def by (intro r fund)
  show "only_sends ok (check_source_utxo P E x address u)"
    unfolding check_source_utxo_def by (intro r obs spent)
  show "only_sends ok (explorer_exact_transaction_is_observed P E x tx)"
    unfolding explorer_exact_transaction_is_observed_def by (intro r obs)
  show "only_sends ok (explorer_verify_network P E x)"
    unfolding explorer_verify_network_def by (intro r hash)
  show "only_sends ok (explorer_recommended_fee_rate P E x)"
    unfolding explorer_recommended_fee_rate_def by (intro r only_sends_f64)
qed

lemma explorer_reads_deposits [intro]:
  assumes "\<And>url. ok (HttpGet url)"
  shows "only_sends ok (explorer_confirmed_source_utxos P E x address)"
proof -
  have "only_sends ok (check_source_utxos P E x address us)" for us
    by (induction us)
      (auto intro!: only_sends_rules explorer_reads [where ok = ok, OF assms])
  then show ?thesis
    unfolding explorer_confirmed_source_utxos_def Let_def
    by (intro only_sends_rules only_sends_return only_sends_get [where ok = ok, OF assms])
qed

text \<open>The node is only asked, except for sending and for the calls on its wallet.\<close>

lemma core_reads [intro]:
  assumes "\<And>q. effect_free (Rpc q) \<Longrightarrow> ok (Rpc q)"
  shows "only_sends ok (core_chain_info E x)" and "only_sends ok (core_tip_height E x)"
    and "only_sends ok (core_transaction_observation P E x t)"
    and "only_sends ok (core_observe_authorized_transaction P E x tx)"
    and "only_sends ok (core_outspend P E x op)" and "only_sends ok (core_observe_funding P E x m)"
    and "only_sends ok (core_verify_funding P E x m minc)"
    and "only_sends ok (core_verify_wallet E x)" and "only_sends ok (core_ensure_inputs_locked E tx)"
    and "only_sends ok (core_test_prepared_funding P E tx fee)"
    and "only_sends ok (core_prepare_funding P E x keys amount rate max_fee)"
    and "only_sends ok (core_validate_prepared_funding P E x m tx)"
    and "only_sends ok (core_funding_transaction_state P E tx)"
proof -
  have q: "ok (Rpc q)" if "effect_free (Rpc q)" for q using assms that .
  note r = only_sends_rules only_sends_return only_sends_lift only_sends_fail q effect_free.simps
  show info: "only_sends ok (core_chain_info E x)"
    unfolding core_chain_info_def by (intro r) simp
  have height: "only_sends ok (blocks_height i)" for i
    unfolding blocks_height_def by (intro r)
  have current: "only_sends ok (current_chain E x best c)" for best c
    unfolding current_chain_def by (intro r info)
  show tip: "only_sends ok (core_tip_height E x)"
    unfolding core_tip_height_def by (intro r info height)
  show obs: "only_sends ok (core_transaction_observation P E x t)" for t
    unfolding core_transaction_observation_def by (intro r tip) simp_all
  have outs: "only_sends ok (core_observe_outputs P E x tx c v os)" for tx c v os
    by (induction os arbitrary: v)
      (auto simp: Let_def intro!: r current height)
  show "only_sends ok (core_observe_authorized_transaction P E x tx)"
    unfolding core_observe_authorized_transaction_def by (intro r obs info outs)
  show spent: "only_sends ok (core_outspend P E x op)" for op
    unfolding core_outspend_def by (intro r obs) simp_all
  show "only_sends ok (core_observe_funding P E x m)"
    unfolding core_observe_funding_def Let_def by (intro r obs info current height spent) simp
  show "only_sends ok (core_verify_funding P E x m minc)"
    unfolding core_verify_funding_def Let_def by (intro r info current height) simp
  show wallet: "only_sends ok (core_verify_wallet E x)"
    unfolding core_verify_wallet_def by (intro r) simp
  show lock: "only_sends ok (core_ensure_inputs_locked E tx)" for tx
    unfolding core_ensure_inputs_locked_def Let_def by (intro r) simp
  show test: "only_sends ok (core_test_prepared_funding P E tx fee)" for tx fee
    unfolding core_test_prepared_funding_def by (intro r) simp
  show "only_sends ok (core_prepare_funding P E x keys amount rate max_fee)"
    unfolding core_prepare_funding_def Let_def by (intro r wallet test) simp_all
  show "only_sends ok (core_validate_prepared_funding P E x m tx)"
    unfolding core_validate_prepared_funding_def by (intro r wallet lock test)
  show "only_sends ok (core_funding_transaction_state P E tx)"
    unfolding core_funding_transaction_state_def Let_def by (intro r) simp_all
qed

text \<open>The requests that hand in exactly one transaction, or exactly one package.\<close>

definition submits :: "'m web_lib_scheme \<Rightarrow> transaction \<Rightarrow> remote_request \<Rightarrow> bool" where
  "submits P t q \<longleftrightarrow>
     (\<exists>url. q = HttpPostText url (hex_encode P (tx_serialize P t))) \<or> q = Rpc (SendRawTransaction t)"

definition submits_package :: "string \<Rightarrow> string \<Rightarrow> remote_request \<Rightarrow> bool" where
  "submits_package parent_hex child_hex q \<longleftrightarrow>
     (\<exists>url. q = HttpPostPair url parent_hex child_hex) \<or> q = Rpc (SubmitPackage parent_hex child_hex)"

lemma explorer_broadcast_sends:
  "only_sends (\<lambda>q. effect_free q \<or> submits P t q) (explorer_broadcast_exact P E x t)"
proof -
  have exact: "only_sends (\<lambda>q. effect_free q \<or> submits P t q) (explorer_exact_transaction_is_observed P E x t)"
    by (intro explorer_reads) simp
  show ?thesis
    unfolding explorer_broadcast_exact_def Let_def
    by (intro only_sends_rules only_sends_return only_sends_lift only_sends_fail exact)
      (simp add: submits_def)
qed

lemma core_broadcast_sends:
  "only_sends (\<lambda>q. effect_free q \<or> submits P t q) (core_broadcast_exact P E x t)"
  "only_sends (\<lambda>q. effect_free q \<or> submits P t q) (core_broadcast_funding P E x m t)"
proof -
  let ?ok = "\<lambda>q. effect_free q \<or> submits P t q"
  note r = only_sends_rules only_sends_return only_sends_lift only_sends_fail
    core_reads [where ok = ?ok]
  have check: "only_sends ?ok (core_check_exact t expected ob)" for expected ob
    unfolding core_check_exact_def by (intro r)
  show "only_sends ?ok (core_broadcast_exact P E x t)"
    unfolding core_broadcast_exact_def Let_def by (intro r check) (simp_all add: submits_def)
  show "only_sends ?ok (core_broadcast_funding P E x m t)"
    unfolding core_broadcast_funding_def Let_def by (intro r) (simp_all add: submits_def)
qed

text \<open>The same for a chain back end of either kind.\<close>

lemma chain_reads:
  "only_sends effect_free (chain_verify_funding P E c m minc)"
  "only_sends effect_free (chain_tip_height P E c)"
  "only_sends effect_free (chain_confirmed_source_utxos P E c address)"
  "only_sends effect_free (chain_transaction P E c t)"
  "only_sends effect_free (chain_observe_authorized_transaction P E c tx)"
  "only_sends effect_free (chain_outspend P E c op)"
  "only_sends effect_free (chain_observe_funding P E c m)"
  "only_sends effect_free (chain_prepare_funding P E c keys amount rate max_fee)"
  "only_sends effect_free (chain_validate_prepared_funding P E c m tx)"
  "only_sends effect_free (chain_recommended_fee_rate P E c)"
  by (auto simp: chain_verify_funding_def chain_tip_height_def chain_confirmed_source_utxos_def
      chain_transaction_def chain_observe_authorized_transaction_def chain_outspend_def
      chain_observe_funding_def chain_prepare_funding_def chain_validate_prepared_funding_def
      chain_recommended_fee_rate_def split: chain.splits
      intro!: explorer_reads explorer_reads_deposits core_reads only_sends_rules only_sends_return)

lemma chain_broadcasts:
  "only_sends (\<lambda>q. effect_free q \<or> submits P t q) (chain_broadcast_exact P E c t)"
  "only_sends (\<lambda>q. effect_free q \<or> submits P t q) (chain_broadcast_funding P E c m t)"
  by (auto simp: chain_broadcast_exact_def chain_broadcast_funding_def split: chain.splits
      intro: explorer_broadcast_sends core_broadcast_sends)

lemma chain_submits_package:
  "only_sends (\<lambda>q. effect_free q \<or> submits_package p c q) (chain_submit_package P E ch p c)"
proof -
  let ?ok = "\<lambda>q. effect_free q \<or> submits_package p c q"
  note r = only_sends_rules only_sends_return only_sends_lift only_sends_fail
  have post: "only_sends ?ok (explorer_post_package E x path p c)" for x path
    unfolding explorer_post_package_def Let_def by (intro r) (simp add: submits_package_def)
  have "only_sends ?ok (explorer_submit_package P E x p c)" for x
    unfolding explorer_submit_package_def by (intro r post)
  moreover have "only_sends ?ok (core_submit_package E x p c)" for x
    unfolding core_submit_package_def by (intro r) (simp add: submits_package_def)
  ultimately show ?thesis by (auto simp: chain_submit_package_def split: chain.splits)
qed

subsection \<open>What is sent to the enclave\<close>

definition carries :: "request \<Rightarrow> remote_request \<Rightarrow> bool" where
  "carries req q \<longleftrightarrow> (\<exists>url. q = HttpPostRequest url req) \<or> q = SdkCall req"

lemma enclave_reads:
  "only_sends effect_free (enclave_connect P E cfg)"
  "only_sends effect_free (enclave_health P E e)"
  "only_sends effect_free (enclave_status P E e cid)"
  unfolding enclave_connect_def enclave_health_def enclave_status_def call_plain_def Let_def
  by (auto split: enclave_config.splits enclave_connection.splits response.splits
      intro!: only_sends_rules only_sends_return only_sends_fail only_sends_lift)

lemma enclave_sends:
  "only_sends (carries (ReqRegister reg)) (enclave_register P E e reg)"
  "only_sends (carries (ReqSign req)) (enclave_sign P E e req)"
  unfolding enclave_register_def enclave_sign_def call_plain_def Let_def
  by (auto simp: carries_def split: enclave_connection.splits response.splits
      intro!: only_sends_rules only_sends_return only_sends_fail only_sends_lift)

subsection \<open>What a successful operation has checked\<close>

definition chain_network :: "chain \<Rightarrow> network_id" where
  "chain_network c = (case c of OnExplorer x \<Rightarrow> ex_network x | OnCore x \<Rightarrow> co_network x)"

definition coin_output :: "'m bitcoin_lib_scheme \<Rightarrow> coin_metadata \<Rightarrow> txout" where
  "coin_output P m = \<lparr>txout_value = md_amount_sat m, script_pubkey = funding_script P (md_keys m)\<rparr>"

lemma raw_transaction_Some:
  assumes "raw_transaction_optional P E x t tr = (Inr (Some tx), tr')"
  shows "compute_txid P tx = t"
  using assms by (auto simp: raw_transaction_optional_def talk_ok)

lemma explorer_observation_Some:
  assumes "explorer_transaction_observation P E x t tr = (Inr (Some ob), tr')"
  shows "compute_txid P (tob_transaction ob) = t"
  using assms by (auto simp: explorer_transaction_observation_def talk_ok dest: raw_transaction_Some)

lemma explorer_observe_funding_Inr:
  assumes "explorer_observe_funding P E x m tr = (Inr d, tr')"
  shows "md_network m = ex_network x \<and> obs_outpoint (dfo_funding d) = md_outpoint m
    \<and> obs_output (dfo_funding d) = coin_output P m
    \<and> keys_validate (md_keys m) = Inr ()
    \<and> (obs_coinbase (dfo_funding d) \<longrightarrow> 100 \<le> obs_confirmations (dfo_funding d))"
  using assms by (auto simp: explorer_observe_funding_def talk_ok from_client_Inr verify_funding_utxo_Inr
      coin_output_def)

lemma core_observe_funding_Inr:
  assumes "core_observe_funding P E x m tr = (Inr d, tr')"
  shows "md_network m = co_network x \<and> obs_outpoint (dfo_funding d) = md_outpoint m
    \<and> obs_output (dfo_funding d) = coin_output P m
    \<and> keys_validate (md_keys m) = Inr ()
    \<and> (obs_coinbase (dfo_funding d) \<longrightarrow> 100 \<le> obs_confirmations (dfo_funding d))"
  using assms by (auto simp: core_observe_funding_def Let_def talk_ok from_client_Inr verify_funding_utxo_Inr
      coin_output_def)

text \<open>The observed output is the one at the coin's index of the transaction the back end shows
  under the coin's transaction id, with that transaction's coinbase flag and confirmations.\<close>

definition shown_output ::
  "'m web_lib_scheme \<Rightarrow> peers \<Rightarrow> chain \<Rightarrow> outpoint \<Rightarrow> observed_funding \<Rightarrow> bool" where
  "shown_output P E c op obs \<longleftrightarrow>
     (\<exists>tr ob tr'. chain_transaction P E c (op_txid op) tr = (Inr (Some ob), tr')
       \<and> nth_opt (outputs (tob_transaction ob)) (unat (op_vout op)) = Some (obs_output obs)
       \<and> obs_coinbase obs = is_coinbase P (tob_transaction ob)
       \<and> obs_confirmations obs = tob_confirmations ob)"

lemma explorer_funding_shown:
  assumes "explorer_observe_funding P E x m tr = (Inr d, tr')"
  shows "shown_output P E (OnExplorer x) (md_outpoint m) (dfo_funding d)"
  using assms unfolding shown_output_def
  by (fastforce simp: explorer_observe_funding_def chain_transaction_def talk_ok)

lemma core_spent_funding_shown:
  assumes "core_observe_funding P E x m tr = (Inr d, tr')" and "\<not> obs_unspent (dfo_funding d)"
  shows "shown_output P E (OnCore x) (md_outpoint m) (dfo_funding d)"
  using assms unfolding shown_output_def
  by (fastforce simp: core_observe_funding_def Let_def chain_transaction_def talk_ok)

text \<open>C17. A chain back end cannot make the wallet mistake another output for the coin: whatever
  it answers, a funding observation it delivers, of a spent output as well as of an unspent
  one, is of the coin's outpoint on the wallet's network, with exactly the coin's amount and
  script, and has the hundred confirmations of a mature coinbase if it is one. What a spent
  observation says of the output is what the back end's transaction of that id shows. What is
  left for the wallet's check of an observed funding is then only whether the output is unspent
  and deep enough.\<close>

theorem chain_observation_sound:
  assumes "chain_observe_funding P E c m tr = (Inr d, tr')"
  shows "md_network m = chain_network c \<and> obs_outpoint (dfo_funding d) = md_outpoint m
    \<and> obs_output (dfo_funding d) = coin_output P m
    \<and> (obs_coinbase (dfo_funding d) \<longrightarrow> 100 \<le> obs_confirmations (dfo_funding d))
    \<and> (obs_unspent (dfo_funding d) \<or> shown_output P E c (md_outpoint m) (dfo_funding d))
    \<and> (verify_observed_funding P m (dfo_funding d) minc = Inr ()
        \<longleftrightarrow> obs_unspent (dfo_funding d) \<and> minc \<le> obs_confirmations (dfo_funding d))"
proof -
  have *: "md_network m = chain_network c \<and> obs_outpoint (dfo_funding d) = md_outpoint m
    \<and> obs_output (dfo_funding d) = coin_output P m
    \<and> keys_validate (md_keys m) = Inr ()
    \<and> (obs_coinbase (dfo_funding d) \<longrightarrow> 100 \<le> obs_confirmations (dfo_funding d))"
    using assms
    by (cases c) (simp_all add: chain_observe_funding_def chain_network_def
        explorer_observe_funding_Inr core_observe_funding_Inr)
  have "obs_unspent (dfo_funding d) \<or> shown_output P E c (md_outpoint m) (dfo_funding d)"
    using assms
    by (cases c) (auto simp: chain_observe_funding_def dest: explorer_funding_shown core_spent_funding_shown)
  with * show ?thesis
    by (auto simp: verify_observed_funding_def verify_observed_funding_output_def
        verify_funding_utxo_Inr coin_output_def ok not_less)
qed

text \<open>A transaction that was broadcast is on view, byte for byte.\<close>

definition on_view :: "'m web_lib_scheme \<Rightarrow> peers \<Rightarrow> chain \<Rightarrow> transaction \<Rightarrow> bool" where
  "on_view P E c t \<longleftrightarrow> (\<exists>tr ob tr'. chain_transaction P E c (compute_txid P t) tr = (Inr (Some ob), tr')
     \<and> tob_transaction ob = t)"

lemma explorer_exact_True:
  assumes "explorer_exact_transaction_is_observed P E x t tr = (Inr True, tr')"
  shows "on_view P E (OnExplorer x) t"
  using assms unfolding on_view_def
  by (fastforce simp: explorer_exact_transaction_is_observed_def chain_transaction_def talk_ok)

lemma explorer_broadcast_Inr:
  assumes "explorer_broadcast_exact P E x t tr = (Inr r, tr')"
  shows "r = compute_txid P t \<and> on_view P E (OnExplorer x) t"
  using assms
  by (auto simp: explorer_broadcast_exact_def Let_def talk_ok dest: explorer_exact_True)

lemma core_check_exact_Inr:
  assumes "core_check_exact t expected ob tr = (Inr r, tr')"
  shows "r = expected \<and> tob_transaction ob = t"
  using assms by (auto simp: core_check_exact_def talk_ok)

lemma core_broadcast_Inr:
  assumes "core_broadcast_exact P E x t tr = (Inr r, tr')"
  shows "r = compute_txid P t \<and> on_view P E (OnCore x) t"
  using assms unfolding on_view_def
  by (auto simp: core_broadcast_exact_def Let_def talk_ok chain_transaction_def
      dest!: core_check_exact_Inr)

text \<open>C18. Broadcasting hands in exactly the given transaction and never another: whatever the
  back end answers, every request is a question or carries the transaction's bytes; and when it
  reports success, the back end has shown a transaction equal to the given one, witnesses
  included, under its id.\<close>

theorem chain_broadcast_exactly:
  assumes "chain_broadcast_exact P E c t tr = (r, tr')"
  shows "(\<exists>qs. tr' = tr @ qs \<and> (\<forall>q \<in> set qs. effect_free q \<or> submits P t q))
    \<and> (case r of Inl e \<Rightarrow> True | Inr txid \<Rightarrow> txid = compute_txid P t \<and> on_view P E c t)"
proof
  show "\<exists>qs. tr' = tr @ qs \<and> (\<forall>q \<in> set qs. effect_free q \<or> submits P t q)"
    by (rule only_sendsD [OF chain_broadcasts(1) assms])
  show "case r of Inl e \<Rightarrow> True | Inr txid \<Rightarrow> txid = compute_txid P t \<and> on_view P E c t"
    using assms
    by (cases c) (auto simp: chain_broadcast_exact_def explorer_broadcast_Inr core_broadcast_Inr
        split: sum.splits)
qed

subsection \<open>Deposits\<close>

definition deposit_of :: "'m web_lib_scheme \<Rightarrow> address \<Rightarrow> source_utxo \<Rightarrow> bool" where
  "deposit_of P address s \<longleftrightarrow>
     0 < su_confirmations s \<and> script_pubkey (su_output s) = address_script P address
     \<and> (\<exists>t. compute_txid P t = op_txid (su_outpoint s)
          \<and> nth_opt (outputs t) (unat (op_vout (su_outpoint s))) = Some (su_output s)
          \<and> su_coinbase s = is_coinbase P t)"

lemma check_source_utxo_Inr:
  assumes "check_source_utxo P E x address u tr = (Inr s, tr')"
  shows "su_outpoint s = utxo_outpoint u \<and> deposit_of P address s"
  using assms
  by (auto simp: check_source_utxo_def talk_ok deposit_of_def utxo_outpoint_def
      dest!: explorer_observation_Some)

lemma check_source_utxos_Inr:
  assumes "check_source_utxos P E x address us tr = (Inr ss, tr')"
  shows "map su_outpoint ss = map utxo_outpoint us \<and> (\<forall>s \<in> set ss. deposit_of P address s)"
  using assms
  by (induction us arbitrary: ss tr tr') (fastforce simp: talk_ok dest: check_source_utxo_Inr)+

lemma distinct_candidates:
  assumes "distinct (map (\<lambda>u. (xu_txid u, xu_vout u)) us)"
  shows "distinct (map utxo_outpoint (source_candidates us))"
proof -
  have "distinct (map utxo_outpoint us)"
    using assms by (induction us) (auto simp: utxo_outpoint_def)
  then have "distinct (map utxo_outpoint (sort_key (\<lambda>u. CandidateKey (xu_value u) (utxo_outpoint u)) us))"
    by (simp add: distinct_map)
  then show ?thesis
    by (simp add: source_candidates_def take_map [symmetric])
qed

text \<open>C20. The deposits that the explorer lists are checked one by one: the wallet gets at most
  256 of them, in increasing order without duplicates, each confirmed, paying the deposit
  address, and an output of a transaction whose id is that of the outpoint.\<close>

theorem listed_deposits_checked:
  assumes "chain_confirmed_source_utxos P E c address tr = (Inr ss, tr')"
  shows "sorted_wrt (<) (map su_outpoint ss) \<and> length ss \<le> 256 \<and> (\<forall>s \<in> set ss. deposit_of P address s)"
proof -
  from assms obtain x us found where
    run: "distinct (map (\<lambda>u. (xu_txid u, xu_vout u)) us)"
      "map su_outpoint found = map utxo_outpoint (source_candidates us)"
      "\<forall>s \<in> set found. deposit_of P address s" "ss = sort_key su_outpoint found"
    by (cases c) (auto simp: chain_confirmed_source_utxos_def explorer_confirmed_source_utxos_def
        Let_def talk_ok dest!: check_source_utxos_Inr)
  from distinct_candidates [OF run(1)] have "distinct (map su_outpoint found)"
    by (simp only: run(2))
  then have "distinct (map su_outpoint ss)" by (simp add: run(4) distinct_map)
  then have "sorted_wrt (<) (map su_outpoint ss)"
    by (simp add: run(4) strict_sorted_iff)
  moreover have "length ss = length (source_candidates us)"
    using arg_cong [OF run(2), of length] by (simp add: run(4))
  then have "length ss \<le> 256" by (simp add: source_candidates_def MAX_SOURCE_UTXO_CANDIDATES_def)
  ultimately show ?thesis using run(3,4) by simp
qed

subsection \<open>Funding from the node's wallet\<close>

lemma matching_outputs_filter:
  "map snd (matching_outputs sc t) = filter (\<lambda>out. script_pubkey out = sc) (outputs t)"
proof -
  have "map snd (filter (\<lambda>(i, out). script_pubkey out = sc) (enumerate n outs))
      = filter (\<lambda>out. script_pubkey out = sc) outs" for n outs
    by (induction outs arbitrary: n) auto
  then show ?thesis by (simp add: matching_outputs_def)
qed

lemma matching_outputs_nth:
  assumes "(i, out) \<in> set (matching_outputs sc t)"
  shows "nth_opt (outputs t) i = Some out \<and> script_pubkey out = sc"
  using assms by (auto simp: matching_outputs_def nth_opt_def in_set_enumerate_eq)

lemma core_prepare_funding_Inr:
  assumes "core_prepare_funding P E x keys amount rate max_fee tr = (Inr p, tr')"
  obtains i out where "matching_outputs (funding_script P keys) (pf_transaction p) = [(i, out)]"
    "txout_value out = amount" "i < 2 ^ 32" "validate_funding_inputs P (pf_transaction p) = Inr ()"
    "pf_outpoint p = OutPoint (compute_txid P (pf_transaction p)) (of_nat i)"
    "pf_fee_sat p \<le> max_fee"
proof -
  from assms obtain fee t h where
    *: "fee \<le> max_fee" "validate_funding_inputs P t = Inr ()"
    "length (matching_outputs (funding_script P keys) t) = 1"
    "h = hd (matching_outputs (funding_script P keys) t)" "txout_value (snd h) = amount" "fst h < 2 ^ 32"
    "p = \<lparr>pf_transaction = t, pf_outpoint = OutPoint (compute_txid P t) (of_nat (fst h)), pf_fee_sat = fee\<rparr>"
    by (auto simp: core_prepare_funding_def Let_def talk_ok case_prod_unfold split: if_splits)
  from *(3) obtain y where "matching_outputs (funding_script P keys) t = [y]"
    by (cases "matching_outputs (funding_script P keys) t") auto
  with *(4) have "matching_outputs (funding_script P keys) t = [(fst h, snd h)]" by simp
  with *(1,2,5-7) show thesis by (intro that [of "fst h" "snd h"]) simp_all
qed

text \<open>C19. The funding that a node's wallet prepares is the coin's: whatever the node answers, the
  transaction passes the wallet's final check for the outpoint and amount it reports, its fee
  is within the maximum, and nothing has been submitted yet.\<close>

theorem prepared_funding_validates:
  assumes "chain_prepare_funding P E c keys amount rate max_fee tr = (Inr p, tr')"
    and "keys_validate keys = Inr ()"
  shows "validate_finalized_funding P (keys_metadata keys net (pf_outpoint p) amount)
      (pf_transaction p) = Inr ()
    \<and> pf_fee_sat p \<le> max_fee \<and> (\<exists>qs. tr' = tr @ qs \<and> (\<forall>q \<in> set qs. effect_free q))"
proof -
  from assms(1) obtain x where "core_prepare_funding P E x keys amount rate max_fee tr = (Inr p, tr')"
    by (cases c) (auto simp: chain_prepare_funding_def talk_ok)
  then obtain i out where *: "matching_outputs (funding_script P keys) (pf_transaction p) = [(i, out)]"
    "txout_value out = amount" "i < 2 ^ 32" "validate_funding_inputs P (pf_transaction p) = Inr ()"
    "pf_outpoint p = OutPoint (compute_txid P (pf_transaction p)) (of_nat i)" "pf_fee_sat p \<le> max_fee"
    by (rule core_prepare_funding_Inr)
  from matching_outputs_nth [of i out "funding_script P keys" "pf_transaction p"] *(1)
  have nth: "nth_opt (outputs (pf_transaction p)) i = Some out" "script_pubkey out = funding_script P keys"
    by simp_all
  have "filter (\<lambda>out. script_pubkey out = funding_script P keys) (outputs (pf_transaction p)) = [out]"
    using matching_outputs_filter [of "funding_script P keys" "pf_transaction p"] *(1) by simp
  moreover have "unat (of_nat i :: u32) = i" using *(3) by (simp add: unat_of_nat take_bit_nat_eq_self)
  moreover have "out = \<lparr>txout_value = amount, script_pubkey = funding_script P keys\<rparr>"
    using nth(2) *(2) by simp
  ultimately have "validate_finalized_funding P (keys_metadata keys net (pf_outpoint p) amount)
      (pf_transaction p) = Inr ()"
    using * nth assms(2)
    by (simp add: validate_finalized_funding_def keys_metadata_def verify_funding_utxo_def
        metadata_validate_def Let_def)
  with *(6) only_sendsD [OF chain_reads(8) assms(1)] show ?thesis by simp
qed

end
