(* ===== verification/Store_Spec.thy ===== *)
theory Store_Spec
  imports Store
begin

text \<open>
  What the store guarantees: a saved state survives every crash, a wallet is open in one process
  at a time, what was initialized opens again, and an initialized wallet is never initialized
  over.
\<close>

subsection \<open>Crashes\<close>

text \<open>After a power failure every file is what processes saw or what the disk had; content that
  was not synced may be anything. A process that dies leaves what processes see.\<close>

definition after_crash :: "world \<Rightarrow> world \<Rightarrow> bool" where
  "after_crash w w' \<longleftrightarrow>
     (\<forall>f. live w' f = None \<and> None \<in> {live w f, disk w f}
       \<or> (\<exists>n c. Some n \<in> {live w f, disk w f} \<and> live w' f = Some (n\<lparr>nd_content := c\<rparr>)
            \<and> (nd_synced n \<longrightarrow> c = nd_content n)))"

definition resumes :: "world \<Rightarrow> world \<Rightarrow> bool" where
  "resumes w w' \<longleftrightarrow> live w' = live w \<or> after_crash w w'"

lemma resumes_synced:
  assumes "resumes w w'" and "live w f \<in> S" and "disk w f \<in> S"
    and synced: "\<And>x. x \<in> S \<Longrightarrow> \<exists>n. x = Some n \<and> nd_synced n"
  shows "live w' f \<in> S"
proof (cases "live w' = live w")
  case False
  with assms(1) have "after_crash w w'" by (simp add: resumes_def)
  then consider "live w' f = None" "None \<in> {live w f, disk w f}"
    | n c where "Some n \<in> {live w f, disk w f}" "live w' f = Some (n\<lparr>nd_content := c\<rparr>)"
      "nd_synced n \<longrightarrow> c = nd_content n"
    using spec [where x = f, OF \<open>after_crash w w'\<close> [unfolded after_crash_def]] by (elim disjE exE conjE)
  then show ?thesis
  proof cases
    case 1
    with assms(2,3) synced [of None] show ?thesis by auto
  next
    case (2 n c)
    with assms(2,3) have "Some n \<in> S" by auto
    with synced [of "Some n"] 2 show ?thesis by simp
  qed
qed (use assms(2) in simp)

text \<open>What a later process reads.\<close>

definition loads :: "'m store_lib_scheme \<Rightarrow> wallet_store \<Rightarrow> world \<Rightarrow> native_state outcome" where
  "loads P st w = fst (load_native P st (w\<lparr>faults := [Works]\<rparr>))"

definition decode_native :: "'m store_lib_scheme \<Rightarrow> wallet_store \<Rightarrow> bytes \<Rightarrow> anyhow + native_state" where
  "decode_native P st content =
     and_then (read_state_limited content) (\<lambda>bs.
     and_then (open_encrypted_json P (deserialize native_keys (native_from_slice P)) bs
       (st_password st) (st_aad st)) (\<lambda>n.
     and_then (native_validate P n (cfg_network (st_config st))) (\<lambda>_. Inr n)))"

definition outcome_of :: "anyhow + 'a \<Rightarrow> 'a outcome" where
  "outcome_of r = (case r of Inl e \<Rightarrow> Failed e | Inr x \<Rightarrow> Done x)"

lemma io_lift_simps [simp]: "io_lift (Inl e) w = (Failed e, w)" "io_lift (Inr x) w = (Done x, w)"
  by (simp_all add: io_lift_def io_fail_def io_return_def)

lemma loads_decodes:
  "loads P st w = (case live w (entry_of (st_directory st) STATE_FILE) of
     None \<Rightarrow> Failed io_error | Some n \<Rightarrow> outcome_of (decode_native P st (nd_content n)))"
proof (cases "live w (entry_of (st_directory st) STATE_FILE)")
  case None
  then show ?thesis by (simp add: loads_def load_native_def io_bind_def fs_read_def syscall_def)
next
  case (Some n)
  then show ?thesis
    by (cases "read_state_limited (nd_content n)"; (cases "open_encrypted_json P (deserialize native_keys (native_from_slice P))
          (projr (read_state_limited (nd_content n))) (st_password st) (st_aad st)")?;
        (cases "native_validate P (projr (open_encrypted_json P (deserialize native_keys (native_from_slice P))
          (projr (read_state_limited (nd_content n))) (st_password st) (st_aad st)))
          (cfg_network (st_config st))")?)
      (simp_all add: loads_def load_native_def io_bind_def fs_read_def syscall_def decode_native_def
        outcome_of_def io_return_def)
qed

lemma read_state_limited_fits:
  "length bs \<le> MAX_STATE_FILE_SIZE \<Longrightarrow> read_state_limited bs = Inr bs"
  by (simp add: read_state_limited_def read_limited_with_limit_def)

text \<open>The laws the store relies on. The one on the JSON form of native states is about the parser
  with \<open>CoinKeysWire\<close>; that the keys of a state convert is a condition of its own.\<close>

definition store_correct :: "'m store_lib_scheme \<Rightarrow> bool" where
  "store_correct P \<longleftrightarrow> hex_correct P \<and> aead_correct P \<and> document_json_correct P
     \<and> json_correct (native_to_vec P) (native_from_slice P)"

lemma decode_sealed:
  assumes "store_correct P"
    and "seal_encrypted_json P (native_to_vec P) salt nonce n (st_password st) (st_aad st) = Inr bs"
    and "length bs \<le> MAX_STATE_FILE_SIZE"
    and "native_validate P n (cfg_network (st_config st)) = Inr ()" and "keys_valid (native_keys n)"
  shows "decode_native P st bs = Inr n"
  using open_sealed [OF _ _ _ _ assms(2)] assms(1,3-5)
  by (simp add: store_correct_def decode_native_def read_state_limited_fits)

text \<open>Replacing the state file by the sealed form of a state, from a world where it was read.\<close>

lemma replaced_state_reads:
  assumes "store_correct P" and "target = entry_of (st_directory st) STATE_FILE"
    and "live w target = Some n0" and "nd_synced n0" and "disk w target = Some n0"
    and "loads P st w = Done old"
    and "decode_native P st bs = Inr new"
    and "live w' target \<in> {live w target, Some (written_node bs)}"
    and "disk w' target \<in> {disk w target, Some (written_node bs)}"
    and "resumes w' w''"
  shows "loads P st w'' \<in> {Done old, Done new}"
    and "live w' target = Some (written_node bs) \<Longrightarrow> disk w' target = Some (written_node bs)
      \<Longrightarrow> loads P st w'' = Done new"
proof -
  have old: "outcome_of (decode_native P st (nd_content n0)) = Done old"
    using assms(2,3,6) by (simp add: loads_decodes)
  have new: "outcome_of (decode_native P st (nd_content (written_node bs))) = Done new"
    using assms(7) by (simp add: written_node_def outcome_of_def)
  have synced: "nd_synced (written_node bs)" by (simp add: written_node_def)
  have "live w'' target \<in> {Some n0, Some (written_node bs)}"
    by (rule resumes_synced [OF assms(10)]) (use assms(3-5,8,9) synced in auto)
  with old new assms(2) show "loads P st w'' \<in> {Done old, Done new}"
    by (auto simp: loads_decodes)
  assume w': "live w' target = Some (written_node bs)" "disk w' target = Some (written_node bs)"
  have "live w'' target \<in> {Some (written_node bs)}"
    by (rule resumes_synced [OF assms(10)]) (use w' synced in auto)
  with new assms(2) show "loads P st w'' = Done new" by (auto simp: loads_decodes)
qed

subsection \<open>Saving\<close>

lemma write_sealed_cases:
  assumes "io_bind (io_lift seal) (\<lambda>bs. write_state_bytes_atomic P t p bs) w = (out, w')"
  obtains (unchanged) e where "w' = w" "out = Failed e"
    | (written) bs where "seal = Inr bs" "length bs \<le> MAX_STATE_FILE_SIZE"
        "write_bytes_atomic_inner P t p bs w = (out, w')"
proof (cases seal)
  case (Inl e)
  with assms show ?thesis by (intro unchanged [of e]) (simp_all add: io_bind_def)
next
  case (Inr bs)
  with assms show ?thesis
    by (cases "length bs \<le> MAX_STATE_FILE_SIZE")
      (auto simp: io_bind_def write_state_bytes_atomic_def ensure_state_size_def
        intro: unchanged written)
qed

lemma state_write_is_atomic:
  assumes "store_correct P" and "target = entry_of (st_directory st) STATE_FILE"
    and "live w target = Some n0" and "nd_synced n0" and "disk w target = Some n0"
    and "loads P st w = Done old"
    and "native_validate P new (cfg_network (st_config st)) = Inr ()"
    and "write_native P rnd st new w = (out, w')" and "resumes w' w''"
    and "keys_valid (native_keys new)"
  shows "loads P st w'' \<in> {Done old, Done new} \<and> (out = Done () \<longrightarrow> loads P st w'' = Done new)"
  using assms(8) unfolding write_native_def
proof (cases rule: write_sealed_cases)
  case (unchanged e)
  have "live w'' target \<in> {Some n0}"
    by (rule resumes_synced [OF assms(9)]) (use assms(3-5) unchanged in auto)
  with assms(2,3,6) unchanged show ?thesis by (simp add: loads_decodes)
next
  case (written bs)
  let ?p = "join (st_directory st) STATE_FILE"
  have p: "path_name ?p = Some STATE_FILE" "target = (target_dir ?p, STATE_FILE)"
    by (simp_all add: join_def assms(2) entry_of_def)
  have tmp: "(fst target, temporary_name P (wd_temporary rnd) STATE_FILE)
      = (target_dir ?p, temporary_name P (wd_temporary rnd) STATE_FILE)"
    by (simp add: p(2))
  note atomic = replacement_atomic [OF p tmp written(3)]
  have dec: "decode_native P st bs = Inr new"
    by (rule decode_sealed [OF assms(1) written(1,2) assms(7,10)])
  note reads = replaced_state_reads [OF assms(1,2,3-6) dec _ _ assms(9)]
  from atomic have "live w' target \<in> {live w target, Some (written_node bs)}"
    "disk w' target \<in> {disk w target, Some (written_node bs)}" by simp_all
  from reads [OF this] atomic show ?thesis by simp
qed

text \<open>C16. Saving is crash-safe: whatever fails while a new native state is saved, and wherever the
  machine stops, the next process that opens the wallet with the same password reads either the
  old state or the new one, never anything else; once the call has returned it reads the new
  one, also after a power failure. The coin keys of the new state are valid ones, as they are in
  every state the wallet reads and in every state an operation makes of one (\<open>keys_kept\<close> in \<open>Evolution\<close>);
  a state with other keys would not be read back.\<close>

theorem saving_is_crash_safe:
  assumes "store_correct P" and "target = entry_of (st_directory st) STATE_FILE"
    and "live w target = Some n0" and "nd_synced n0" and "disk w target = Some n0"
    and "loads P st w = Done old"
    and "save_native P rnd st new w = (out, w')" and "resumes w' w''"
    and "keys_valid (native_keys new)"
  shows "loads P st w'' \<in> {Done old, Done new} \<and> (out = Done () \<longrightarrow> loads P st w'' = Done new)"
proof (cases "native_validate P new (cfg_network (st_config st))")
  case (Inl e)
  with assms(7) have "w' = w" "out = Failed e" by (simp_all add: save_native_def io_bind_def)
  moreover have "live w'' target \<in> {Some n0}"
    by (rule resumes_synced [OF assms(8)]) (use assms(3-5) \<open>w' = w\<close> in auto)
  ultimately show ?thesis using assms(2,3,6) by (simp add: loads_decodes)
next
  case (Inr u)
  with assms(7) have "write_native P rnd st new w = (out, w')"
    by (simp add: save_native_def io_bind_def)
  with Inr show ?thesis by (intro state_write_is_atomic [OF assms(1,2,3-6) _ _ assms(8,9)]) simp_all
qed

lemma load_native_reads:
  assumes "load_native P st w = (Done n, w1)"
  shows "loads P st w = Done n" and "\<exists>fs. w1 = w\<lparr>faults := fs\<rparr>"
proof -
  let ?f = "entry_of (st_directory st) STATE_FILE"
  from assms obtain n0 fs where f: "live w ?f = Some n0" "faults w = Works # fs"
    by (auto simp: load_native_def io_bind_def fs_read_def syscall_def
        split: list.splits fault.splits option.splits)
  then have "load_native P st (w\<lparr>faults := [Works]\<rparr>)
      = (fst (load_native P st w), w\<lparr>faults := []\<rparr>)" "snd (load_native P st w) = w\<lparr>faults := fs\<rparr>"
    by (auto simp: load_native_def io_bind_def fs_read_def syscall_def io_lift_def io_fail_def
        io_return_def split: sum.splits)
  with assms show "loads P st w = Done n" "\<exists>fs. w1 = w\<lparr>faults := fs\<rparr>"
    by (auto simp: loads_def)
qed

text \<open>\<open>save\<close> fails before it writes, or writes the combined state.\<close>

lemma save_runs:
  assumes "save P rnd st s w = (out, w')"
  obtains (unchanged) "live w' = live w" "disk w' = disk w" "out \<noteq> Done ()"
  | (written) n fs where "load_native P st w = (Done n, w\<lparr>faults := fs\<rparr>)"
      "write_native P rnd st (n\<lparr>nw_wallet := s\<rparr>) (w\<lparr>faults := fs\<rparr>) = (out, w')"
proof (cases "validate_version s")
  case (Inl e)
  with assms have "w' = w" "out = Failed e" by (simp_all add: save_def io_bind_def)
  then show thesis by (intro unchanged) simp_all
next
  case (Inr u)
  obtain r w1 where load: "load_native P st w = (r, w1)" by (cases "load_native P st w")
  have same: "live w1 = live w \<and> disk w1 = disk w"
    using load by (auto simp: load_native_def io_bind_def fs_read_def syscall_def io_lift_def
        io_fail_def io_return_def split: list.splits fault.splits option.splits sum.splits)
  show thesis
  proof (cases r)
    case (Done n)
    with load load_native_reads(2) [of P st w n w1] obtain fs where w1: "w1 = w\<lparr>faults := fs\<rparr>" by auto
    have same_native: "\<lparr>nw_format_version = nw_format_version n, nw_funding_secret = nw_funding_secret n,
        nw_wallet = s, nw_exit = nw_exit n, nw_source_sweep = nw_source_sweep n\<rparr> = n\<lparr>nw_wallet := s\<rparr>"
      by simp
    from assms Inr load Done w1 show thesis
      by (intro written [of n fs])
        (simp_all only: save_def io_bind_def io_lift_simps prod.case outcome.case same_native write_native_def)
  next
    case Crashed
    with assms Inr load have "w' = w1" "out = Crashed" by (simp_all add: save_def io_bind_def)
    with same show thesis by (intro unchanged) simp_all
  next
    case (Failed e)
    with assms Inr load have "w' = w1" "out = Failed e" by (simp_all add: save_def io_bind_def)
    with same show thesis by (intro unchanged) simp_all
  qed
qed

lemma save_cases:
  assumes "save P rnd st s w = (out, w')" and "loads P st w = Done old"
  obtains "live w' = live w" "disk w' = disk w" "out \<noteq> Done ()"
  | fs where "write_native P rnd st (old\<lparr>nw_wallet := s\<rparr>) (w\<lparr>faults := fs\<rparr>) = (out, w')"
  using assms(1)
proof (cases rule: save_runs)
  case (written n fs)
  from load_native_reads(1) [OF written(1)] assms(2) have "n = old" by simp
  with written(2) that(2) show thesis by blast
qed (rule that(1))

text \<open>Saving the wallet alone keeps the rest: \<open>save\<close> replaces the wallet state and keeps the
  deposit key and both journals, atomically in the same sense, provided the combination is one
  that validates when it is read (\<open>save\<close> itself does not check this).\<close>

theorem saving_the_wallet_keeps_journals:
  assumes "store_correct P" and "target = entry_of (st_directory st) STATE_FILE"
    and "live w target = Some n0" and "nd_synced n0" and "disk w target = Some n0"
    and "loads P st w = Done old"
    and "native_validate P (old\<lparr>nw_wallet := s\<rparr>) (cfg_network (st_config st)) = Inr ()"
    and "save P rnd st s w = (out, w')" and "resumes w' w''" and "keys_valid (wallet_keys s)"
  shows "loads P st w'' \<in> {Done old, Done (old\<lparr>nw_wallet := s\<rparr>)}
    \<and> (out = Done () \<longrightarrow> loads P st w'' = Done (old\<lparr>nw_wallet := s\<rparr>))"
  using assms(8,6)
proof (rule save_cases)
  assume *: "live w' = live w" "disk w' = disk w" "out \<noteq> Done ()"
  have "live w'' target \<in> {Some n0}"
    by (rule resumes_synced [OF assms(9)]) (use assms(3-5) * in auto)
  with assms(2,3,6) * show ?thesis by (simp add: loads_decodes)
next
  fix fs
  let ?w = "w\<lparr>faults := fs\<rparr>"
  assume "write_native P rnd st (old\<lparr>nw_wallet := s\<rparr>) ?w = (out, w')"
  moreover have "loads P st ?w = Done old" using assms(6) by (simp add: loads_decodes)
  ultimately show ?thesis
    by (intro state_write_is_atomic [OF assms(1,2) _ assms(4) _ _ assms(7) _ assms(9),
          where w = ?w and rnd = rnd]) (simp_all add: assms(3,5,10) native_keys_def)
qed

subsection \<open>The lock excludes\<close>

text \<open>A computation that leaves the locks alone.\<close>

definition keeps_locks :: "'a io \<Rightarrow> bool" where
  "keeps_locks m \<longleftrightarrow> (\<forall>w. locks (snd (m w)) = locks w)"

lemma keeps_locksD: "keeps_locks m \<Longrightarrow> m w = (out, w') \<Longrightarrow> locks w' = locks w"
  unfolding keeps_locks_def by (metis snd_conv)

lemma keeps_locks_bind: "keeps_locks m \<Longrightarrow> (\<And>x. keeps_locks (f x)) \<Longrightarrow> keeps_locks (io_bind m f)"
  by (auto simp: keeps_locks_def io_bind_def split: prod.splits outcome.splits) (metis snd_conv)+

lemma keeps_locks_basic:
  "keeps_locks (io_return x)" "keeps_locks (io_fail e)" "keeps_locks (io_lift r)"
  "keeps_locks (fs_read e f)" "keeps_locks (fs_exists loc)" "keeps_locks (fs_create_dir e d)"
  "keeps_locks (fs_symlink_metadata e loc)" "keeps_locks (fs_open_lock_file d)"
  by (auto simp: keeps_locks_def io_return_def io_fail_def io_lift_def fs_read_def syscall_def
      fs_exists_def fs_create_dir_def fs_symlink_metadata_def fs_open_lock_file_def
      split: sum.splits list.splits fault.splits option.splits)

lemma keeps_locks_ensure: "keeps_locks k \<Longrightarrow> keeps_locks (io_ensure c e k)"
  by (simp add: io_ensure_def keeps_locks_basic)

lemma keeps_locks_paths:
  "keeps_locks (ensure_private_path loc directory)" "keeps_locks (ensure_secure_directory d)"
  "keeps_locks (load_config P d)" "keeps_locks (load_native P st)"
  unfolding ensure_private_path_def ensure_secure_directory_def load_config_def read_json_path_def
    load_native_def
  by (auto intro!: keeps_locks_bind keeps_locks_ensure keeps_locks_basic split: if_splits)

lemma open_lock_cases:
  "open_lock d w = (out, w') \<Longrightarrow>
    (out = Done () \<and> d \<notin> locks w \<and> locks w' = insert d (locks w))
    \<or> (out \<noteq> Done () \<and> locks w' = locks w)"
  by (auto simp: open_lock_def io_bind_def fs_open_lock_file_def fs_try_lock_def syscall_def
      split: list.splits fault.splits if_splits prod.splits)

text \<open>C40. One process at a time: opening a wallet takes the lock of its directory and only succeeds
  when nobody holds it; while the store is open every further opening fails; an opening that
  returns an error holds no lock.\<close>

theorem open_store_excludes:
  assumes "open_store P d password w = (out, w')"
  shows "case out of
      Done st \<Rightarrow> d \<notin> locks w \<and> locks w' = insert d (locks w) \<and> st_directory st = d
        \<and> (\<forall>password' w2 st'. d \<in> locks w2 \<longrightarrow> fst (open_store P d password' w2) \<noteq> Done st')
    | Failed e \<Rightarrow> locks w' = locks w
    | Crashed \<Rightarrow> locks w' \<subseteq> insert d (locks w)"
proof -
  let ?m1 = "ensure_private_path (Dir d) True"
  let ?m2 = "ensure_private_path (File (entry_of d STATE_FILE)) False"
  let ?rest = "io_bind (ensure_private_path (File (entry_of d CONFIG_FILE)) False) (\<lambda>_.
     io_bind (load_config P d) (\<lambda>cfg. io_bind (io_lift (state_aad P cfg)) (\<lambda>aad.
     io_return \<lparr>st_directory = d, st_password = password, st_config = cfg, st_aad = aad\<rparr>)))"
  have body: "keeps_locks ?rest"
    by (intro keeps_locks_bind keeps_locks_paths keeps_locks_basic)
  have directory: "st_directory st = d" if "?rest v = (Done st, v')" for v v' st
    using that by (auto simp: io_bind_def io_return_def split: prod.splits outcome.splits)
  have refused: "fst (open_store P d password' w2) \<noteq> Done st'" if "d \<in> locks w2"
    for password' w2 st'
    using that keeps_locks_paths(1) [of "Dir d" True]
      keeps_locks_paths(1) [of "File (entry_of d STATE_FILE)" False]
    by (auto simp: open_store_def io_bind_def keeps_locks_def dest!: open_lock_cases
        split: prod.splits outcome.splits) (metis snd_conv)+
  obtain o1 w1 where 1: "?m1 w = (o1, w1)" by (cases "?m1 w")
  obtain o2 w2 where 2: "?m2 w1 = (o2, w2)" by (cases "?m2 w1")
  obtain o3 w3 where 3: "open_lock d w2 = (o3, w3)" by (cases "open_lock d w2")
  obtain o4 w4 where 4: "?rest w3 = (o4, w4)" by (cases "?rest w3")
  have locks: "locks w1 = locks w" "locks w2 = locks w1" "locks w4 = locks w3"
    by (rule keeps_locksD [OF keeps_locks_paths(1) 1], rule keeps_locksD [OF keeps_locks_paths(1) 2],
        rule keeps_locksD [OF body 4])
  have opened: "open_store P d password w = (case o1 of Done _ \<Rightarrow> (case o2 of Done _ \<Rightarrow>
      (case o3 of Done _ \<Rightarrow> drop_on_error d ?rest w3 | Failed e \<Rightarrow> (Failed e, w3) | Crashed \<Rightarrow> (Crashed, w3))
      | Failed e \<Rightarrow> (Failed e, w2) | Crashed \<Rightarrow> (Crashed, w2))
      | Failed e \<Rightarrow> (Failed e, w1) | Crashed \<Rightarrow> (Crashed, w1))"
    using 1 2 3 by (simp add: open_store_def io_bind_def split: outcome.splits)
  show ?thesis
  proof (cases "\<exists>x y z. o1 = Done x \<and> o2 = Done y \<and> o3 = Done z")
    case True
    with open_lock_cases [OF 3] have "d \<notin> locks w2" "locks w3 = insert d (locks w2)" by auto
    with assms opened True 4 locks directory [of w3] refused show ?thesis
      by (cases o4) (auto simp: drop_on_error_def unlock_def)
  next
    case False
    with assms opened locks open_lock_cases [OF 3] show ?thesis
      by (auto split: outcome.splits)
  qed
qed

subsection \<open>Initializing\<close>

lemma io_bind_Done:
  "io_bind m f w = (Done y, w') \<longleftrightarrow> (\<exists>x w1. m w = (Done x, w1) \<and> f x w1 = (Done y, w'))"
  by (auto simp: io_bind_def split: prod.splits outcome.splits)

lemma io_lift_Done: "io_lift r w = (Done x, w') \<longleftrightarrow> r = Inr x \<and> w' = w"
  by (auto simp: io_lift_def io_fail_def io_return_def split: sum.splits)

lemma io_return_Done: "io_return x w = (Done y, w') \<longleftrightarrow> y = x \<and> w' = w"
  by (auto simp: io_return_def)

lemma io_ensure_Done: "io_ensure c e k w = (Done y, w') \<longleftrightarrow> c \<and> k w = (Done y, w')"
  by (simp add: io_ensure_def io_fail_def)

lemma drop_after_Done: "drop_after d m w = (Done y, w') \<longleftrightarrow> (\<exists>w1. m w = (Done y, w1) \<and> w' = unlock d w1)"
  by (auto simp: drop_after_def split: prod.splits outcome.splits)

lemmas io_done = io_bind_Done io_lift_Done io_return_Done io_ensure_Done drop_after_Done

text \<open>A private path, and that looking at it changes nothing but the faults.\<close>

definition private_node :: "node option \<Rightarrow> node_kind \<Rightarrow> bool" where
  "private_node v k \<longleftrightarrow> (\<exists>n. v = Some n \<and> nd_kind n = k \<and> and (nd_mode n) 0x3F = 0)"

lemma ensure_private_path_Done:
  "ensure_private_path loc directory w = (Done (), w') \<longleftrightarrow>
    private_node (node_at w loc) (if directory then DirectoryNode else RegularFile)
    \<and> (\<exists>fs. faults w = Works # fs \<and> w' = w\<lparr>faults := fs\<rparr>)"
  by (auto simp: ensure_private_path_def io_done fs_symlink_metadata_def syscall_def private_node_def
      node_at_def split: list.splits fault.splits option.splits location.splits if_splits)

lemma syscall_Done:
  "syscall part e act w = (Done x, w') \<longleftrightarrow>
    (\<exists>fs. faults w = Works # fs \<and> act (w\<lparr>faults := fs\<rparr>) = (Done x, w'))"
  by (auto simp: syscall_def split: list.splits fault.splits)

lemma ensure_secure_directory_Done:
  assumes "ensure_secure_directory d w = (Done (), w')"
  shows "private_node (dirs w' d) DirectoryNode" and "live w' = live w" and "locks w' = locks w"
  using assms
  by (auto simp: ensure_secure_directory_def io_done ensure_private_path_Done fs_exists_def
      fs_create_dir_def syscall_def node_at_def split: list.splits fault.splits if_splits)

lemma open_lock_Done:
  assumes "open_lock d w = (Done (), w')"
  shows "d \<notin> locks w" and "locks w' = insert d (locks w)" and "dirs w' = dirs w"
    and "f \<noteq> entry_of d LOCK_FILE \<Longrightarrow> live w' f = live w f"
  using assms
  by (auto simp: open_lock_def io_done fs_open_lock_file_def fs_try_lock_def syscall_Done
      split: if_splits)

lemma open_lock_iff:
  "open_lock d w = (Done (), w') \<longleftrightarrow> d \<notin> locks w \<and> (\<exists>fs. faults w = Works # Works # fs
    \<and> w' = w\<lparr>faults := fs, locks := insert d (locks w),
        live := (if live w (entry_of d LOCK_FILE) \<noteq> None then live w
          else (live w)(entry_of d LOCK_FILE \<mapsto> \<lparr>nd_kind = RegularFile, nd_mode = PRIVATE_MODE,
            nd_content = [], nd_synced = False\<rparr>))\<rparr>)"
  by (auto simp: open_lock_def io_done fs_open_lock_file_def fs_try_lock_def syscall_Done
      split: if_splits)

lemma drop_on_error_Done: "drop_on_error d m w = (Done y, w') \<longleftrightarrow> m w = (Done y, w')"
  by (auto simp: drop_on_error_def split: prod.splits outcome.splits)

lemma fs_read_Done:
  "fs_read e f w = (Done c, w') \<longleftrightarrow> (\<exists>n fs. live w f = Some n \<and> c = nd_content n
    \<and> faults w = Works # fs \<and> w' = w\<lparr>faults := fs\<rparr>)"
  by (auto simp: fs_read_def syscall_Done split: option.splits)

lemma fs_exists_Done:
  "fs_exists loc w = (Done b, w') \<Longrightarrow> \<exists>fs. w' = w\<lparr>faults := fs\<rparr>"
  by (auto simp: fs_exists_def split: list.splits fault.splits)

lemma atomic_Done:
  assumes "path_name p = Some name" and "live w (target_dir p, temporary_name P rnd name) = None"
    and "write_bytes_atomic_inner P rnd p bs w = (Done (), w')"
  shows "others_kept w {(target_dir p, name), (target_dir p, temporary_name P rnd name)} w'"
    and "live w' (target_dir p, name) = Some (written_node bs)"
proof -
  have "temporary_is w (target_dir p, name) (target_dir p, temporary_name P rnd name) None w"
    using assms(2) by (simp add: temporary_is_def others_kept_refl)
  from io_specD [OF write_atomic_spec [OF assms(1)] this assms(3)]
  show "others_kept w {(target_dir p, name), (target_dir p, temporary_name P rnd name)} w'"
    "live w' (target_dir p, name) = Some (written_node bs)"
    by (simp_all add: replaced_def old_or_new_def)
qed

lemma save_native_Done:
  assumes "save_native P rnd st n w = (Done (), w')"
  obtains bs where "native_validate P n (cfg_network (st_config st)) = Inr ()"
    "seal_encrypted_json P (native_to_vec P) (wd_salt rnd) (wd_nonce rnd) n (st_password st) (st_aad st)
      = Inr bs" "length bs \<le> MAX_STATE_FILE_SIZE"
    "write_bytes_atomic_inner P (wd_temporary rnd) (join (st_directory st) STATE_FILE) bs w = (Done (), w')"
  using assms
  by (auto simp: save_native_def write_native_def write_state_bytes_atomic_def io_done
      ensure_state_size_def ok intro: that)

lemma write_json_atomic_Done:
  assumes "write_json_atomic P rnd p cfg w = (Done (), w')"
  obtains json where "config_to_vec_pretty P cfg = Some json" "length (json @ [0x0a]) \<le> MAX_FILE_SIZE"
    "write_bytes_atomic_inner P rnd p (json @ [0x0a]) w = (Done (), w')"
  using assms
  by (auto simp: write_json_atomic_def write_bytes_atomic_def io_done ensure_output_size_def ok
      intro: that)

lemma names_differ:
  "temporary_name P t STATE_FILE \<noteq> CONFIG_FILE" "temporary_name P t STATE_FILE \<noteq> LOCK_FILE"
  "temporary_name P t CONFIG_FILE \<noteq> STATE_FILE" "temporary_name P t CONFIG_FILE \<noteq> LOCK_FILE"
  "temporary_name P t CONFIG_FILE \<noteq> temporary_name P t' STATE_FILE"
  "CONFIG_FILE \<noteq> STATE_FILE" "CONFIG_FILE \<noteq> LOCK_FILE" "STATE_FILE \<noteq> LOCK_FILE"
  by (simp_all add: temporary_name_def CONFIG_FILE_def STATE_FILE_def LOCK_FILE_def)

definition config_json_correct :: "'m store_lib_scheme \<Rightarrow> bool" where
  "config_json_correct P \<longleftrightarrow>
     (\<forall>cfg b. config_to_vec_pretty P cfg = Some b \<longrightarrow> config_from_slice P (b @ [0x0a]) = Some cfg)"

text \<open>What initializing leaves: a private directory with the two files, and no lock.\<close>

lemma initialize_Done:
  assumes "initialize P rnd d cfg password w = (Done (), w')"
    and "live w (fst (entry_of d STATE_FILE), temporary_name P (wd_temporary (id_state rnd)) STATE_FILE) = None"
    and "live w (fst (entry_of d CONFIG_FILE), temporary_name P (id_config_temporary rnd) CONFIG_FILE) = None"
  obtains aad bs json where "config_validate_version cfg = Inr ()" "state_aad P cfg = Inr aad"
    "native_validate P (new_native_state (id_funding_secret rnd) empty_wallet) (cfg_network cfg) = Inr ()"
    "seal_encrypted_json P (native_to_vec P) (wd_salt (id_state rnd)) (wd_nonce (id_state rnd))
       (new_native_state (id_funding_secret rnd) empty_wallet) password aad = Inr bs"
    "length bs \<le> MAX_STATE_FILE_SIZE" "config_to_vec_pretty P cfg = Some json"
    "length (json @ [0x0a]) \<le> MAX_FILE_SIZE"
    "live w' (entry_of d STATE_FILE) = Some (written_node bs)"
    "live w' (entry_of d CONFIG_FILE) = Some (written_node (json @ [0x0a]))"
    "private_node (dirs w' d) DirectoryNode" "d \<notin> locks w'"
proof -
  let ?new = "new_native_state (id_funding_secret rnd) empty_wallet"
  obtain D where dir: "target_dir (join d name) = D" "entry_of d name = (D, name)"
    "path_name (join d name) = Some name" for name
    by (simp add: target_dir_def join_def entry_of_def)
  let ?ts = "(D, temporary_name P (wd_temporary (id_state rnd)) STATE_FILE)"
  let ?tc = "(D, temporary_name P (id_config_temporary rnd) CONFIG_FILE)"
  from assms(1) obtain w1 w2 w3 w4 aad w5 b where
    v: "config_validate_version cfg = Inr ()" and
    1: "ensure_secure_directory d w = (Done (), w1)" and 2: "open_lock d w1 = (Done (), w2)" and
    3: "fs_exists (File (entry_of d CONFIG_FILE)) w2 = (Done b, w3)" and
    4: "(if b then io_return True else fs_exists (File (entry_of d STATE_FILE))) w3 = (Done False, w4)" and
    aad: "state_aad P cfg = Inr aad" and
    5: "save_native P (id_state rnd) \<lparr>st_directory = d, st_password = password, st_config = cfg,
          st_aad = aad\<rparr> ?new w4 = (Done (), w5)" and
    6: "\<exists>w6. write_json_atomic P (id_config_temporary rnd) (join d CONFIG_FILE) cfg w5 = (Done (), w6)
          \<and> w' = unlock d w6"
    by (auto simp: initialize_def io_done Let_def)
  note priv = ensure_secure_directory_Done [OF 1] and lock = open_lock_Done [OF 2]
  have same: "live w4 = live w2" "dirs w4 = dirs w2" "locks w4 = locks w2"
    using fs_exists_Done [OF 3] 4
    by (auto split: if_splits simp: io_return_def dest: fs_exists_Done)
  from 6 obtain w6 where 6: "write_json_atomic P (id_config_temporary rnd) (join d CONFIG_FILE) cfg w5
      = (Done (), w6)" and w': "w' = unlock d w6" by blast
  from 5 obtain bs where s: "native_validate P ?new (cfg_network cfg) = Inr ()"
    "seal_encrypted_json P (native_to_vec P) (wd_salt (id_state rnd)) (wd_nonce (id_state rnd)) ?new
      password aad = Inr bs" "length bs \<le> MAX_STATE_FILE_SIZE"
    "write_bytes_atomic_inner P (wd_temporary (id_state rnd)) (join d STATE_FILE) bs w4 = (Done (), w5)"
    by (auto elim: save_native_Done)
  from 6 obtain json where j: "config_to_vec_pretty P cfg = Some json"
    "length (json @ [0x0a]) \<le> MAX_FILE_SIZE"
    "write_bytes_atomic_inner P (id_config_temporary rnd) (join d CONFIG_FILE) (json @ [0x0a]) w5
      = (Done (), w6)" by (auto elim: write_json_atomic_Done)
  have fresh: "live w4 ?ts = None" "live w4 ?tc = None"
    using assms(2,3) priv(2) lock(4) by (simp_all add: same dir names_differ)
  note state = atomic_Done [OF dir(3) _ s(4), unfolded dir(1), OF fresh(1)]
  note kept = state(1)
  have "live w5 ?tc = None" using kept fresh(2) by (simp add: others_kept_def names_differ)
  note conf = atomic_Done [OF dir(3) _ j(3), unfolded dir(1), OF this]
  note kept' = conf(1)
  have "live w6 (D, STATE_FILE) = live w5 (D, STATE_FILE)" "dirs w6 = dirs w5" "locks w6 = locks w5"
    using kept' by (simp_all add: others_kept_def names_differ [THEN not_sym])
  moreover have "dirs w5 = dirs w4" "locks w5 = locks w4" using kept by (simp_all add: others_kept_def)
  ultimately have files: "live w' (entry_of d STATE_FILE) = Some (written_node bs)"
    "live w' (entry_of d CONFIG_FILE) = Some (written_node (json @ [0x0a]))"
    "private_node (dirs w' d) DirectoryNode" "d \<notin> locks w'"
    using state(2) conf(2) priv(1) lock(3) same
    by (simp_all add: w' unlock_def dir)
  show thesis by (rule that [OF v aad s(1-3) j(1,2) files])
qed

lemma written_private: "private_node (Some (written_node bs)) RegularFile"
  by (simp add: private_node_def written_node_def PRIVATE_MODE_def)

text \<open>C38. A wallet that was initialized opens: after \<open>initialize\<close> has returned, opening the
  directory with the same password succeeds with the saved configuration, and the store then
  reads the new native state: an empty wallet, the drawn deposit key and no journals.\<close>

theorem initialized_wallet_opens:
  assumes "store_correct P" and "config_json_correct P"
    and "live w (fst (entry_of d STATE_FILE), temporary_name P (wd_temporary (id_state rnd)) STATE_FILE) = None"
    and "live w (fst (entry_of d CONFIG_FILE), temporary_name P (id_config_temporary rnd) CONFIG_FILE) = None"
    and "initialize P rnd d cfg password w = (Done (), w')"
  shows "\<exists>st w2. open_store P d password (w'\<lparr>faults := replicate 8 Works\<rparr>) = (Done st, w2)
    \<and> st_config st = cfg \<and> d \<in> locks w2
    \<and> loads P st w2 = Done (new_native_state (id_funding_secret rnd) empty_wallet)"
  using assms(5,3,4)
proof (rule initialize_Done)
  fix aad bs json
  let ?st = "\<lparr>st_directory = d, st_password = password, st_config = cfg, st_aad = aad\<rparr>"
  let ?w = "\<lambda>n. w'\<lparr>faults := replicate n Works\<rparr>"
  assume *: "config_validate_version cfg = Inr ()" "state_aad P cfg = Inr aad"
    "native_validate P (new_native_state (id_funding_secret rnd) empty_wallet) (cfg_network cfg) = Inr ()"
    "seal_encrypted_json P (native_to_vec P) (wd_salt (id_state rnd)) (wd_nonce (id_state rnd))
       (new_native_state (id_funding_secret rnd) empty_wallet) password aad = Inr bs"
    "length bs \<le> MAX_STATE_FILE_SIZE" "config_to_vec_pretty P cfg = Some json"
    "length (json @ [0x0a]) \<le> MAX_FILE_SIZE"
    "live w' (entry_of d STATE_FILE) = Some (written_node bs)"
    "live w' (entry_of d CONFIG_FILE) = Some (written_node (json @ [0x0a]))"
    "private_node (dirs w' d) DirectoryNode" "d \<notin> locks w'"
  have conf: "config_from_slice P (json @ [0x0a]) = Some cfg" "read_limited (json @ [0x0a]) = Inr (json @ [0x0a])"
    using assms(2) *(6,7) by (auto simp: config_json_correct_def read_limited_def read_limited_with_limit_def)
  have distinct: "entry_of d STATE_FILE \<noteq> entry_of d LOCK_FILE" "entry_of d CONFIG_FILE \<noteq> entry_of d LOCK_FILE"
    by (simp_all add: entry_of_def names_differ)
  let ?w2 = "w'\<lparr>faults := [], locks := insert d (locks w'),
    live := (if live w' (entry_of d LOCK_FILE) \<noteq> None then live w'
      else (live w')(entry_of d LOCK_FILE \<mapsto> \<lparr>nd_kind = RegularFile, nd_mode = PRIVATE_MODE,
        nd_content = [], nd_synced = False\<rparr>))\<rparr>"
  have eight: "replicate 8 Works = [Works, Works, Works, Works, Works, Works, Works, Works]"
    by (simp add: numeral_eq_Suc)
  have opened: "open_store P d password (w'\<lparr>faults := replicate 8 Works\<rparr>) = (Done ?st, ?w2)"
    using *(1,2,8-11) conf distinct written_private
    by (cases "live w' (entry_of d LOCK_FILE)")
      (simp_all add: open_store_def load_config_def read_json_path_def io_done drop_on_error_Done
        ensure_private_path_Done open_lock_iff fs_read_Done eight node_at_def written_node_def)
  have "decode_native P ?st bs = Inr (new_native_state (id_funding_secret rnd) empty_wallet)"
    by (rule decode_sealed [OF assms(1)])
      (use *(3-5) in \<open>simp_all add: native_keys_def new_native_state_def empty_wallet_def wallet_keys_def\<close>)
  then have "loads P ?st ?w2 = Done (new_native_state (id_funding_secret rnd) empty_wallet)"
    using *(8) distinct by (simp add: loads_decodes outcome_of_def written_node_def)
  with opened show ?thesis by (intro exI [of _ ?st] exI [of _ ?w2]) simp
qed

subsection \<open>Never initialized over\<close>

text \<open>All system calls work, and no file but the lock has changed.\<close>

definition untouched :: "world \<Rightarrow> string \<Rightarrow> world \<Rightarrow> bool" where
  "untouched w0 d w \<longleftrightarrow> (\<forall>x \<in> set (faults w). x = Works)
     \<and> (\<forall>f. f \<noteq> entry_of d LOCK_FILE \<longrightarrow> live w f = live w0 f \<and> disk w f = disk w0 f)"

lemma io_spec_syscall_untouched:
  assumes "\<And>w fs. untouched w0 d w \<Longrightarrow> faults w = Works # fs \<Longrightarrow> case act (w\<lparr>faults := fs\<rparr>) of
      (Done x, w') \<Rightarrow> untouched w0 d w' | (Failed e, w') \<Rightarrow> untouched w0 d w'
      | (Crashed, w') \<Rightarrow> untouched w0 d w'"
  shows "io_spec (untouched w0 d) (syscall partial e act) (\<lambda>_. untouched w0 d) (untouched w0 d)"
  unfolding io_spec_def
proof (intro allI impI)
  fix w
  assume w: "untouched w0 d w"
  show "case syscall partial e act w of (Done x, w') \<Rightarrow> untouched w0 d w'
      | (Failed e, w') \<Rightarrow> untouched w0 d w' | (Crashed, w') \<Rightarrow> untouched w0 d w'"
  proof (cases "faults w")
    case Nil
    with w show ?thesis by (simp add: syscall_def)
  next
    case (Cons x fs)
    with w have "x = Works" by (simp add: untouched_def)
    with assms [OF w, of fs] Cons show ?thesis by (simp add: syscall_def)
  qed
qed

lemma untouched_tail: "untouched w0 d w \<Longrightarrow> faults w = x # fs \<Longrightarrow> untouched w0 d (w\<lparr>faults := fs\<rparr>)"
  by (simp add: untouched_def)

lemma untouched_metadata:
  "io_spec (untouched w0 d) (fs_symlink_metadata e loc) (\<lambda>_. untouched w0 d) (untouched w0 d)"
  unfolding fs_symlink_metadata_def
  by (rule io_spec_syscall_untouched) (auto simp: untouched_tail node_at_def split: option.splits)

lemma untouched_create_dir:
  "io_spec (untouched w0 d) (fs_create_dir e d') (\<lambda>_. untouched w0 d) (untouched w0 d)"
  unfolding fs_create_dir_def
  by (rule io_spec_syscall_untouched) (auto simp: untouched_def)

lemma untouched_lock:
  "io_spec (untouched w0 d) (fs_open_lock_file d) (\<lambda>_. untouched w0 d) (untouched w0 d)"
  "io_spec (untouched w0 d) (fs_try_lock d) (\<lambda>_. untouched w0 d) (untouched w0 d)"
  unfolding fs_open_lock_file_def fs_try_lock_def
  by (rule io_spec_syscall_untouched, auto simp: untouched_def)+

lemma untouched_exists:
  "io_spec (untouched w0 d) (fs_exists loc)
    (\<lambda>b w. untouched w0 d w \<and> b = (node_at w loc \<noteq> None)) (untouched w0 d)"
  by (auto simp: io_spec_def fs_exists_def node_at_def untouched_def
      split: list.splits fault.splits location.splits)

lemma untouched_private:
  "io_spec (untouched w0 d) (ensure_private_path loc directory) (\<lambda>_. untouched w0 d) (untouched w0 d)"
  unfolding ensure_private_path_def
  by (intro io_spec_bind [OF untouched_metadata] io_spec_ensure io_spec_bind [where R = "\<lambda>_. untouched w0 d"])
    (auto intro!: io_spec_ensure io_spec_return split: if_splits)

lemma untouched_secure:
  "io_spec (untouched w0 d) (ensure_secure_directory d') (\<lambda>_. untouched w0 d) (untouched w0 d)"
  unfolding ensure_secure_directory_def
proof (rule io_spec_bind [OF untouched_exists], rule io_spec_bind [OF _ untouched_private])
  fix b
  show "io_spec (\<lambda>w. untouched w0 d w \<and> b = (node_at w (Dir d') \<noteq> None))
    (if b then io_return () else fs_create_dir (Msg (''create wallet directory '' @ d')) d')
    (\<lambda>_. untouched w0 d) (untouched w0 d)"
    by (cases b) (auto intro: io_spec_return intro!: io_spec_pre [OF untouched_create_dir])
qed

lemma io_spec_drop_after:
  assumes "io_spec P m Q E" and "\<And>x w. Q x w \<Longrightarrow> Q x (unlock d w)" and "\<And>w. E w \<Longrightarrow> E (unlock d w)"
  shows "io_spec P (drop_after d m) Q E"
  using assms
  by (fastforce simp: io_spec_def drop_after_def split: prod.splits outcome.splits)

lemma untouched_unlock: "untouched w0 d w \<Longrightarrow> untouched w0 d (unlock d' w)"
  by (simp add: untouched_def unlock_def)

lemma untouched_files:
  assumes "untouched w0 d w"
  shows "live w (entry_of d CONFIG_FILE) = live w0 (entry_of d CONFIG_FILE)"
    and "live w (entry_of d STATE_FILE) = live w0 (entry_of d STATE_FILE)"
  using assms by (simp_all add: untouched_def entry_of_def names_differ)

lemma io_spec_post:
  assumes "io_spec P m Q E" and "\<And>x w. Q x w \<Longrightarrow> Q' x w"
  shows "io_spec P m Q' E"
  using assms by (fastforce simp: io_spec_def split: prod.splits outcome.splits)

lemma initialize_untouched:
  assumes "live w0 (entry_of d CONFIG_FILE) \<noteq> None \<or> live w0 (entry_of d STATE_FILE) \<noteq> None"
  shows "io_spec (untouched w0 d) (initialize P rnd d cfg password) (\<lambda>_ _. False) (untouched w0 d)"
proof -
  let ?U = "untouched w0 d" and ?c = "File (entry_of d CONFIG_FILE)" and ?s = "File (entry_of d STATE_FILE)"
  have checks: "io_spec ?U (io_bind (fs_exists ?c) (\<lambda>b. io_bind (if b then io_return True else fs_exists ?s)
      (\<lambda>e. io_ensure (\<not> e) msg k))) (\<lambda>_ _. False) ?U" for msg and k :: "unit io"
  proof (rule io_spec_bind [OF untouched_exists])
    fix b
    show "io_spec (\<lambda>w. ?U w \<and> b = (node_at w ?c \<noteq> None))
      (io_bind (if b then io_return True else fs_exists ?s) (\<lambda>e. io_ensure (\<not> e) msg k))
      (\<lambda>_ _. False) ?U"
    proof (rule io_spec_bind [where R = "\<lambda>e w. ?U w \<and> e"])
      show "io_spec (\<lambda>w. ?U w \<and> b = (node_at w ?c \<noteq> None))
        (if b then io_return True else fs_exists ?s) (\<lambda>e w. ?U w \<and> e) ?U"
      proof (cases b)
        case True
        then show ?thesis by (auto intro: io_spec_return)
      next
        case False
        have "io_spec (\<lambda>w. ?U w \<and> node_at w ?c = None) (fs_exists ?s) (\<lambda>e w. ?U w \<and> e) ?U"
        proof (cases "live w0 (entry_of d STATE_FILE) = None")
          case True
          with assms have "\<not> (?U w \<and> node_at w ?c = None)" for w
            using untouched_files(1) [of w0 d w] by (auto simp: node_at_def)
          then have "\<And>w. untouched w0 d w \<and> node_at w ?c = None \<Longrightarrow> False" by blast
          then show ?thesis unfolding io_spec_def by blast
        next
          case False
          have "?U w \<Longrightarrow> node_at w ?s \<noteq> None" for w
            using False untouched_files(2) [of w0 d w] by (simp add: node_at_def)
          then show ?thesis
            by (intro io_spec_pre [OF io_spec_post [OF untouched_exists]]) auto
        qed
        with False show ?thesis by simp
      qed
      show "io_spec (\<lambda>w. ?U w \<and> e) (io_ensure (\<not> e) msg k) (\<lambda>_ _. False) ?U" for e
        by (cases e) (auto simp: io_ensure_def io_spec_def io_fail_def)
    qed
  qed
  show ?thesis
    unfolding initialize_def open_lock_def
    by (rule io_spec_bind [where R = "\<lambda>_. ?U"], rule io_spec_lift, simp, simp,
        rule io_spec_bind [OF untouched_secure],
        rule io_spec_bind [OF io_spec_bind [OF untouched_lock(1) untouched_lock(2)]],
        rule io_spec_drop_after [OF checks]) (simp_all add: untouched_unlock)
qed

text \<open>C39. Initializing never replaces a wallet: where a configuration or a state file exists and the
  operating system answers, \<open>initialize\<close> does not succeed, and whatever it did before noticing,
  no file but the lock has changed, for processes or on the disk.\<close>

theorem initialize_refuses_existing:
  assumes "live w (entry_of d CONFIG_FILE) \<noteq> None \<or> live w (entry_of d STATE_FILE) \<noteq> None"
    and "\<forall>x \<in> set (faults w). x = Works"
    and "initialize P rnd d cfg password w = (out, w')"
  shows "out \<noteq> Done () \<and> (\<forall>f. f \<noteq> entry_of d LOCK_FILE \<longrightarrow> live w' f = live w f \<and> disk w' f = disk w f)"
proof -
  have "untouched w d w" using assms(2) by (simp add: untouched_def)
  from io_specD [OF initialize_untouched [OF assms(1)] this assms(3)] show ?thesis
    by (cases out) (auto simp: untouched_def)
qed

text \<open>The password in a file is its content without the line ends that follow it: the result
  does not end in a line end, and only line ends were dropped.\<close>

theorem password_file_stripped:
  assumes "password_from_file P content = Inr password"
  shows "\<exists>bs dropped. content = bs @ dropped \<and> (\<forall>b \<in> set dropped. b = 0x0a \<or> b = 0x0d)
    \<and> bs \<noteq> [] \<and> last bs \<noteq> 0x0a \<and> last bs \<noteq> 0x0d \<and> string_from_utf8 P bs = Some password"
proof -
  let ?line = "\<lambda>b :: byte. b = 0x0a \<or> b = 0x0d"
  from assms have *: "strip_line_ends content \<noteq> []" "string_from_utf8 P (strip_line_ends content) = Some password"
    by (auto simp: password_from_file_def ok Let_def dest: read_limited_Inr)
  have split: "content = strip_line_ends content @ rev (takeWhile ?line (rev content))"
    unfolding strip_line_ends_def
    by (metis rev_append rev_rev_ident takeWhile_dropWhile_id)
  have "\<not> ?line (last (strip_line_ends content))"
    using * hd_dropWhile [of ?line "rev content"]
    by (simp add: strip_line_ends_def last_rev)
  with * split show ?thesis
    by (intro exI [of _ "strip_line_ends content"] exI [of _ "rev (takeWhile ?line (rev content))"])
      (auto dest: set_takeWhileD)
qed

end
