(* ===== verification/Commands.thy ===== *)
theory Commands
  imports Chain_Spec Store_Spec
begin

text \<open>
  The commands of \<^verbatim>\<open>wallet/src/cli.rs\<close> that register, fund and transfer a coin. A command
  opens the wallet, works on a copy of the saved state, and saves it before and after it talks
  to the enclave or hands in a transaction; the order of these steps is the code's. What a
  command prints is the value it returns. The test failpoints are debug code that only returns
  an error between two steps.
\<close>

subsection \<open>The command line\<close>

record receipt =
  rc_format_version :: u32
  rc_protocol_version :: u32
  rc_metadata :: coin_metadata
  rc_status :: coin_status
  rc_history :: "signed_recovery list"

definition receipt_keys :: "receipt \<Rightarrow> coin_keys list" where
  "receipt_keys r = [md_keys (rc_metadata r)]"

record cli_lib = web_lib +
  request_from_slice :: "bytes \<Rightarrow> transfer_request option"
  envelope_from_slice :: "bytes \<Rightarrow> transfer_envelope option"
  receipt_from_slice :: "bytes \<Rightarrow> receipt option"
  request_to_vec_pretty :: "transfer_request \<Rightarrow> bytes option"
  envelope_to_vec_pretty :: "transfer_envelope \<Rightarrow> bytes option"
  receipt_to_vec_pretty :: "receipt \<Rightarrow> bytes option"

record cli =
  cl_data_dir :: string
  cl_password_file :: "entry option"
  cl_passwords :: password_source
  cl_stdin :: bytes

datatype report =
  RegistrationReport bool coin_id string bytes network_id
| FundingReport bool coin_id outpoint u64 txid u64 u64 nat u32 txid
| TransferSentReport bool transfer_request transfer_envelope destination
| RequestReport transfer_request destination
| AlreadyAccepted transfer_request nat "u32 option"
| AcceptedReport transfer_request u64 u32 u32 u32
| SweepReport bool txid string nat u64 u64
| ExitReport bool coin_id txid txid string u64 u64
| PackagePrepared coin_id txid txid string u64 u64 string string
| RecoveryExported destination u32 nat txid
| ReceiptExported destination coin_id u64 u32
| ReceiptVerified coin_id u64 u32 u32
| EmptyReport "transfer_request option" "string option"
| StatusReport string coin_id u64 nat bool "u32 option" "funding_stage option" "u32 option" "u32 option"
    "bool option" "string option"
| DepositReport string network_id
| EnclaveVerified string string
| Initialized string network_id string

text \<open>The lock goes when the store does, at the end of the command.\<close>

definition act_drop :: "string \<Rightarrow> 'a act \<Rightarrow> 'a act" where
  "act_drop d m s =
     (case m s of (Crashed, s') \<Rightarrow> (Crashed, s') | (Failed e, s') \<Rightarrow> (Failed e, s'\<lparr>os := unlock d (os s')\<rparr>)
      | (Done x, s') \<Rightarrow> (Done x, s'\<lparr>os := unlock d (os s')\<rparr>))"

definition open_wallet ::
  "'m store_lib_scheme \<Rightarrow> cli \<Rightarrow> (wallet_store \<Rightarrow> config \<Rightarrow> 'a act) \<Rightarrow> 'a act" where
  "open_wallet P cl body =
     act_bind (act_io (read_password P (cl_passwords cl) (cl_password_file cl) False)) (\<lambda>password.
     act_bind (act_io (open_store P (cl_data_dir cl) password)) (\<lambda>st.
     act_drop (st_directory st)
       (act_ensure (cfg_network (st_config st) \<noteq> Mainnet)
         (Msg ''mainnet is not supported by this wallet'')
       (body st (st_config st)))))"

definition connect_verified ::
  "'m web_lib_scheme \<Rightarrow> peers \<Rightarrow> config \<Rightarrow> enclave_connection talk" where
  "connect_verified P E cfg =
     talk_ensure (cfg_network cfg \<noteq> Mainnet) (Msg ''mainnet is not supported by this wallet'')
     (talk_ensure (cfg_network cfg = RegtestId
         \<or> (case cfg_enclave cfg of Production _ _ _ _ \<Rightarrow> True | _ \<Rightarrow> False))
       (Msg ''debug and plaintext enclave transports are regtest-only'')
     (talk_bind (enclave_connect P E (cfg_enclave cfg)) (\<lambda>e.
      talk_bind (enclave_health P E e) (\<lambda>_.
      talk_return e))))"

definition require_output_file :: "destination \<Rightarrow> anyhow + unit" where
  "require_output_file dest = ensure (dest \<noteq> Console) (Msg ''artifact output must be a file'') (Inr ())"

subsection \<open>Registering\<close>

definition emit_registration ::
  "'m wallet_lib_scheme \<Rightarrow> config \<Rightarrow> wallet_coin \<Rightarrow> bool \<Rightarrow> report" where
  "emit_registration P cfg c existing =
     RegistrationReport existing (keys_coin_id (wc_keys c))
       (address_string P (funding_address P (wc_keys c) (cfg_network cfg)))
       (funding_script P (wc_keys c)) (cfg_network cfg)"

text \<open>The request of the registration under way, which is saved before it is sent.\<close>

definition registration_to_send ::
  "'m web_lib_scheme \<Rightarrow> (nat \<Rightarrow> write_draws) \<Rightarrow> registration_draws \<Rightarrow> wallet_store \<Rightarrow> wallet_state
    \<Rightarrow> (register_request \<times> wallet_state) act" where
  "registration_to_send P D rnd st s =
     (case ws_pending s of
        None \<Rightarrow>
          act_method (begin_registration P rnd s) (\<lambda>req s1.
          act_bind (act_save P D st s1) (\<lambda>_.
          act_return (req, s1)))
      | Some (PendingRegistration _ _ registration) \<Rightarrow> act_return (reg_request registration, s)
      | Some (PendingRecovery _) \<Rightarrow>
          act_fail (Msg ''wallet has a pending signing operation; resume that command first''))"

definition register_coin ::
  "'m web_lib_scheme \<Rightarrow> peers \<Rightarrow> (nat \<Rightarrow> write_draws) \<Rightarrow> registration_draws \<Rightarrow> cli \<Rightarrow> report act" where
  "register_coin P E D rnd cl =
     open_wallet P cl (\<lambda>st cfg.
     act_bind (act_io (load P st)) (\<lambda>s.
     case ws_coin s of
       Some c \<Rightarrow>
         act_ensure (ws_pending s = None) (Msg ''wallet has a pending operation'')
         (act_ensure (wc_metadata c = None \<and> wc_history c = [] \<and> wc_current_capability c \<noteq> None
             \<and> wc_current_handoff c = Some INITIAL_HANDOFF \<and> wc_outgoing c = None)
           (Msg ''coin has already left the registration stage'')
         (act_bind (act_talk (connect_verified P E cfg)) (\<lambda>e.
          act_bind (act_talk (enclave_status P E e (keys_coin_id (wc_keys c)))) (\<lambda>st_now.
          act_bind (act_lift (verify_live_status P c st_now)) (\<lambda>_.
          act_return (emit_registration P cfg c True))))))
     | None \<Rightarrow>
         act_bind (act_talk (connect_verified P E cfg)) (\<lambda>e.
         act_bind (registration_to_send P D rnd st s) (\<lambda>(req, s1).
         act_bind (act_talk (enclave_register P E e req)) (\<lambda>st_now.
         act_method (wallet_complete_registration P s1 st_now) (\<lambda>_ s2.
         act_bind (act_save P D st s2) (\<lambda>_.
         act_context (ws_coin s2) (Msg ''coin inserted'') (\<lambda>c.
         act_return (emit_registration P cfg c False)))))))))"

subsection \<open>Funding\<close>

definition emit_funding :: "'m bitcoin_lib_scheme \<Rightarrow> wallet_coin \<Rightarrow> bool \<Rightarrow> anyhow + report" where
  "emit_funding P c existing =
     with_context (wc_metadata c) (Msg ''funded coin has no metadata'') (\<lambda>m.
     with_context (wc_funding c) (Msg ''funded coin has no funding journal'') (\<lambda>f.
     with_context (first_opt (wc_history c)) (Msg ''funded coin has no recovery'') (\<lambda>r.
     ensure (fj_stage f = Broadcast) (Msg ''funding has not been broadcast'')
     (Inr (FundingReport existing (keys_coin_id (wc_keys c)) (md_outpoint m) (md_amount_sat m)
        (compute_txid P (fj_transaction f)) (fj_fee_sat f) (fj_fee_rate_sat_vb f)
        (length (wc_history c)) (rec_delay_blocks r) (compute_txid P (rec_transaction r)))))))"

text \<open>The saved policy has to be the command's.\<close>

definition check_funding_policy ::
  "wallet_state \<Rightarrow> u64 \<Rightarrow> u32 \<Rightarrow> u64 \<Rightarrow> u64 \<Rightarrow> anyhow + funding_journal" where
  "check_funding_policy s amount delay fee_rate max_fee =
     with_context (ws_coin s) (Msg ''prepared funding coin is missing'') (\<lambda>c.
     with_context (wc_metadata c) (Msg ''prepared funding metadata is missing'') (\<lambda>m.
     with_context (wc_funding c) (Msg ''prepared funding journal is missing'') (\<lambda>f.
     ensure (md_amount_sat m = amount \<and> fj_delay_blocks f = delay \<and> fj_fee_rate_sat_vb f = fee_rate
         \<and> fj_max_fee_sat f = max_fee)
       (Msg ''saved funding policy does not match this command'')
     (ensure (fj_fee_sat f \<le> max_fee) (Msg ''saved funding fee exceeds this command's maximum'')
     (Inr f)))))"

definition pending_delay :: "recovery_stage \<Rightarrow> u32" where
  "pending_delay stage =
     (case stage of StagePrepared a \<Rightarrow> ra_delay_blocks a | StageResponded a _ \<Rightarrow> ra_delay_blocks a)"

text \<open>The attempt of a pending funding recovery that has no response yet.\<close>

definition prepared_funding_attempt :: "wallet_state \<Rightarrow> recovery_attempt option" where
  "prepared_funding_attempt s =
     (case ws_pending s of
        Some (PendingRecovery r) \<Rightarrow>
          (case (pr_purpose r, pr_stage r) of (PurposeFund _ _, StagePrepared a) \<Rightarrow> Some a | _ \<Rightarrow> None)
      | _ \<Rightarrow> None)"

definition sign_pending_funding ::
  "'m web_lib_scheme \<Rightarrow> peers \<Rightarrow> (nat \<Rightarrow> write_draws) \<Rightarrow> wallet_store \<Rightarrow> enclave_connection \<Rightarrow> config
    \<Rightarrow> recovery_attempt \<Rightarrow> wallet_state \<Rightarrow> wallet_state act" where
  "sign_pending_funding P E D st e cfg attempt s =
     act_context (ws_coin s) (Msg ''pending funding coin is missing'') (\<lambda>c.
     act_context (wc_metadata c) (Msg ''pending funding metadata is missing'') (\<lambda>m.
     act_bind (act_talk (enclave_status P E e (keys_coin_id (wc_keys c)))) (\<lambda>st_now.
     act_bind (act_lift (from_client (verify_status (wc_keys c) st_now))) (\<lambda>_.
     act_bind (act_lift (attempt_committed st_now attempt)) (\<lambda>committed.
     act_bind
       (if committed then act_return ()
        else
          act_ensure (attempt_uncommitted P st_now attempt)
            (Msg ''pending funding journal does not match live enclave state'')
          (act_context (wc_funding c) (Msg ''pending funding journal is missing'') (\<lambda>f.
           act_ensure (fj_stage f = FundingPrepared)
             (Msg ''funding recovery was already secured'')
           (act_bind (chain_connect P E (cfg_chain cfg) (cfg_network cfg)) (\<lambda>chain.
            act_bind (act_talk (chain_validate_prepared_funding P E chain m (fj_transaction f))) (\<lambda>_.
            act_lift (require_reaction_margin 0 (ra_delay_blocks attempt)
              (cfg_min_reaction_blocks cfg)))))))) (\<lambda>_.
     act_bind (act_lift (pending_sign_request s)) (\<lambda>req.
     act_bind (act_talk (enclave_sign P E e req)) (\<lambda>resp.
     act_method (record_sign_response s resp) (\<lambda>_ s1.
     act_bind (act_save P D st s1) (\<lambda>_.
     act_return s1))))))))))"

definition finish_pending_funding_recovery ::
  "'m web_lib_scheme \<Rightarrow> peers \<Rightarrow> (nat \<Rightarrow> write_draws) \<Rightarrow> wallet_store \<Rightarrow> wallet_state
    \<Rightarrow> enclave_connection \<Rightarrow> config \<Rightarrow> wallet_state act" where
  "finish_pending_funding_recovery P E D st s e cfg =
     act_bind
       (case prepared_funding_attempt s of
          None \<Rightarrow> act_return s
        | Some attempt \<Rightarrow> sign_pending_funding P E D st e cfg attempt s) (\<lambda>s1.
     act_context (ws_coin s1) (Msg ''pending funding coin is missing'') (\<lambda>c.
     act_bind (act_talk (enclave_status P E e (keys_coin_id (wc_keys c)))) (\<lambda>st_now.
     act_method (complete_funding_recovery P s1 st_now) (\<lambda>_ s2.
     act_bind (act_save P D st s2) (\<lambda>_.
     act_return s2)))))"

end
