(* ===== verification/Commands_Fund.thy ===== *)
theory Commands_Fund
  imports Commands
begin

text \<open>
  The funding command of \<^verbatim>\<open>wallet/src/cli.rs\<close>: \<open>fund_coin\<close> with a Bitcoin Core wallet and
  \<open>fund_coin_explorer\<close> with the local deposits. Each is the sequence of the blocks of the
  source: prepare the transaction, check the saved policy, get the first recovery signed,
  complete it, broadcast. A rerun after an error enters at the block that the saved state has
  reached.
\<close>

subsection \<open>Funding from the local deposits\<close>

definition native_coin :: "native_state \<Rightarrow> wallet_coin option" where
  "native_coin n = ws_coin (nw_wallet n)"

text \<open>\<open>max_by_key\<close>: the last of the largest elements.\<close>

definition source_le :: "source_utxo \<Rightarrow> source_utxo \<Rightarrow> bool" where
  "source_le a b \<longleftrightarrow> txout_value (su_output a) < txout_value (su_output b)
     \<or> txout_value (su_output a) = txout_value (su_output b) \<and> su_outpoint a \<le> su_outpoint b"

fun max_source :: "source_utxo list \<Rightarrow> source_utxo option" where
  "max_source [] = None"
| "max_source (s # ss) = Some (fold (\<lambda>x best. if source_le best x then x else best) ss s)"

definition sweep_inputs :: "native_state \<Rightarrow> outpoint set" where
  "sweep_inputs n =
     (case nw_source_sweep n of None \<Rightarrow> {} | Some j \<Rightarrow> set (map su_outpoint (sj_sources j)))"

definition explorer_fund_prepare ::
  "'m web_lib_scheme \<Rightarrow> peers \<Rightarrow> (nat \<Rightarrow> write_draws) \<Rightarrow> funding_draws \<Rightarrow> wallet_store \<Rightarrow> config \<Rightarrow> chain
    \<Rightarrow> u64 \<Rightarrow> u32 \<Rightarrow> u64 \<Rightarrow> u64 \<Rightarrow> native_state \<Rightarrow> native_state act" where
  "explorer_fund_prepare P E D rnd st cfg chain amount delay fee_rate max_fee n =
     act_ensure (ws_pending (nw_wallet n) = None) (Msg ''wallet has a pending operation'')
     (act_bind (act_talk (connect_verified P E cfg)) (\<lambda>e.
      act_context (native_coin n) (Msg ''register a coin first'') (\<lambda>c.
      act_bind (act_talk (enclave_status P E e (keys_coin_id (wc_keys c)))) (\<lambda>st_now.
      let address = source_funding_address P (nw_funding_secret n) (cfg_network cfg) in
      act_bind (act_talk (chain_confirmed_source_utxos P E chain address)) (\<lambda>deposits.
      act_context (max_source (filter (\<lambda>s. \<not> su_coinbase s \<and> su_outpoint s \<notin> sweep_inputs n) deposits))
        (Msg (''deposit confirmed sats at '' @ address_string P address @ '' before funding'')) (\<lambda>source.
      act_method (begin_funding P rnd (nw_wallet n) (cfg_network cfg) (nw_funding_secret n) source st_now
          amount delay fee_rate max_fee (cfg_min_reaction_blocks cfg)) (\<lambda>_ s1.
      act_bind (act_save_native P D st (n\<lparr>nw_wallet := s1\<rparr>)) (\<lambda>_.
      act_return (n\<lparr>nw_wallet := s1\<rparr>)))))))))"

definition explorer_fund_check ::
  "native_state \<Rightarrow> u64 \<Rightarrow> u32 \<Rightarrow> u64 \<Rightarrow> u64 \<Rightarrow> anyhow + unit" where
  "explorer_fund_check n amount delay fee_rate max_fee =
     and_then (check_funding_policy (nw_wallet n) amount delay fee_rate max_fee) (\<lambda>f.
     case ws_pending (nw_wallet n) of
       Some (PendingRecovery r) \<Rightarrow>
         (case pr_purpose r of
            PurposeFund _ _ \<Rightarrow>
              ensure (pending_delay (pr_stage r) = delay)
                (Msg ''pending funding recovery uses a different delay'') (Inr ())
          | PurposeTransfer _ \<Rightarrow> Inl (Msg ''wallet has a pending transfer; resume coin sign''))
     | Some (PendingRegistration _ _ _) \<Rightarrow>
         Inl (Msg ''wallet has a pending registration; resume coin register'')
     | None \<Rightarrow>
         ensure (fj_stage f \<noteq> FundingPrepared) (Msg ''prepared funding has no recovery journal'')
           (Inr ()))"

definition validate_explorer_prepared_funding ::
  "'m web_lib_scheme \<Rightarrow> peers \<Rightarrow> native_state \<Rightarrow> chain \<Rightarrow> config \<Rightarrow> unit talk" where
  "validate_explorer_prepared_funding P E n chain cfg =
     talk_context (native_coin n) (Msg ''prepared funding coin is missing'') (\<lambda>c.
     talk_context (wc_metadata c) (Msg ''prepared funding metadata is missing'') (\<lambda>m.
     talk_context (wc_funding c) (Msg ''prepared funding journal is missing'') (\<lambda>f.
     talk_ensure (fj_stage f = FundingPrepared) (Msg ''funding recovery was already secured'')
     (talk_context (first_opt (inputs (fj_transaction f))) (Msg ''prepared funding has no input'')
       (\<lambda>i.
      talk_bind (chain_confirmed_source_utxos P E chain
          (source_funding_address P (nw_funding_secret n) (cfg_network cfg))) (\<lambda>deposits.
      talk_context (find (\<lambda>s. su_outpoint s = previous_output i) deposits)
        (Msg ''prepared funding deposit is no longer confirmed and unspent'') (\<lambda>source.
      talk_bind (talk_lift (build_source_funding P (wc_keys c) (cfg_network cfg) (nw_funding_secret n)
          source (md_amount_sat m) (fj_fee_rate_sat_vb f) (fj_max_fee_sat f))) (\<lambda>expected.
      talk_ensure (psf_transaction expected = fj_transaction f
          \<and> psf_outpoint expected = md_outpoint m \<and> psf_fee_sat expected = fj_fee_sat f)
        (Msg ''prepared funding transaction is not canonical'')
        (talk_return ())))))))))"

text \<open>The attempt of a pending recovery that has no response yet, whatever its purpose.\<close>

definition prepared_attempt :: "wallet_state \<Rightarrow> recovery_attempt option" where
  "prepared_attempt s =
     (case ws_pending s of
        Some (PendingRecovery r) \<Rightarrow> (case pr_stage r of StagePrepared a \<Rightarrow> Some a | _ \<Rightarrow> None)
      | _ \<Rightarrow> None)"

definition explorer_fund_sign ::
  "'m web_lib_scheme \<Rightarrow> peers \<Rightarrow> (nat \<Rightarrow> write_draws) \<Rightarrow> wallet_store \<Rightarrow> config \<Rightarrow> chain
    \<Rightarrow> native_state \<Rightarrow> (native_state \<times> enclave_connection option) act" where
  "explorer_fund_sign P E D st cfg chain n =
     (case prepared_attempt (nw_wallet n) of
        None \<Rightarrow> act_return (n, None)
      | Some attempt \<Rightarrow>
        act_bind (act_talk (connect_verified P E cfg)) (\<lambda>e.
        act_context (native_coin n) (Msg ''pending funding coin is missing'') (\<lambda>c.
        act_bind (act_talk (enclave_status P E e (keys_coin_id (wc_keys c)))) (\<lambda>st_now.
        act_bind (act_lift (from_client (verify_status (wc_keys c) st_now))) (\<lambda>_.
        act_bind (act_lift (attempt_committed st_now attempt)) (\<lambda>committed.
        act_bind
          (if committed then act_return ()
           else act_ensure (attempt_uncommitted P st_now attempt)
             (Msg ''pending funding journal does not match live enclave state'')
             (act_talk (validate_explorer_prepared_funding P E n chain cfg))) (\<lambda>_.
        act_bind (act_lift (pending_sign_request (nw_wallet n))) (\<lambda>req.
        act_bind (act_talk (enclave_sign P E e req)) (\<lambda>resp.
        act_method (record_sign_response (nw_wallet n) resp) (\<lambda>_ s1.
        act_bind (act_save_native P D st (n\<lparr>nw_wallet := s1\<rparr>)) (\<lambda>_.
        act_return (n\<lparr>nw_wallet := s1\<rparr>, Some e))))))))))))"

definition responded_funding :: "wallet_state \<Rightarrow> bool" where
  "responded_funding s =
     (case ws_pending s of
        Some (PendingRecovery r) \<Rightarrow>
          (case (pr_purpose r, pr_stage r) of (PurposeFund _ _, StageResponded _ _) \<Rightarrow> True | _ \<Rightarrow> False)
      | _ \<Rightarrow> False)"

definition connected ::
  "'m web_lib_scheme \<Rightarrow> peers \<Rightarrow> config \<Rightarrow> enclave_connection option \<Rightarrow> enclave_connection act" where
  "connected P E cfg e =
     (case e of None \<Rightarrow> act_talk (connect_verified P E cfg) | Some e \<Rightarrow> act_return e)"

definition explorer_fund_complete ::
  "'m web_lib_scheme \<Rightarrow> peers \<Rightarrow> (nat \<Rightarrow> write_draws) \<Rightarrow> wallet_store \<Rightarrow> config
    \<Rightarrow> enclave_connection option \<Rightarrow> native_state \<Rightarrow> native_state act" where
  "explorer_fund_complete P E D st cfg funding_enclave n =
     (if \<not> responded_funding (nw_wallet n) then act_return n
      else
        act_bind (connected P E cfg funding_enclave) (\<lambda>e.
        act_context (native_coin n) (Msg ''pending funding coin is missing'') (\<lambda>c.
        act_bind (act_talk (enclave_status P E e (keys_coin_id (wc_keys c)))) (\<lambda>st_now.
        act_method (complete_funding_recovery P (nw_wallet n) st_now) (\<lambda>_ s1.
        act_bind (act_save_native P D st (n\<lparr>nw_wallet := s1\<rparr>)) (\<lambda>_.
        act_return (n\<lparr>nw_wallet := s1\<rparr>)))))))"

definition funding_stage_of :: "wallet_state \<Rightarrow> funding_stage option" where
  "funding_stage_of s = map_option fj_stage (Option.bind (ws_coin s) wc_funding)"

definition explorer_fund_broadcast ::
  "'m web_lib_scheme \<Rightarrow> peers \<Rightarrow> (nat \<Rightarrow> write_draws) \<Rightarrow> wallet_store \<Rightarrow> chain
    \<Rightarrow> native_state \<Rightarrow> report act" where
  "explorer_fund_broadcast P E D st chain n =
     (let already_broadcast = (funding_stage_of (nw_wallet n) = Some Broadcast) in
      act_bind (act_lift (funding_transaction P (nw_wallet n))) (\<lambda>t.
      act_bind (act_talk (chain_broadcast_exact P E chain t)) (\<lambda>txid.
      act_bind
        (if already_broadcast then act_return n
         else act_method (mark_funding_broadcast P (nw_wallet n) txid) (\<lambda>_ s1.
           act_bind (act_save_native P D st (n\<lparr>nw_wallet := s1\<rparr>)) (\<lambda>_.
           act_return (n\<lparr>nw_wallet := s1\<rparr>)))) (\<lambda>n1.
      act_context (native_coin n1) (Msg ''funded coin is missing'') (\<lambda>c.
      act_lift (emit_funding P c already_broadcast))))))"

definition fund_coin_explorer ::
  "'m web_lib_scheme \<Rightarrow> peers \<Rightarrow> (nat \<Rightarrow> write_draws) \<Rightarrow> funding_draws \<Rightarrow> wallet_store \<Rightarrow> config
    \<Rightarrow> u64 \<Rightarrow> u32 \<Rightarrow> u64 \<Rightarrow> u64 \<Rightarrow> report act" where
  "fund_coin_explorer P E D rnd st cfg amount delay fee_rate max_fee =
     act_bind (chain_connect P E (cfg_chain cfg) (cfg_network cfg)) (\<lambda>chain.
     act_bind (act_io (load_native P st)) (\<lambda>n.
     act_context (native_coin n) (Msg ''register a coin first'') (\<lambda>c.
     act_bind
       (if wc_funding c \<noteq> None then act_return n
        else explorer_fund_prepare P E D rnd st cfg chain amount delay fee_rate max_fee n) (\<lambda>n1.
     act_bind (act_lift (explorer_fund_check n1 amount delay fee_rate max_fee)) (\<lambda>_.
     act_bind (explorer_fund_sign P E D st cfg chain n1) (\<lambda>(n2, e).
     act_bind (explorer_fund_complete P E D st cfg e n2) (\<lambda>n3.
     explorer_fund_broadcast P E D st chain n3)))))))"

subsection \<open>Funding from the node's wallet\<close>

definition core_fund_prepare ::
  "'m web_lib_scheme \<Rightarrow> peers \<Rightarrow> (nat \<Rightarrow> write_draws) \<Rightarrow> wallet_store \<Rightarrow> config
    \<Rightarrow> enclave_connection option \<Rightarrow> chain \<Rightarrow> u64 \<Rightarrow> u32 \<Rightarrow> u64 \<Rightarrow> u64 \<Rightarrow> wallet_coin \<Rightarrow> wallet_state
    \<Rightarrow> wallet_state act" where
  "core_fund_prepare P E D st cfg enclave chain amount delay fee_rate max_fee c s =
     act_ensure (ws_pending s = None) (Msg ''wallet has a pending operation'')
     (act_ensure (wc_current_capability c \<noteq> None \<and> wc_current_handoff c = Some INITIAL_HANDOFF
         \<and> wc_metadata c = None \<and> wc_history c = [])
       (Msg ''coin has already left the registration stage'')
     (act_context enclave (Msg ''funding requires the enclave'') (\<lambda>e.
      act_bind (act_talk (enclave_status P E e (keys_coin_id (wc_keys c)))) (\<lambda>st_now.
      act_bind (act_lift (from_client (verify_status (wc_keys c) st_now))) (\<lambda>_.
      act_context (wc_current_capability c) (Msg ''capability checked above'') (\<lambda>cap.
      act_ensure (cs_signature_count st_now = 0 \<and> cs_authorization st_now
          = authorization P (keys_coin_id (wc_keys c)) (capability_hash P cap) INITIAL_HANDOFF)
        (Msg ''wallet authorization does not match enclave'')
      (act_bind (act_lift (require_reaction_margin 0 delay (cfg_min_reaction_blocks cfg))) (\<lambda>_.
       act_bind (act_talk (chain_prepare_funding P E chain (wc_keys c) amount fee_rate max_fee))
         (\<lambda>prepared.
       let s1 = s\<lparr>ws_coin := Some (c\<lparr>
             wc_metadata := Some (keys_metadata (wc_keys c) (cfg_network cfg) (pf_outpoint prepared) amount),
             wc_funding := Some \<lparr>fj_transaction = pf_transaction prepared, fj_delay_blocks = delay,
               fj_fee_rate_sat_vb = fee_rate, fj_max_fee_sat = max_fee,
               fj_fee_sat = pf_fee_sat prepared, fj_stage = FundingPrepared\<rparr>\<rparr>)\<rparr> in
       act_bind (act_save P D st s1) (\<lambda>_.
       act_return s1))))))))))"

definition core_fund_check_pending :: "wallet_state \<Rightarrow> u32 \<Rightarrow> anyhow + unit" where
  "core_fund_check_pending s delay =
     (case ws_pending s of
        Some (PendingRecovery r) \<Rightarrow>
          ensure (case pr_purpose r of PurposeFund _ _ \<Rightarrow> True | PurposeTransfer _ \<Rightarrow> False)
            (Msg ''wallet has a pending transfer; resume coin sign'')
          (ensure (pending_delay (pr_stage r) = delay)
            (Msg ''pending funding recovery uses a different delay'') (Inr ()))
      | Some (PendingRegistration _ _ _) \<Rightarrow>
          Inl (Msg ''wallet has a pending registration; resume coin register'')
      | None \<Rightarrow> Inr ())"

definition core_fund_begin ::
  "'m web_lib_scheme \<Rightarrow> peers \<Rightarrow> (nat \<Rightarrow> write_draws) \<Rightarrow> funding_draws \<Rightarrow> wallet_store
    \<Rightarrow> enclave_connection option \<Rightarrow> chain \<Rightarrow> u32 \<Rightarrow> wallet_state \<Rightarrow> wallet_state act" where
  "core_fund_begin P E D rnd st enclave chain delay s =
     act_context (ws_coin s) (Msg ''prepared funding coin is missing'') (\<lambda>c.
     act_context (wc_metadata c) (Msg ''prepared funding metadata is missing'') (\<lambda>m.
     act_context (wc_funding c) (Msg ''prepared funding journal is missing'') (\<lambda>f.
     act_bind (act_talk (chain_validate_prepared_funding P E chain m (fj_transaction f))) (\<lambda>_.
     act_context enclave (Msg ''funding requires the enclave'') (\<lambda>e.
     act_bind (act_talk (enclave_status P E e (keys_coin_id (wc_keys c)))) (\<lambda>st_now.
     act_bind (act_lift (from_client (verify_status (wc_keys c) st_now))) (\<lambda>_.
     act_ensure (cs_signature_count st_now = 0) (Msg ''coin already has signed recoveries'')
     (act_context (wc_current_capability c) (Msg ''coin has already been transferred'') (\<lambda>cap.
      act_context (wc_current_handoff c) (Msg ''registered coin has no current handoff token'') (\<lambda>handoff.
      act_ensure (cs_authorization st_now
          = authorization P (keys_coin_id (wc_keys c)) (capability_hash P cap) handoff)
        (Msg ''wallet authorization does not match enclave'')
      (act_bind (act_lift (from_client (prepare_recovery P m st_now (wc_client_secret c) cap handoff
           (capability_hash P (fd_next_capability rnd)) (secret_xonly P (fd_withdrawal rnd)) delay 0)))
         (\<lambda>(req, prep).
       let s1 = s\<lparr>ws_pending := Some (PendingRecovery
             \<lparr>pr_purpose = PurposeFund (fd_next_capability rnd) (secret_bytes (fd_withdrawal rnd)),
              pr_stage = StagePrepared
                \<lparr>ra_expected_signature_count = cs_signature_count st_now, ra_delay_blocks = delay,
                 ra_request = req, ra_prepared = prep\<rparr>\<rparr>)\<rparr> in
       act_bind (act_save P D st s1) (\<lambda>_.
       act_return s1)))))))))))))"

definition core_fund_broadcast ::
  "'m web_lib_scheme \<Rightarrow> peers \<Rightarrow> (nat \<Rightarrow> write_draws) \<Rightarrow> wallet_store \<Rightarrow> chain
    \<Rightarrow> wallet_state \<Rightarrow> report act" where
  "core_fund_broadcast P E D st chain s =
     (let already_broadcast = (funding_stage_of s = Some Broadcast) in
      act_context (ws_coin s) (Msg ''secured funding coin is missing'') (\<lambda>c.
      act_context (wc_metadata c) (Msg ''secured funding metadata is missing'') (\<lambda>m.
      act_context (wc_funding c) (Msg ''secured funding journal is missing'') (\<lambda>f.
      act_ensure (fj_stage f = RecoverySecured \<or> fj_stage f = Broadcast)
        (Msg ''funding cannot be broadcast before its recovery is durable'')
      (act_context (first_opt (wc_history c)) (Msg ''secured funding recovery is missing'') (\<lambda>r.
       act_ensure (rec_delay_blocks r = fj_delay_blocks f)
         (Msg ''secured funding recovery has the wrong delay'')
       (act_bind (act_lift (from_client (verify_recovery P m r))) (\<lambda>_.
        act_bind (act_talk (chain_broadcast_funding P E chain m (fj_transaction f))) (\<lambda>txid.
        act_ensure (txid = op_txid (md_outpoint m))
          (Msg ''broadcast funding txid does not match recovery outpoint'')
        (act_bind
          (if already_broadcast then act_return s
           else
             let s1 = s\<lparr>ws_coin := Some (c\<lparr>wc_funding := Some (f\<lparr>fj_stage := Broadcast\<rparr>)\<rparr>)\<rparr> in
             act_bind (act_save P D st s1) (\<lambda>_. act_return s1)) (\<lambda>s2.
         act_context (ws_coin s2) (Msg ''funded coin is missing'') (\<lambda>c2.
         act_lift (emit_funding P c2 already_broadcast)))))))))))))"

definition fund_coin_core ::
  "'m web_lib_scheme \<Rightarrow> peers \<Rightarrow> (nat \<Rightarrow> write_draws) \<Rightarrow> funding_draws \<Rightarrow> wallet_store \<Rightarrow> config
    \<Rightarrow> u64 \<Rightarrow> u32 \<Rightarrow> u64 \<Rightarrow> u64 \<Rightarrow> wallet_state \<Rightarrow> report act" where
  "fund_coin_core P E D rnd st cfg amount delay fee_rate max_fee s =
     (let stage = funding_stage_of s;
          needs_enclave = (ws_pending s \<noteq> None \<or> stage = None \<or> stage = Some FundingPrepared) in
      act_bind
        (if needs_enclave
         then act_bind (act_talk (connect_verified P E cfg)) (\<lambda>e. act_return (Some e))
         else act_return None) (\<lambda>enclave.
      act_bind (chain_connect P E (cfg_chain cfg) (cfg_network cfg)) (\<lambda>chain.
      act_context (ws_coin s) (Msg ''register a coin first'') (\<lambda>c.
      act_bind
        (if wc_funding c \<noteq> None then act_return s
         else core_fund_prepare P E D st cfg enclave chain amount delay fee_rate max_fee c s) (\<lambda>s1.
      act_bind (act_lift (check_funding_policy s1 amount delay fee_rate max_fee)) (\<lambda>_.
      act_bind (act_lift (core_fund_check_pending s1 delay)) (\<lambda>_.
      act_context (funding_stage_of s1) (Msg ''prepared funding journal is missing'') (\<lambda>stage1.
      act_bind
        (if stage1 = FundingPrepared \<and> ws_pending s1 = None
         then core_fund_begin P E D rnd st enclave chain delay s1 else act_return s1) (\<lambda>s2.
      act_bind
        (if ws_pending s2 = None then act_return s2
         else act_context enclave (Msg ''funding requires the enclave'') (\<lambda>e.
           finish_pending_funding_recovery P E D st s2 e cfg)) (\<lambda>s3.
      core_fund_broadcast P E D st chain s3))))))))))"

definition fund_coin ::
  "'m web_lib_scheme \<Rightarrow> peers \<Rightarrow> (nat \<Rightarrow> write_draws) \<Rightarrow> funding_draws \<Rightarrow> cli
    \<Rightarrow> u64 \<Rightarrow> u32 \<Rightarrow> u64 \<Rightarrow> u64 \<Rightarrow> report act" where
  "fund_coin P E D rnd cl amount delay fee_rate max_fee =
     act_ensure (unat delay < 2 ^ 16) (Fmt ''recovery delay cannot exceed {} blocks'' [65535])
     (act_bind (act_lift (require_reaction_margin 0 delay 0)) (\<lambda>_.
      open_wallet P cl (\<lambda>st cfg.
      case cfg_chain cfg of
        ExplorerConfig _ \<Rightarrow> fund_coin_explorer P E D rnd st cfg amount delay fee_rate max_fee
      | CoreRpcConfig _ _ _ \<Rightarrow>
        act_bind (act_io (load P st)) (fund_coin_core P E D rnd st cfg amount delay fee_rate max_fee))))"

end
