(* ===== verification/Commands_Transfer.thy ===== *)
theory Commands_Transfer
  imports Commands_Fund
begin

text \<open>
  The commands of \<^verbatim>\<open>wallet/src/cli.rs\<close> that transfer a coin: the receiver's request, the
  sender's signature and package, and the receiver's acceptance.
\<close>

definition artifact_source :: "destination \<Rightarrow> entry option" where
  "artifact_source dest =
     (case dest of Console \<Rightarrow> None
      | ToPath p \<Rightarrow> Some (target_dir p, case path_name p of None \<Rightarrow> [] | Some name \<Rightarrow> name))"

subsection \<open>Sending\<close>

definition sign_begin ::
  "'m web_lib_scheme \<Rightarrow> peers \<Rightarrow> (nat \<Rightarrow> write_draws) \<Rightarrow> wallet_store \<Rightarrow> config \<Rightarrow> transfer_request
    \<Rightarrow> destination \<Rightarrow> wallet_state \<Rightarrow> (wallet_state \<times> enclave_connection option) act" where
  "sign_begin P E D st cfg req output s =
     act_bind (act_io (ensure_destination_available output)) (\<lambda>_.
     act_context (ws_coin s) (Msg ''wallet has no coin'') (\<lambda>c.
     act_context (wc_metadata c) (Msg ''coin has no verified funding'') (\<lambda>m.
     act_bind (act_talk (connect_verified P E cfg)) (\<lambda>e.
     act_bind (act_talk (enclave_status P E e (keys_coin_id (md_keys m)))) (\<lambda>st_now.
     act_bind (chain_connect P E (cfg_chain cfg) (cfg_network cfg)) (\<lambda>chain.
     act_bind (act_talk (chain_observe_funding P E chain m)) (\<lambda>observation.
     act_method (begin_transfer P s (cfg_network cfg) req st_now (dfo_funding observation)
         (cfg_min_confirmations cfg) (cfg_min_reaction_blocks cfg)) (\<lambda>_ s1.
     act_bind (act_save P D st s1) (\<lambda>_.
     act_return (s1, Some e))))))))))"

definition sign_send ::
  "'m web_lib_scheme \<Rightarrow> peers \<Rightarrow> (nat \<Rightarrow> write_draws) \<Rightarrow> wallet_store \<Rightarrow> config
    \<Rightarrow> wallet_state \<Rightarrow> enclave_connection option \<Rightarrow> (wallet_state \<times> enclave_connection option) act" where
  "sign_send P E D st cfg s enclave =
     act_bind (connected P E cfg enclave) (\<lambda>e.
     act_context (Option.bind (ws_coin s) wc_metadata) (Msg ''pending transfer metadata is missing'') (\<lambda>m.
     act_bind (act_talk (enclave_status P E e (keys_coin_id (md_keys m)))) (\<lambda>st_now.
     act_bind (chain_connect P E (cfg_chain cfg) (cfg_network cfg)) (\<lambda>chain.
     act_bind (act_talk (chain_observe_funding P E chain m)) (\<lambda>observation.
     act_bind (act_lift (validate_pending_transfer P s st_now (dfo_funding observation)
         (cfg_min_confirmations cfg) (cfg_min_reaction_blocks cfg))) (\<lambda>_.
     act_bind (act_lift (pending_sign_request s)) (\<lambda>sign_req.
     act_bind (act_talk (enclave_sign P E e sign_req)) (\<lambda>resp.
     act_method (record_sign_response s resp) (\<lambda>_ s1.
     act_bind (act_save P D st s1) (\<lambda>_.
     act_return (s1, Some e)))))))))))"

definition sign_complete ::
  "'m cli_lib_scheme \<Rightarrow> peers \<Rightarrow> (nat \<Rightarrow> write_draws) \<Rightarrow> transfer_material \<Rightarrow> u64 \<Rightarrow> wallet_store \<Rightarrow> config
    \<Rightarrow> transfer_request \<Rightarrow> destination \<Rightarrow> wallet_state \<Rightarrow> enclave_connection option \<Rightarrow> report act" where
  "sign_complete P E D mat tmp st cfg req output s enclave =
     act_bind (connected P E cfg enclave) (\<lambda>e.
     act_context (ws_coin s) (Msg ''pending transfer coin is missing'') (\<lambda>c.
     act_bind (act_talk (enclave_status P E e (keys_coin_id (wc_keys c)))) (\<lambda>st_now.
     act_method (complete_transfer P mat s st_now) (\<lambda>envelope s1.
     act_bind (act_save P D st s1) (\<lambda>_.
     act_bind (act_io (write_json_destination P tmp (envelope_to_vec_pretty P) output envelope)) (\<lambda>_.
     act_return (TransferSentReport False req envelope output)))))))"

definition sign_transfer ::
  "'m cli_lib_scheme \<Rightarrow> peers \<Rightarrow> (nat \<Rightarrow> write_draws) \<Rightarrow> transfer_material \<Rightarrow> u64 \<Rightarrow> cli
    \<Rightarrow> destination \<Rightarrow> destination \<Rightarrow> report act" where
  "sign_transfer P E D mat tmp cl request_path output =
     act_bind (act_lift (require_output_file output)) (\<lambda>_.
     act_bind (act_io (read_json_source P (request_from_slice P) (cl_stdin cl) (artifact_source request_path)))
       (\<lambda>req.
     act_bind (act_lift (request_validate P req)) (\<lambda>_.
     open_wallet P cl (\<lambda>st cfg.
     act_bind (act_io (load_native P st)) (\<lambda>n.
     case Option.bind (native_coin n) wc_outgoing of
       Some outgoing \<Rightarrow>
         act_ensure (ot_request outgoing = req) (Msg ''coin was transferred using another request'')
         (act_bind (act_io (write_json_destination P tmp (envelope_to_vec_pretty P) output
             (ot_envelope outgoing))) (\<lambda>_.
          act_return (TransferSentReport True req (ot_envelope outgoing) output)))
     | None \<Rightarrow>
         act_ensure (nw_exit n = None)
           (Msg ''coin has a saved exit; finish that exact exit before transferring'')
         (let s = nw_wallet n in
          act_bind
            (if ws_pending s = None then act_return ()
             else act_bind (act_lift (pending_transfer_request s)) (\<lambda>pending.
               act_ensure (pending = req) (Msg ''pending signing request does not match input'')
                 (act_return ()))) (\<lambda>_.
          act_bind
            (if ws_pending s = None then sign_begin P E D st cfg req output s
             else act_return (s, None)) (\<lambda>(s1, e1).
          act_bind
            (case prepared_attempt s1 of None \<Rightarrow> act_return (s1, e1)
             | Some _ \<Rightarrow> sign_send P E D st cfg s1 e1) (\<lambda>(s2, e2).
          sign_complete P E D mat tmp st cfg req output s2 e2)))))))))"

subsection \<open>Receiving\<close>

definition create_transfer_request ::
  "'m cli_lib_scheme \<Rightarrow> (nat \<Rightarrow> write_draws) \<Rightarrow> transfer_request_draws \<Rightarrow> u64 \<Rightarrow> cli
    \<Rightarrow> string \<Rightarrow> outpoint \<Rightarrow> u64 \<Rightarrow> u32 option \<Rightarrow> destination \<Rightarrow> report act" where
  "create_transfer_request P D rnd tmp cl coin_id_text op amount minimum output =
     act_bind (act_lift (require_output_file output)) (\<lambda>_.
     act_bind (act_lift (parse_hex32 P ''coin ID'' coin_id_text)) (\<lambda>cid.
     open_wallet P cl (\<lambda>st cfg.
     act_bind (act_io (load P st)) (\<lambda>s.
     let requested_margin = max (cfg_min_reaction_blocks cfg) (case minimum of None \<Rightarrow> 0 | Some b \<Rightarrow> b);
         existing = (ws_incoming s \<noteq> None) in
     act_bind (if existing then act_return () else act_io (ensure_destination_available output)) (\<lambda>_.
     act_method (begin_transfer_request P rnd s (cfg_network cfg) cid op amount requested_margin) (\<lambda>req s1.
     act_bind (if existing then act_return () else act_save P D st s1) (\<lambda>_.
     act_bind (act_io (write_json_destination P tmp (request_to_vec_pretty P) output req)) (\<lambda>_.
     act_return (RequestReport req output)))))))))"

text \<open>Reading the request from the input leaves nothing there for the package.\<close>

definition accept_transfer_command ::
  "'m cli_lib_scheme \<Rightarrow> peers \<Rightarrow> (nat \<Rightarrow> write_draws) \<Rightarrow> cli \<Rightarrow> destination \<Rightarrow> destination
    \<Rightarrow> report act" where
  "accept_transfer_command P E D cl request_path package_path =
     act_bind (act_io (read_json_source P (request_from_slice P) (cl_stdin cl) (artifact_source request_path)))
       (\<lambda>req.
     act_bind (act_io (read_json_source P (envelope_from_slice P)
         (if request_path = Console then [] else cl_stdin cl) (artifact_source package_path))) (\<lambda>env.
     act_bind (act_lift (request_validate P req)) (\<lambda>_.
     open_wallet P cl (\<lambda>st cfg.
     act_bind (act_io (load P st)) (\<lambda>s.
     case ws_coin s of
       Some c \<Rightarrow>
         act_ensure (wc_accepted_request c = Some req
             \<and> wc_accepted_envelope_fingerprint c = Some (fingerprint P env))
           (Msg ''wallet already contains a different coin or transfer'')
         (act_return (AlreadyAccepted req (length (wc_history c))
           (map_option rec_delay_blocks (last_opt (wc_history c)))))
     | None \<Rightarrow>
         act_context (ws_incoming s) (Msg ''wallet has no matching transfer request'') (\<lambda>incoming.
         act_bind (act_lift (decrypt_transfer P req (it_transport_secret incoming) env)) (\<lambda>p.
         let m = tp_metadata p in
         act_bind (act_talk (connect_verified P E cfg)) (\<lambda>e.
         act_bind (act_talk (enclave_status P E e (keys_coin_id (md_keys m)))) (\<lambda>st_now.
         act_bind (chain_connect P E (cfg_chain cfg) (cfg_network cfg)) (\<lambda>chain.
         act_bind (act_talk (chain_observe_funding P E chain m)) (\<lambda>observation.
         act_method (accept_transfer P s (cfg_network cfg) req env st_now (dfo_funding observation)
             (cfg_min_confirmations cfg) (cfg_min_reaction_blocks cfg)) (\<lambda>accepted s1.
         act_ensure accepted (Msg ''transfer was already accepted'')
         (act_bind (act_save P D st s1) (\<lambda>_.
          act_context (ws_coin s1) (Msg ''accepted coin is missing'') (\<lambda>c.
          act_context (last_opt (wc_history c)) (Msg ''accepted transfer has no recovery history'') (\<lambda>latest.
          act_return (AcceptedReport req (cs_signature_count st_now) (rec_delay_blocks latest)
            (dfo_tip_height observation) (obs_confirmations (dfo_funding observation)))))))))))))))))))"

end
