(* ===== verification/Commands_Exit.thy ===== *)
theory Commands_Exit
  imports Commands_Transfer
begin

text \<open>
  The commands of \<^verbatim>\<open>wallet/src/cli.rs\<close> that take money out: the sweep of the deposits and
  the exit of a coin. Both keep a journal in the native state: what is handed in was saved
  before, in the stage that says so.
\<close>

definition serialize_hex :: "'m web_lib_scheme \<Rightarrow> transaction \<Rightarrow> string" where
  "serialize_hex P t = hex_encode P (tx_serialize P t)"

text \<open>\<open>Address::from_str\<close> and \<open>require_network\<close>, with the messages of the command.\<close>

definition destination_address ::
  "'m wallet_lib_scheme \<Rightarrow> network_id \<Rightarrow> string \<Rightarrow> string \<Rightarrow> string \<Rightarrow> anyhow + address" where
  "destination_address P net text invalid wrong =
     with_context (address_from_str P text) (Msg invalid) (\<lambda>unchecked.
     with_context (require_network P unchecked (bitcoin_network net)) (Msg wrong) Inr)"

subsection \<open>Sweeping the deposits\<close>

definition reserved_inputs :: "native_state \<Rightarrow> outpoint set" where
  "reserved_inputs n =
     (case Option.bind (native_coin n) wc_funding of None \<Rightarrow> {}
      | Some f \<Rightarrow> set (map previous_output (inputs (fj_transaction f))))"

definition available_source_sweep_inputs ::
  "'m web_lib_scheme \<Rightarrow> peers \<Rightarrow> native_state \<Rightarrow> chain \<Rightarrow> config \<Rightarrow> source_utxo list talk" where
  "available_source_sweep_inputs P E n chain cfg =
     talk_bind (chain_confirmed_source_utxos P E chain
         (source_funding_address P (nw_funding_secret n) (cfg_network cfg))) (\<lambda>deposits.
     let sources = filter (\<lambda>s. \<not> su_coinbase s \<and> su_outpoint s \<notin> reserved_inputs n) deposits in
     talk_return (take 100
       (sort_key (\<lambda>s. CandidateKey (txout_value (su_output s)) (su_outpoint s)) sources)))"

definition validate_source_sweep_policy ::
  "sweep_journal \<Rightarrow> string \<Rightarrow> u64 \<Rightarrow> u64 \<Rightarrow> anyhow + unit" where
  "validate_source_sweep_policy j destination fee_rate max_fee =
     ensure (sj_destination j = destination \<and> sj_fee_rate j = fee_rate \<and> sj_max_fee j = max_fee)
       (Msg ''saved source sweep policy does not match this command'') (Inr ())"

definition check_saved_source :: "source_utxo list \<Rightarrow> source_utxo \<Rightarrow> anyhow + unit" where
  "check_saved_source available saved =
     with_context (find (\<lambda>s. su_outpoint s = su_outpoint saved) available)
       (Msg ''saved source sweep input is no longer confirmed and unspent'') (\<lambda>observed.
     ensure (su_output observed = su_output saved \<and> su_coinbase observed = su_coinbase saved)
       (Msg ''saved source sweep input changed'') (Inr ()))"

definition validate_source_sweep_inputs ::
  "'m web_lib_scheme \<Rightarrow> peers \<Rightarrow> native_state \<Rightarrow> chain \<Rightarrow> config \<Rightarrow> unit talk" where
  "validate_source_sweep_inputs P E n chain cfg =
     talk_context (nw_source_sweep n) (Msg ''source sweep journal is missing'') (\<lambda>j.
     talk_bind (talk_lift (sweep_validate P j (nw_funding_secret n))) (\<lambda>_.
     talk_bind (chain_confirmed_source_utxos P E chain
         (source_funding_address P (nw_funding_secret n) (cfg_network cfg))) (\<lambda>available.
     talk_lift (try_each (check_saved_source available) (sj_sources j)))))"

definition emit_source_sweep :: "'m bitcoin_lib_scheme \<Rightarrow> native_state \<Rightarrow> bool \<Rightarrow> anyhow + report" where
  "emit_source_sweep P n existing =
     with_context (nw_source_sweep n) (Msg ''source sweep journal is missing'') (\<lambda>j.
     Inr (SweepReport existing (compute_txid P (sj_transaction j)) (sj_destination j)
       (length (sj_sources j)) (sj_fee_rate j) (sj_fee j)))"

text \<open>The sweep is on the chain: the two blocks of \<open>source_sweep\<close> that record it.\<close>

definition record_observed_sweep ::
  "'m web_lib_scheme \<Rightarrow> (nat \<Rightarrow> write_draws) \<Rightarrow> wallet_store \<Rightarrow> transaction_observation \<Rightarrow> sweep_journal
    \<Rightarrow> native_state \<Rightarrow> native_state act" where
  "record_observed_sweep P D st observed j n =
     act_ensure (tob_transaction observed = sj_transaction j)
       (Msg ''observed source sweep bytes do not match the saved transaction'')
     (if sj_stage j = SweepObserved then act_return n
      else
        act_bind
          (if sj_stage j = SweepPrepared
           then act_method (sweep_arm_submission P j (nw_funding_secret n)) (\<lambda>_ j1.
             act_bind (act_save_native P D st (n\<lparr>nw_source_sweep := Some j1\<rparr>)) (\<lambda>_.
             act_return j1))
           else act_return j) (\<lambda>j1.
        act_method (sweep_mark_observed P j1 (nw_funding_secret n) (tob_transaction observed)) (\<lambda>_ j2.
        act_bind (act_save_native P D st (n\<lparr>nw_source_sweep := Some j2\<rparr>)) (\<lambda>_.
        act_return (n\<lparr>nw_source_sweep := Some j2\<rparr>)))))"

definition prepare_sweep ::
  "'m web_lib_scheme \<Rightarrow> (nat \<Rightarrow> write_draws) \<Rightarrow> wallet_store \<Rightarrow> config \<Rightarrow> source_utxo list
    \<Rightarrow> string \<Rightarrow> u64 \<Rightarrow> u64 \<Rightarrow> native_state \<Rightarrow> native_state act" where
  "prepare_sweep P D st cfg sources destination fee_rate max_fee n =
     act_bind (act_lift (sweep_prepare P (nw_funding_secret n) (cfg_network cfg) sources destination
         fee_rate max_fee)) (\<lambda>j.
     act_bind (act_save_native P D st (n\<lparr>nw_source_sweep := Some j\<rparr>)) (\<lambda>_.
     act_return (n\<lparr>nw_source_sweep := Some j\<rparr>)))"

text \<open>The saved sweep, if the chain has it. The flag says that the command is done with it.\<close>

definition sweep_resume ::
  "'m web_lib_scheme \<Rightarrow> peers \<Rightarrow> (nat \<Rightarrow> write_draws) \<Rightarrow> wallet_store \<Rightarrow> config \<Rightarrow> chain
    \<Rightarrow> string \<Rightarrow> u64 \<Rightarrow> u64 \<Rightarrow> sweep_journal \<Rightarrow> native_state \<Rightarrow> (native_state \<times> bool) act" where
  "sweep_resume P E D st cfg chain destination fee_rate max_fee j n =
     act_bind (act_talk (chain_transaction P E chain (compute_txid P (sj_transaction j)))) (\<lambda>found.
     case found of
       None \<Rightarrow> act_return (n, False)
     | Some observed \<Rightarrow>
       act_bind (record_observed_sweep P D st observed j n) (\<lambda>n1.
       act_bind
         (if cfg_min_confirmations cfg \<le> tob_confirmations observed
          then act_talk (available_source_sweep_inputs P E n1 chain cfg) else act_return []) (\<lambda>sources.
       if sources \<noteq> []
       then act_bind (prepare_sweep P D st cfg sources destination fee_rate max_fee n1) (\<lambda>n2.
         act_return (n2, False))
       else
         act_context (nw_source_sweep n1) (Msg ''checked above'') (\<lambda>j1.
         act_bind (act_lift (validate_source_sweep_policy j1 destination fee_rate max_fee)) (\<lambda>_.
         act_return (n1, True))))))"

definition discard_sweep :: "string \<Rightarrow> u64 \<Rightarrow> u64 \<Rightarrow> native_state \<Rightarrow> native_state" where
  "discard_sweep destination fee_rate max_fee n =
     (case nw_source_sweep n of
        Some j \<Rightarrow>
          if sj_stage j = SweepPrepared
             \<and> (sj_destination j \<noteq> destination \<or> sj_fee_rate j \<noteq> fee_rate \<or> sj_max_fee j \<noteq> max_fee)
          then n\<lparr>nw_source_sweep := None\<rparr> else n
      | None \<Rightarrow> n)"

definition sweep_submit ::
  "'m web_lib_scheme \<Rightarrow> peers \<Rightarrow> (nat \<Rightarrow> write_draws) \<Rightarrow> wallet_store \<Rightarrow> config \<Rightarrow> chain
    \<Rightarrow> sweep_journal \<Rightarrow> native_state \<Rightarrow> report act" where
  "sweep_submit P E D st cfg chain j n =
     act_bind (act_talk (validate_source_sweep_inputs P E n chain cfg)) (\<lambda>_.
     act_method (sweep_arm_submission P j (nw_funding_secret n)) (\<lambda>_ j1.
     act_bind (act_save_native P D st (n\<lparr>nw_source_sweep := Some j1\<rparr>)) (\<lambda>_.
     act_bind (act_talk (chain_broadcast_exact P E chain (sj_transaction j))) (\<lambda>_.
     act_bind (act_talk (chain_transaction P E chain (compute_txid P (sj_transaction j)))) (\<lambda>found.
     act_context found
       (Msg ''broadcast source sweep is not yet observable; rerun the command'') (\<lambda>observed.
     act_method (sweep_mark_observed P j1 (nw_funding_secret n) (tob_transaction observed)) (\<lambda>_ j2.
     act_bind (act_save_native P D st (n\<lparr>nw_source_sweep := Some j2\<rparr>)) (\<lambda>_.
     act_lift (emit_source_sweep P (n\<lparr>nw_source_sweep := Some j2\<rparr>) False)))))))))"

definition source_sweep ::
  "'m web_lib_scheme \<Rightarrow> peers \<Rightarrow> (nat \<Rightarrow> write_draws) \<Rightarrow> cli \<Rightarrow> string \<Rightarrow> u64 \<Rightarrow> u64 \<Rightarrow> report act" where
  "source_sweep P E D cl destination_text fee_rate max_fee =
     act_ensure (0 < fee_rate) (Msg ''source sweep fee rate must be positive'')
     (open_wallet P cl (\<lambda>st cfg.
      act_ensure (case cfg_chain cfg of ExplorerConfig _ \<Rightarrow> True | CoreRpcConfig _ _ _ \<Rightarrow> False)
        (Msg ''source sweep requires an explorer backend'')
      (act_bind (act_lift (destination_address P (cfg_network cfg) destination_text
          ''invalid source sweep destination'' ''source sweep destination is for the wrong network'')) (\<lambda>dest.
       let destination = address_string P dest in
       act_bind (chain_connect P E (cfg_chain cfg) (cfg_network cfg)) (\<lambda>chain.
       act_bind (act_io (load_native P st)) (\<lambda>n.
       act_bind
         (case nw_source_sweep n of None \<Rightarrow> act_return (n, False)
          | Some j \<Rightarrow> sweep_resume P E D st cfg chain destination fee_rate max_fee j n) (\<lambda>(n1, finished).
       if finished then act_lift (emit_source_sweep P n1 True)
       else
         let n2 = discard_sweep destination fee_rate max_fee n1 in
         act_bind
           (if nw_source_sweep n2 \<noteq> None then act_return n2
            else
              act_bind (act_talk (available_source_sweep_inputs P E n2 chain cfg)) (\<lambda>sources.
              act_ensure (sources \<noteq> [])
                (Msg ''deposit address has no unreserved confirmed outputs to sweep'')
                (prepare_sweep P D st cfg sources destination fee_rate max_fee n2))) (\<lambda>n3.
         act_context (nw_source_sweep n3) (Msg ''source sweep journal is missing'') (\<lambda>j.
         act_bind (act_lift (validate_source_sweep_policy j destination fee_rate max_fee)) (\<lambda>_.
         act_bind (act_lift (sweep_validate P j (nw_funding_secret n3))) (\<lambda>_.
         act_bind (act_talk (chain_transaction P E chain (compute_txid P (sj_transaction j)))) (\<lambda>found.
         case found of
           Some observed \<Rightarrow>
             act_bind (record_observed_sweep P D st observed j n3) (\<lambda>n4.
             act_lift (emit_source_sweep P n4 True))
         | None \<Rightarrow> sweep_submit P E D st cfg chain j n3))))))))))))"

subsection \<open>Leaving with the owned recovery\<close>

definition emit_exit :: "'m bitcoin_lib_scheme \<Rightarrow> native_state \<Rightarrow> bool \<Rightarrow> anyhow + report" where
  "emit_exit P n existing =
     with_context (native_coin n) (Msg ''wallet has no coin'') (\<lambda>c.
     with_context (nw_exit n) (Msg ''exit journal is missing'') (\<lambda>j.
     let p = ej_package j in
     Inr (ExitReport existing (keys_coin_id (wc_keys c)) (compute_txid P (ep_parent p))
       (compute_txid P (ep_child p)) (ep_destination p) (ep_fee_rate p) (ep_fee p))))"

definition exit_policy_matches :: "exit_package \<Rightarrow> string \<Rightarrow> u64 option \<Rightarrow> u64 \<Rightarrow> bool" where
  "exit_policy_matches p destination fee_rate max_fee \<longleftrightarrow>
     ep_destination p = destination \<and> ep_max_fee p = max_fee
     \<and> (case fee_rate of None \<Rightarrow> True | Some rate \<Rightarrow> rate = ep_fee_rate p)"

definition validate_saved_exit_policy ::
  "'m transfer_lib_scheme \<Rightarrow> native_state \<Rightarrow> string \<Rightarrow> u64 option \<Rightarrow> u64 \<Rightarrow> anyhow + unit" where
  "validate_saved_exit_policy P n destination fee_rate max_fee =
     with_context (native_coin n) (Msg ''wallet has no coin'') (\<lambda>c.
     with_context (nw_exit n) (Msg ''exit journal is missing'') (\<lambda>j.
     and_then (exit_journal_validate P j c) (\<lambda>_.
     ensure (exit_policy_matches (ej_package j) destination fee_rate max_fee)
       (Msg ''saved exit policy does not match this command'') (Inr ()))))"

definition emit_saved_exit_package ::
  "'m web_lib_scheme \<Rightarrow> config \<Rightarrow> native_state \<Rightarrow> string \<Rightarrow> u64 option \<Rightarrow> u64 \<Rightarrow> anyhow + report" where
  "emit_saved_exit_package P cfg n destination_text fee_rate max_fee =
     and_then (destination_address P (cfg_network cfg) destination_text
         ''invalid destination address'' ''address network mismatch'') (\<lambda>dest.
     with_context (native_coin n) (Msg ''wallet has no coin'') (\<lambda>c.
     with_context (nw_exit n) (Msg ''exit journal is missing'') (\<lambda>j.
     and_then (exit_journal_validate P j c) (\<lambda>_.
     let p = ej_package j in
     ensure (exit_policy_matches p (address_string P dest) fee_rate max_fee)
       (Msg ''saved exit policy does not match this command'')
     (Inr (PackagePrepared (keys_coin_id (wc_keys c)) (compute_txid P (ep_parent p))
       (compute_txid P (ep_child p)) (ep_destination p) (ep_fee_rate p) (ep_fee p)
       (serialize_hex P (ep_parent p)) (serialize_hex P (ep_child p))))))))"

record exit_presence =
  pres_parent :: bool
  pres_complete :: bool

text \<open>A back end that knows single transactions only: ask for the authorized bytes.\<close>

definition observe_on_core ::
  "'m web_lib_scheme \<Rightarrow> peers \<Rightarrow> chain \<Rightarrow> exit_stage \<Rightarrow> transaction \<Rightarrow> transaction_observation option
    \<Rightarrow> transaction_observation option talk" where
  "observe_on_core P E chain stage t found =
     (if found = None \<and> (case chain of OnCore _ \<Rightarrow> True | OnExplorer _ \<Rightarrow> False) \<and> stage \<noteq> ExitPrepared
      then chain_observe_authorized_transaction P E chain t else talk_return found)"

definition observe_exit_package ::
  "'m web_lib_scheme \<Rightarrow> peers \<Rightarrow> chain \<Rightarrow> exit_journal \<Rightarrow> wallet_coin \<Rightarrow> exit_presence talk" where
  "observe_exit_package P E chain j c =
     (let p = ej_package j in
      talk_bind (chain_transaction P E chain (compute_txid P (ep_child p))) (\<lambda>child0.
      talk_bind (observe_on_core P E chain (ej_stage j) (ep_child p) child0) (\<lambda>child.
      talk_bind (chain_transaction P E chain (compute_txid P (ep_parent p))) (\<lambda>parent0.
      talk_bind (observe_on_core P E chain (ej_stage j) (ep_parent p) parent0) (\<lambda>parent1.
      let parent =
        (case (parent1, chain, child) of
           (None, OnCore _, Some ob) \<Rightarrow>
             if ej_stage j \<noteq> ExitPrepared
             then Some \<lparr>tob_transaction = ep_parent p, tob_tip_height = tob_tip_height ob,
               tob_confirmations = tob_confirmations ob, tob_raw_bytes_observed = False\<rparr>
             else None
         | _ \<Rightarrow> parent1) in
      talk_bind
        (case parent of None \<Rightarrow> talk_return ()
         | Some ob \<Rightarrow> talk_lift (validate_observed_parent P j c (tob_transaction ob))) (\<lambda>_.
      talk_bind
        (case child of
           Some ob \<Rightarrow>
             talk_ensure (\<not> tob_raw_bytes_observed ob \<or> tob_transaction ob = ep_child p)
               (Msg ''observed exit child bytes do not match the saved package'')
             (talk_ensure (parent \<noteq> None) (Msg ''exit child is visible without its parent'')
               (talk_return ()))
         | None \<Rightarrow>
             if parent = None then talk_return ()
             else
               talk_bind (chain_outspend P E chain (OutPoint (compute_txid P (ep_parent p)) 0)) (\<lambda>out.
               talk_ensure (\<not> oso_spent out) (Msg ''exit parent is spent by an unknown transaction'')
                 (talk_return ()))) (\<lambda>_.
      talk_return \<lparr>pres_parent = (parent \<noteq> None),
        pres_complete = (parent \<noteq> None \<and> child \<noteq> None)\<rparr>)))))))"

definition mark_exit_observed ::
  "'m web_lib_scheme \<Rightarrow> (nat \<Rightarrow> write_draws) \<Rightarrow> wallet_store \<Rightarrow> native_state \<Rightarrow> bool \<Rightarrow> report act" where
  "mark_exit_observed P D st n existing =
     act_context (nw_exit n) (Msg ''exit journal is missing'') (\<lambda>j.
     act_bind
       (if ej_stage j = ExitObserved then act_return n
        else
          act_context (native_coin n) (Msg ''wallet has no coin'') (\<lambda>c.
          act_bind
            (if ej_stage j = ExitPrepared
             then act_method (exit_arm_submission P j c) (\<lambda>_ j1.
               act_bind (act_save_native P D st (n\<lparr>nw_exit := Some j1\<rparr>)) (\<lambda>_.
               act_return j1))
             else act_return j) (\<lambda>j1.
          act_method (exit_mark_observed P j1 c (ep_parent (ej_package j1)) (ep_child (ej_package j1)))
            (\<lambda>_ j2.
          act_bind (act_save_native P D st (n\<lparr>nw_exit := Some j2\<rparr>)) (\<lambda>_.
          act_return (n\<lparr>nw_exit := Some j2\<rparr>)))))) (\<lambda>n1.
     act_lift (emit_exit P n1 existing)))"

text \<open>After handing in: the package has to be on view.\<close>

definition exit_confirm ::
  "'m web_lib_scheme \<Rightarrow> peers \<Rightarrow> (nat \<Rightarrow> write_draws) \<Rightarrow> wallet_store \<Rightarrow> chain \<Rightarrow> exit_journal
    \<Rightarrow> wallet_coin \<Rightarrow> native_state \<Rightarrow> report act" where
  "exit_confirm P E D st chain j c n =
     act_bind (act_talk (observe_exit_package P E chain j c)) (\<lambda>presence.
     act_ensure (pres_complete presence)
       (Msg ''submitted exit package is not yet fully observable; rerun the command'')
     (mark_exit_observed P D st n False))"

text \<open>A journal past its preparation: \<open>None\<close> when nothing of the package is on view.\<close>

definition exit_resume ::
  "'m web_lib_scheme \<Rightarrow> peers \<Rightarrow> (nat \<Rightarrow> write_draws) \<Rightarrow> wallet_store \<Rightarrow> chain \<Rightarrow> string \<Rightarrow> u64 option
    \<Rightarrow> u64 \<Rightarrow> exit_journal \<Rightarrow> native_state \<Rightarrow> report option act" where
  "exit_resume P E D st chain destination fee_rate max_fee j n =
     act_bind (act_lift (validate_saved_exit_policy P n destination fee_rate max_fee)) (\<lambda>_.
     act_context (native_coin n) (Msg ''wallet has no coin'') (\<lambda>c.
     act_bind (act_talk (observe_exit_package P E chain j c)) (\<lambda>presence.
     if pres_complete presence
     then act_bind (mark_exit_observed P D st n True) (\<lambda>r. act_return (Some r))
     else if pres_parent presence
     then
       act_method (exit_arm_submission P j c) (\<lambda>_ j1.
       act_bind (act_save_native P D st (n\<lparr>nw_exit := Some j1\<rparr>)) (\<lambda>_.
       act_bind (act_talk (chain_broadcast_exact P E chain (ep_child (ej_package j1)))) (\<lambda>_.
       act_bind (exit_confirm P E D st chain j1 c (n\<lparr>nw_exit := Some j1\<rparr>)) (\<lambda>r.
       act_return (Some r)))))
     else act_return None)))"

text \<open>Who spent the funding output, when the back end does not say: the first recovery of the
  history that is on view, with the id, and whether it is confirmed.\<close>

fun spending_recovery ::
  "'m web_lib_scheme \<Rightarrow> peers \<Rightarrow> chain \<Rightarrow> coin_metadata \<Rightarrow> signed_recovery list
    \<Rightarrow> (txid \<times> bool) option talk" where
  "spending_recovery P E chain m [] = talk_return None"
| "spending_recovery P E chain m (r # rs) =
     talk_bind (chain_transaction P E chain (compute_txid P (rec_transaction r))) (\<lambda>found.
     case found of
       None \<Rightarrow> spending_recovery P E chain m rs
     | Some ob \<Rightarrow>
         talk_bind (talk_lift (from_client
           (verify_recovery P m (r\<lparr>rec_transaction := tob_transaction ob\<rparr>)))) (\<lambda>_.
         talk_return (Some (compute_txid P (rec_transaction r), 0 < tob_confirmations ob))))"

definition spending_package ::
  "'m web_lib_scheme \<Rightarrow> peers \<Rightarrow> chain \<Rightarrow> native_state \<Rightarrow> (txid \<times> bool) option talk" where
  "spending_package P E chain n =
     (case (chain, nw_exit n) of
        (OnCore _, Some j) \<Rightarrow>
          if ej_stage j = ExitPrepared then talk_return None
          else
            talk_bind (chain_observe_authorized_transaction P E chain (ep_parent (ej_package j)))
              (\<lambda>parent.
            talk_bind
              (if parent = None
               then chain_observe_authorized_transaction P E chain (ep_child (ej_package j))
               else talk_return None) (\<lambda>child.
            talk_return
              (map_option (\<lambda>ob. (compute_txid P (ep_parent (ej_package j)), 0 < tob_confirmations ob))
                (case parent of None \<Rightarrow> child | Some ob \<Rightarrow> Some ob))))
      | _ \<Rightarrow> talk_return None)"

definition exit_spender ::
  "'m web_lib_scheme \<Rightarrow> peers \<Rightarrow> chain \<Rightarrow> coin_metadata \<Rightarrow> native_state
    \<Rightarrow> detailed_funding_observation \<Rightarrow> (txid option \<times> bool) talk" where
  "exit_spender P E chain m n observation =
     (if obs_unspent (dfo_funding observation) \<or> dfo_spending_txid observation \<noteq> None
      then talk_return (dfo_spending_txid observation, dfo_spending_confirmed observation)
      else
        talk_context (native_coin n) (Msg ''wallet has no coin'') (\<lambda>c.
        talk_bind (spending_recovery P E chain m (wc_history c)) (\<lambda>spent.
        talk_bind
          (case spent of Some x \<Rightarrow> talk_return (Some x) | None \<Rightarrow> spending_package P E chain n) (\<lambda>spent2.
        talk_return
          (case spent2 of
             Some (t, confirmed) \<Rightarrow> (Some t, confirmed)
           | None \<Rightarrow> (None, dfo_spending_confirmed observation))))))"

definition exit_fee_rate :: "'m web_lib_scheme \<Rightarrow> peers \<Rightarrow> chain \<Rightarrow> u64 option \<Rightarrow> u64 talk" where
  "exit_fee_rate P E chain fee_rate =
     (case fee_rate of Some rate \<Rightarrow> talk_return rate | None \<Rightarrow> chain_recommended_fee_rate P E chain)"

text \<open>A new journal when there is none, or only a prepared one for another policy.\<close>

definition prepare_exit_journal ::
  "'m web_lib_scheme \<Rightarrow> peers \<Rightarrow> (nat \<Rightarrow> write_draws) \<Rightarrow> wallet_store \<Rightarrow> config \<Rightarrow> chain \<Rightarrow> string
    \<Rightarrow> u64 option \<Rightarrow> u64 \<Rightarrow> u32 \<Rightarrow> wallet_coin \<Rightarrow> native_state \<Rightarrow> native_state act" where
  "prepare_exit_journal P E D st cfg chain destination fee_rate max_fee confirmations c n =
     (if (case nw_exit n of None \<Rightarrow> True
          | Some j \<Rightarrow> ej_stage j = ExitPrepared
              \<and> \<not> exit_policy_matches (ej_package j) destination fee_rate max_fee)
      then
        act_bind (act_talk (exit_fee_rate P E chain fee_rate)) (\<lambda>rate.
        act_bind (act_lift (exit_prepare P c (cfg_network cfg) destination confirmations rate max_fee))
          (\<lambda>j.
        act_bind (act_save_native P D st (n\<lparr>nw_exit := Some j\<rparr>)) (\<lambda>_.
        act_return (n\<lparr>nw_exit := Some j\<rparr>))))
      else act_return n)"

definition exit_submit ::
  "'m web_lib_scheme \<Rightarrow> peers \<Rightarrow> (nat \<Rightarrow> write_draws) \<Rightarrow> wallet_store \<Rightarrow> chain \<Rightarrow> u32 \<Rightarrow> exit_journal
    \<Rightarrow> wallet_coin \<Rightarrow> native_state \<Rightarrow> report act" where
  "exit_submit P E D st chain confirmations j c n =
     act_bind (act_talk (observe_exit_package P E chain j c)) (\<lambda>presence.
     if pres_complete presence then mark_exit_observed P D st n True
     else
       act_ensure (ep_recovery_delay (ej_package j) \<le> confirmations)
         (Fmt ''recovery is not final until funding has {} confirmations (currently {})''
            [unat (ep_recovery_delay (ej_package j)), unat confirmations])
       (act_method (exit_arm_submission P j c) (\<lambda>_ j1.
        act_bind (act_save_native P D st (n\<lparr>nw_exit := Some j1\<rparr>)) (\<lambda>_.
        act_bind
          (if pres_parent presence
           then act_bind (act_talk (chain_broadcast_exact P E chain (ep_child (ej_package j1))))
             (\<lambda>_. act_return ())
           else act_talk (chain_submit_package P E chain (serialize_hex P (ep_parent (ej_package j1)))
             (serialize_hex P (ep_child (ej_package j1))))) (\<lambda>_.
        exit_confirm P E D st chain j1 c (n\<lparr>nw_exit := Some j1\<rparr>))))))"

definition exit_coin_journaled ::
  "'m web_lib_scheme \<Rightarrow> peers \<Rightarrow> (nat \<Rightarrow> write_draws) \<Rightarrow> wallet_store \<Rightarrow> config \<Rightarrow> native_state
    \<Rightarrow> string \<Rightarrow> u64 option \<Rightarrow> u64 \<Rightarrow> report act" where
  "exit_coin_journaled P E D st cfg n destination_text fee_rate max_fee =
     act_bind (act_lift (destination_address P (cfg_network cfg) destination_text
         ''invalid destination address'' ''destination address is for the wrong network'')) (\<lambda>dest.
     let destination = address_string P dest in
     act_bind (chain_connect P E (cfg_chain cfg) (cfg_network cfg)) (\<lambda>chain.
     act_context (Option.bind (native_coin n) wc_metadata) (Msg ''coin has no verified funding'') (\<lambda>m.
     act_bind
       (case nw_exit n of
          Some j \<Rightarrow>
            if ej_stage j = ExitPrepared then act_return None
            else exit_resume P E D st chain destination fee_rate max_fee j n
        | None \<Rightarrow> act_return None) (\<lambda>resumed.
     case resumed of
       Some r \<Rightarrow> act_return r
     | None \<Rightarrow>
       act_bind (act_talk (chain_observe_funding P E chain m)) (\<lambda>observation.
       act_bind (act_talk (exit_spender P E chain m n observation)) (\<lambda>(spending_txid, spending_confirmed).
       act_context (native_coin n) (Msg ''wallet has no coin'') (\<lambda>c.
       act_bind (act_lift (verify_exit_funding P c (dfo_funding observation) 1 spending_txid
           spending_confirmed (map_option (\<lambda>j. compute_txid P (ep_parent (ej_package j))) (nw_exit n))))
         (\<lambda>_.
       act_bind (prepare_exit_journal P E D st cfg chain destination fee_rate max_fee
           (obs_confirmations (dfo_funding observation)) c n) (\<lambda>n1.
       act_bind (act_lift (validate_saved_exit_policy P n1 destination fee_rate max_fee)) (\<lambda>_.
       act_context (nw_exit n1) (Msg ''exit journal is missing'') (\<lambda>j.
       exit_submit P E D st chain (obs_confirmations (dfo_funding observation)) j c n1)))))))))))"

text \<open>The owned recovery as a dry run reads it. \<open>child.output[0]\<close> is there: \<open>build_exit_child\<close>
  returns a child with one output.\<close>

definition dry_run_exit ::
  "'m web_lib_scheme \<Rightarrow> peers \<Rightarrow> config \<Rightarrow> wallet_state \<Rightarrow> string \<Rightarrow> u64 option \<Rightarrow> u64 \<Rightarrow> report act" where
  "dry_run_exit P E cfg s destination_text fee_rate max_fee =
     act_context (ws_coin s) (Msg ''wallet has no coin'') (\<lambda>c.
     act_context (wc_metadata c) (Msg ''coin has no verified funding'') (\<lambda>m.
     act_bind (act_lift (saved_withdrawal_key P c)) (\<lambda>sk.
     act_context (wc_withdrawal_recovery_index c) (Msg ''wallet has no owned recovery'') (\<lambda>i.
     act_context (nth_opt (wc_history c) i) (Msg ''owned recovery index is invalid'') (\<lambda>r.
     act_ensure (secret_xonly P sk = rec_withdrawal_key r)
       (Msg ''saved withdrawal key does not match owned recovery'')
     (act_bind (act_lift (from_client (verify_recovery P m r))) (\<lambda>_.
      act_ensure (case wc_funding c of None \<Rightarrow> True | Some f \<Rightarrow> fj_stage f = Broadcast)
        (Msg ''funding has not been broadcast'')
      (act_bind (act_lift (destination_address P (cfg_network cfg) destination_text
          ''invalid destination address'' ''destination address is for the wrong network'')) (\<lambda>dest.
       act_bind (chain_connect P E (cfg_chain cfg) (cfg_network cfg)) (\<lambda>chain.
       act_bind (act_talk (chain_verify_funding P E chain m 1)) (\<lambda>observation.
       act_ensure (rec_delay_blocks r \<le> fo_confirmations observation)
         (Fmt ''recovery is not final until funding has {} confirmations (currently {})''
            [unat (rec_delay_blocks r), unat (fo_confirmations observation)])
       (act_bind (act_talk (exit_fee_rate P E chain fee_rate)) (\<lambda>rate.
        act_ensure (0 < rate) (Msg ''exit fee rate must be positive'')
        (act_bind (act_lift (from_client (build_exit_child P r (md_amount_sat m) sk
            (address_script P dest) rate))) (\<lambda>child.
         let fee = md_amount_sat m - txout_value (outputs child ! 0) in
         act_ensure (fee \<le> max_fee)
           (Fmt ''exit fee {} sat exceeds maximum {} sat'' [unat fee, unat max_fee])
         (act_return (PackagePrepared (keys_coin_id (wc_keys c)) (compute_txid P (rec_transaction r))
           (compute_txid P child) (address_string P dest) rate fee
           (serialize_hex P (rec_transaction r)) (serialize_hex P child))))))))))))))))))"

definition exit_coin ::
  "'m web_lib_scheme \<Rightarrow> peers \<Rightarrow> (nat \<Rightarrow> write_draws) \<Rightarrow> cli \<Rightarrow> string \<Rightarrow> u64 option \<Rightarrow> u64 \<Rightarrow> bool
    \<Rightarrow> report act" where
  "exit_coin P E D cl destination_text fee_rate max_fee dry_run =
     open_wallet P cl (\<lambda>st cfg.
     act_bind (act_io (load_native P st)) (\<lambda>n.
     act_ensure (ws_pending (nw_wallet n) = None)
       (Msg ''wallet has a pending operation; finish it before exiting'')
     (if dry_run \<and> nw_exit n \<noteq> None
      then act_lift (emit_saved_exit_package P cfg n destination_text fee_rate max_fee)
      else if \<not> dry_run then exit_coin_journaled P E D st cfg n destination_text fee_rate max_fee
      else dry_run_exit P E cfg (nw_wallet n) destination_text fee_rate max_fee)))"

end
