(* ===== verification/Commands_Read.thy ===== *)
theory Commands_Read
  imports Commands_Exit
begin

text \<open>
  The remaining commands of \<^verbatim>\<open>wallet/src/cli.rs\<close>: initializing, and those that only look:
  status, exports, receipts; and \<open>run\<close>, which chooses the command.
\<close>

subsection \<open>Initializing\<close>

record init_args =
  ia_network :: network_id
  ia_enclave_url :: string
  ia_pcr0 :: "string option"
  ia_pcr1 :: "string option"
  ia_pcr2 :: "string option"
  ia_debug_attestation :: bool
  ia_unsafe_plaintext :: bool
  ia_chain_url :: "string option"
  ia_bitcoin_rpc_url :: "string option"
  ia_bitcoin_cookie_file :: "string option"
  ia_bitcoin_wallet :: "string option"
  ia_min_confirmations :: u32
  ia_min_reaction_blocks :: u32

definition required_pcrs ::
  "string option \<Rightarrow> string option \<Rightarrow> string option \<Rightarrow> anyhow + string \<times> string \<times> string" where
  "required_pcrs hex0 hex1 hex2 =
     (case (hex0, hex1, hex2) of
        (Some h0, Some h1, Some h2) \<Rightarrow>
          Inr (map ascii_lower (trim h0), map ascii_lower (trim h1), map ascii_lower (trim h2))
      | _ \<Rightarrow> Inl (Msg ''production and debug enclave modes require --pcr0, --pcr1, and --pcr2''))"

definition init_enclave_config ::
  "'m web_lib_scheme \<Rightarrow> peers \<Rightarrow> init_args \<Rightarrow> enclave_config talk" where
  "init_enclave_config P E a =
     (if ia_unsafe_plaintext a
      then
        talk_ensure (ia_network a = RegtestId) (Msg ''plaintext transport is regtest-only'')
        (talk_ensure (ia_pcr0 a = None \<and> ia_pcr1 a = None \<and> ia_pcr2 a = None)
          (Msg ''PCR values are not used with plaintext test transport'')
        (talk_bind (enclave_connect P E (UnsafePlaintext (ia_enclave_url a))) (\<lambda>_.
         talk_return (UnsafePlaintext (ia_enclave_url a)))))
      else
        talk_bind (talk_lift (required_pcrs (ia_pcr0 a) (ia_pcr1 a) (ia_pcr2 a))) (\<lambda>(hex0, hex1, hex2).
        talk_context (pcrs_from_hex P hex0 hex1 hex2) (Msg ''invalid PCR policy'') (\<lambda>p.
        if ia_debug_attestation a
        then talk_ensure (ia_network a = RegtestId) (Msg ''debug attestation is regtest-only'')
          (talk_return (Debug (ia_enclave_url a) hex0 hex1 hex2))
        else talk_ensure (validate_production_pcrs p = Inr ()) (Msg ''invalid production PCR policy'')
          (talk_return (Production (ia_enclave_url a) hex0 hex1 hex2)))))"

definition init_chain_config :: "'m web_lib_scheme \<Rightarrow> init_args \<Rightarrow> chain_config io" where
  "init_chain_config P a =
     (case (ia_chain_url a, ia_bitcoin_rpc_url a, ia_bitcoin_cookie_file a, ia_bitcoin_wallet a) of
        (Some url, None, None, None) \<Rightarrow>
          io_bind (io_lift (validate_explorer_url P url)) (\<lambda>_. io_return (ExplorerConfig url))
      | (None, Some core_url, Some cookie, Some name) \<Rightarrow>
          io_ensure (ia_network a = RegtestId) (Msg ''Bitcoin Core RPC is restricted to regtest'')
          (io_bind (validate_core_config P core_url (entry_of_path cookie)) (\<lambda>_.
           io_bind (io_lift (validate_core_wallet_name name)) (\<lambda>_.
           io_return (CoreRpcConfig core_url cookie name))))
      | (None, None, None, None) \<Rightarrow>
          (case default_explorer_url (ia_network a) of
             None \<Rightarrow> io_fail (Msg ''regtest requires --chain-url or Bitcoin Core RPC options'')
           | Some url \<Rightarrow> io_return (ExplorerConfig url))
      | _ \<Rightarrow> io_fail (Msg (''--chain-url cannot be combined with Bitcoin Core options; Core requires ''
          @ ''--bitcoin-rpc-url, --bitcoin-cookie-file, and --bitcoin-wallet'')))"

definition initialize_command ::
  "'m web_lib_scheme \<Rightarrow> peers \<Rightarrow> initialize_draws \<Rightarrow> cli \<Rightarrow> init_args \<Rightarrow> report act" where
  "initialize_command P E rnd cl a =
     act_ensure (0 < ia_min_confirmations a) (Msg ''minimum confirmations must be positive'')
     (act_ensure (DELAY_STEP \<le> ia_min_reaction_blocks a)
       (Fmt ''minimum reaction margin must be at least {} blocks'' [unat DELAY_STEP])
     (act_bind (act_talk (init_enclave_config P E a)) (\<lambda>enclave.
      act_bind (act_io (init_chain_config P a)) (\<lambda>chain.
      let cfg = \<lparr>cfg_format_version = FILE_FORMAT_VERSION, cfg_protocol_version = PROTOCOL_VERSION,
            cfg_network = ia_network a, cfg_enclave = enclave, cfg_chain = chain,
            cfg_min_confirmations = ia_min_confirmations a,
            cfg_min_reaction_blocks = ia_min_reaction_blocks a\<rparr> in
      act_bind (act_io (read_password P (cl_passwords cl) (cl_password_file cl) True)) (\<lambda>password.
      act_bind (act_io (initialize P rnd (cl_data_dir cl) cfg password)) (\<lambda>_.
      act_return (Initialized (cl_data_dir cl) (ia_network a) (mode_name enclave))))))))"

subsection \<open>Looking\<close>

definition verify_enclave :: "'m web_lib_scheme \<Rightarrow> peers \<Rightarrow> cli \<Rightarrow> report act" where
  "verify_enclave P E cl =
     act_bind (act_io (load_config P (cl_data_dir cl))) (\<lambda>cfg.
     act_bind (act_talk (connect_verified P E cfg)) (\<lambda>_.
     act_return (EnclaveVerified (enclave_url (cfg_enclave cfg)) (mode_name (cfg_enclave cfg)))))"

definition deposit_address :: "'m web_lib_scheme \<Rightarrow> cli \<Rightarrow> report act" where
  "deposit_address P cl =
     open_wallet P cl (\<lambda>st cfg.
     act_ensure (case cfg_chain cfg of ExplorerConfig _ \<Rightarrow> True | CoreRpcConfig _ _ _ \<Rightarrow> False)
       (Msg ''local deposit funding requires an explorer backend'')
     (act_bind (act_io (load_native P st)) (\<lambda>n.
      act_return (DepositReport
        (address_string P (source_funding_address P (nw_funding_secret n) (cfg_network cfg)))
        (cfg_network cfg)))))"

definition pending_name :: "pending_operation option \<Rightarrow> string option" where
  "pending_name pending =
     map_option (\<lambda>p. case p of PendingRegistration _ _ _ \<Rightarrow> ''registration''
       | PendingRecovery r \<Rightarrow>
           (case pr_purpose r of PurposeFund _ _ \<Rightarrow> ''funding'' | PurposeTransfer _ \<Rightarrow> ''transfer'')) pending"

definition observe_for_status ::
  "'m web_lib_scheme \<Rightarrow> peers \<Rightarrow> config \<Rightarrow> chain \<Rightarrow> wallet_coin \<Rightarrow> coin_metadata \<Rightarrow> (u32 \<times> u32) talk" where
  "observe_for_status P E cfg chain c m =
     (let stage = map_option fj_stage (wc_funding c) in
      if stage = Some FundingPrepared \<or> stage = Some RecoverySecured
      then talk_bind (chain_tip_height P E chain) (\<lambda>tip. talk_return (0, tip))
      else
        talk_bind (chain_verify_funding P E chain m
          (if stage = Some Broadcast then 0 else cfg_min_confirmations cfg)) (\<lambda>observation.
        talk_return (fo_confirmations observation, fo_tip_height observation)))"

text \<open>The owner's view: the margin is safe or not, and the history is current; a coin without a
  recovery must not have signatures.\<close>

definition check_ownership_for_status ::
  "'m transfer_lib_scheme \<Rightarrow> config \<Rightarrow> wallet_coin \<Rightarrow> coin_metadata \<Rightarrow> coin_status \<Rightarrow> u32
    \<Rightarrow> anyhow + bool option \<times> bool" where
  "check_ownership_for_status P cfg c m st_now confirmations =
     (let current = (cs_signature_count st_now = of_nat (length (wc_history c))) in
      case (wc_current_capability c, last_opt (wc_history c)) of
        (Some cap, Some latest) \<Rightarrow>
          with_context (wc_current_handoff c) (Msg ''owned coin has no current handoff token'') (\<lambda>handoff.
          with_context (wc_withdrawal_secret c) (Msg ''owned coin has no current withdrawal key'') (\<lambda>w.
          with_context (secret_from_slice P w) (Msg ''saved withdrawal key is invalid'') (\<lambda>sk.
          and_then (from_client (verify_history P m st_now (wc_client_secret c) cap handoff
              (secret_xonly P sk) 0 (wc_history c))) (\<lambda>_.
          Inr (Some (require_reaction_margin confirmations (rec_delay_blocks latest)
            (cfg_min_reaction_blocks cfg) = Inr ()), True)))))
      | (Some cap, None) \<Rightarrow>
          ensure (cs_signature_count st_now = 0) (Msg ''enclave has unrecorded signatures'')
          (with_context (wc_current_handoff c) (Msg ''registered coin has no current handoff token'')
            (\<lambda>handoff.
          ensure (cs_authorization st_now
              = authorization P (keys_coin_id (wc_keys c)) (capability_hash P cap) handoff)
            (Msg ''wallet authorization does not match enclave'') (Inr (None, current))))
      | (None, _) \<Rightarrow> Inr (None, current))"

definition status_lifecycle :: "config \<Rightarrow> wallet_coin \<Rightarrow> u32 option \<Rightarrow> string" where
  "status_lifecycle cfg c confirmations =
     (if wc_current_capability c \<noteq> None \<and> map_option fj_stage (wc_funding c) = Some Broadcast
         \<and> (case confirmations of None \<Rightarrow> False | Some n \<Rightarrow> cfg_min_confirmations cfg \<le> n)
      then ''owned'' else lifecycle c)"

definition coin_status_command :: "'m web_lib_scheme \<Rightarrow> peers \<Rightarrow> cli \<Rightarrow> report act" where
  "coin_status_command P E cl =
     open_wallet P cl (\<lambda>st cfg.
     act_bind (act_io (load P st)) (\<lambda>s.
     case ws_coin s of
       None \<Rightarrow> act_return (EmptyReport (map_option it_request (ws_incoming s)) (pending_name (ws_pending s)))
     | Some c \<Rightarrow>
       act_bind (act_talk (connect_verified P E cfg)) (\<lambda>e.
       act_bind (act_talk (enclave_status P E e (keys_coin_id (wc_keys c)))) (\<lambda>st_now.
       act_bind (act_lift (from_client (verify_status (wc_keys c) st_now))) (\<lambda>_.
       act_bind
         (case wc_metadata c of
            None \<Rightarrow> act_return (None, None, None,
              cs_signature_count st_now = of_nat (length (wc_history c)))
          | Some m \<Rightarrow>
            act_bind (chain_connect P E (cfg_chain cfg) (cfg_network cfg)) (\<lambda>chain.
            act_bind (act_talk (observe_for_status P E cfg chain c m)) (\<lambda>(confirmations, tip).
            act_bind (act_lift (check_ownership_for_status P cfg c m st_now confirmations))
              (\<lambda>(reaction_safe, current).
            act_return (Some confirmations, Some tip, reaction_safe, current)))))
         (\<lambda>(confirmations, tip, reaction_safe, current).
       act_return (StatusReport (status_lifecycle cfg c confirmations) (keys_coin_id (wc_keys c))
         (cs_signature_count st_now) (length (wc_history c)) current
         (map_option rec_delay_blocks (last_opt (wc_history c))) (map_option fj_stage (wc_funding c))
         tip confirmations reaction_safe (pending_name (ws_pending s)))))))))"

definition export_recovery ::
  "'m web_lib_scheme \<Rightarrow> u64 \<Rightarrow> cli \<Rightarrow> destination \<Rightarrow> report act" where
  "export_recovery P tmp cl output =
     act_bind (act_lift (require_output_file output)) (\<lambda>_.
     act_bind (act_io (ensure_destination_available output)) (\<lambda>_.
     open_wallet P cl (\<lambda>st cfg.
     act_bind (act_io (load P st)) (\<lambda>s.
     act_context (ws_coin s) (Msg ''wallet has no coin'') (\<lambda>c.
     act_context (wc_metadata c) (Msg ''coin has no verified funding'') (\<lambda>m.
     act_bind (act_lift (saved_withdrawal_key P c)) (\<lambda>sk.
     act_context (wc_withdrawal_recovery_index c) (Msg ''wallet has no owned recovery'') (\<lambda>i.
     act_context (nth_opt (wc_history c) i) (Msg ''owned recovery index is invalid'') (\<lambda>r.
     act_ensure (secret_xonly P sk = rec_withdrawal_key r)
       (Msg ''saved withdrawal key does not match owned recovery'')
     (act_bind (act_lift (from_client (verify_recovery P m r))) (\<lambda>_.
      act_bind (act_io (write_text_destination P tmp output (serialize_hex P (rec_transaction r)))) (\<lambda>_.
      act_return (RecoveryExported output (rec_delay_blocks r) i
        (compute_txid P (rec_transaction r)))))))))))))))"

definition export_receipt ::
  "'m cli_lib_scheme \<Rightarrow> peers \<Rightarrow> u64 \<Rightarrow> cli \<Rightarrow> destination \<Rightarrow> report act" where
  "export_receipt P E tmp cl output =
     act_bind (act_lift (require_output_file output)) (\<lambda>_.
     open_wallet P cl (\<lambda>st cfg.
     act_bind (act_io (load P st)) (\<lambda>s.
     act_ensure (ws_pending s = None) (Msg ''wallet has a pending operation'')
     (act_context (ws_coin s) (Msg ''wallet has no coin'') (\<lambda>c.
      act_context (wc_metadata c) (Msg ''coin has no verified funding'') (\<lambda>m.
      act_ensure (wc_history c \<noteq> []) (Msg ''coin has no signed recovery'')
      (act_bind (act_talk (connect_verified P E cfg)) (\<lambda>e.
       act_bind (act_talk (enclave_status P E e (keys_coin_id (wc_keys c)))) (\<lambda>st_now.
       act_bind (chain_connect P E (cfg_chain cfg) (cfg_network cfg)) (\<lambda>chain.
       act_bind (act_talk (chain_verify_funding P E chain m (cfg_min_confirmations cfg))) (\<lambda>observation.
       act_bind (act_lift (verify_public_history P m st_now (wc_history c) (fo_confirmations observation)
           (cfg_min_reaction_blocks cfg))) (\<lambda>_.
       let artifact = \<lparr>rc_format_version = FILE_FORMAT_VERSION, rc_protocol_version = PROTOCOL_VERSION,
             rc_metadata = m, rc_status = st_now, rc_history = wc_history c\<rparr> in
       act_bind (act_io (write_json_destination P tmp (receipt_to_vec_pretty P) output artifact)) (\<lambda>_.
       act_return (ReceiptExported output (keys_coin_id (wc_keys c)) (cs_signature_count st_now)
         (fo_tip_height observation)))))))))))))))"

definition verify_receipt ::
  "'m cli_lib_scheme \<Rightarrow> peers \<Rightarrow> cli \<Rightarrow> destination \<Rightarrow> report act" where
  "verify_receipt P E cl input =
     open_wallet P cl (\<lambda>st cfg.
     act_bind (act_io (load P st)) (\<lambda>_.
     act_bind (act_io (read_json_source P (deserialize receipt_keys (receipt_from_slice P)) (cl_stdin cl)
       (artifact_source input))) (\<lambda>r.
     act_ensure (rc_format_version r = FILE_FORMAT_VERSION)
       (Fmt ''unsupported receipt format version {}'' [unat (rc_format_version r)])
     (act_ensure (rc_protocol_version r = PROTOCOL_VERSION) (Msg ''receipt protocol version mismatch'')
     (act_ensure (md_network (rc_metadata r) = cfg_network cfg) (Msg ''receipt network mismatch'')
     (act_bind (act_talk (connect_verified P E cfg)) (\<lambda>e.
      act_bind (act_talk (enclave_status P E e (keys_coin_id (md_keys (rc_metadata r))))) (\<lambda>st_now.
      act_ensure (st_now = rc_status r) (Msg ''receipt is stale or enclave state changed'')
      (act_bind (chain_connect P E (cfg_chain cfg) (cfg_network cfg)) (\<lambda>chain.
       act_bind (act_talk (chain_verify_funding P E chain (rc_metadata r) (cfg_min_confirmations cfg)))
         (\<lambda>observation.
       act_bind (act_lift (verify_public_history P (rc_metadata r) st_now (rc_history r)
           (fo_confirmations observation) (cfg_min_reaction_blocks cfg))) (\<lambda>_.
       act_return (ReceiptVerified (keys_coin_id (md_keys (rc_metadata r))) (cs_signature_count st_now)
         (fo_tip_height observation) (fo_confirmations observation))))))))))))))"

subsection \<open>The command line\<close>

text \<open>Every command with its arguments, and the random values it draws.\<close>

record draws =
  dr_writes :: "nat \<Rightarrow> write_draws"
  dr_initialize :: initialize_draws
  dr_registration :: registration_draws
  dr_funding :: funding_draws
  dr_request :: transfer_request_draws
  dr_transfer :: transfer_material
  dr_output :: u64

datatype command =
  CmdInit init_args
| CmdEnclaveVerify
| CmdDepositAddress
| CmdRegister
| CmdFund u64 u32 u64 u64
| CmdStatus
| CmdSign destination destination
| CmdRecovery destination
| CmdSourceSweep string u64 u64
| CmdExit string "u64 option" u64 bool
| CmdTransferRequest string outpoint u64 "u32 option" destination
| CmdTransferAccept destination destination
| CmdReceiptExport destination
| CmdReceiptVerify destination

definition run :: "'m cli_lib_scheme \<Rightarrow> peers \<Rightarrow> draws \<Rightarrow> cli \<Rightarrow> command \<Rightarrow> report act" where
  "run P E rnd cl cmd =
     (case cmd of
        CmdInit a \<Rightarrow> initialize_command P E (dr_initialize rnd) cl a
      | CmdEnclaveVerify \<Rightarrow> verify_enclave P E cl
      | CmdDepositAddress \<Rightarrow> deposit_address P cl
      | CmdRegister \<Rightarrow> register_coin P E (dr_writes rnd) (dr_registration rnd) cl
      | CmdFund amount delay fee_rate max_fee \<Rightarrow>
          fund_coin P E (dr_writes rnd) (dr_funding rnd) cl amount delay fee_rate max_fee
      | CmdStatus \<Rightarrow> coin_status_command P E cl
      | CmdSign req output \<Rightarrow>
          sign_transfer P E (dr_writes rnd) (dr_transfer rnd) (dr_output rnd) cl req output
      | CmdRecovery output \<Rightarrow> export_recovery P (dr_output rnd) cl output
      | CmdSourceSweep destination fee_rate max_fee \<Rightarrow>
          source_sweep P E (dr_writes rnd) cl destination fee_rate max_fee
      | CmdExit destination fee_rate max_fee dry_run \<Rightarrow>
          exit_coin P E (dr_writes rnd) cl destination fee_rate max_fee dry_run
      | CmdTransferRequest cid op amount minimum output \<Rightarrow>
          create_transfer_request P (dr_writes rnd) (dr_request rnd) (dr_output rnd) cl cid op amount
            minimum output
      | CmdTransferAccept req package \<Rightarrow> accept_transfer_command P E (dr_writes rnd) cl req package
      | CmdReceiptExport output \<Rightarrow> export_receipt P E (dr_output rnd) cl output
      | CmdReceiptVerify input \<Rightarrow> verify_receipt P E cl input)"

end
