(* ===== verification/Evolution.thy ===== *)
theory Evolution
  imports Commands_Read
begin

text \<open>
  How the saved state of a wallet may change: the relation between a state that was read and a
  state that replaces it, and that every operation of the commands is an instance of it. Valid
  coin keys stay valid, a coin is never dropped, the recovery its owner holds is never lost, and an exit that may have been
  handed in stays the one that is saved.
\<close>

subsection \<open>The relation\<close>

text \<open>The owner holds recovery \<open>r\<close> of the coin with metadata \<open>m\<close>, and the secret it pays.\<close>

definition owns :: "wallet_coin \<Rightarrow> coin_metadata \<Rightarrow> signed_recovery \<Rightarrow> bytes32 \<Rightarrow> bool" where
  "owns c m r w \<longleftrightarrow> wc_metadata c = Some m
     \<and> (\<exists>i. wc_withdrawal_recovery_index c = Some i \<and> nth_opt (wc_history c) i = Some r)
     \<and> wc_withdrawal_secret c = Some w"

definition coin_kept :: "wallet_coin \<Rightarrow> wallet_coin \<Rightarrow> bool" where
  "coin_kept c c' \<longleftrightarrow> wc_keys c' = wc_keys c \<and> wc_client_secret c' = wc_client_secret c
     \<and> (\<forall>m r w. owns c m r w \<longrightarrow> owns c' m r w)"

text \<open>Valid coin keys stay valid, so that what is saved can be read again.\<close>

definition keys_kept :: "wallet_state \<Rightarrow> wallet_state \<Rightarrow> bool" where
  "keys_kept s s' \<longleftrightarrow> (keys_valid (wallet_keys s) \<longrightarrow> keys_valid (wallet_keys s'))"

text \<open>A sound wallet stays sound and keeps its coin.\<close>

definition advances :: "'m transfer_lib_scheme \<Rightarrow> wallet_state \<Rightarrow> wallet_state \<Rightarrow> bool" where
  "advances P s s' \<longleftrightarrow> keys_kept s s' \<and>
     (secret_slice_correct P \<and> wallet_ok P s \<longrightarrow>
        wallet_ok P s'
        \<and> (\<forall>c. ws_coin s = Some c \<longrightarrow> (\<exists>c'. ws_coin s' = Some c' \<and> coin_kept c c')))"

text \<open>An exit past its preparation keeps its package.\<close>

definition exit_kept :: "exit_journal option \<Rightarrow> exit_journal option \<Rightarrow> bool" where
  "exit_kept e e' \<longleftrightarrow>
     (\<forall>j. e = Some j \<and> ej_stage j \<noteq> ExitPrepared \<longrightarrow>
        (\<exists>j'. e' = Some j' \<and> ej_package j' = ej_package j \<and> ej_stage j' \<noteq> ExitPrepared))"

definition evolves :: "'m transfer_lib_scheme \<Rightarrow> native_state \<Rightarrow> native_state \<Rightarrow> bool" where
  "evolves P n n' \<longleftrightarrow>
     nw_funding_secret n' = nw_funding_secret n \<and> advances P (nw_wallet n) (nw_wallet n')
     \<and> exit_kept (nw_exit n) (nw_exit n')"

lemma coin_kept_refl: "coin_kept c c"
  by (simp add: coin_kept_def)

lemma coin_kept_trans: "coin_kept a b \<Longrightarrow> coin_kept b c \<Longrightarrow> coin_kept a c"
  by (auto simp: coin_kept_def)

lemma keys_kept_refl: "keys_kept s s"
  by (simp add: keys_kept_def)

lemma keys_kept_trans: "keys_kept s t \<Longrightarrow> keys_kept t u \<Longrightarrow> keys_kept s u"
  by (simp add: keys_kept_def)

lemma advances_refl: "advances P s s"
  by (auto simp: advances_def coin_kept_refl keys_kept_refl)

lemma advances_trans: "advances P s t \<Longrightarrow> advances P t u \<Longrightarrow> advances P s u"
  unfolding advances_def by (meson coin_kept_trans keys_kept_trans)

lemma exit_kept_refl: "exit_kept e e"
  by (simp add: exit_kept_def)

lemma exit_kept_trans: "exit_kept a b \<Longrightarrow> exit_kept b c \<Longrightarrow> exit_kept a c"
  unfolding exit_kept_def by metis

lemma evolves_refl: "evolves P n n"
  by (simp add: evolves_def advances_refl exit_kept_refl)

lemma evolves_trans: "evolves P a b \<Longrightarrow> evolves P b c \<Longrightarrow> evolves P a c"
  unfolding evolves_def using advances_trans exit_kept_trans by metis

lemma evolves_wallet: "evolves P n (n\<lparr>nw_wallet := s\<rparr>) \<longleftrightarrow> advances P (nw_wallet n) s"
  by (simp add: evolves_def exit_kept_refl)

lemma evolves_sweep: "evolves P n (n\<lparr>nw_source_sweep := j\<rparr>)"
  by (simp add: evolves_def advances_refl exit_kept_refl)

lemma evolves_exit: "evolves P n (n\<lparr>nw_exit := j\<rparr>) \<longleftrightarrow> exit_kept (nw_exit n) j"
  by (simp add: evolves_def advances_refl)

lemma evolves_keys: "evolves P n n' \<Longrightarrow> keys_valid (native_keys n) \<Longrightarrow> keys_valid (native_keys n')"
  by (simp add: evolves_def advances_def keys_kept_def native_keys_def)

lemma advancesI:
  assumes "keys_kept s s'" and "\<And>c. secret_slice_correct P \<Longrightarrow> wallet_ok P s \<Longrightarrow> wallet_ok P s'"
    and "\<And>c. wallet_ok P s \<Longrightarrow> ws_coin s = Some c \<Longrightarrow> \<exists>c'. ws_coin s' = Some c' \<and> coin_kept c c'"
  shows "advances P s s'"
  using assms by (auto simp: advances_def)

subsection \<open>The keys in a wallet\<close>

text \<open>Every operation keeps the keys valid: it copies the coin's, or takes new ones from a
  registration or a payload that it has checked.\<close>

lemmas keys_defs = keys_kept_def wallet_keys_def coin_keys_in_def pending_keys_def

lemma prepare_recovery_keys:
  "prepare_recovery P m st_now sk cap handoff h wk delay conf = Inr (req, prep)
    \<Longrightarrow> prep_metadata prep = m \<and> keys_validate (md_keys m) = Inr ()"
  by (auto simp: prepare_recovery_def ok Let_def metadata_validate_def)

lemma registered_keys_valid: "complete_registration P reg st = Inr k \<Longrightarrow> keys_validate k = Inr ()"
  by (auto simp: complete_registration_def keys_validate_def split: if_splits)

lemma begun_registration_state:
  assumes "begin_registration P rnd s = (Inr req, s')"
  shows "s' = s \<or> (\<exists>sk cap reg. s' = s\<lparr>ws_pending := Some (PendingRegistration sk cap reg)\<rparr>)"
  using assms by (auto simp: begin_registration_def commit_def Let_def split: sum.splits option.splits)

lemma wallet_complete_registration_coin:
  assumes "wallet_complete_registration P s st = (Inr u, s1)"
  obtains reg csk cap keys where "complete_registration P reg st = Inr keys"
    and "s1 = s\<lparr>ws_coin := Some (registered_coin csk cap keys), ws_pending := None\<rparr>"
  using assms by (auto simp: wallet_complete_registration_def ok)

lemma registration_keys:
  "begin_registration P rnd s = (Inr req, s') \<Longrightarrow> keys_kept s s'"
  "wallet_complete_registration P s st = (Inr u, s1) \<Longrightarrow> keys_kept s s1"
  by (auto simp: keys_defs registered_coin_def dest!: begun_registration_state
      dest: registered_keys_valid elim!: wallet_complete_registration_coin)

lemma begin_funding_keys:
  "begin_funding P rnd s net sk src st amount delay rate fee reaction = (Inr req, s') \<Longrightarrow> keys_kept s s'"
  by (auto simp: begin_funding_def ok Let_def keys_defs keys_metadata_def
      dest!: prepare_recovery_keys split: prod.splits)

lemma record_sign_response_keys: "record_sign_response s resp = (r, s') \<Longrightarrow> keys_kept s s'"
  by (auto simp: record_sign_response_def Let_def keys_defs
      split: option.splits pending_operation.splits recovery_stage.splits if_splits)

lemma complete_funding_recovery_keys:
  "complete_funding_recovery P s st = (Inr u, s') \<Longrightarrow> keys_kept s s'"
  by (auto simp: complete_funding_recovery_def ok keys_defs)

lemma mark_funding_broadcast_keys: "mark_funding_broadcast P s txid = (Inr u, s') \<Longrightarrow> keys_kept s s'"
  by (auto simp: mark_funding_broadcast_def ok keys_defs split: option.splits)

lemma transfer_request_keys:
  "begin_transfer_request P rnd s net cid op amount reaction = (Inr req, s') \<Longrightarrow> keys_kept s s'"
  by (auto simp: begin_transfer_request_def ok keys_defs Let_def split: option.splits)

lemma begin_transfer_keys:
  "begin_transfer P s net req st obs minc reaction = (Inr sign_req, s') \<Longrightarrow> keys_kept s s'"
  by (auto elim!: begin_transfer_Inr dest!: prepare_recovery_keys simp: keys_defs)

lemma complete_transfer_keys: "complete_transfer P mat s st = (Inr env, s') \<Longrightarrow> keys_kept s s'"
  by (auto elim!: complete_transfer_Inr simp: keys_defs)

lemma accept_transfer_keys:
  assumes "accept_transfer P s net req env st obs minc reaction = (Inr b, s')"
  shows "keys_kept s s'"
proof (cases b)
  case True
  with assms have "accept_transfer P s net req env st obs minc reaction = (Inr True, s')" by simp
  then show ?thesis
    by (rule accept_transfer_Inr)
      (auto simp: keys_defs accepted_coin_def verify_status_def dest!: verify_history_Inr(1) split: sum.splits)
next
  case False
  with assms accept_transfer_False keys_kept_refl show ?thesis by (metis (full_types))
qed

subsection \<open>The operations of the wallet\<close>

lemma registration_advances:
  "begin_registration P rnd s = (Inr req, s') \<Longrightarrow> advances P s s'"
  "wallet_complete_registration P s st = (Inr u, s1) \<Longrightarrow> advances P s s1"
proof -
  assume run: "begin_registration P rnd s = (Inr req, s')"
  then have "ws_coin s = None" by (auto simp: begin_registration_def ok)
  with run show "advances P s s'"
    by (intro advancesI registration_keys(1) [OF run]) (auto intro: begin_registration_ok)
next
  assume run: "wallet_complete_registration P s st = (Inr u, s1)"
  then have "ws_coin s = None" by (auto simp: wallet_complete_registration_def ok)
  with run show "advances P s s1"
    by (intro advancesI registration_keys(2) [OF run]) (auto intro: wallet_complete_registration_ok)
qed

lemma begin_funding_advances:
  assumes "begin_funding P rnd s net sk src st amount delay rate fee reaction = (Inr req, s')"
  shows "advances P s s'"
proof (rule advancesI)
  fix c
  assume "ws_coin s = Some c"
  with assms show "\<exists>c'. ws_coin s' = Some c' \<and> coin_kept c c'"
    by (auto simp: begin_funding_def ok Let_def coin_kept_def owns_def nth_opt_def split: prod.splits)
qed (use begin_funding_ok [OF _ assms] begin_funding_keys [OF assms] in blast)+

lemma record_sign_response_advances:
  assumes "record_sign_response s resp = (r, s')"
  shows "advances P s s'"
proof (rule advancesI)
  fix c
  assume "ws_coin s = Some c"
  moreover have "ws_coin s' = ws_coin s"
    using assms by (auto simp: record_sign_response_def Let_def
        split: option.splits pending_operation.splits recovery_stage.splits)
  ultimately show "\<exists>c'. ws_coin s' = Some c' \<and> coin_kept c c'" by (simp add: coin_kept_refl)
qed (use record_sign_response_ok [OF _ assms] record_sign_response_keys [OF assms] in blast)+

lemma complete_funding_recovery_advances:
  assumes "complete_funding_recovery P s st = (Inr u, s')"
  shows "advances P s s'"
proof (rule advancesI)
  fix c
  assume s: "wallet_ok P s" "ws_coin s = Some c"
  from assms s(2) obtain r nc w a resp where
    "ws_pending s = Some (PendingRecovery r)" "pr_purpose r = PurposeFund nc w"
    by (auto simp: complete_funding_recovery_def ok)
  with s have "wc_history c = []"
    by (auto simp: wallet_ok_def pending_ok_def attempt_ok_def)
  with assms s(2) show "\<exists>c'. ws_coin s' = Some c' \<and> coin_kept c c'"
    by (auto simp: complete_funding_recovery_def ok coin_kept_def owns_def nth_opt_def)
qed (use complete_funding_recovery_ok [OF _ assms] complete_funding_recovery_keys [OF assms] in blast)+

lemma mark_funding_broadcast_advances:
  assumes "mark_funding_broadcast P s txid = (Inr u, s')"
  shows "advances P s s'"
proof (rule advancesI)
  fix c
  assume "ws_coin s = Some c"
  with assms show "\<exists>c'. ws_coin s' = Some c' \<and> coin_kept c c'"
    by (auto simp: mark_funding_broadcast_def ok coin_kept_def owns_def)
qed (use mark_funding_broadcast_ok [OF _ assms] mark_funding_broadcast_keys [OF assms] in blast)+

lemma transfer_request_advances:
  assumes "begin_transfer_request P rnd s net cid op amount reaction = (Inr req, s')"
  shows "advances P s s'"
proof (rule advancesI)
  fix c
  assume "ws_coin s = Some c"
  with assms show "\<exists>c'. ws_coin s' = Some c' \<and> coin_kept c c'"
    by (auto simp: begin_transfer_request_def ok)
qed (use begin_transfer_request_ok [OF _ assms] transfer_request_keys [OF assms] in blast)+

lemma begin_transfer_advances:
  assumes "begin_transfer P s net req st obs minc reaction = (Inr sign_req, s')"
  shows "advances P s s'"
proof (rule advancesI)
  fix c
  assume "ws_coin s = Some c"
  with assms show "\<exists>c'. ws_coin s' = Some c' \<and> coin_kept c c'"
    by (auto elim!: begin_transfer_Inr simp: coin_kept_refl)
qed (use begin_transfer_ok [OF _ assms] begin_transfer_keys [OF assms] in blast)+

lemma complete_transfer_advances:
  assumes "complete_transfer P mat s st = (Inr env, s')"
  shows "advances P s s'"
proof (rule advancesI)
  fix c
  assume "ws_coin s = Some c"
  with assms show "\<exists>c'. ws_coin s' = Some c' \<and> coin_kept c c'"
    by (auto elim!: complete_transfer_Inr simp: coin_kept_def owns_def nth_opt_def)
qed (use complete_transfer_ok [OF _ assms] complete_transfer_keys [OF assms] in blast)+

lemma accept_transfer_advances:
  assumes "accept_transfer P s net req env st obs minc reaction = (Inr b, s')"
  shows "advances P s s'"
proof (rule advancesI)
  fix c
  assume "ws_coin s = Some c"
  have "\<not> b"
  proof
    assume b
    with assms have "accept_transfer P s net req env st obs minc reaction = (Inr True, s')" by simp
    then show False by (rule accept_transfer_Inr) (simp add: \<open>ws_coin s = Some c\<close>)
  qed
  with assms \<open>ws_coin s = Some c\<close> show "\<exists>c'. ws_coin s' = Some c' \<and> coin_kept c c'"
    using accept_transfer_False coin_kept_refl by (metis (full_types))
qed (use accept_transfer_ok [OF _ _ assms] accept_transfer_keys [OF assms] in blast)+

lemmas wallet_advances =
  registration_advances begin_funding_advances record_sign_response_advances
  complete_funding_recovery_advances mark_funding_broadcast_advances transfer_request_advances
  begin_transfer_advances complete_transfer_advances accept_transfer_advances

subsection \<open>The steps of the funding command with a node's wallet\<close>

text \<open>These change the wallet in place.\<close>

lemma wallet_ok_coin:
  "wallet_ok P s \<Longrightarrow> ws_coin s = Some c \<Longrightarrow> coin_ok P c \<and> ws_incoming s = None"
  by (auto simp: wallet_ok_def)

lemma prepared_funding_advances:
  assumes "ws_coin s = Some c" and "ws_pending s = None" and "wc_history c = []"
    and "fj_stage f = FundingPrepared"
  shows "advances P s (s\<lparr>ws_coin := Some (c\<lparr>wc_metadata := Some (keys_metadata (wc_keys c) net op a),
    wc_funding := Some f\<rparr>)\<rparr>)"
  by (rule advancesI)
    (use assms in \<open>auto simp: wallet_ok_def pending_ok_def coin_ok_def keys_metadata_def coin_kept_def
      owns_def nth_opt_def keys_defs\<close>)

lemma begun_funding_advances:
  assumes "ws_coin s = Some c" and "wc_metadata c = Some m" and "wc_funding c = Some f"
    and "fj_stage f = FundingPrepared"
    and "prepare_recovery P m st_now sk cap handoff (capability_hash P nc) (xonly_of P (SecretKey w)) delay conf
      = Inr (req, prep)"
  shows "advances P s (s\<lparr>ws_pending := Some (PendingRecovery \<lparr>pr_purpose = PurposeFund nc w,
    pr_stage = StagePrepared \<lparr>ra_expected_signature_count = k, ra_delay_blocks = delay,
      ra_request = req, ra_prepared = prep\<rparr>\<rparr>)\<rparr>)"
proof (rule advancesI)
  assume "wallet_ok P s"
  with wallet_ok_coin [OF this assms(1)] assms(3,4) have "wc_history c = []"
    by (simp add: coin_ok_def)
  with \<open>wallet_ok P s\<close> assms(1-3) prepare_recovery_attempt [OF assms(5)]
    wallet_ok_coin [OF \<open>wallet_ok P s\<close> assms(1)]
  show "wallet_ok P (s\<lparr>ws_pending := Some (PendingRecovery \<lparr>pr_purpose = PurposeFund nc w,
      pr_stage = StagePrepared \<lparr>ra_expected_signature_count = k, ra_delay_blocks = delay,
        ra_request = req, ra_prepared = prep\<rparr>\<rparr>)\<rparr>)"
    by (simp add: wallet_ok_def pending_ok_def attempt_ok_def attempt_of_def)
qed (use assms(1) prepare_recovery_keys [OF assms(5)] in \<open>auto simp: coin_kept_refl keys_defs\<close>)

lemma broadcast_funding_advances:
  assumes "ws_coin s = Some c" and "wc_funding c = Some f" and "fj_stage f \<noteq> FundingPrepared"
  shows "advances P s (s\<lparr>ws_coin := Some (c\<lparr>wc_funding := Some (f\<lparr>fj_stage := Broadcast\<rparr>)\<rparr>)\<rparr>)"
proof (rule advancesI)
  assume "wallet_ok P s"
  with wallet_ok_coin [OF this assms(1)] assms show "wallet_ok P
      (s\<lparr>ws_coin := Some (c\<lparr>wc_funding := Some (f\<lparr>fj_stage := Broadcast\<rparr>)\<rparr>)\<rparr>)"
    by (simp add: wallet_ok_def pending_ok_def coin_ok_def attempt_ok_def
        split: option.splits pending_operation.splits recovery_purpose.splits)
qed (use assms(1) in \<open>auto simp: coin_kept_def owns_def keys_defs\<close>)

subsection \<open>The exit journal\<close>

lemma exit_armed:
  assumes "exit_arm_submission P j c = (Inr u, j1)"
  shows "ej_stage j1 = ExitSubmissionArmed" and "exit_journal_validate P j1 c = Inr ()"
    and "ej_package j1 = ej_package j"
  using assms by (auto simp: exit_arm_submission_def commit_def split: sum.splits)

lemma exit_arm_kept:
  "exit_arm_submission P j c = (Inr u, j1) \<Longrightarrow> exit_kept (Some j) (Some j1)"
  using exit_armed by (fastforce simp: exit_kept_def)

lemma exit_observed_kept:
  assumes "exit_mark_observed P j c parent child = (Inr u, j1)"
  shows "exit_kept (Some j) (Some j1)"
  using assms by (auto simp: exit_mark_observed_def commit_def exit_kept_def split: sum.splits)

lemma exit_new_kept:
  "(case e of None \<Rightarrow> True | Some j \<Rightarrow> ej_stage j = ExitPrepared \<and> b j) \<Longrightarrow> exit_kept e e'"
  by (auto simp: exit_kept_def)

end
