(* ===== verification/Session_Spec.thy ===== *)
theory Session_Spec
  imports Chain_Spec Store_Spec
begin

text \<open>
  Reasoning about the requests a command sends: a small logic of pre- and postconditions on the
  files, in which every request, sent in whatever outcome, has to be admitted by the files at
  that moment; and what it means that a state is saved.
\<close>

subsection \<open>The logic\<close>

definition log_ok :: "(remote_request \<Rightarrow> world \<Rightarrow> bool) \<Rightarrow> session \<Rightarrow> bool" where
  "log_ok G s \<longleftrightarrow> (\<forall>(q, w) \<in> set (asked s). G q w)"

text \<open>From files in \<open>A\<close>: every request satisfies \<open>G\<close>, the files satisfy \<open>I\<close> in whatever outcome, and
  a value is returned with files in \<open>B\<close>.\<close>

definition act_spec ::
  "(remote_request \<Rightarrow> world \<Rightarrow> bool) \<Rightarrow> (world \<Rightarrow> bool) \<Rightarrow> (world \<Rightarrow> bool) \<Rightarrow> 'a act
    \<Rightarrow> ('a \<Rightarrow> world \<Rightarrow> bool) \<Rightarrow> bool" where
  "act_spec G I A m B \<longleftrightarrow>
     (\<forall>s out s'. log_ok G s \<longrightarrow> I (os s) \<longrightarrow> A (os s) \<longrightarrow> m s = (out, s') \<longrightarrow>
        log_ok G s' \<and> I (os s') \<and> (\<forall>x. out = Done x \<longrightarrow> B x (os s')))"

lemma act_specI:
  assumes "\<And>s out s'. log_ok G s \<Longrightarrow> I (os s) \<Longrightarrow> A (os s) \<Longrightarrow> m s = (out, s') \<Longrightarrow>
    log_ok G s' \<and> I (os s') \<and> (\<forall>x. out = Done x \<longrightarrow> B x (os s'))"
  shows "act_spec G I A m B"
  using assms unfolding act_spec_def by blast

lemma act_specD:
  assumes "act_spec G I A m B" and "log_ok G s" and "I (os s)" and "A (os s)" and "m s = (out, s')"
  shows "log_ok G s'" and "I (os s')" and "out = Done x \<Longrightarrow> B x (os s')"
  using assms unfolding act_spec_def by blast+

lemma act_spec_weaken:
  "act_spec G I A m B \<Longrightarrow> (\<And>w. A' w \<Longrightarrow> A w) \<Longrightarrow> (\<And>x w. B x w \<Longrightarrow> B' x w) \<Longrightarrow> act_spec G I A' m B'"
  unfolding act_spec_def by blast

lemma act_spec_pure: "(F \<Longrightarrow> act_spec G I A m B) \<Longrightarrow> act_spec G I (\<lambda>w. F \<and> A w) m B"
  unfolding act_spec_def by blast

lemma act_spec_ex: "(\<And>k. act_spec G I (A k) m B) \<Longrightarrow> act_spec G I (\<lambda>w. \<exists>k. A k w) m B"
  unfolding act_spec_def by blast

lemma act_spec_return: "(\<And>w. A w \<Longrightarrow> B x w) \<Longrightarrow> act_spec G I A (act_return x) B"
  by (simp add: act_spec_def act_return_def)

lemma act_spec_fail: "act_spec G I A (act_fail e) B"
  by (simp add: act_spec_def act_fail_def)

lemma act_spec_bind:
  assumes "act_spec G I A m R" and "\<And>x. act_spec G I (R x) (f x) B"
  shows "act_spec G I A (act_bind m f) B"
proof (rule act_specI)
  fix s out s'
  assume s: "log_ok G s" "I (os s)" "A (os s)" and run: "act_bind m f s = (out, s')"
  obtain r s1 where m: "m s = (r, s1)" by (cases "m s")
  note first = act_specD [OF assms(1) s m]
  show "log_ok G s' \<and> I (os s') \<and> (\<forall>x. out = Done x \<longrightarrow> B x (os s'))"
  proof (cases r)
    case (Done x)
    with run m have "f x s1 = (out, s')" by (simp add: act_bind_def)
    with first act_specD [OF assms(2)] Done show ?thesis by blast
  qed (use run m first(1,2) in \<open>auto simp: act_bind_def\<close>)
qed

lemma act_spec_lift: "act_spec G I A (act_lift r) (\<lambda>_. A)"
  by (cases r) (simp_all add: act_lift_def act_spec_fail act_spec_return)

lemma act_spec_lift_any: "act_spec G I A (act_lift r) (\<lambda>_ _. True)"
  by (rule act_spec_weaken [OF act_spec_lift]) auto

lemma act_bind_return: "act_bind (act_return x) f = f x"
  by (rule ext) (simp add: act_bind_def act_return_def)

lemma act_bind_lift: "act_bind (act_lift (Inl e)) f = act_fail e" "act_bind (act_lift (Inr x)) f = f x"
  by (rule ext, simp add: act_bind_def act_lift_def act_return_def act_fail_def)+

lemma act_spec_lift_bind:
  "(\<And>x. r = Inr x \<Longrightarrow> act_spec G I A (f x) B) \<Longrightarrow> act_spec G I A (act_bind (act_lift r) f) B"
  by (cases r) (simp_all add: act_bind_lift act_spec_fail)

lemma act_spec_return_bind: "act_spec G I A (f x) B \<Longrightarrow> act_spec G I A (act_bind (act_return x) f) B"
  by (simp add: act_bind_return)

lemma act_spec_ensure: "(c \<Longrightarrow> act_spec G I A m B) \<Longrightarrow> act_spec G I A (act_ensure c e m) B"
  by (simp add: act_ensure_def act_spec_fail)

lemma act_spec_context: "(\<And>x. r = Some x \<Longrightarrow> act_spec G I A (f x) B) \<Longrightarrow> act_spec G I A (act_context r e f) B"
  by (cases r) (simp_all add: act_context_def act_spec_fail)

lemma act_spec_method:
  "(\<And>x v. r = (Inr x, v) \<Longrightarrow> act_spec G I A (f x v) B) \<Longrightarrow> act_spec G I A (act_method r f) B"
  by (cases r; cases "fst r") (auto simp: act_method_def act_spec_fail)

lemma act_spec_if:
  "(c \<Longrightarrow> act_spec G I A m B) \<Longrightarrow> (\<not> c \<Longrightarrow> act_spec G I A n B) \<Longrightarrow> act_spec G I A (if c then m else n) B"
  by simp

lemma act_spec_option:
  "(r = None \<Longrightarrow> act_spec G I A m B) \<Longrightarrow> (\<And>x. r = Some x \<Longrightarrow> act_spec G I A (f x) B)
    \<Longrightarrow> act_spec G I A (case r of None \<Rightarrow> m | Some x \<Rightarrow> f x) B"
  by (cases r) simp_all

lemma act_spec_prod:
  "(\<And>x y. r = (x, y) \<Longrightarrow> act_spec G I A (f x y) B) \<Longrightarrow> act_spec G I A (case r of (x, y) \<Rightarrow> f x y) B"
  by (cases r) simp

lemma act_spec_io:
  assumes "\<And>w out w'. I w \<Longrightarrow> A w \<Longrightarrow> m w = (out, w') \<Longrightarrow> I w' \<and> (\<forall>x. out = Done x \<longrightarrow> B x w')"
  shows "act_spec G I A (act_io m) B"
proof (rule act_specI)
  fix s out s'
  assume s: "log_ok G s" "I (os s)" "A (os s)" and run: "act_io m s = (out, s')"
  then obtain w where "m (os s) = (out, w)" "s' = s\<lparr>os := w\<rparr>"
    by (auto simp: act_io_def split: prod.splits)
  with assms [OF s(2,3)] s(1) show "log_ok G s' \<and> I (os s') \<and> (\<forall>x. out = Done x \<longrightarrow> B x (os s'))"
    by (simp add: log_ok_def)
qed

text \<open>Requests are logged with the files of the moment.\<close>

lemma act_spec_talk:
  assumes "only_sends ok m" and "\<And>q w. ok q \<Longrightarrow> A w \<Longrightarrow> G q w"
  shows "act_spec G I A (act_talk m) (\<lambda>_. A)"
proof (rule act_specI)
  fix s out s'
  assume s: "log_ok G s" "I (os s)" "A (os s)" and run: "act_talk m s = (out, s')"
  obtain r tr where m: "m (sent_of s) = (r, tr)" by (cases "m (sent_of s)")
  from only_sendsD [OF assms(1) m] obtain qs where qs: "tr = sent_of s @ qs" "\<forall>q \<in> set qs. ok q" by blast
  from run have s': "s' = s\<lparr>asked := asked s @ map (\<lambda>q. (q, os s)) (drop (length (asked s)) tr)\<rparr>"
    by (simp add: act_talk_def m)
  with qs have "set (asked s') = set (asked s) \<union> (\<lambda>q. (q, os s)) ` set qs"
    by (simp add: sent_of_def)
  with s qs(2) assms(2) show "log_ok G s' \<and> I (os s') \<and> (\<forall>x. out = Done x \<longrightarrow> A (os s'))"
    by (auto simp: log_ok_def s')
qed

lemma act_spec_talk_bind:
  assumes "only_sends ok m" and "\<And>q w. ok q \<Longrightarrow> A w \<Longrightarrow> G q w" and "\<And>x. act_spec G I A (f x) B"
  shows "act_spec G I A (act_bind (act_talk m) f) B"
  by (rule act_spec_bind [OF act_spec_talk [OF assms(1,2)] assms(3)])

lemmas act_steps =
  act_spec_lift_bind act_spec_return_bind act_spec_ensure act_spec_context act_spec_method act_spec_prod

subsection \<open>What is saved\<close>

definition stored :: "'m store_lib_scheme \<Rightarrow> wallet_store \<Rightarrow> bytes \<Rightarrow> anyhow + native_state" where
  "stored P st content =
     and_then (read_state_limited content) (\<lambda>bs.
     open_encrypted_json P (deserialize native_keys (native_from_slice P)) bs (st_password st) (st_aad st))"

definition state_entry :: "wallet_store \<Rightarrow> entry" where
  "state_entry st = entry_of (st_directory st) STATE_FILE"

text \<open>The file of a wallet, as processes see it and on the disk, is complete.\<close>

definition settled :: "entry \<Rightarrow> world \<Rightarrow> bool" where
  "settled f w \<longleftrightarrow> (\<exists>nd. live w f = Some nd \<and> disk w f = Some nd \<and> nd_synced nd)"

definition saved :: "'m store_lib_scheme \<Rightarrow> wallet_store \<Rightarrow> native_state \<Rightarrow> world \<Rightarrow> bool" where
  "saved P st n w \<longleftrightarrow> settled (state_entry st) w
     \<and> (\<exists>nd. live w (state_entry st) = Some nd \<and> stored P st (nd_content nd) = Inr n)"

text \<open>What is saved is there after every crash.\<close>

definition recovers :: "'m store_lib_scheme \<Rightarrow> wallet_store \<Rightarrow> native_state \<Rightarrow> world \<Rightarrow> bool" where
  "recovers P st n w \<longleftrightarrow>
     (\<exists>nd. live w (state_entry st) = Some nd \<and> stored P st (nd_content nd) = Inr n)"

lemma saved_recovers:
  assumes "saved P st n w" and "resumes w w'"
  shows "recovers P st n w'"
proof -
  from assms(1) obtain nd where nd: "live w (state_entry st) = Some nd" "disk w (state_entry st) = Some nd"
    "nd_synced nd" "stored P st (nd_content nd) = Inr n"
    by (auto simp: saved_def settled_def)
  have "live w' (state_entry st) \<in> {Some nd}"
    by (rule resumes_synced [OF assms(2)]) (use nd in auto)
  with nd(4) show ?thesis by (simp add: recovers_def)
qed

lemma settled_cong: "live w' f = live w f \<Longrightarrow> disk w' f = disk w f \<Longrightarrow> settled f w' = settled f w"
  by (simp add: settled_def)

lemma saved_cong:
  "live w' (state_entry st) = live w (state_entry st) \<Longrightarrow> disk w' (state_entry st) = disk w (state_entry st)
    \<Longrightarrow> saved P st n w' = saved P st n w"
  by (simp add: saved_def settled_def)

lemma saved_faults [simp]: "saved P st n (w\<lparr>faults := fs\<rparr>) = saved P st n w"
  "settled f (w\<lparr>faults := fs\<rparr>) = settled f w"
  by (simp_all add: saved_def settled_def)

lemma saved_settled: "saved P st n w \<Longrightarrow> settled (state_entry st) w"
  by (simp add: saved_def)

text \<open>A successful write has replaced the file on the disk too.\<close>

lemma cleanup_Done: "cleanup_on_error tmp m w = (Done x, w') \<longleftrightarrow> m w = (Done x, w')"
  by (auto simp: cleanup_on_error_def split: prod.splits outcome.splits)

lemma fs_is_dir_Done: "fs_is_dir d w = (Done b, w') \<Longrightarrow> \<exists>fs. w' = w\<lparr>faults := fs\<rparr>"
  by (auto simp: fs_is_dir_def split: list.splits fault.splits)

lemma replaced_Done:
  assumes "path_name p = Some name" and "write_bytes_atomic_inner P rnd p bs w = (Done (), w')"
  shows "live w' (target_dir p, name) = Some (written_node bs)"
    and "disk w' (target_dir p, name) = Some (written_node bs)"
proof -
  let ?t = "(target_dir p, name)" and ?tmp = "(target_dir p, temporary_name P rnd name)"
  have ne: "?tmp \<noteq> ?t" by (simp add: temporary_differs)
  from assms(1) assms(2) obtain is_dir w1 where
    d: "fs_is_dir (target_dir p) w = (Done is_dir, w1)" and
    run: "io_bind (fs_create_new (Msg (''create temporary file for '' @ display_entry ?t)) ?tmp PRIVATE_MODE) (\<lambda>_.
       io_bind (fs_write_all ?tmp bs) (\<lambda>_. io_bind (fs_sync_all ?tmp) (\<lambda>_.
       io_bind (fs_rename (Msg (''replace '' @ display_entry ?t @ '' atomically'')) ?tmp ?t) (\<lambda>_.
       fs_sync_dir (target_dir p))))) w1 = (Done (), w')"
    by (auto simp: write_bytes_atomic_inner_def io_bind_Done io_ensure_Done Let_def cleanup_Done)
  from run ne show "live w' ?t = Some (written_node bs)" "disk w' ?t = Some (written_node bs)"
    by (auto simp: io_bind_Done fs_create_new_def fs_write_all_def fs_sync_all_def fs_rename_def
        fs_sync_dir_def syscall_Done append_content_def written_node_def split: if_splits)
qed

lemma stored_sealed:
  assumes "store_correct P"
    and "seal_encrypted_json P (native_to_vec P) salt nonce n (st_password st) (st_aad st) = Inr bs"
    and "length bs \<le> MAX_STATE_FILE_SIZE" and "keys_valid (native_keys n)"
  shows "stored P st bs = Inr n"
  using open_sealed [OF _ _ _ _ assms(2)] assms(1,3,4)
  by (simp add: store_correct_def stored_def read_state_limited_fits)

text \<open>What was read has valid keys.\<close>

lemma stored_keys_valid: "stored P st content = Inr n \<Longrightarrow> keys_valid (native_keys n)"
  by (auto simp: stored_def open_encrypted_json_def ok deserialize_Some)

lemma state_path: "path_name (join d STATE_FILE) = Some STATE_FILE"
  "(target_dir (join (st_directory st) STATE_FILE), STATE_FILE) = state_entry st"
  by (simp_all add: join_def state_entry_def entry_of_def)

lemma written_state_saved:
  assumes "store_correct P"
    and "seal_encrypted_json P (native_to_vec P) salt nonce n (st_password st) (st_aad st) = Inr bs"
    and "length bs \<le> MAX_STATE_FILE_SIZE" and "keys_valid (native_keys n)"
    and "write_bytes_atomic_inner P t (join (st_directory st) STATE_FILE) bs w = (Done (), w')"
  shows "saved P st n w'"
proof -
  from replaced_Done [OF state_path(1) assms(5)]
  have "live w' (state_entry st) = Some (written_node bs)" "disk w' (state_entry st) = Some (written_node bs)"
    by (simp_all add: state_path)
  with stored_sealed [OF assms(1-4)] show ?thesis
    by (simp add: saved_def settled_def written_node_def)
qed

lemma load_native_Done:
  assumes "load_native P st w = (Done n, w')"
  shows "recovers P st n w" and "native_validate P n (cfg_network (st_config st)) = Inr ()"
    and "\<exists>fs. w' = w\<lparr>faults := fs\<rparr>"
  using assms
  by (auto simp: load_native_def io_bind_Done io_lift_Done io_return_Done fs_read_Done recovers_def
      stored_def state_entry_def ok)

lemma replaced_wallet:
  "\<lparr>nw_format_version = nw_format_version n, nw_funding_secret = nw_funding_secret n, nw_wallet = s,
    nw_exit = nw_exit n, nw_source_sweep = nw_source_sweep n\<rparr> = n\<lparr>nw_wallet := s\<rparr>"
  by simp

end
