(* ===== verification/Commands_Spec.thy ===== *)
theory Commands_Spec
  imports Evolution Session_Spec
begin

text \<open>
  What the commands guarantee, whatever the enclave, the chain and the operating system do, and
  wherever the machine stops: nothing that has an effect outside the wallet is sent before the
  state that justifies it, and that a later run needs, is safely in the state file; and the state
  file only ever holds the state the command found, or one that evolved from it.
\<close>

subsection \<open>What a saved state authorizes\<close>

text \<open>Registering the pending coin, asking for the pending signature, handing in the funding
  transaction whose recovery is secured, an armed sweep, or an armed exit package.\<close>

definition authorizes :: "'m web_lib_scheme \<Rightarrow> native_state \<Rightarrow> remote_request \<Rightarrow> bool" where
  "authorizes P n q \<longleftrightarrow>
     (\<exists>sk cap reg. ws_pending (nw_wallet n) = Some (PendingRegistration sk cap reg)
        \<and> carries (ReqRegister (reg_request reg)) q)
     \<or> (\<exists>req. pending_sign_request (nw_wallet n) = Inr req \<and> carries (ReqSign req) q)
     \<or> (\<exists>t. funding_transaction P (nw_wallet n) = Inr t \<and> submits P t q)
     \<or> (\<exists>j. nw_source_sweep n = Some j \<and> sj_stage j = SweepSubmissionArmed
          \<and> sweep_validate P j (nw_funding_secret n) = Inr () \<and> submits P (sj_transaction j) q)
     \<or> (\<exists>j c. nw_exit n = Some j \<and> ej_stage j = ExitSubmissionArmed \<and> native_coin n = Some c
          \<and> exit_journal_validate P j c = Inr ()
          \<and> (submits P (ep_child (ej_package j)) q
             \<or> submits_package (serialize_hex P (ep_parent (ej_package j)))
                 (serialize_hex P (ep_child (ej_package j))) q))"

definition secured :: "'m web_lib_scheme \<Rightarrow> string \<Rightarrow> remote_request \<Rightarrow> world \<Rightarrow> bool" where
  "secured P d q w \<longleftrightarrow> effect_free q
     \<or> (\<exists>st n. st_directory st = d \<and> authorizes P n q
          \<and> (\<forall>w'. resumes w w' \<longrightarrow> recovers P st n w'))"

lemma secured_free: "effect_free q \<Longrightarrow> secured P d q w"
  by (simp add: secured_def)

lemma secured_saved: "saved P st n w \<Longrightarrow> authorizes P n q \<Longrightarrow> secured P (st_directory st) q w"
  unfolding secured_def using saved_recovers by blast

subsection \<open>What becomes of the state file\<close>

text \<open>The file holds a state that evolved from the one in the node \<open>x0\<close>, read in the same way.\<close>

definition descends :: "'m store_lib_scheme \<Rightarrow> string \<Rightarrow> node \<Rightarrow> node \<Rightarrow> bool" where
  "descends P d x0 nd \<longleftrightarrow> nd_synced nd
     \<and> (\<exists>st n0 n. st_directory st = d \<and> stored P st (nd_content x0) = Inr n0
          \<and> stored P st (nd_content nd) = Inr n \<and> evolves P n0 n)"

definition kept :: "'m store_lib_scheme \<Rightarrow> string \<Rightarrow> node \<Rightarrow> world \<Rightarrow> bool" where
  "kept P d x0 w \<longleftrightarrow>
     (\<forall>v \<in> {live w (entry_of d STATE_FILE), disk w (entry_of d STATE_FILE)}.
        \<exists>nd. v = Some nd \<and> (nd = x0 \<or> descends P d x0 nd))"

text \<open>The file as the command finds it, and after it has been read or saved.\<close>

definition initial :: "string \<Rightarrow> node \<Rightarrow> world \<Rightarrow> bool" where
  "initial d x0 w \<longleftrightarrow> live w (entry_of d STATE_FILE) = Some x0
     \<and> disk w (entry_of d STATE_FILE) = Some x0 \<and> nd_synced x0"

definition progress ::
  "'m store_lib_scheme \<Rightarrow> wallet_store \<Rightarrow> node \<Rightarrow> native_state \<Rightarrow> world \<Rightarrow> bool" where
  "progress P st x0 n w \<longleftrightarrow> saved P st n w
     \<and> (\<exists>n0. stored P st (nd_content x0) = Inr n0 \<and> evolves P n0 n)"

lemma progress_saved: "progress P st x0 n w \<Longrightarrow> saved P st n w"
  by (simp add: progress_def)

lemma initial_kept: "initial d x0 w \<Longrightarrow> kept P d x0 w"
  by (simp add: initial_def kept_def)

text \<open>Specifications of commands: requests are secured, and the state file is kept.\<close>

abbreviation cmd_spec ::
  "'m web_lib_scheme \<Rightarrow> string \<Rightarrow> node \<Rightarrow> (world \<Rightarrow> bool) \<Rightarrow> 'a act \<Rightarrow> ('a \<Rightarrow> world \<Rightarrow> bool) \<Rightarrow> bool" where
  "cmd_spec P d x0 \<equiv> act_spec (secured P d) (kept P d x0)"

text \<open>Questions may be asked in any state.\<close>

lemma act_read:
  assumes "only_sends effect_free m" and "\<And>x. act_spec (secured P d) I A (f x) B"
  shows "act_spec (secured P d) I A (act_bind (act_talk m) f) B"
  by (rule act_spec_talk_bind [OF assms(1) secured_free assms(2)])

lemma act_read_talk:
  "only_sends effect_free m \<Longrightarrow> act_spec (secured P d) I A (act_talk m) (\<lambda>_. A)"
  by (rule act_spec_talk [OF _ secured_free])

text \<open>What the state in the file authorizes may be sent.\<close>

lemma act_send:
  assumes "only_sends ok m" and "\<And>q. ok q \<Longrightarrow> effect_free q \<or> authorizes P n q"
    and "\<And>x. act_spec (secured P (st_directory st)) I (progress P st x0 n) (f x) B"
  shows "act_spec (secured P (st_directory st)) I (progress P st x0 n) (act_bind (act_talk m) f) B"
  by (rule act_spec_talk_bind [OF assms(1) _ assms(3)])
    (use assms(2) secured_free secured_saved progress_saved in blast)

subsection \<open>The questions\<close>

lemma connect_verified_reads: "only_sends effect_free (connect_verified P E cfg)"
  unfolding connect_verified_def
  by (intro only_sends_rules only_sends_return enclave_reads)

lemma deposits_reads: "only_sends effect_free (available_source_sweep_inputs P E n chain cfg)"
  unfolding available_source_sweep_inputs_def Let_def
  by (intro only_sends_rules only_sends_return chain_reads)

lemma sweep_inputs_reads: "only_sends effect_free (validate_source_sweep_inputs P E n chain cfg)"
  unfolding validate_source_sweep_inputs_def
  by (intro only_sends_rules only_sends_lift chain_reads)

lemma prepared_funding_reads: "only_sends effect_free (validate_explorer_prepared_funding P E n chain cfg)"
  unfolding validate_explorer_prepared_funding_def
  by (intro only_sends_rules only_sends_lift only_sends_return chain_reads)

lemma observe_on_core_reads: "only_sends effect_free (observe_on_core P E chain stage t found)"
  unfolding observe_on_core_def by (intro only_sends_rules only_sends_return chain_reads)

lemma exit_package_reads: "only_sends effect_free (observe_exit_package P E chain j c)"
  unfolding observe_exit_package_def Let_def
  by (intro only_sends_rules only_sends_return only_sends_lift chain_reads observe_on_core_reads)

lemma spending_recovery_reads: "only_sends effect_free (spending_recovery P E chain m rs)"
  by (induction rs) (auto intro!: only_sends_rules only_sends_return only_sends_lift chain_reads)

lemma spending_package_reads: "only_sends effect_free (spending_package P E chain n)"
  unfolding spending_package_def
  by (auto split: chain.splits option.splits intro!: only_sends_rules only_sends_return chain_reads)

lemma exit_spender_reads: "only_sends effect_free (exit_spender P E chain m n observation)"
  unfolding exit_spender_def
  by (intro only_sends_rules only_sends_return spending_recovery_reads spending_package_reads)

lemma exit_fee_rate_reads: "only_sends effect_free (exit_fee_rate P E chain fee_rate)"
  unfolding exit_fee_rate_def by (intro only_sends_rules only_sends_return chain_reads)

lemma observe_for_status_reads: "only_sends effect_free (observe_for_status P E cfg chain c m)"
  unfolding observe_for_status_def Let_def
  by (intro only_sends_rules only_sends_return chain_reads)

lemma init_enclave_reads: "only_sends effect_free (init_enclave_config P E a)"
  unfolding init_enclave_config_def
  by (intro only_sends_rules only_sends_return only_sends_lift enclave_reads)

lemmas questions = connect_verified_reads enclave_reads chain_reads deposits_reads sweep_inputs_reads
  prepared_funding_reads exit_package_reads exit_spender_reads exit_fee_rate_reads
  observe_for_status_reads init_enclave_reads

lemmas ask_steps = questions [THEN act_read]

subsection \<open>Files that a computation does not touch\<close>

definition keeps_file :: "entry \<Rightarrow> 'a io \<Rightarrow> bool" where
  "keeps_file f m \<longleftrightarrow> (\<forall>w. live (snd (m w)) f = live w f \<and> disk (snd (m w)) f = disk w f)"

lemma keeps_fileD:
  "keeps_file f m \<Longrightarrow> m w = (out, w') \<Longrightarrow> live w' f = live w f"
  "keeps_file f m \<Longrightarrow> m w = (out, w') \<Longrightarrow> disk w' f = disk w f"
  unfolding keeps_file_def by (metis snd_conv)+

lemma keeps_file_bind: "keeps_file f m \<Longrightarrow> (\<And>x. keeps_file f (g x)) \<Longrightarrow> keeps_file f (io_bind m g)"
  by (auto simp: keeps_file_def io_bind_def split: prod.splits outcome.splits) (metis snd_conv)+

lemma keeps_file_syscall:
  assumes "\<And>n w. live (part n w) f = live w f \<and> disk (part n w) f = disk w f" and "keeps_file f act"
  shows "keeps_file f (syscall part e act)"
  using assms by (auto simp: keeps_file_def syscall_def split: list.splits fault.splits)

lemma keeps_file_basic:
  "keeps_file f (io_return x)" "keeps_file f (io_fail e)" "keeps_file f (io_lift r)"
  by (auto simp: keeps_file_def io_return_def io_fail_def io_lift_def split: sum.splits)

lemma keeps_file_ensure: "keeps_file f k \<Longrightarrow> keeps_file f (io_ensure c e k)"
  by (simp add: io_ensure_def keeps_file_basic)

lemma keeps_file_reads:
  "keeps_file f (fs_read e g)" "keeps_file f (fs_symlink_metadata e loc)"
  by (auto simp: keeps_file_def fs_read_def fs_symlink_metadata_def syscall_def
      split: list.splits fault.splits option.splits)

lemma keeps_file_lock: "f \<noteq> entry_of d LOCK_FILE \<Longrightarrow> keeps_file f (open_lock d)"
  unfolding open_lock_def fs_open_lock_file_def fs_try_lock_def
  by (intro keeps_file_bind keeps_file_syscall) (auto simp: keeps_file_def)

lemma keeps_file_drop: "keeps_file f m \<Longrightarrow> keeps_file f (drop_on_error d m)"
  by (auto simp: keeps_file_def drop_on_error_def unlock_def split: prod.splits outcome.splits)
    (metis snd_conv)+

lemma keeps_file_option:
  "keeps_file f m \<Longrightarrow> (\<And>x. keeps_file f (g x)) \<Longrightarrow> keeps_file f (case r of None \<Rightarrow> m | Some x \<Rightarrow> g x)"
  by (cases r) auto

lemma keeps_file_if: "keeps_file f m \<Longrightarrow> keeps_file f n \<Longrightarrow> keeps_file f (if c then m else n)"
  by simp

lemmas keeps_file_rules = keeps_file_bind keeps_file_basic keeps_file_ensure keeps_file_reads
  keeps_file_drop keeps_file_option keeps_file_if

lemma keeps_file_private: "keeps_file f (ensure_private_path loc directory)"
  unfolding ensure_private_path_def by (intro keeps_file_rules)

lemma keeps_file_password: "keeps_file f (read_password P src pathname confirm)"
  unfolding read_password_def by (intro keeps_file_rules keeps_file_private)

lemma keeps_file_open: "keeps_file (entry_of d STATE_FILE) (open_store P d password)"
proof -
  have "entry_of d STATE_FILE \<noteq> entry_of d LOCK_FILE"
    by (simp add: entry_of_def names_differ)
  then show ?thesis
    unfolding open_store_def load_config_def read_json_path_def
    by (intro keeps_file_rules keeps_file_private keeps_file_lock)
qed

lemma keeps_file_core: "keeps_file f (core_connect P E core_url cookie name net)"
  unfolding core_connect_def validate_core_config_def by (intro keeps_file_rules)

lemma keeps_file_available: "keeps_file f (ensure_destination_available dest)"
  unfolding ensure_destination_available_def Let_def
  by (auto split: destination.splits option.splits intro!: keeps_file_basic keeps_file_syscall)
    (auto simp: keeps_file_def)

text \<open>A predicate on one file survives a computation that keeps it.\<close>

definition about_file :: "entry \<Rightarrow> (world \<Rightarrow> bool) \<Rightarrow> bool" where
  "about_file f A \<longleftrightarrow> (\<forall>w w'. live w' f = live w f \<longrightarrow> disk w' f = disk w f \<longrightarrow> A w \<longrightarrow> A w')"

lemma about_fileD:
  "about_file f A \<Longrightarrow> keeps_file f m \<Longrightarrow> m w = (out, w') \<Longrightarrow> A w \<Longrightarrow> A w'"
  unfolding about_file_def using keeps_fileD by metis

lemma about_kept: "about_file (entry_of d STATE_FILE) (kept P d x0)"
  by (simp add: about_file_def kept_def)

lemma about_true: "about_file f (\<lambda>_. True)"
  by (simp add: about_file_def)

lemma about_initial: "about_file (entry_of d STATE_FILE) (initial d x0)"
  by (simp add: about_file_def initial_def)

lemma about_progress: "about_file (entry_of (st_directory st) STATE_FILE) (progress P st x0 n)"
  unfolding about_file_def progress_def using saved_cong state_entry_def by metis

lemmas about_rules = about_true about_initial about_progress

lemma act_io_keeps:
  assumes "keeps_file (entry_of d STATE_FILE) m" and "about_file (entry_of d STATE_FILE) A"
  shows "cmd_spec P d x0 A (act_io m) (\<lambda>_. A)"
  using about_fileD [OF about_kept assms(1)] about_fileD [OF assms(2,1)]
  by (intro act_spec_io) blast

lemma act_chain_connect:
  assumes "about_file (entry_of d STATE_FILE) A" and "\<And>x. cmd_spec P d x0 A (g x) B"
  shows "cmd_spec P d x0 A (act_bind (chain_connect P E cfg net) g) B"
proof (rule act_spec_bind [OF _ assms(2)])
  show "cmd_spec P d x0 A (chain_connect P E cfg net) (\<lambda>_. A)"
  proof (cases cfg)
    case (ExplorerConfig base_url)
    show ?thesis
      unfolding chain_connect_def ExplorerConfig chain_config.case
      by (intro act_spec_ensure act_spec_lift_bind act_read [OF explorer_reads(11)] act_spec_return)
        simp_all
  next
    case (CoreRpcConfig core_url cookie name)
    show ?thesis
      unfolding chain_connect_def CoreRpcConfig chain_config.case
      by (intro act_spec_ensure act_spec_bind [OF act_io_keeps [OF keeps_file_core assms(1)]]
          act_spec_return)
  qed
qed

lemma act_open_wallet:
  assumes "\<And>st cfg. st_directory st = cl_data_dir cl
    \<Longrightarrow> cmd_spec P (st_directory st) x0 (initial (st_directory st) x0) (body st cfg) (\<lambda>_ _. True)"
  shows "cmd_spec P (cl_data_dir cl) x0 (initial (cl_data_dir cl) x0) (open_wallet P cl body) (\<lambda>_ _. True)"
proof -
  let ?d = "cl_data_dir cl"
  have unlocked: "kept P ?d x0 (unlock d w) = kept P ?d x0 w" for d w
    by (simp add: kept_def unlock_def)
  have drop: "cmd_spec P ?d x0 A (act_drop d m) (\<lambda>_ _. True)" if "cmd_spec P ?d x0 A m (\<lambda>_ _. True)"
    for A d and m :: "'a act"
  proof (rule act_specI)
    fix s out s'
    assume s: "log_ok (secured P ?d) s" "kept P ?d x0 (os s)" "A (os s)" and run: "act_drop d m s = (out, s')"
    obtain r s1 where m: "m s = (r, s1)" by (cases "m s")
    from run m act_specD(1,2) [OF that s m] unlocked
    show "log_ok (secured P ?d) s' \<and> kept P ?d x0 (os s') \<and> (\<forall>x. out = Done x \<longrightarrow> True)"
      by (auto simp: act_drop_def log_ok_def split: outcome.splits)
  qed
  have dir: "st_directory st = ?d" if "open_store P ?d password w = (Done st, w')" for st password w w'
    using that by (auto simp: open_store_def io_done drop_on_error_Done)
  have opened: "cmd_spec P ?d x0 (initial ?d x0) (act_io (open_store P ?d password))
      (\<lambda>st w. initial ?d x0 w \<and> st_directory st = ?d)" for password
    using about_fileD [OF about_kept keeps_file_open] about_fileD [OF about_initial keeps_file_open] dir
    by (intro act_spec_io) blast
  have body: "cmd_spec P ?d x0 (\<lambda>w. initial ?d x0 w \<and> st_directory st = ?d) (body st cfg) (\<lambda>_ _. True)"
    for st cfg
  proof (cases "st_directory st = ?d")
    case True
    with assms [OF True, of cfg] show ?thesis by simp
  qed (simp add: act_spec_def)
  show ?thesis
    unfolding open_wallet_def
    by (intro act_spec_bind [OF act_io_keeps [OF keeps_file_password about_initial]]
        act_spec_bind [OF opened] drop act_spec_ensure body)
qed

subsection \<open>Outputs\<close>

text \<open>An output never replaces the state file, whatever path it is given.\<close>

lemma temporary_not_state: "temporary_name P rnd name \<noteq> STATE_FILE"
  by (simp add: temporary_name_def STATE_FILE_def)

lemma destination_kept:
  assumes "write_bytes_destination P rnd p bs w = (out, w')" and "live w f = Some nd" and "snd f = STATE_FILE"
  shows "live w' f = Some nd \<and> disk w' f \<in> {disk w f, Some nd}"
proof (cases "path_name p")
  case None
  have "keeps_file f (fs_is_dir d)" for d
    by (auto simp: keeps_file_def fs_is_dir_def split: list.splits fault.splits)
  then have "keeps_file f (write_bytes_destination P rnd p bs)"
    unfolding write_bytes_destination_def None option.case by (intro keeps_file_rules)
  from keeps_fileD [OF this assms(1)] assms(2) show ?thesis by simp
next
  case (Some name)
  let ?t = "(target_dir p, name)" and ?tmp = "(target_dir p, temporary_name P rnd name)"
  have "temporary_is w ?t ?tmp (live w ?tmp) w" by (simp add: temporary_is_def others_kept_refl)
  from io_specD [OF write_destination_spec [OF Some refl refl] this assms(1)]
  have placed: "not_overwritten w ?t ?tmp bs w'" by (cases out) (auto simp: linked_or_same_def)
  have "f \<noteq> ?tmp" using assms(3) temporary_not_state by (metis snd_conv)
  then have "f \<notin> {?t, ?tmp} \<or> f = ?t" by blast
  moreover have "live w' f = live w f \<and> (disk w' f = disk w f \<or> disk w' f = live w f)" if "f \<notin> {?t, ?tmp}"
    using placed that unfolding not_overwritten_def others_kept_def by blast
  ultimately show ?thesis
    using assms(2) placed by (auto simp: not_overwritten_def)
qed

definition keeps_state :: "entry \<Rightarrow> 'a io \<Rightarrow> bool" where
  "keeps_state f m \<longleftrightarrow> (\<forall>w out w' nd. m w = (out, w') \<longrightarrow> live w f = Some nd \<longrightarrow>
     live w' f = Some nd \<and> disk w' f \<in> {disk w f, Some nd})"

lemma keeps_state_file: "keeps_file f m \<Longrightarrow> keeps_state f m"
  unfolding keeps_state_def using keeps_fileD by fastforce

lemma keeps_state_bind:
  assumes "keeps_state f m" and "\<And>x. keeps_state f (g x)"
  shows "keeps_state f (io_bind m g)"
  unfolding keeps_state_def
proof (intro allI impI)
  fix w out w' nd
  assume run: "io_bind m g w = (out, w')" and nd: "live w f = Some nd"
  obtain r w1 where m: "m w = (r, w1)" by (cases "m w")
  have w1: "live w1 f = Some nd" "disk w1 f \<in> {disk w f, Some nd}"
    using assms(1) m nd unfolding keeps_state_def by blast+
  show "live w' f = Some nd \<and> disk w' f \<in> {disk w f, Some nd}"
  proof (cases r)
    case (Done x)
    with run m have "g x w1 = (out, w')" by (simp add: io_bind_def)
    with assms(2) w1 show ?thesis unfolding keeps_state_def by fastforce
  qed (use run m w1 in \<open>auto simp: io_bind_def\<close>)
qed

lemma keeps_state_destination:
  assumes "snd f = STATE_FILE"
  shows "keeps_state f (case dest of Console \<Rightarrow> fs_print bs | ToPath p \<Rightarrow> write_bytes_destination P rnd p bs)"
proof (cases dest)
  case Console
  have "keeps_file f (fs_print bs)" unfolding fs_print_def by (rule keeps_file_syscall) (simp_all add: keeps_file_def)
  then show ?thesis by (simp add: Console keeps_state_file)
next
  case (ToPath p)
  show ?thesis
    unfolding keeps_state_def ToPath destination.case by (intro allI impI destination_kept assms)
qed

lemma keeps_state_outputs:
  assumes "snd f = STATE_FILE"
  shows "keeps_state f (write_json_destination P rnd to_vec dest value)"
    and "keeps_state f (write_text_destination P rnd dest str)"
  unfolding write_json_destination_def write_text_destination_def Let_def
  by (intro keeps_state_bind keeps_state_destination [OF assms] keeps_state_file [OF keeps_file_basic(3)])+

lemma act_output:
  assumes "keeps_state (entry_of d STATE_FILE) m"
  shows "cmd_spec P d x0 A (act_io m) (\<lambda>_ _. True)"
proof (rule act_spec_io)
  let ?f = "entry_of d STATE_FILE"
  fix w out w'
  assume w: "kept P d x0 w" "m w = (out, w')"
  then obtain nd where nd: "live w ?f = Some nd" by (auto simp: kept_def)
  with assms w(2) have "live w' ?f = Some nd \<and> disk w' ?f \<in> {disk w ?f, Some nd}"
    unfolding keeps_state_def by blast
  with w(1) nd show "kept P d x0 w' \<and> (\<forall>x. out = Done x \<longrightarrow> True)"
    by (auto simp: kept_def)
qed

lemma act_writes:
  "cmd_spec P d x0 A (act_io (write_json_destination P rnd to_vec dest value)) (\<lambda>_ _. True)"
  "cmd_spec P d x0 A (act_io (write_text_destination P rnd dest str)) (\<lambda>_ _. True)"
  by (intro act_output keeps_state_outputs; simp add: entry_of_def)+

subsection \<open>Loading and saving\<close>

lemma act_load_native:
  assumes "\<And>n. native_validate P n (cfg_network (st_config st)) = Inr ()
    \<Longrightarrow> cmd_spec P (st_directory st) x0 (progress P st x0 n) (f n) B"
  shows "cmd_spec P (st_directory st) x0 (initial (st_directory st) x0)
    (act_bind (act_io (load_native P st)) f) B"
proof (rule act_spec_bind [OF act_spec_io])
  let ?valid = "\<lambda>n. native_validate P n (cfg_network (st_config st)) = Inr ()"
  fix w out w'
  assume w: "kept P (st_directory st) x0 w" "initial (st_directory st) x0 w" "load_native P st w = (out, w')"
  have "keeps_file f (load_native P st)" for f
    unfolding load_native_def by (intro keeps_file_rules)
  from about_fileD [OF about_kept this w(3,1)]
  have "kept P (st_directory st) x0 w'" .
  moreover have "?valid n \<and> progress P st x0 n w'" if "out = Done n" for n
    using load_native_Done [of P st w n w'] w(2,3) that
    by (auto simp: progress_def saved_def settled_def recovers_def initial_def state_entry_def
        intro: evolves_refl)
  ultimately show "kept P (st_directory st) x0 w' \<and> (\<forall>n. out = Done n \<longrightarrow> ?valid n \<and> progress P st x0 n w')"
    by blast
next
  show "cmd_spec P (st_directory st) x0
      (\<lambda>w. native_validate P n (cfg_network (st_config st)) = Inr () \<and> progress P st x0 n w) (f n) B" for n
    by (rule act_spec_pure [OF assms])
qed

lemma act_load:
  assumes "\<And>n. native_validate P n (cfg_network (st_config st)) = Inr ()
    \<Longrightarrow> cmd_spec P (st_directory st) x0 (progress P st x0 n) (f (nw_wallet n)) B"
  shows "cmd_spec P (st_directory st) x0 (initial (st_directory st) x0)
    (act_bind (act_io (load P st)) f) B"
proof -
  have "act_bind (act_io (load P st)) f = act_bind (act_io (load_native P st)) (\<lambda>n. f (nw_wallet n))"
    by (rule ext) (auto simp: act_bind_def act_io_def load_def io_bind_def io_return_def
        split: prod.splits outcome.splits)
  then show ?thesis using act_load_native [where f = "\<lambda>n. f (nw_wallet n)", OF assms] by simp
qed

text \<open>Whatever happens while a state that evolved is written, the file is kept.\<close>

lemma write_native_kept:
  assumes "store_correct P" and "kept P (st_directory st) x0 w"
    and "stored P st (nd_content x0) = Inr n0" and "evolves P n0 n"
    and "write_native P rnd st n w = (out, w')"
  shows "kept P (st_directory st) x0 w' \<and> (out = Done () \<longrightarrow> progress P st x0 n w')"
  using assms(5) unfolding write_native_def
proof (cases rule: write_sealed_cases)
  case (unchanged e)
  with assms(2) show ?thesis by simp
next
  case (written bs)
  let ?f = "entry_of (st_directory st) STATE_FILE"
  have path: "(target_dir (join (st_directory st) STATE_FILE), STATE_FILE) = ?f"
    by (simp add: entry_of_def)
  have "keys_valid (native_keys n)"
    by (rule evolves_keys [OF assms(4) stored_keys_valid [OF assms(3)]])
  then have stored: "stored P st bs = Inr n" by (rule stored_sealed [OF assms(1) written(1,2)])
  then have new: "descends P (st_directory st) x0 (written_node bs)"
    using assms(3,4) by (auto simp: descends_def written_node_def)
  note atomic = replacement_atomic [OF state_path(1) path [symmetric] refl written(3)]
  from atomic assms(2) new have "kept P (st_directory st) x0 w'" by (auto simp: kept_def)
  moreover from atomic stored assms(3,4) have "progress P st x0 n w'" if "out = Done ()"
    using that by (auto simp: progress_def saved_def settled_def written_node_def state_entry_def)
  ultimately show ?thesis by blast
qed

lemma act_save_native_progress:
  assumes "store_correct P" and "evolves P n n'"
  shows "cmd_spec P (st_directory st) x0 (progress P st x0 n) (act_save_native P D st n')
    (\<lambda>_. progress P st x0 n')"
proof (rule act_specI)
  let ?d = "st_directory st"
  fix s out s'
  assume s: "log_ok (secured P ?d) s" "kept P ?d x0 (os s)" "progress P st x0 n (os s)"
    and run: "act_save_native P D st n' s = (out, s')"
  from s(3) obtain n0 where n0: "stored P st (nd_content x0) = Inr n0" "evolves P n0 n'"
    using assms(2) evolves_trans unfolding progress_def by blast
  from run obtain w' where w': "save_native P (D (saves s)) st n' (os s) = (out, w')" "os s' = w'" "asked s' = asked s"
    by (auto simp: act_save_native_def act_io_def split: prod.splits)
  have "kept P ?d x0 w' \<and> (out = Done () \<longrightarrow> progress P st x0 n' w')"
  proof (cases "native_validate P n' (cfg_network (st_config st))")
    case (Inl e)
    with w'(1) s(2) show ?thesis by (auto simp: save_native_def io_bind_def)
  next
    case (Inr u)
    with w'(1) have "write_native P (D (saves s)) st n' (os s) = (out, w')"
      by (simp add: save_native_def io_bind_def)
    from write_native_kept [OF assms(1) s(2) n0 this] show ?thesis .
  qed
  with s(1) w'(2,3) show "log_ok (secured P ?d) s' \<and> kept P ?d x0 (os s')
      \<and> (\<forall>x. out = Done x \<longrightarrow> progress P st x0 n' (os s'))"
    by (simp add: log_ok_def)
qed

lemma act_save_progress:
  assumes "store_correct P" and "advances P (nw_wallet n) s1"
  shows "cmd_spec P (st_directory st) x0 (progress P st x0 n) (act_save P D st s1)
    (\<lambda>_. progress P st x0 (n\<lparr>nw_wallet := s1\<rparr>))"
proof (rule act_specI)
  let ?d = "st_directory st" and ?n = "n\<lparr>nw_wallet := s1\<rparr>"
  fix s out s'
  assume s: "log_ok (secured P ?d) s" "kept P ?d x0 (os s)" "progress P st x0 n (os s)"
    and run: "act_save P D st s1 s = (out, s')"
  have "evolves P n ?n" using assms(2) by (simp add: evolves_wallet)
  with s(3) obtain n0 where n0: "stored P st (nd_content x0) = Inr n0" "evolves P n0 ?n"
    using evolves_trans unfolding progress_def by blast
  from run obtain w' where w': "save P (D (saves s)) st s1 (os s) = (out, w')" "os s' = w'" "asked s' = asked s"
    by (auto simp: act_save_def act_io_def split: prod.splits)
  have "kept P ?d x0 w' \<and> (out = Done () \<longrightarrow> progress P st x0 ?n w')"
    using w'(1)
  proof (cases rule: save_runs)
    case unchanged
    with s(2) show ?thesis by (simp add: kept_def)
  next
    case (written m fs)
    from load_native_Done(1) [OF written(1)] s(3) have "m = n"
      by (auto simp: progress_def saved_def recovers_def)
    moreover have "kept P ?d x0 ((os s)\<lparr>faults := fs\<rparr>)" using s(2) by (simp add: kept_def)
    ultimately show ?thesis using write_native_kept [OF assms(1) _ n0] written(2) by blast
  qed
  with s(1) w'(2,3) show "log_ok (secured P ?d) s' \<and> kept P ?d x0 (os s')
      \<and> (\<forall>x. out = Done x \<longrightarrow> progress P st x0 ?n (os s'))"
    by (simp add: log_ok_def)
qed

end
