(* ===== verification/Write_Ahead.thy ===== *)
theory Write_Ahead
  imports Commands_Spec
begin

text \<open>
  The guarantees of the commands, proved command by command with the logic of \<open>Session_Spec\<close>:
  what is sent was authorized by a state already in the file, and what the file holds evolved
  from what the command found there.
\<close>

subsection \<open>Saving and going on\<close>

lemma evolves_walletI: "advances P (nw_wallet n) s \<Longrightarrow> evolves P n (n\<lparr>nw_wallet := s\<rparr>)"
  by (simp add: evolves_wallet)

lemma act_saved_return:
  assumes "store_correct P" and "evolves P n n'" and "\<And>w. progress P st x0 n' w \<Longrightarrow> B x w"
  shows "cmd_spec P (st_directory st) x0 (progress P st x0 n)
    (act_bind (act_save_native P D st n') (\<lambda>_. act_return x)) B"
  by (intro act_spec_bind [OF act_save_native_progress [OF assms(1,2)]] act_spec_return assms(3))

lemma act_progress_prod:
  "(\<And>n y. cmd_spec P d x0 (progress P st x0 n) (f n y) B)
    \<Longrightarrow> cmd_spec P d x0 (progress P st x0 (fst r)) (case r of (n, y) \<Rightarrow> f n y) B"
  by (cases r) simp

text \<open>The commands that save only the wallet: the rest of the native state stays.\<close>

definition wallet_saved ::
  "'m store_lib_scheme \<Rightarrow> wallet_store \<Rightarrow> node \<Rightarrow> native_state \<Rightarrow> wallet_state \<Rightarrow> world \<Rightarrow> bool" where
  "wallet_saved P st x0 n s = progress P st x0 (n\<lparr>nw_wallet := s\<rparr>)"

lemma wallet_saved_self: "wallet_saved P st x0 n (nw_wallet n) = progress P st x0 n"
  by (simp add: wallet_saved_def)

lemma about_wallet_saved: "about_file (entry_of (st_directory st) STATE_FILE) (wallet_saved P st x0 n s)"
  unfolding wallet_saved_def by (rule about_progress)

lemma act_save_wallet:
  assumes "store_correct P" and "advances P s s1"
  shows "cmd_spec P (st_directory st) x0 (wallet_saved P st x0 n s) (act_save P D st s1)
    (\<lambda>_. wallet_saved P st x0 n s1)"
  using act_save_progress [OF assms(1), of "n\<lparr>nw_wallet := s\<rparr>" s1] assms(2) by (simp add: wallet_saved_def)

lemma act_saved_wallet:
  assumes "store_correct P" and "advances P s s1" and "\<And>w. wallet_saved P st x0 n s1 w \<Longrightarrow> B x w"
  shows "cmd_spec P (st_directory st) x0 (wallet_saved P st x0 n s)
    (act_bind (act_save P D st s1) (\<lambda>_. act_return x)) B"
  by (intro act_spec_bind [OF act_save_wallet [OF assms(1,2)]] act_spec_return assms(3))

lemma act_send_wallet:
  assumes "only_sends ok m" and "\<And>q. ok q \<Longrightarrow> effect_free q \<or> authorizes P (n\<lparr>nw_wallet := s\<rparr>) q"
    and "\<And>x. cmd_spec P (st_directory st) x0 (wallet_saved P st x0 n s) (f x) B"
  shows "cmd_spec P (st_directory st) x0 (wallet_saved P st x0 n s) (act_bind (act_talk m) f) B"
  unfolding wallet_saved_def
  by (rule act_send [OF assms(1,2)]) (use assms(3) in \<open>simp_all add: wallet_saved_def\<close>)

lemma act_send_pending:
  assumes "pending_sign_request s = Inr req"
    and "\<And>resp. cmd_spec P (st_directory st) x0 (wallet_saved P st x0 n s) (f resp) B"
  shows "cmd_spec P (st_directory st) x0 (wallet_saved P st x0 n s)
    (act_bind (act_talk (enclave_sign P E e req)) f) B"
  by (rule act_send_wallet [OF enclave_sends(2) _ assms(2)])
    (use assms(1) in \<open>auto simp: authorizes_def\<close>)

lemma connected_reads: "cmd_spec P d x0 A (connected P E cfg e) (\<lambda>_. A)"
  unfolding connected_def
  by (intro act_spec_option act_read_talk connect_verified_reads act_spec_return)

subsection \<open>Registering\<close>

lemma begin_registration_pending:
  assumes "begin_registration P rnd s = (Inr req, s')" and "ws_pending s = None"
  obtains sk cap reg where "ws_pending s' = Some (PendingRegistration sk cap reg)" "reg_request reg = req"
  using assms by (auto simp: begin_registration_def commit_def Let_def ok split: sum.splits option.splits)

definition registering :: "register_request \<times> wallet_state \<Rightarrow> bool" where
  "registering r \<longleftrightarrow> (\<exists>sk cap reg. ws_pending (snd r) = Some (PendingRegistration sk cap reg)
     \<and> reg_request reg = fst r)"

lemma registration_to_send_secured:
  assumes "store_correct P"
  shows "cmd_spec P (st_directory st) x0 (wallet_saved P st x0 n s) (registration_to_send P D rnd st s)
    (\<lambda>r w. registering r \<and> wallet_saved P st x0 n (snd r) w)"
proof (cases "ws_pending s")
  case None
  then show ?thesis
    unfolding registration_to_send_def None option.case
    by (intro act_spec_method act_saved_wallet assms)
      (auto simp: registering_def elim: begin_registration_pending [OF _ None] intro: wallet_advances)
next
  case (Some p)
  then show ?thesis
    by (cases p) (auto simp: registration_to_send_def registering_def intro!: act_spec_return act_spec_fail)
qed

lemma register_secured:
  assumes "store_correct P"
  shows "cmd_spec P (cl_data_dir cl) x0 (initial (cl_data_dir cl) x0) (register_coin P E D rnd cl) (\<lambda>_ _. True)"
  unfolding register_coin_def
proof (rule act_open_wallet, rule act_load, rule act_spec_option)
  fix st :: wallet_store and cfg and n :: native_state
  have send: "cmd_spec P (st_directory st) x0
      (\<lambda>w. registering r \<and> wallet_saved P st x0 n (snd r) w)
      (case r of (req, s1) \<Rightarrow>
       act_bind (act_talk (enclave_register P E e req)) (\<lambda>st_now.
       act_method (wallet_complete_registration P s1 st_now) (\<lambda>_ s2.
       act_bind (act_save P D st s2) (\<lambda>_.
       act_context (ws_coin s2) (Msg ''coin inserted'') (\<lambda>c.
       act_return (emit_registration P cfg c False)))))) (\<lambda>_ _. True)" for r e
    by (rule act_spec_pure, cases r, simp only: prod.case, rule act_send_wallet [OF enclave_sends(1)])
      (auto simp: authorizes_def registering_def intro!: act_steps act_spec_bind [OF act_save_wallet [OF assms]]
        act_spec_return intro: wallet_advances)
  show "cmd_spec P (st_directory st) x0 (progress P st x0 n)
      (act_bind (act_talk (connect_verified P E cfg)) (\<lambda>e.
       act_bind (registration_to_send P D rnd st (nw_wallet n)) (\<lambda>(req, s1).
       act_bind (act_talk (enclave_register P E e req)) (\<lambda>st_now.
       act_method (wallet_complete_registration P s1 st_now) (\<lambda>_ s2.
       act_bind (act_save P D st s2) (\<lambda>_.
       act_context (ws_coin s2) (Msg ''coin inserted'') (\<lambda>c.
       act_return (emit_registration P cfg c False)))))))) (\<lambda>_ _. True)"
    by (subst wallet_saved_self [symmetric])
      (intro ask_steps act_spec_bind [OF registration_to_send_secured [OF assms] send])
qed (intro act_steps ask_steps act_spec_return; simp)

subsection \<open>Funding\<close>

lemma explorer_fund_prepare_secured:
  assumes "store_correct P"
  shows "cmd_spec P (st_directory st) x0 (progress P st x0 n)
    (explorer_fund_prepare P E D rnd st cfg chain amount delay fee_rate max_fee n) (\<lambda>n1. progress P st x0 n1)"
  unfolding explorer_fund_prepare_def Let_def
  by (intro act_steps ask_steps act_saved_return evolves_walletI assms) (auto intro: wallet_advances)

lemma explorer_fund_sign_secured:
  assumes "store_correct P"
  shows "cmd_spec P (st_directory st) x0 (progress P st x0 n)
    (explorer_fund_sign P E D st cfg chain n) (\<lambda>r. progress P st x0 (fst r))"
proof -
  have send: "cmd_spec P (st_directory st) x0 (progress P st x0 n)
      (act_bind (act_talk (enclave_sign P E e req)) f) B"
    if "pending_sign_request (nw_wallet n) = Inr req"
      and "\<And>resp. cmd_spec P (st_directory st) x0 (progress P st x0 n) (f resp) B" for e req f B
    by (rule act_send [OF enclave_sends(2) _ that(2)]) (use that(1) in \<open>auto simp: authorizes_def\<close>)
  have check: "cmd_spec P (st_directory st) x0 (progress P st x0 n)
      (if c then act_return () else act_ensure c' msg (act_talk (validate_explorer_prepared_funding P E n chain cfg)))
      (\<lambda>_. progress P st x0 n)" for c c' msg
    by (intro act_spec_if act_spec_return act_spec_ensure act_read_talk prepared_funding_reads)
  show ?thesis
    unfolding explorer_fund_sign_def
    by (rule act_spec_option) (intro act_steps ask_steps act_spec_bind [OF check] send
      act_saved_return evolves_walletI act_spec_return assms; auto intro: wallet_advances)+
qed

lemma explorer_fund_complete_secured:
  assumes "store_correct P"
  shows "cmd_spec P (st_directory st) x0 (progress P st x0 n)
    (explorer_fund_complete P E D st cfg e n) (\<lambda>n1. progress P st x0 n1)"
  unfolding explorer_fund_complete_def
  by (intro act_spec_if act_spec_return act_spec_bind [OF connected_reads] act_steps ask_steps
      act_saved_return evolves_walletI assms) (auto intro: wallet_advances)

lemma explorer_fund_broadcast_secured:
  assumes "store_correct P"
  shows "cmd_spec P (st_directory st) x0 (progress P st x0 n)
    (explorer_fund_broadcast P E D st chain n) (\<lambda>_ _. True)"
proof -
  have send: "cmd_spec P (st_directory st) x0 (progress P st x0 n)
      (act_bind (act_talk (chain_broadcast_exact P E chain t)) f) B"
    if "funding_transaction P (nw_wallet n) = Inr t"
      and "\<And>x. cmd_spec P (st_directory st) x0 (progress P st x0 n) (f x) B" for t f B
    by (rule act_send [OF chain_broadcasts(1) _ that(2)]) (use that(1) in \<open>auto simp: authorizes_def\<close>)
  have mark: "cmd_spec P (st_directory st) x0 (progress P st x0 n)
      (if b then act_return n else act_method (mark_funding_broadcast P (nw_wallet n) txid) (\<lambda>_ s1.
           act_bind (act_save_native P D st (n\<lparr>nw_wallet := s1\<rparr>)) (\<lambda>_. act_return (n\<lparr>nw_wallet := s1\<rparr>))))
      (\<lambda>n1. progress P st x0 n1)" for b txid
    by (intro act_spec_if act_spec_method act_saved_return evolves_walletI act_spec_return assms)
      (auto intro: wallet_advances)
  show ?thesis
    unfolding explorer_fund_broadcast_def Let_def
    by (intro act_steps send act_spec_bind [OF mark] act_spec_lift_any)
qed

lemma fund_coin_explorer_secured:
  assumes "store_correct P"
  shows "cmd_spec P (st_directory st) x0 (initial (st_directory st) x0)
    (fund_coin_explorer P E D rnd st cfg amount delay fee_rate max_fee) (\<lambda>_ _. True)"
  unfolding fund_coin_explorer_def
proof (rule act_chain_connect [OF about_initial], rule act_load_native, rule act_spec_context)
  fix chain n c
  have prepared: "cmd_spec P (st_directory st) x0 (progress P st x0 n)
      (if wc_funding c \<noteq> None then act_return n
       else explorer_fund_prepare P E D rnd st cfg chain amount delay fee_rate max_fee n) (\<lambda>n1. progress P st x0 n1)"
    by (intro act_spec_if act_spec_return explorer_fund_prepare_secured assms)
  show "cmd_spec P (st_directory st) x0 (progress P st x0 n)
      (act_bind (if wc_funding c \<noteq> None then act_return n
        else explorer_fund_prepare P E D rnd st cfg chain amount delay fee_rate max_fee n) (\<lambda>n1.
     act_bind (act_lift (explorer_fund_check n1 amount delay fee_rate max_fee)) (\<lambda>_.
     act_bind (explorer_fund_sign P E D st cfg chain n1) (\<lambda>(n2, e).
     act_bind (explorer_fund_complete P E D st cfg e n2) (\<lambda>n3.
     explorer_fund_broadcast P E D st chain n3))))) (\<lambda>_ _. True)"
    by (intro act_spec_bind [OF prepared] act_spec_lift_bind
        act_spec_bind [OF explorer_fund_sign_secured [OF assms]] act_spec_prod
        assms)
      (simp, intro act_spec_bind [OF explorer_fund_complete_secured [OF assms]]
        explorer_fund_broadcast_secured assms)
qed

lemma core_fund_prepare_secured:
  assumes "store_correct P" and "ws_coin s = Some c"
  shows "cmd_spec P (st_directory st) x0 (wallet_saved P st x0 n s)
    (core_fund_prepare P E D st cfg enclave chain amount delay fee_rate max_fee c s)
    (\<lambda>s1. wallet_saved P st x0 n s1)"
  unfolding core_fund_prepare_def Let_def
  by (intro act_steps ask_steps act_saved_wallet assms(1)) (use assms(2) in \<open>auto intro: prepared_funding_advances\<close>)

lemma core_fund_begin_secured:
  assumes "store_correct P" and "funding_stage_of s = Some FundingPrepared"
  shows "cmd_spec P (st_directory st) x0 (wallet_saved P st x0 n s)
    (core_fund_begin P E D rnd st enclave chain delay s) (\<lambda>s1. wallet_saved P st x0 n s1)"
  unfolding core_fund_begin_def Let_def
  by (intro act_steps ask_steps act_saved_wallet assms(1))
    (use assms(2) in \<open>auto simp: from_client_Inr funding_stage_of_def secret_xonly_def
      intro!: begun_funding_advances\<close>)

lemma sign_pending_funding_secured:
  assumes "store_correct P"
  shows "cmd_spec P (st_directory st) x0 (wallet_saved P st x0 n s)
    (sign_pending_funding P E D st e cfg attempt s) (\<lambda>s1. wallet_saved P st x0 n s1)"
proof -
  have check: "cmd_spec P (st_directory st) x0 (wallet_saved P st x0 n s)
      (if c then act_return () else act_ensure c1 e1 (act_context r e2 (\<lambda>f. act_ensure (c2 f) e3
        (act_bind (chain_connect P E cfg1 net) (\<lambda>chain.
         act_bind (act_talk (chain_validate_prepared_funding P E chain m (t f))) (\<lambda>_. act_lift x))))))
      (\<lambda>_. wallet_saved P st x0 n s)" for c c1 c2 e1 e2 e3 cfg1 net m t x and r :: "funding_journal option"
    by (intro act_spec_if act_spec_return act_steps ask_steps act_spec_lift
        act_chain_connect [OF about_wallet_saved])
  show ?thesis
    unfolding sign_pending_funding_def
    by (intro act_steps ask_steps act_spec_bind [OF check] act_send_pending act_saved_wallet assms)
      (auto intro: wallet_advances)
qed

lemma finish_pending_secured:
  assumes "store_correct P"
  shows "cmd_spec P (st_directory st) x0 (wallet_saved P st x0 n s)
    (finish_pending_funding_recovery P E D st s e cfg) (\<lambda>s1. wallet_saved P st x0 n s1)"
proof -
  have sign: "cmd_spec P (st_directory st) x0 (wallet_saved P st x0 n s)
      (case r of None \<Rightarrow> act_return s | Some attempt \<Rightarrow> sign_pending_funding P E D st e cfg attempt s)
      (\<lambda>s1. wallet_saved P st x0 n s1)" for r
    by (intro act_spec_option act_spec_return sign_pending_funding_secured assms)
  show ?thesis
    unfolding finish_pending_funding_recovery_def
    by (intro act_spec_bind [OF sign] act_steps ask_steps act_saved_wallet assms)
      (auto intro: wallet_advances)
qed

lemma broadcast_funding_sends:
  "only_sends (\<lambda>q. effect_free q \<or> submits P t q \<and> validate_finalized_funding P m t = Inr ())
    (chain_broadcast_funding P E chain m t)"
proof (cases "validate_finalized_funding P m t")
  case (Inr u)
  with chain_broadcasts(2) show ?thesis by simp
next
  case (Inl e)
  have fails: "talk_bind (talk_lift (Inl e)) f = talk_fail e" for f :: "unit \<Rightarrow> txid talk"
    by (rule ext) (simp add: talk_bind_def talk_lift_def talk_fail_def)
  show ?thesis
    unfolding chain_broadcast_funding_def core_broadcast_funding_def Inl fails
    by (cases chain) (auto intro!: only_sends_bind core_reads)
qed

lemma core_fund_broadcast_secured:
  assumes "store_correct P"
  shows "cmd_spec P (st_directory st) x0 (wallet_saved P st x0 n s)
    (core_fund_broadcast P E D st chain s) (\<lambda>_ _. True)"
proof -
  let ?A = "wallet_saved P st x0 n s"
  have send: "cmd_spec P (st_directory st) x0 ?A (act_bind (act_talk (chain_broadcast_funding P E chain m (fj_transaction f))) g) B"
    if "ws_coin s = Some c" "wc_metadata c = Some m" "wc_funding c = Some f"
      "fj_stage f = RecoverySecured \<or> fj_stage f = Broadcast" "first_opt (wc_history c) = Some r"
      "rec_delay_blocks r = fj_delay_blocks f" "from_client (verify_recovery P m r) = Inr u"
      "\<And>x. cmd_spec P (st_directory st) x0 ?A (g x) B" for c m f r u g B
  proof (rule act_send_wallet [OF broadcast_funding_sends _ that(8)])
    fix q
    assume q: "effect_free q \<or> submits P (fj_transaction f) q
      \<and> validate_finalized_funding P m (fj_transaction f) = Inr ()"
    with that(1-7) have "effect_free q \<or> submits P (fj_transaction f) q
        \<and> funding_transaction P s = Inr (fj_transaction f)"
      by (auto simp: funding_transaction_def ok)
    then show "effect_free q \<or> authorizes P (n\<lparr>nw_wallet := s\<rparr>) q"
      by (auto simp: authorizes_def)
  qed
  have mark: "cmd_spec P (st_directory st) x0 ?A
      (if b then act_return s else act_bind (act_save P D st s1) (\<lambda>_. act_return s1))
      (\<lambda>_ _. True)" if "advances P s s1" for b s1
    by (intro act_spec_if act_saved_wallet act_spec_return assms that) simp_all
  show ?thesis
    unfolding core_fund_broadcast_def Let_def
    by (intro act_steps send act_spec_bind [OF mark] act_spec_lift_any) (auto intro: broadcast_funding_advances)
qed

lemma fund_coin_core_secured:
  assumes "store_correct P"
  shows "cmd_spec P (st_directory st) x0 (wallet_saved P st x0 n s)
    (fund_coin_core P E D rnd st cfg amount delay fee_rate max_fee s) (\<lambda>_ _. True)"
proof -
  let ?A = "wallet_saved P st x0 n"
  have connect: "cmd_spec P (st_directory st) x0 (?A s)
      (if b then act_bind (act_talk (connect_verified P E cfg)) (\<lambda>e. act_return (Some e)) else act_return None)
      (\<lambda>_. ?A s)" for b
    by (intro act_spec_if ask_steps act_spec_return)
  have prepare: "cmd_spec P (st_directory st) x0 (?A s)
      (if b then act_return s
       else core_fund_prepare P E D st cfg enclave chain amount delay fee_rate max_fee c s)
      (\<lambda>s1. ?A s1)" if "ws_coin s = Some c" for b enclave chain c
    by (intro act_spec_if act_spec_return core_fund_prepare_secured assms that)
  have start: "cmd_spec P (st_directory st) x0 (?A s1)
      (if b then core_fund_begin P E D rnd st enclave chain delay s1 else act_return s1)
      (\<lambda>s2. ?A s2)" if "b \<Longrightarrow> funding_stage_of s1 = Some FundingPrepared" for b enclave chain s1
    by (intro act_spec_if act_spec_return core_fund_begin_secured assms that)
  have finish: "cmd_spec P (st_directory st) x0 (?A s2)
      (if b then act_return s2
       else act_context enclave msg (\<lambda>e. finish_pending_funding_recovery P E D st s2 e cfg))
      (\<lambda>s3. ?A s3)" for b enclave msg s2
    by (intro act_spec_if act_spec_return act_spec_context finish_pending_secured assms)
  show ?thesis
    unfolding fund_coin_core_def Let_def
    by (intro act_spec_bind [OF connect] act_chain_connect [OF about_wallet_saved] act_spec_context
        act_spec_bind [OF prepare] act_spec_lift_bind act_spec_bind [OF start] act_spec_bind [OF finish]
        core_fund_broadcast_secured assms) auto
qed

lemma fund_coin_secured:
  assumes "store_correct P"
  shows "cmd_spec P (cl_data_dir cl) x0 (initial (cl_data_dir cl) x0)
    (fund_coin P E D rnd cl amount delay fee_rate max_fee) (\<lambda>_ _. True)"
  unfolding fund_coin_def
proof (rule act_spec_ensure, rule act_spec_lift_bind, rule act_open_wallet)
  fix st :: wallet_store and cfg
  have core: "cmd_spec P (st_directory st) x0 (initial (st_directory st) x0)
      (act_bind (act_io (load P st)) (fund_coin_core P E D rnd st cfg amount delay fee_rate max_fee))
      (\<lambda>_ _. True)"
    by (rule act_load, rule fund_coin_core_secured [OF assms, where s = "nw_wallet n" and n = n for n,
        unfolded wallet_saved_self])
  show "cmd_spec P (st_directory st) x0 (initial (st_directory st) x0)
      (case cfg_chain cfg of
         ExplorerConfig _ \<Rightarrow> fund_coin_explorer P E D rnd st cfg amount delay fee_rate max_fee
       | CoreRpcConfig _ _ _ \<Rightarrow>
           act_bind (act_io (load P st)) (fund_coin_core P E D rnd st cfg amount delay fee_rate max_fee))
      (\<lambda>_ _. True)"
    by (cases "cfg_chain cfg") (simp_all add: core fund_coin_explorer_secured assms)
qed

subsection \<open>Transfers\<close>

lemma sign_begin_secured:
  assumes "store_correct P"
  shows "cmd_spec P (st_directory st) x0 (wallet_saved P st x0 n s)
    (sign_begin P E D st cfg req output s) (\<lambda>r. wallet_saved P st x0 n (fst r))"
  unfolding sign_begin_def
  by (intro act_spec_bind [OF act_io_keeps [OF keeps_file_available about_wallet_saved]] act_steps
      ask_steps act_chain_connect [OF about_wallet_saved] act_saved_wallet assms) (auto intro: wallet_advances)

lemma sign_send_secured:
  assumes "store_correct P"
  shows "cmd_spec P (st_directory st) x0 (wallet_saved P st x0 n s)
    (sign_send P E D st cfg s e) (\<lambda>r. wallet_saved P st x0 n (fst r))"
  unfolding sign_send_def
  by (intro act_spec_bind [OF connected_reads] act_steps ask_steps
      act_chain_connect [OF about_wallet_saved] act_send_pending act_saved_wallet assms)
    (auto intro: wallet_advances)

lemma sign_complete_secured:
  assumes "store_correct P"
  shows "cmd_spec P (st_directory st) x0 (wallet_saved P st x0 n s)
    (sign_complete P E D mat tmp st cfg req output s e) (\<lambda>_ _. True)"
  unfolding sign_complete_def
  by (intro act_spec_bind [OF connected_reads] act_steps ask_steps act_spec_bind [OF act_save_wallet]
      act_spec_bind [OF act_writes(1)] act_spec_return assms) (auto intro: wallet_advances)

lemma keeps_file_source: "keeps_file f (read_json_source P from_slice stdin source)"
  unfolding read_json_source_def by (intro keeps_file_rules)

lemma act_source:
  assumes "\<And>x. cmd_spec P d x0 (initial d x0) (g x) B"
  shows "cmd_spec P d x0 (initial d x0)
    (act_bind (act_io (read_json_source P from_slice stdin source)) g) B"
  by (rule act_spec_bind [OF act_io_keeps [OF keeps_file_source about_initial] assms])

lemma sign_transfer_secured:
  assumes "store_correct P"
  shows "cmd_spec P (cl_data_dir cl) x0 (initial (cl_data_dir cl) x0)
    (sign_transfer P E D mat tmp cl request_path output) (\<lambda>_ _. True)"
proof -
  have pending: "act_spec G I A (if b then act_return ()
      else act_bind (act_lift r) (\<lambda>pending. act_ensure (pending = req) msg (act_return ()))) (\<lambda>_. A)"
    for G I A b r req msg
    by (intro act_spec_if act_spec_return act_steps)
  have first: "cmd_spec P (st_directory st) x0 (wallet_saved P st x0 n s)
      (if b then sign_begin P E D st cfg req output s else act_return (s, None))
      (\<lambda>r. wallet_saved P st x0 n (fst r))" for b cfg req s n and st :: wallet_store
    by (intro act_spec_if sign_begin_secured act_spec_return assms) simp
  have second: "cmd_spec P (st_directory st) x0 (wallet_saved P st x0 n s)
      (case r of None \<Rightarrow> act_return (s, e) | Some _ \<Rightarrow> sign_send P E D st cfg s e)
      (\<lambda>r. wallet_saved P st x0 n (fst r))" for r :: "recovery_attempt option" and cfg s e n and st :: wallet_store
    by (intro act_spec_option sign_send_secured act_spec_return assms) simp
  have run: "cmd_spec P (st_directory st) x0 (progress P st x0 n)
      (act_bind (if b then sign_begin P E D st cfg req output (nw_wallet n)
        else act_return (nw_wallet n, None)) (\<lambda>(s1, e1).
       act_bind (case prepared_attempt s1 of None \<Rightarrow> act_return (s1, e1)
         | Some _ \<Rightarrow> sign_send P E D st cfg s1 e1) (\<lambda>(s2, e2).
       sign_complete P E D mat tmp st cfg req output s2 e2))) (\<lambda>_ _. True)"
    for b cfg req n and st :: wallet_store
    by (subst wallet_saved_self [symmetric], intro act_spec_bind [OF first] act_spec_prod, simp,
        intro act_spec_bind [OF second] act_spec_prod, simp)
      (rule sign_complete_secured [OF assms])
  show ?thesis
    unfolding sign_transfer_def Let_def
    by (intro act_spec_lift_bind act_source act_open_wallet
        act_load_native act_spec_option act_spec_ensure act_spec_bind [OF act_writes(1)]
        act_spec_bind [OF pending] run
        act_spec_return) simp
qed

lemma accept_transfer_secured:
  assumes "store_correct P"
  shows "cmd_spec P (cl_data_dir cl) x0 (initial (cl_data_dir cl) x0)
    (accept_transfer_command P E D cl request_path package_path) (\<lambda>_ _. True)"
  unfolding accept_transfer_command_def Let_def
  by (intro act_source act_spec_lift_bind act_open_wallet act_load act_spec_option act_steps
      ask_steps act_chain_connect [OF about_progress] act_spec_bind [OF act_save_progress [OF assms]]
      act_spec_return) (auto intro: wallet_advances)

subsection \<open>Sweeps and exits\<close>

text \<open>What is armed validates, and an armed journal that is saved authorizes its transactions.\<close>

lemma sweep_armed:
  assumes "sweep_arm_submission P j sk = (Inr u, j1)"
  shows "sj_stage j1 = SweepSubmissionArmed" and "sweep_validate P j1 sk = Inr ()"
    and "sj_transaction j1 = sj_transaction j"
  using assms by (auto simp: sweep_arm_submission_def sweep_validate_def split: sum.splits if_splits)

lemma act_send_sweep:
  assumes "sweep_arm_submission P j (nw_funding_secret n) = (Inr u, j1)"
    and "\<And>x. cmd_spec P (st_directory st) x0 (progress P st x0 (n\<lparr>nw_source_sweep := Some j1\<rparr>)) (f x) B"
  shows "cmd_spec P (st_directory st) x0 (progress P st x0 (n\<lparr>nw_source_sweep := Some j1\<rparr>))
    (act_bind (act_talk (chain_broadcast_exact P E chain (sj_transaction j))) f) B"
  by (rule act_send [OF chain_broadcasts(1) _ assms(2)])
    (use sweep_armed [OF assms(1)] in \<open>auto simp: authorizes_def\<close>)

lemma act_send_child:
  assumes "exit_arm_submission P j c = (Inr u, j1)" and "native_coin n = Some c"
    and "\<And>x. cmd_spec P (st_directory st) x0 (progress P st x0 (n\<lparr>nw_exit := Some j1\<rparr>)) (f x) B"
  shows "cmd_spec P (st_directory st) x0 (progress P st x0 (n\<lparr>nw_exit := Some j1\<rparr>))
    (act_bind (act_talk (chain_broadcast_exact P E chain (ep_child (ej_package j1)))) f) B"
  by (rule act_send [OF chain_broadcasts(1) _ assms(3)])
    (use exit_armed [OF assms(1)] assms(2) in \<open>auto simp: authorizes_def native_coin_def\<close>)

lemma act_send_package:
  assumes "exit_arm_submission P j c = (Inr u, j1)" and "native_coin n = Some c"
  shows "cmd_spec P (st_directory st) x0 (progress P st x0 (n\<lparr>nw_exit := Some j1\<rparr>))
    (act_talk (chain_submit_package P E chain (serialize_hex P (ep_parent (ej_package j1)))
      (serialize_hex P (ep_child (ej_package j1)))))
    (\<lambda>_. progress P st x0 (n\<lparr>nw_exit := Some j1\<rparr>))"
proof (rule act_spec_talk [OF chain_submits_package])
  fix q w
  assume "effect_free q \<or> submits_package (serialize_hex P (ep_parent (ej_package j1)))
      (serialize_hex P (ep_child (ej_package j1))) q"
  then have "effect_free q \<or> authorizes P (n\<lparr>nw_exit := Some j1\<rparr>) q"
    using exit_armed [OF assms(1)] assms(2) by (auto simp: authorizes_def native_coin_def)
  then show "progress P st x0 (n\<lparr>nw_exit := Some j1\<rparr>) w \<Longrightarrow> secured P (st_directory st) q w"
    using secured_free secured_saved progress_saved by blast
qed

text \<open>Sweeps leave the wallet and the exit alone.\<close>

lemma act_saved_sweep:
  assumes "store_correct P" and "\<And>w. progress P st x0 (n\<lparr>nw_source_sweep := j\<rparr>) w \<Longrightarrow> B x w"
  shows "cmd_spec P (st_directory st) x0 (progress P st x0 n)
    (act_bind (act_save_native P D st (n\<lparr>nw_source_sweep := j\<rparr>)) (\<lambda>_. act_return x)) B"
  by (intro act_saved_return evolves_sweep assms)

lemma evolves_sweeps: "evolves P (n\<lparr>nw_source_sweep := k\<rparr>) (n\<lparr>nw_source_sweep := j\<rparr>)"
  by (simp add: evolves_def advances_refl exit_kept_refl)

lemma record_observed_sweep_secured:
  assumes "store_correct P"
  shows "cmd_spec P (st_directory st) x0 (progress P st x0 n) (record_observed_sweep P D st observed j n)
    (\<lambda>n1. progress P st x0 n1)"
proof -
  let ?R = "\<lambda>w. \<exists>k. progress P st x0 (n\<lparr>nw_source_sweep := k\<rparr>) w"
  have arm: "cmd_spec P (st_directory st) x0 (progress P st x0 n)
      (if b then act_method r (\<lambda>_ j1. act_bind (act_save_native P D st (n\<lparr>nw_source_sweep := Some j1\<rparr>))
         (\<lambda>_. act_return j1)) else act_return j) (\<lambda>_. ?R)" for b and r :: "(anyhow + unit) \<times> sweep_journal"
  proof (intro act_spec_if act_spec_method act_saved_sweep act_spec_return assms)
    fix w
    assume "progress P st x0 n w"
    moreover have "n\<lparr>nw_source_sweep := nw_source_sweep n\<rparr> = n" by simp
    ultimately show "?R w" by metis
  qed blast
  have again: "cmd_spec P (st_directory st) x0 ?R
      (act_bind (act_save_native P D st (n\<lparr>nw_source_sweep := k\<rparr>))
        (\<lambda>_. act_return (n\<lparr>nw_source_sweep := k\<rparr>))) (\<lambda>n1. progress P st x0 n1)" for k
  proof (rule act_spec_ex)
    fix k'
    show "cmd_spec P (st_directory st) x0 (progress P st x0 (n\<lparr>nw_source_sweep := k'\<rparr>))
      (act_bind (act_save_native P D st (n\<lparr>nw_source_sweep := k\<rparr>))
        (\<lambda>_. act_return (n\<lparr>nw_source_sweep := k\<rparr>))) (\<lambda>n1. progress P st x0 n1)"
      by (intro act_saved_return [OF assms] evolves_sweeps)
  qed
  show ?thesis
    unfolding record_observed_sweep_def
    by (intro act_spec_ensure act_spec_if act_spec_return act_spec_bind [OF arm] act_spec_method again) simp_all
qed

lemma prepare_sweep_secured:
  assumes "store_correct P"
  shows "cmd_spec P (st_directory st) x0 (progress P st x0 n)
    (prepare_sweep P D st cfg sources destination fee_rate max_fee n) (\<lambda>n1. progress P st x0 n1)"
  unfolding prepare_sweep_def by (intro act_spec_lift_bind act_saved_sweep assms) simp

lemma sweep_resume_secured:
  assumes "store_correct P"
  shows "cmd_spec P (st_directory st) x0 (progress P st x0 n)
    (sweep_resume P E D st cfg chain destination fee_rate max_fee j n) (\<lambda>r. progress P st x0 (fst r))"
proof -
  have inputs: "cmd_spec P (st_directory st) x0 A
      (if b then act_talk (available_source_sweep_inputs P E n1 chain cfg) else act_return []) (\<lambda>_. A)"
    for A b n1
    by (intro act_spec_if act_read_talk deposits_reads act_spec_return)
  show ?thesis
    unfolding sweep_resume_def
    by (intro ask_steps act_spec_option act_spec_return act_spec_bind [OF record_observed_sweep_secured]
        act_spec_bind [OF inputs] act_spec_if act_spec_bind [OF prepare_sweep_secured] act_spec_context
        act_spec_lift_bind assms) simp_all
qed

lemma sweep_submit_secured:
  assumes "store_correct P"
  shows "cmd_spec P (st_directory st) x0 (progress P st x0 n) (sweep_submit P E D st cfg chain j n)
    (\<lambda>_ _. True)"
  unfolding sweep_submit_def
  by (intro ask_steps act_spec_method act_spec_bind [OF act_save_native_progress] act_send_sweep
      act_spec_context act_spec_lift_any evolves_sweep evolves_sweeps assms)

lemma discarded_sweep:
  "nw_source_sweep (discard_sweep destination fee_rate max_fee n) \<noteq> None
    \<Longrightarrow> discard_sweep destination fee_rate max_fee n = n"
  "(discard_sweep destination fee_rate max_fee n)\<lparr>nw_source_sweep := j\<rparr> = n\<lparr>nw_source_sweep := j\<rparr>"
  by (auto simp: discard_sweep_def split: option.splits)

lemma fresh_sweep_secured:
  fixes st :: wallet_store and destination :: string and fee_rate max_fee :: u64 and n :: native_state
  assumes "store_correct P"
  defines "n2 \<equiv> discard_sweep destination fee_rate max_fee n"
  shows "cmd_spec P (st_directory st) x0 (progress P st x0 n)
    (if nw_source_sweep n2 \<noteq> None then act_return n2
     else
       act_bind (act_talk (available_source_sweep_inputs P E n2 chain cfg)) (\<lambda>sources.
       act_ensure (sources \<noteq> []) msg
         (prepare_sweep P D st cfg sources destination fee_rate max_fee n2)))
    (\<lambda>n3. progress P st x0 n3)"
proof -
  have prepared: "cmd_spec P (st_directory st) x0 (progress P st x0 n)
      (prepare_sweep P D st cfg sources destination fee_rate max_fee n2) (\<lambda>n3. progress P st x0 n3)" for sources
    unfolding prepare_sweep_def n2_def discarded_sweep(2)
    by (intro act_spec_lift_bind act_saved_sweep assms) simp
  show ?thesis
    by (intro act_spec_if act_spec_return ask_steps act_spec_ensure prepared)
      (metis n2_def discarded_sweep(1))
qed

lemma source_sweep_secured:
  assumes "store_correct P"
  shows "cmd_spec P (cl_data_dir cl) x0 (initial (cl_data_dir cl) x0)
    (source_sweep P E D cl destination fee_rate max_fee) (\<lambda>_ _. True)"
proof -
  have resume: "cmd_spec P (st_directory st) x0 (progress P st x0 n)
      (case r of None \<Rightarrow> act_return (n, False)
       | Some j \<Rightarrow> sweep_resume P E D st cfg chain destination fee_rate max_fee j n)
      (\<lambda>r. progress P st x0 (fst r))" for r n st cfg chain destination
    by (intro act_spec_option act_spec_return sweep_resume_secured assms) simp
  show ?thesis
    unfolding source_sweep_def Let_def
    by (intro act_spec_ensure act_open_wallet act_spec_lift_bind act_chain_connect [OF about_initial]
        act_load_native act_spec_bind [OF resume] act_progress_prod act_spec_if act_spec_lift_any act_spec_bind [OF fresh_sweep_secured] act_spec_context
        act_spec_lift_bind ask_steps act_spec_option
        act_spec_bind [OF record_observed_sweep_secured] sweep_submit_secured assms)
qed

text \<open>The exit journal is armed before its package goes out, and stays.\<close>

lemma act_save_exit:
  assumes "store_correct P" and "exit_kept (nw_exit n) (Some j)"
  shows "cmd_spec P (st_directory st) x0 (progress P st x0 n)
    (act_save_native P D st (n\<lparr>nw_exit := Some j\<rparr>)) (\<lambda>_. progress P st x0 (n\<lparr>nw_exit := Some j\<rparr>))"
  by (rule act_save_native_progress [OF assms(1)]) (simp add: evolves_exit assms(2))

lemma mark_exit_observed_secured:
  assumes "store_correct P"
  shows "cmd_spec P (st_directory st) x0 (progress P st x0 n) (mark_exit_observed P D st n existing)
    (\<lambda>_ _. True)"
proof -
  let ?at = "\<lambda>j. progress P st x0 (n\<lparr>nw_exit := Some j\<rparr>)"
  have self: "?at j = progress P st x0 n" if "nw_exit n = Some j" for j
    using that [symmetric] by simp
  have arm: "cmd_spec P (st_directory st) x0 (progress P st x0 n)
      (if b then act_method (exit_arm_submission P j c) (\<lambda>_ j1.
         act_bind (act_save_native P D st (n\<lparr>nw_exit := Some j1\<rparr>)) (\<lambda>_. act_return j1))
       else act_return j) (\<lambda>j1. ?at j1)" if "nw_exit n = Some j" for b j c
    by (intro act_spec_if act_spec_method act_spec_bind [OF act_save_exit [OF assms]] act_spec_return)
      (use that self exit_arm_kept in auto)
  have again: "cmd_spec P (st_directory st) x0 (?at j1)
      (act_bind (act_save_native P D st (n\<lparr>nw_exit := Some j2\<rparr>))
        (\<lambda>_. act_return (n\<lparr>nw_exit := Some j2\<rparr>))) (\<lambda>_ _. True)"
    if "exit_mark_observed P j1 c parent child = (Inr u, j2)" for j1 j2 c parent child u
    by (intro act_saved_return [OF assms])
      (use exit_observed_kept [OF that] in \<open>simp_all add: evolves_def advances_refl\<close>)
  have mark: "cmd_spec P (st_directory st) x0 (progress P st x0 n)
      (if b0 then act_return n
       else act_context r msg (\<lambda>c.
         act_bind
          (if b then act_method (exit_arm_submission P j c) (\<lambda>_ j1.
             act_bind (act_save_native P D st (n\<lparr>nw_exit := Some j1\<rparr>)) (\<lambda>_. act_return j1))
           else act_return j) (\<lambda>j1.
         act_method (exit_mark_observed P j1 c (ep_parent (ej_package j1)) (ep_child (ej_package j1)))
            (\<lambda>_ j2. act_bind (act_save_native P D st (n\<lparr>nw_exit := Some j2\<rparr>))
              (\<lambda>_. act_return (n\<lparr>nw_exit := Some j2\<rparr>)))))) (\<lambda>_ _. True)"
    if "nw_exit n = Some j" for b0 b j r msg
    by (intro act_spec_if act_spec_return act_spec_context act_spec_bind [OF arm [OF that]]
        act_spec_method) (auto intro: again)
  show ?thesis
    unfolding mark_exit_observed_def
    by (intro act_spec_context act_spec_bind [OF mark] act_spec_lift_any)
qed

lemma exit_confirm_secured:
  assumes "store_correct P"
  shows "cmd_spec P (st_directory st) x0 (progress P st x0 n) (exit_confirm P E D st chain j c n) (\<lambda>_ _. True)"
  unfolding exit_confirm_def
  by (intro ask_steps act_spec_ensure mark_exit_observed_secured assms)

lemma exit_resume_secured:
  assumes "store_correct P" and "nw_exit n = Some j"
  shows "cmd_spec P (st_directory st) x0 (progress P st x0 n)
    (exit_resume P E D st chain destination fee_rate max_fee j n)
    (\<lambda>r w. r = None \<longrightarrow> progress P st x0 n w)"
proof -
  have some: "act_spec G I A (act_bind m (\<lambda>r. act_return (Some r))) (\<lambda>r w. r = None \<longrightarrow> X w)"
    if "act_spec G I A m (\<lambda>_ _. True)" for G I A X and m :: "report act"
    by (intro act_spec_bind [OF that] act_spec_return) simp
  show ?thesis
    unfolding exit_resume_def
    by (intro act_spec_lift_bind act_spec_context ask_steps act_spec_if some
        mark_exit_observed_secured act_spec_method
        act_spec_bind [OF act_save_exit [OF assms(1)]] act_send_child exit_confirm_secured
        act_spec_return assms(1))
      (use assms(2) in \<open>auto intro: exit_arm_kept\<close>)
qed

lemma prepare_exit_secured:
  assumes "store_correct P"
  shows "cmd_spec P (st_directory st) x0 (progress P st x0 n)
    (prepare_exit_journal P E D st cfg chain destination fee_rate max_fee confirmations c n)
    (\<lambda>n1 w. native_coin n1 = native_coin n \<and> progress P st x0 n1 w)"
  unfolding prepare_exit_journal_def
  by (intro act_spec_if ask_steps act_spec_lift_bind act_spec_bind [OF act_save_exit [OF assms]]
      act_spec_return) (auto simp: native_coin_def exit_kept_def split: option.splits)

lemma exit_submit_secured:
  assumes "store_correct P" and "native_coin n = Some c" and "nw_exit n = Some j"
  shows "cmd_spec P (st_directory st) x0 (progress P st x0 n)
    (exit_submit P E D st chain confirmations j c n) (\<lambda>_ _. True)"
proof -
  have send: "cmd_spec P (st_directory st) x0 (progress P st x0 (n\<lparr>nw_exit := Some j1\<rparr>))
      (if b then act_bind (act_talk (chain_broadcast_exact P E chain (ep_child (ej_package j1))))
         (\<lambda>_. act_return ())
       else act_talk (chain_submit_package P E chain (serialize_hex P (ep_parent (ej_package j1)))
         (serialize_hex P (ep_child (ej_package j1)))))
      (\<lambda>_. progress P st x0 (n\<lparr>nw_exit := Some j1\<rparr>))"
    if "exit_arm_submission P j c = (Inr u, j1)" for b u j1
    by (intro act_spec_if act_send_child [OF that assms(2)] act_spec_return act_send_package [OF that assms(2)])
      simp
  show ?thesis
    unfolding exit_submit_def
    by (intro ask_steps act_spec_if mark_exit_observed_secured act_spec_ensure act_spec_method
        act_spec_bind [OF act_save_exit [OF assms(1)]] act_spec_bind [OF send] exit_confirm_secured assms(1))
      (use assms(3) in \<open>auto intro: exit_arm_kept\<close>)
qed

lemma exit_coin_journaled_secured:
  assumes "store_correct P"
  shows "cmd_spec P (st_directory st) x0 (progress P st x0 n)
    (exit_coin_journaled P E D st cfg n destination fee_rate max_fee) (\<lambda>_ _. True)"
proof -
  have resume: "cmd_spec P (st_directory st) x0 (progress P st x0 n)
      (case nw_exit n of None \<Rightarrow> act_return None
       | Some j \<Rightarrow> if b j then act_return None
           else exit_resume P E D st chain dest fee_rate max_fee j n)
      (\<lambda>r w. r = None \<longrightarrow> progress P st x0 n w)" for b chain dest
    by (intro act_spec_option act_spec_return act_spec_if exit_resume_secured assms) simp_all
  have resumed: "cmd_spec P (st_directory st) x0 (\<lambda>w. r = None \<longrightarrow> progress P st x0 n w)
      (case r of None \<Rightarrow> m | Some report \<Rightarrow> act_return report) (\<lambda>_ _. True)"
    if "cmd_spec P (st_directory st) x0 (progress P st x0 n) m (\<lambda>_ _. True)" for r and m :: "report act"
    using that by (cases r) (simp_all add: act_spec_return)
  have submit: "cmd_spec P (st_directory st) x0 (\<lambda>w. native_coin n1 = native_coin n \<and> progress P st x0 n1 w)
      (act_bind (act_lift (validate_saved_exit_policy P n1 dest fee_rate max_fee)) (\<lambda>_.
       act_context (nw_exit n1) msg (\<lambda>j. exit_submit P E D st chain confirmations j c n1))) (\<lambda>_ _. True)"
    if "native_coin n = Some c" for n1 c dest msg chain confirmations
    by (intro act_spec_pure act_spec_lift_bind act_spec_context exit_submit_secured assms) (simp_all add: that)
  show ?thesis
    unfolding exit_coin_journaled_def Let_def
    by (intro act_spec_lift_bind act_chain_connect [OF about_progress] act_spec_context
        act_spec_bind [OF resume] resumed ask_steps act_spec_prod
        act_spec_bind [OF prepare_exit_secured [OF assms] submit])
qed

lemma dry_run_exit_secured:
  "cmd_spec P (st_directory st) x0 (progress P st x0 n)
    (dry_run_exit P E cfg s destination fee_rate max_fee) (\<lambda>_ _. True)"
  unfolding dry_run_exit_def Let_def
  by (intro act_steps ask_steps act_chain_connect [OF about_progress] act_spec_return) simp

lemma exit_coin_secured:
  assumes "store_correct P"
  shows "cmd_spec P (cl_data_dir cl) x0 (initial (cl_data_dir cl) x0)
    (exit_coin P E D cl destination fee_rate max_fee dry_run) (\<lambda>_ _. True)"
  unfolding exit_coin_def
  by (intro act_open_wallet act_load_native act_spec_ensure act_spec_if act_spec_lift_any
      exit_coin_journaled_secured dry_run_exit_secured assms)

subsection \<open>Commands that only look\<close>

lemma act_io_free: "act_spec G (\<lambda>_. True) (\<lambda>_. True) (act_io m) (\<lambda>_ _. True)"
  by (rule act_spec_io) simp

lemma initialize_secured:
  "act_spec (secured P d) (\<lambda>_. True) (\<lambda>_. True) (initialize_command P E rnd cl a) (\<lambda>_ _. True)"
  unfolding initialize_command_def Let_def
  by (intro act_spec_ensure ask_steps act_spec_bind [OF act_io_free] act_spec_return) simp

lemma verify_enclave_secured:
  "cmd_spec P (cl_data_dir cl) x0 (initial (cl_data_dir cl) x0) (verify_enclave P E cl) (\<lambda>_ _. True)"
proof -
  have "keeps_file f (load_config P d)" for f d
    unfolding load_config_def read_json_path_def by (intro keeps_file_rules keeps_file_private)
  then show ?thesis
    unfolding verify_enclave_def
    by (intro act_spec_bind [OF act_io_keeps [OF _ about_initial]] ask_steps act_spec_return) simp_all
qed

lemma deposit_secured:
  "cmd_spec P (cl_data_dir cl) x0 (initial (cl_data_dir cl) x0) (deposit_address P cl) (\<lambda>_ _. True)"
  unfolding deposit_address_def
  by (intro act_open_wallet act_spec_ensure act_load_native act_spec_return) simp

lemma export_recovery_secured:
  "cmd_spec P (cl_data_dir cl) x0 (initial (cl_data_dir cl) x0)
    (export_recovery P tmp cl output) (\<lambda>_ _. True)"
  unfolding export_recovery_def
  by (intro act_spec_lift_bind act_spec_bind [OF act_io_keeps [OF keeps_file_available about_initial]]
      act_open_wallet act_load act_steps act_spec_bind [OF act_writes(2)] act_spec_return) simp

lemma transfer_request_secured:
  assumes "store_correct P"
  shows "cmd_spec P (cl_data_dir cl) x0 (initial (cl_data_dir cl) x0)
    (create_transfer_request P D rnd tmp cl cid op amount minimum output) (\<lambda>_ _. True)"
proof -
  have available: "cmd_spec P (st_directory st) x0 (progress P st x0 n)
      (if b then act_return () else act_io (ensure_destination_available output))
      (\<lambda>_. progress P st x0 n)" for b n and st :: wallet_store
    by (intro act_spec_if act_spec_return act_io_keeps keeps_file_available about_progress)
  have store: "cmd_spec P (st_directory st) x0 (progress P st x0 n)
      (if b then act_return () else act_save P D st s1) (\<lambda>_ _. True)"
    if "advances P (nw_wallet n) s1" for b n s1 and st :: wallet_store
    by (intro act_spec_if act_spec_return act_spec_weaken [OF act_save_progress [OF assms that]]) simp_all
  show ?thesis
    unfolding create_transfer_request_def Let_def
    by (intro act_spec_lift_bind act_open_wallet act_load act_spec_bind [OF available] act_spec_method
        act_spec_bind [OF store] act_spec_bind [OF act_writes(1)] act_spec_return)
      (auto intro: wallet_advances)
qed

lemma status_secured:
  "cmd_spec P (cl_data_dir cl) x0 (initial (cl_data_dir cl) x0)
    (coin_status_command P E cl) (\<lambda>_ _. True)"
proof -
  have chain: "cmd_spec P (st_directory st) x0 (progress P st x0 n)
      (case r of None \<Rightarrow> act_return x
       | Some m \<Rightarrow> act_bind (chain_connect P E cfg1 net) (\<lambda>chain.
           act_bind (act_talk (observe_for_status P E cfg chain c m)) (\<lambda>(confirmations, tip).
           act_bind (act_lift (check_ownership_for_status P cfg c m st_now confirmations)) (\<lambda>(safe, current).
           act_return (Some confirmations, Some tip, safe, current))))) (\<lambda>_ _. True)"
    for r x cfg1 net c cfg st_now n and st :: wallet_store
    by (intro act_spec_option act_spec_return act_chain_connect [OF about_progress] ask_steps act_spec_prod
        act_spec_lift_bind) simp_all
  show ?thesis
    unfolding coin_status_command_def
    by (intro act_open_wallet act_load act_spec_option act_spec_return ask_steps act_spec_lift_bind
        act_spec_bind [OF chain] act_spec_prod) simp_all
qed

lemma receipts_secured:
  "cmd_spec P (cl_data_dir cl) x0 (initial (cl_data_dir cl) x0)
    (export_receipt P E tmp cl output) (\<lambda>_ _. True)"
  "cmd_spec P (cl_data_dir cl) x0 (initial (cl_data_dir cl) x0)
    (verify_receipt P E cl input) (\<lambda>_ _. True)"
  unfolding export_receipt_def verify_receipt_def Let_def
  by (intro act_open_wallet act_load act_steps ask_steps act_chain_connect [OF about_progress]
      act_spec_bind [OF act_writes(1)] act_spec_bind [OF act_io_keeps [OF keeps_file_source about_progress]]
      act_spec_return; simp)+

subsection \<open>Every command\<close>

lemma run_secured:
  assumes "store_correct P" and "\<And>a. cmd \<noteq> CmdInit a"
  shows "cmd_spec P (cl_data_dir cl) x0 (initial (cl_data_dir cl) x0) (run P E rnd cl cmd) (\<lambda>_ _. True)"
proof (cases cmd)
  case (CmdInit a)
  with assms(2) show ?thesis by blast
qed (simp_all add: run_def assms(1) verify_enclave_secured deposit_secured export_recovery_secured
    transfer_request_secured register_secured fund_coin_secured status_secured sign_transfer_secured
    source_sweep_secured exit_coin_secured accept_transfer_secured receipts_secured)

lemma run_log_ok:
  assumes "store_correct P" and "asked s = []"
    and "(\<forall>a. cmd \<noteq> CmdInit a) \<longrightarrow> settled (entry_of (cl_data_dir cl) STATE_FILE) (os s)"
    and "run P E rnd cl cmd s = (out, s')"
  shows "log_ok (secured P (cl_data_dir cl)) s'"
proof -
  have log: "log_ok (secured P (cl_data_dir cl)) s" using assms(2) by (simp add: log_ok_def)
  show ?thesis
  proof (cases "\<forall>a. cmd \<noteq> CmdInit a")
    case True
    with assms(3) obtain x0 where "initial (cl_data_dir cl) x0 (os s)"
      by (auto simp: settled_def initial_def)
    with act_specD(1) [OF run_secured log _ _ assms(4)] assms(1) True initial_kept show ?thesis by blast
  next
    case False
    then obtain a where "initialize_command P E (dr_initialize rnd) cl a s = (out, s')"
      using assms(4) by (auto simp: run_def)
    from act_specD(1) [OF initialize_secured log _ _ this] show ?thesis by simp
  qed
qed

text \<open>C1. Write-ahead. Whatever command is run, and whatever the enclave, the chain, the operating
  system and power failures do: everything the wallet sends is either a question, or was
  authorized by a state that was then in the state file so that every later process reads it,
  even after a crash at that moment. A registration and a signing request are the saved pending
  ones, a funding transaction goes out only with its recovery secured in the file, and sweeps
  and exits only as the armed, valid journal there.\<close>

theorem nothing_sent_before_saved:
  assumes "store_correct P" and "asked s = []"
    and "(\<forall>a. cmd \<noteq> CmdInit a) \<longrightarrow> settled (entry_of (cl_data_dir cl) STATE_FILE) (os s)"
    and "run P E rnd cl cmd s = (out, s')" and "(q, w) \<in> set (asked s')"
  shows "effect_free q
    \<or> (\<exists>st n. st_directory st = cl_data_dir cl \<and> authorizes P n q
         \<and> (\<forall>w'. resumes w w' \<longrightarrow> recovers P st n w'))"
  using run_log_ok [OF assms(1-4)] assms(5) by (auto simp: log_ok_def secured_def)

text \<open>C2. No command loses the wallet. Start any command but \<open>init\<close> on a state file that is
  complete on the disk, let the enclave, the chain and the operating system do what they want, and
  stop the machine anywhere: the next process finds in the state file exactly what was there, or
  a complete document that opens the same way, with the same deposit key, a wallet that is still
  sound, has kept its coin and the recovery its owner holds, and the exit that may already have
  been handed in.\<close>

theorem commands_keep_the_wallet:
  assumes "store_correct P" and "asked s = []" and "\<forall>a. cmd \<noteq> CmdInit a"
    and "live (os s) (entry_of (cl_data_dir cl) STATE_FILE) = Some x0"
    and "disk (os s) (entry_of (cl_data_dir cl) STATE_FILE) = Some x0" and "nd_synced x0"
    and "run P E rnd cl cmd s = (out, s')" and "resumes (os s') w'"
  shows "\<exists>nd. live w' (entry_of (cl_data_dir cl) STATE_FILE) = Some nd
    \<and> (nd = x0
       \<or> nd_synced nd
         \<and> (\<exists>st n0 n. st_directory st = cl_data_dir cl \<and> stored P st (nd_content x0) = Inr n0
              \<and> stored P st (nd_content nd) = Inr n \<and> evolves P n0 n))"
proof -
  let ?f = "entry_of (cl_data_dir cl) STATE_FILE"
  have start: "log_ok (secured P (cl_data_dir cl)) s" "initial (cl_data_dir cl) x0 (os s)"
    using assms by (simp_all add: log_ok_def initial_def)
  from act_specD(2) [OF run_secured start(1) initial_kept [OF start(2)] start(2) assms(7)] assms(1,3)
  have "kept P (cl_data_dir cl) x0 (os s')" by blast
  then have files: "v \<in> {live (os s') ?f, disk (os s') ?f} \<Longrightarrow>
      \<exists>nd. v = Some nd \<and> (nd = x0 \<or> descends P (cl_data_dir cl) x0 nd)" for v
    by (auto simp: kept_def)
  have "\<exists>nd. live w' ?f = Some nd \<and> (nd = x0 \<or> descends P (cl_data_dir cl) x0 nd)"
    using resumes_synced [OF assms(8), of ?f "{live (os s') ?f, disk (os s') ?f}"] files assms(6)
    by (fastforce simp: descends_def)
  then show ?thesis unfolding descends_def .
qed

end
