(* ===== verification/Completion.thy ===== *)
theory Completion
  imports Write_Ahead
begin

text \<open>
  That the commands get somewhere: with a machine that works and an enclave that follows the code,
  a registration that was interrupted is finished by running the command again, whether or not its
  request had reached the enclave. The signer of \<open>Enclave\<close>, the wallet of \<open>Wallet_State\<close>, the
  store and the command are composed here.
\<close>

subsection \<open>A machine that works\<close>

text \<open>Room for \<open>k\<close> system calls, the wallet's directory, and a free name for the temporary file.\<close>

definition machine_ready :: "'m transfer_lib_scheme \<Rightarrow> write_draws \<Rightarrow> wallet_store \<Rightarrow> nat \<Rightarrow> world \<Rightarrow> bool" where
  "machine_ready P rnd st k w \<longleftrightarrow>
     (\<exists>fs. faults w = replicate k Works @ fs)
     \<and> (\<exists>d. dirs w (fst (state_entry st)) = Some d \<and> nd_kind d = DirectoryNode)
     \<and> live w (fst (state_entry st), temporary_name P (wd_temporary rnd) STATE_FILE) = None"

text \<open>The library seals the state, and the document fits in the file.\<close>

definition seals :: "'m store_lib_scheme \<Rightarrow> write_draws \<Rightarrow> wallet_store \<Rightarrow> native_state \<Rightarrow> bool" where
  "seals P rnd st n \<longleftrightarrow>
     (\<exists>bs. seal_encrypted_json P (native_to_vec P) (wd_salt rnd) (wd_nonce rnd) n (st_password st) (st_aad st)
        = Inr bs \<and> length bs \<le> MAX_STATE_FILE_SIZE)"

lemma load_native_completes:
  assumes "recovers P st n w" and "native_validate P n (cfg_network (st_config st)) = Inr ()"
    and "faults w = Works # fs"
  shows "load_native P st w = (Done n, w\<lparr>faults := fs\<rparr>)"
  using assms
  by (auto simp: load_native_def io_done fs_read_Done recovers_def stored_def state_entry_def ok)

lemma write_native_completes:
  assumes "store_correct P" and "seals P rnd st n" and "machine_ready P rnd st 6 w"
    and "keys_valid (native_keys n)"
  shows "\<exists>w'. write_native P rnd st n w = (Done (), w') \<and> saved P st n w'"
proof -
  from assms(2) obtain bs where bs:
    "seal_encrypted_json P (native_to_vec P) (wd_salt rnd) (wd_nonce rnd) n (st_password st) (st_aad st) = Inr bs"
    "length bs \<le> MAX_STATE_FILE_SIZE" by (auto simp: seals_def)
  from assms(3) obtain fs d where ready: "faults w = replicate 6 Works @ fs"
    "dirs w (target_dir (join (st_directory st) STATE_FILE)) = Some d" "nd_kind d = DirectoryNode"
    "live w (target_dir (join (st_directory st) STATE_FILE),
      temporary_name P (wd_temporary rnd) STATE_FILE) = None"
    using state_path(2) [of st] by (metis fst_conv machine_ready_def)
  from atomic_replacement_returns [OF state_path(1) ready(2,3,4,1)] obtain w' where
    "write_bytes_atomic_inner P (wd_temporary rnd) (join (st_directory st) STATE_FILE) bs w = (Done (), w')" by blast
  with bs written_state_saved [OF assms(1) bs assms(4) this] show ?thesis
    by (simp add: write_native_def io_bind_def write_state_bytes_atomic_def ensure_state_size_def ensure_def)
qed

lemma save_completes:
  assumes "store_correct P" and "recovers P st n w" and "native_validate P n (cfg_network (st_config st)) = Inr ()"
    and "validate_version s = Inr ()" and "seals P rnd st (n\<lparr>nw_wallet := s\<rparr>)" and "machine_ready P rnd st 7 w"
    and "keys_valid (wallet_keys s)"
  shows "\<exists>w'. save P rnd st s w = (Done (), w') \<and> saved P st (n\<lparr>nw_wallet := s\<rparr>) w'"
proof -
  from assms(6) obtain fs where fs: "faults w = Works # fs" by (auto simp: machine_ready_def numeral_eq_Suc)
  with assms(6) have "machine_ready P rnd st 6 (w\<lparr>faults := fs\<rparr>)"
    by (auto simp: machine_ready_def numeral_eq_Suc)
  from write_native_completes [OF assms(1,5) this] assms(7) show ?thesis
    using load_native_completes [OF assms(2,3) fs] assms(4)
    by (simp add: save_def io_bind_def replaced_wallet write_native_def native_keys_def)
qed

subsection \<open>An enclave that follows the code\<close>

text \<open>The connection is made, and the request to register is answered with \<open>st_now\<close>.\<close>

definition answers_register ::
  "'m web_lib_scheme \<Rightarrow> peers \<Rightarrow> config \<Rightarrow> sent \<Rightarrow> register_request \<Rightarrow> coin_status \<Rightarrow> bool" where
  "answers_register P E cfg tr req st_now \<longleftrightarrow>
     (\<exists>e tr1 tr2. connect_verified P E cfg tr = (Inr e, tr1)
        \<and> enclave_register P E e req tr1 = (Inr st_now, tr2))"

text \<open>What a signer answers a first registration with, and registering again: whether or not the
  first request got through, the answer is that of a first one.\<close>

definition fresh_status :: "'m secp_scheme \<Rightarrow> register_request \<Rightarrow> secret_key \<Rightarrow> coin_status" where
  "fresh_status P req key =
     \<lparr>cs_coin_id = rr_coin_id req, signing_pubkey = xonly_of P key,
      cs_authorization = authorization P (rr_coin_id req) (initial_capability_hash req) INITIAL_HANDOFF,
      cs_signature_count = 0\<rparr>"

lemma register_again:
  assumes "fmlookup (coins sg) (rr_coin_id req) = None" and "fcard (fmdom (coins sg)) < limit"
    and "sg1 \<in> {sg, snd (register P limit k sg req)}"
  obtains key sg2 where "key \<in> {k, k1}" "register P limit k1 sg1 req = (Inr (fresh_status P req key), sg2)"
    "status P sg2 (rr_coin_id req) = Inr (fresh_status P req key)"
proof (cases "sg1 = sg")
  case True
  with assms(1,2) show thesis
    by (intro that [of k1 "snd (register P limit k1 sg1 req)"]) (simp_all add: register_def Let_def coin_status_def status_def fresh_status_def)
next
  case False
  with assms show thesis
    by (intro that [of k "snd (register P limit k1 sg1 req)"]) (simp_all add: register_def Let_def coin_status_def status_def fresh_status_def)
qed

definition fresh_keys :: "'m secp_scheme \<Rightarrow> registration \<Rightarrow> secret_key \<Rightarrow> coin_keys" where
  "fresh_keys P reg key =
     \<lparr>keys_protocol_version = PROTOCOL_VERSION, keys_coin_id = rr_coin_id (reg_request reg),
      client_pubkey = reg_client_pubkey reg, enclave_pubkey = xonly_of P key\<rparr>"

lemma complete_fresh:
  assumes "wallet_ok P t" and "ws_pending t = Some (PendingRegistration csk cap reg)"
    and "reg_protocol_version reg = PROTOCOL_VERSION" and "xonly_of P csk \<noteq> xonly_of P key"
  shows "wallet_complete_registration P t (fresh_status P (reg_request reg) key)
    = (Inr (), t\<lparr>ws_coin := Some (registered_coin csk cap (fresh_keys P reg key)), ws_pending := None\<rparr>)"
    and "ws_coin t = None" and "validate_version t = Inr ()"
proof -
  from assms(1,2) have t: "ws_coin t = None" "ws_format_version t = FILE_FORMAT_VERSION"
    "reg_client_pubkey reg = xonly_of P csk"
    by (auto simp: wallet_ok_def pending_ok_def)
  from t show "ws_coin t = None" "validate_version t = Inr ()" by (simp_all add: validate_version_def ensure_def)
  with assms t(3) show "wallet_complete_registration P t (fresh_status P (reg_request reg) key)
      = (Inr (), t\<lparr>ws_coin := Some (registered_coin csk cap (fresh_keys P reg key)), ws_pending := None\<rparr>)"
    by (simp add: wallet_complete_registration_def complete_registration_def fresh_status_def fresh_keys_def)
qed

subsection \<open>The command\<close>

definition opens :: "'m store_lib_scheme \<Rightarrow> cli \<Rightarrow> world \<Rightarrow> wallet_store \<Rightarrow> world \<Rightarrow> bool" where
  "opens P cl w st w1 \<longleftrightarrow>
     (\<exists>pw w0. read_password P (cl_passwords cl) (cl_password_file cl) False w = (Done pw, w0)
        \<and> open_store P (cl_data_dir cl) pw w0 = (Done st, w1))"

lemma machine_ready_less:
  assumes "machine_ready P rnd st (Suc k) w" and "faults w = Works # fs"
  shows "machine_ready P rnd st k (w\<lparr>faults := fs\<rparr>)"
  using assms by (auto simp: machine_ready_def)

lemma open_wallet_runs:
  assumes "opens P cl (os s) st w" and "cfg_network (st_config st) \<noteq> Mainnet"
    and "body st (st_config st) (s\<lparr>os := w\<rparr>) = (Done x, s1)"
  shows "open_wallet P cl body s = (Done x, s1\<lparr>os := unlock (st_directory st) (os s1)\<rparr>)"
  using assms
  by (auto simp: opens_def open_wallet_def act_bind_def act_io_def act_drop_def act_ensure_def)

lemma act_talk_runs:
  assumes "only_sends ok m" and "m (sent_of s) = (Inr x, tr)"
  obtains s1 where "act_talk m s = (Done x, s1)" "sent_of s1 = tr" "os s1 = os s" "saves s1 = saves s"
proof -
  obtain qs where "tr = sent_of s @ qs" using only_sendsD [OF assms] by blast
  with assms(2) show thesis
    by (intro that [of "s\<lparr>asked := asked s @ map (\<lambda>q. (q, os s)) qs\<rparr>"])
      (simp_all add: act_talk_def sent_of_def comp_def)
qed

lemma register_runs:
  fixes st :: wallet_store
  assumes "store_correct P" and "recovers P st n (os s)"
    and "native_validate P n (cfg_network (st_config st)) = Inr ()"
    and ok: "wallet_ok P (nw_wallet n)"
      "ws_pending (nw_wallet n) = Some (PendingRegistration csk cap reg)"
      "reg_protocol_version reg = PROTOCOL_VERSION" "xonly_of P csk \<noteq> xonly_of P key"
    and "answers_register P E (st_config st) (sent_of s) (reg_request reg) (fresh_status P (reg_request reg) key)"
    and ready: "machine_ready P (D (saves s)) st 8 (os s)"
    and t: "t = (nw_wallet n)\<lparr>ws_coin := Some (registered_coin csk cap (fresh_keys P reg key)), ws_pending := None\<rparr>"
    and "seals P (D (saves s)) st (n\<lparr>nw_wallet := t\<rparr>)"
  obtains s1 where "saved P st (n\<lparr>nw_wallet := t\<rparr>) (os s1)"
    and "\<And>A f. act_bind (act_io (load P st)) (\<lambda>t0. case ws_coin t0 of Some c \<Rightarrow> A t0 c | None \<Rightarrow>
      act_bind (act_talk (connect_verified P E (st_config st))) (\<lambda>e.
      act_bind (registration_to_send P D rnd st t0) (\<lambda>(req, t1).
      act_bind (act_talk (enclave_register P E e req)) (\<lambda>st_now.
      act_method (wallet_complete_registration P t1 st_now) (\<lambda>_ t2.
      act_bind (act_save P D st t2) (\<lambda>_. f t2)))))) s = f t s1"
proof -
  from ready obtain fs where fs: "faults (os s) = Works # fs" by (auto simp: machine_ready_def numeral_eq_Suc)
  let ?w = "(os s)\<lparr>faults := fs\<rparr>"
  have load: "load P st (os s) = (Done (nw_wallet n), ?w)"
    using load_native_completes [OF assms(2,3) fs] by (simp add: load_def io_bind_def io_return_def)
  from assms(8) obtain e tr1 tr2 where talk: "connect_verified P E (st_config st) (sent_of s) = (Inr e, tr1)"
    "enclave_register P E e (reg_request reg) tr1 = (Inr (fresh_status P (reg_request reg) key), tr2)"
    by (auto simp: answers_register_def)
  note complete = complete_fresh [OF ok]
  have "machine_ready P (D (saves s)) st 7 ?w"
    by (rule machine_ready_less [OF _ fs]) (use ready in simp)
  moreover have "recovers P st n ?w" using assms(2) by (simp add: recovers_def)
  moreover have "validate_version t = Inr ()"
    using complete(3) by (simp add: t validate_version_def registered_coin_def ensure_def split: if_splits)
  moreover have "keys_valid (wallet_keys t)"
    using ok by (auto simp: t wallet_keys_def coin_keys_in_def registered_coin_def fresh_keys_def
        keys_validate_def wallet_ok_def pending_ok_def)
  ultimately obtain w' where save: "save P (D (saves s)) st t ?w = (Done (), w')"
    "saved P st (n\<lparr>nw_wallet := t\<rparr>) w'"
    using save_completes [OF assms(1) _ assms(3) _ assms(11)] by blast
  let ?s = "s\<lparr>os := ?w\<rparr>"
  have "connect_verified P E (st_config st) (sent_of ?s) = (Inr e, tr1)"
    using talk(1) by (simp add: sent_of_def)
  from connect_verified_reads this obtain s1 where s1: "act_talk (connect_verified P E (st_config st)) ?s = (Done e, s1)"
      "sent_of s1 = tr1" "os s1 = os ?s" "saves s1 = saves ?s"
    by (rule act_talk_runs)
  from talk(2) have "enclave_register P E e (reg_request reg) (sent_of s1)
      = (Inr (fresh_status P (reg_request reg) key), tr2)" by (simp add: s1(2))
  from enclave_sends(1) this obtain s2 where s2: "act_talk (enclave_register P E e (reg_request reg)) s1
        = (Done (fresh_status P (reg_request reg) key), s2)" "sent_of s2 = tr2" "os s2 = os s1" "saves s2 = saves s1"
    by (rule act_talk_runs)
  show thesis
  proof (rule that [of "s2\<lparr>saves := saves s + 1, os := w'\<rparr>"])
    show "act_bind (act_io (load P st)) (\<lambda>t0. case ws_coin t0 of Some c \<Rightarrow> A t0 c | None \<Rightarrow>
      act_bind (act_talk (connect_verified P E (st_config st))) (\<lambda>e.
      act_bind (registration_to_send P D rnd st t0) (\<lambda>(req, t1).
      act_bind (act_talk (enclave_register P E e req)) (\<lambda>st_now.
      act_method (wallet_complete_registration P t1 st_now) (\<lambda>_ t2.
      act_bind (act_save P D st t2) (\<lambda>_. f t2)))))) s = f t (s2\<lparr>saves := saves s + 1, os := w'\<rparr>)" for A f
      using load s1 s2 save(1) complete(1)
      by (simp add: act_bind_def act_io_def registration_to_send_def ok(2) complete(2) act_return_def
          act_method_def act_save_def t)
  qed (use save(2) in simp)
qed

lemma answers_network: "answers_register P E cfg tr req st_now \<Longrightarrow> cfg_network cfg \<noteq> Mainnet"
  by (auto simp: answers_register_def connect_verified_def talk_ensure_def talk_fail_def split: if_splits)

text \<open>C3. An interrupted registration is finished by running the command again. The wallet in the
  file is sound and has a pending registration, the machine works, and the enclave follows the
  code; its signer, which did not know the coin, may or may not have seen the first request. Then
  \<open>register\<close> returns, and the file then holds, on the disk, a sound wallet with the coin: with
  the secrets that were pending, and the key of the coin that the signer has now, which answers
  to the wallet's capability.\<close>

theorem interrupted_registration_completes:
  assumes "store_correct P" and "opens P cl (os s) st w" and "recovers P st n w"
    and "native_validate P n (cfg_network (st_config st)) = Inr ()"
    and "wallet_ok P (nw_wallet n)"
    and "ws_pending (nw_wallet n) = Some (PendingRegistration csk cap reg)"
    and "reg_protocol_version reg = PROTOCOL_VERSION"
    and "fmlookup (coins sg) (rr_coin_id (reg_request reg)) = None" and "fcard (fmdom (coins sg)) < limit"
    and "sg1 \<in> {sg, snd (register P limit k sg (reg_request reg))}"
    and "xonly_of P csk \<notin> {xonly_of P k, xonly_of P k1}"
    and "\<forall>st_now. fst (register P limit k1 sg1 (reg_request reg)) = Inr st_now \<longrightarrow>
      answers_register P E (st_config st) (sent_of s) (reg_request reg) st_now"
    and "machine_ready P (dr_writes rnd (saves s)) st 8 w"
    and "\<forall>key \<in> {k, k1}. seals P (dr_writes rnd (saves s)) st (n\<lparr>nw_wallet := (nw_wallet n)
      \<lparr>ws_coin := Some (registered_coin csk cap (fresh_keys P reg key)), ws_pending := None\<rparr>\<rparr>)"
  shows "\<exists>t c s'. run P E rnd cl CmdRegister s = (Done (emit_registration P (st_config st) c False), s')
    \<and> saved P st (n\<lparr>nw_wallet := t\<rparr>) (os s')
    \<and> wallet_ok P t \<and> ws_coin t = Some c \<and> ws_pending t = None
    \<and> wc_client_secret c = csk \<and> wc_current_capability c = Some cap
    \<and> (\<exists>st_now. status P (snd (register P limit k1 sg1 (reg_request reg))) (keys_coin_id (wc_keys c)) = Inr st_now
         \<and> verify_status (wc_keys c) st_now = Inr ()
         \<and> cs_authorization st_now = authorization P (keys_coin_id (wc_keys c)) (capability_hash P cap) INITIAL_HANDOFF)"
proof -
  from register_again [OF assms(8-10)] obtain key sg2 where key: "key \<in> {k, k1}"
    "register P limit k1 sg1 (reg_request reg) = (Inr (fresh_status P (reg_request reg) key), sg2)"
    "status P sg2 (rr_coin_id (reg_request reg)) = Inr (fresh_status P (reg_request reg) key)" .
  define c where "c = registered_coin csk cap (fresh_keys P reg key)"
  define t where "t = (nw_wallet n)\<lparr>ws_coin := Some c, ws_pending := None\<rparr>"
  let ?s = "s\<lparr>os := w\<rparr>"
  have same: "sent_of ?s = sent_of s" "saves ?s = saves s" "os ?s = w" by (simp_all add: sent_of_def)
  have distinct: "xonly_of P csk \<noteq> xonly_of P key" using key(1) assms(11) by auto
  have ans: "answers_register P E (st_config st) (sent_of ?s) (reg_request reg) (fresh_status P (reg_request reg) key)"
    using assms(12) key(2) same(1) by simp
  have ready: "machine_ready P (dr_writes rnd (saves ?s)) st 8 (os ?s)" using assms(13) by (simp add: same)
  have sealed: "seals P (dr_writes rnd (saves ?s)) st (n\<lparr>nw_wallet := t\<rparr>)"
    using assms(14) key(1) by (auto simp: same t_def c_def)
  have rec: "recovers P st n (os ?s)" using assms(3) by simp
  from register_runs [where s = ?s and D = "dr_writes rnd" and rnd = "dr_registration rnd",
      OF assms(1) rec assms(4-7) distinct ans ready t_def [unfolded c_def] sealed]
  obtain s1 where s1: "saved P st (n\<lparr>nw_wallet := t\<rparr>) (os s1)" and
    body: "\<And>A (f :: wallet_state \<Rightarrow> report act). act_bind (act_io (load P st)) (\<lambda>t0. case ws_coin t0 of Some c \<Rightarrow> A t0 c | None \<Rightarrow>
      act_bind (act_talk (connect_verified P E (st_config st))) (\<lambda>e.
      act_bind (registration_to_send P (dr_writes rnd) (dr_registration rnd) st t0) (\<lambda>(req, t1).
      act_bind (act_talk (enclave_register P E e req)) (\<lambda>st_now.
      act_method (wallet_complete_registration P t1 st_now) (\<lambda>_ t2.
      act_bind (act_save P (dr_writes rnd) st t2) (\<lambda>_. f t2)))))) ?s = f t s1" by blast
  have "run P E rnd cl CmdRegister s
      = (Done (emit_registration P (st_config st) c False), s1\<lparr>os := unlock (st_directory st) (os s1)\<rparr>)"
    unfolding run_def command.case register_coin_def
    by (rule open_wallet_runs [OF assms(2) answers_network [OF ans]], rule trans [OF body])
      (simp add: act_context_def act_return_def t_def)
  moreover have "saved P st (n\<lparr>nw_wallet := t\<rparr>) (unlock (st_directory st) (os s1))"
    using s1 by (simp add: saved_def settled_def unlock_def)
  moreover have "wallet_ok P t"
    using wallet_complete_registration_ok [OF assms(5) complete_fresh(1) [OF assms(5-7) distinct]]
    by (simp add: t_def c_def)
  moreover have "initial_capability_hash (reg_request reg) = capability_hash P cap"
    "reg_client_pubkey reg = xonly_of P csk"
    using assms(5,6) by (auto simp: wallet_ok_def pending_ok_def)
  ultimately show ?thesis
    using key(2,3) distinct
    by (intro exI [of _ t] exI [of _ c] exI [of _ "s1\<lparr>os := unlock (st_directory st) (os s1)\<rparr>"])
      (simp add: t_def c_def registered_coin_def fresh_keys_def fresh_status_def verify_status_def
        keys_validate_def)
qed

end
