(* ===== verification/Store_Demo.thy ===== *)
theory Store_Demo
  imports Store_Spec Wallet_Demo
begin

text \<open>The witnesses of \<open>File_System\<close> and \<open>Store_Spec\<close>: a directory with a wallet, on a machine
  whose faults are chosen by the statement.\<close>

subsection \<open>A library with tables\<close>

text \<open>The demonstration instance, whose JSON forms are indices in tables of the values in use.\<close>

definition demo_native :: native_state where
  "demo_native = new_native_state (SecretKey 40) empty_wallet"

definition demo_natives :: "native_state list" where
  "demo_natives = [demo_native, demo_native\<lparr>nw_funding_secret := SecretKey 41\<rparr>,
     demo_native\<lparr>nw_wallet := demo_r1\<rparr>,
     demo_native\<lparr>nw_wallet := demo_w1\<rparr>, demo_native\<lparr>nw_wallet := demo_w2\<rparr>]"

definition demo_sealed :: "nat \<Rightarrow> encrypted_state" where
  "demo_sealed i = demo_document\<lparr>es_ciphertext := demo_hex (replicate i 1 @ replicate 16 0)\<rparr>"

definition demo_documents :: "encrypted_state list" where
  "demo_documents = [demo_sealed 0, demo_sealed 1, demo_sealed 2, demo_sealed 3, demo_sealed 4]"

definition demo_config :: config where
  "demo_config = \<lparr>cfg_format_version = 1, cfg_protocol_version = 1, cfg_network = RegtestId,
     cfg_enclave = UnsafePlaintext ''http://127.0.0.1:8080'',
     cfg_chain = CoreRpcConfig ''http://127.0.0.1:18443'' ''cookie'' ''funder'',
     cfg_min_confirmations = 1, cfg_min_reaction_blocks = 20\<rparr>"

definition demo_store :: store_lib where
  "demo_store = codec_lib.extend (transfer_lib.extend (demo_transfer_with [])
       \<lparr>argon2_params = (\<lambda>m t p. True),
        argon2_hash = (\<lambda>m t p pw salt. Some 7),
        document_to_vec_pretty = (\<lambda>d. map_option (\<lambda>i. replicate i 0x7b) (position ((=) d) demo_documents)),
        document_from_slice = (\<lambda>b. nth_opt demo_documents (length b - 1))\<rparr>)
     \<lparr>native_to_vec = (\<lambda>n. map_option (\<lambda>i. replicate i 1) (position ((=) n) demo_natives)),
      native_from_slice = (\<lambda>b. nth_opt demo_natives (length b)),
      config_to_vec = (\<lambda>c. Some []),
      config_to_vec_pretty = (\<lambda>c. if c = demo_config then Some [0x7b, 0x7d] else None),
      config_from_slice = (\<lambda>b. Some demo_config),
      string_from_utf8 = (\<lambda>b. Some (demo_chars b))\<rparr>"

lemmas demo_store_simps = demo_store_def codec_lib.defs transfer_lib.defs demo_transfer_simps

lemma demo_store_laws: "store_correct demo_store" "config_json_correct demo_store"
  by (auto simp: store_correct_def config_json_correct_def hex_correct_def aead_correct_def
      document_json_correct_def json_correct_def demo_store_simps demo_unhex_hex nth_opt_Some
      dest: position_Some split: if_splits)

definition demo_file :: "bytes \<Rightarrow> node" where
  "demo_file bs = \<lparr>nd_kind = RegularFile, nd_mode = 0x180, nd_content = bs, nd_synced = True\<rparr>"

text \<open>A private directory with some files, all of them on the disk.\<close>

definition demo_world :: "(entry \<rightharpoonup> node) \<Rightarrow> fault list \<Rightarrow> world" where
  "demo_world files fs =
     \<lparr>dirs = [''d'' \<mapsto> \<lparr>nd_kind = DirectoryNode, nd_mode = 0x1C0, nd_content = [], nd_synced = True\<rparr>],
      live = files, disk = files, locks = {}, console = [], faults = fs\<rparr>"

definition demo_path :: path where
  "demo_path = \<lparr>path_parent = Some ''d'', path_name = Some ''f''\<rparr>"

lemma demo_path_simps [simp]: "path_name demo_path = Some ''f''" "target_dir demo_path = ''d''"
  by (simp_all add: demo_path_def target_dir_def)

theorem atomic_replacement_witness:
  "\<forall>fs. live (snd (write_bytes_atomic_inner demo_store 7 demo_path [1, 2]
      (demo_world [(''d'', ''f'') \<mapsto> demo_file [9]] fs))) (''d'', ''f'')
    \<in> {Some (demo_file [9]), Some (written_node [1, 2])}"
proof
  fix fs
  let ?w = "demo_world [(''d'', ''f'') \<mapsto> demo_file [9]] fs"
  obtain out w' where run: "write_bytes_atomic_inner demo_store 7 demo_path [1, 2] ?w = (out, w')"
    by (cases "write_bytes_atomic_inner demo_store 7 demo_path [1, 2] ?w")
  from atomic_replacement [OF _ refl refl run] run
  show "live (snd (write_bytes_atomic_inner demo_store 7 demo_path [1, 2] ?w)) (''d'', ''f'')
    \<in> {Some (demo_file [9]), Some (written_node [1, 2])}"
    by (simp add: demo_world_def)
qed

theorem destination_never_overwritten_witness:
  "\<forall>fs. live (snd (write_bytes_destination demo_store 7 demo_path [1, 2]
      (demo_world [(''d'', ''f'') \<mapsto> demo_file [9]] fs))) (''d'', ''f'') = Some (demo_file [9])"
proof
  fix fs
  let ?w = "demo_world [(''d'', ''f'') \<mapsto> demo_file [9]] fs"
  obtain out w' where run: "write_bytes_destination demo_store 7 demo_path [1, 2] ?w = (out, w')"
    by (cases "write_bytes_destination demo_store 7 demo_path [1, 2] ?w")
  from destination_never_overwritten [OF _ refl refl run] run
  show "live (snd (write_bytes_destination demo_store 7 demo_path [1, 2] ?w)) (''d'', ''f'')
    = Some (demo_file [9])"
    by (simp add: demo_world_def)
qed

subsection \<open>A saved wallet\<close>

definition demo_open :: wallet_store where
  "demo_open = \<lparr>st_directory = ''d'', st_password = ''pw'', st_config = demo_config, st_aad = []\<rparr>"

definition demo_saved :: "fault list \<Rightarrow> world" where
  "demo_saved fs = demo_world [(''d'', ''wallet.enc'') \<mapsto> demo_file [0x0a]] fs"

lemma demo_entries: "entry_of ''d'' name = (''d'', name)"
  by (simp add: entry_of_def target_dir_def join_def)

lemma demo_native_valid:
  "native_validate demo_store demo_native RegtestId = Inr ()"
  "native_validate demo_store (demo_native\<lparr>nw_funding_secret := SecretKey 41\<rparr>) RegtestId = Inr ()"
  "native_validate demo_store (demo_native\<lparr>nw_wallet := demo_r1\<rparr>) RegtestId = Inr ()"
  by (simp_all add: native_validate_def demo_native_def new_native_state_def validate_version_def
      empty_wallet_def NATIVE_STATE_FORMAT_VERSION_def demo_r1_def)

lemma demo_native_keys:
  "keys_valid (native_keys demo_native)"
  "keys_valid (native_keys (demo_native\<lparr>nw_funding_secret := SecretKey 41\<rparr>))"
  "keys_valid (wallet_keys demo_r1)"
  by (simp_all add: native_keys_def wallet_keys_def demo_native_def new_native_state_def empty_wallet_def
      demo_r1_def)

lemma demo_seal_old:
  "seal_encrypted_json demo_store (native_to_vec demo_store) 5 6 demo_native ''pw'' aad = Inr [0x0a]"
  by (simp add: seal_encrypted_json_def derive_key_def demo_store_simps demo_natives_def Let_def)
    (simp add: demo_documents_def demo_sealed_def demo_document_def)

lemma demo_loads: "loads demo_store demo_open (demo_saved fs) = Done demo_native"
proof -
  have "decode_native demo_store demo_open [0x0a] = Inr demo_native"
    by (rule decode_sealed [OF demo_store_laws(1), where salt = 5 and nonce = 6])
      (simp_all add: demo_open_def demo_seal_old demo_native_valid demo_native_keys demo_config_def MAX_STATE_FILE_SIZE_def)
  then show ?thesis
    by (simp add: loads_decodes demo_saved_def demo_world_def demo_open_def demo_entries STATE_FILE_def
        demo_file_def outcome_of_def)
qed

lemma demo_saved_file:
  "live (demo_saved fs) (entry_of ''d'' STATE_FILE) = Some (demo_file [0x0a])"
  "disk (demo_saved fs) (entry_of ''d'' STATE_FILE) = Some (demo_file [0x0a])"
  "nd_synced (demo_file bs)"
  by (simp_all add: demo_saved_def demo_world_def demo_entries demo_file_def STATE_FILE_def)

definition demo_draws :: write_draws where
  "demo_draws = \<lparr>wd_salt = 5, wd_nonce = 6, wd_temporary = 7\<rparr>"

theorem saving_is_crash_safe_witness:
  "\<forall>fs. loads demo_store demo_open (snd (save_native demo_store demo_draws demo_open
      (demo_native\<lparr>nw_funding_secret := SecretKey 41\<rparr>) (demo_saved fs)))
    \<in> {Done demo_native, Done (demo_native\<lparr>nw_funding_secret := SecretKey 41\<rparr>)}"
proof
  fix fs
  let ?new = "demo_native\<lparr>nw_funding_secret := SecretKey 41\<rparr>"
  obtain out w' where run: "save_native demo_store demo_draws demo_open ?new (demo_saved fs) = (out, w')"
    by (cases "save_native demo_store demo_draws demo_open ?new (demo_saved fs)")
  have dir: "st_directory demo_open = ''d''" by (simp add: demo_open_def)
  have "resumes w' w'" by (simp add: resumes_def)
  from saving_is_crash_safe [OF demo_store_laws(1), of "entry_of ''d'' STATE_FILE" demo_open
      "demo_saved fs" "demo_file [0x0a]" demo_native demo_draws ?new out w' w', unfolded dir, OF refl
      demo_saved_file(1,3,2) demo_loads run this demo_native_keys(2)] run
  show "loads demo_store demo_open (snd (save_native demo_store demo_draws demo_open ?new (demo_saved fs)))
    \<in> {Done demo_native, Done ?new}" by simp
qed

theorem saving_the_wallet_keeps_journals_witness:
  "\<forall>fs. loads demo_store demo_open (snd (save demo_store demo_draws demo_open demo_r1 (demo_saved fs)))
    \<in> {Done demo_native, Done (demo_native\<lparr>nw_wallet := demo_r1\<rparr>)}"
proof
  fix fs
  obtain out w' where run: "save demo_store demo_draws demo_open demo_r1 (demo_saved fs) = (out, w')"
    by (cases "save demo_store demo_draws demo_open demo_r1 (demo_saved fs)")
  have dir: "st_directory demo_open = ''d''" by (simp add: demo_open_def)
  have valid: "native_validate demo_store (demo_native\<lparr>nw_wallet := demo_r1\<rparr>)
      (cfg_network (st_config demo_open)) = Inr ()"
    using demo_native_valid by (simp add: demo_open_def demo_config_def)
  have "resumes w' w'" by (simp add: resumes_def)
  from saving_the_wallet_keeps_journals [OF demo_store_laws(1), of "entry_of ''d'' STATE_FILE" demo_open
      "demo_saved fs" "demo_file [0x0a]" demo_native demo_r1 demo_draws out w' w', unfolded dir, OF refl
      demo_saved_file(1,3,2) demo_loads valid run this demo_native_keys(3)] run
  show "loads demo_store demo_open (snd (save demo_store demo_draws demo_open demo_r1 (demo_saved fs)))
    \<in> {Done demo_native, Done (demo_native\<lparr>nw_wallet := demo_r1\<rparr>)}" by simp
qed

theorem open_store_excludes_witness:
  "\<forall>fs st. fst (open_store demo_store ''d'' ''pw'' ((demo_saved fs)\<lparr>locks := {''d''}\<rparr>)) \<noteq> Done st"
proof (intro allI notI)
  fix fs st
  let ?w = "(demo_saved fs)\<lparr>locks := {''d''}\<rparr>"
  assume "fst (open_store demo_store ''d'' ''pw'' ?w) = Done st"
  then have "open_store demo_store ''d'' ''pw'' ?w = (Done st, snd (open_store demo_store ''d'' ''pw'' ?w))"
    by (metis prod.collapse)
  from open_store_excludes [OF this] show False by simp
qed

theorem initialize_refuses_existing_witness:
  "\<forall>n. fst (initialize demo_store \<lparr>id_funding_secret = SecretKey 42, id_state = demo_draws,
      id_config_temporary = 8\<rparr> ''d'' demo_config ''pw'' (demo_saved (replicate n Works))) \<noteq> Done ()"
proof
  fix n
  let ?w = "demo_saved (replicate n Works)"
  let ?run = "initialize demo_store \<lparr>id_funding_secret = SecretKey 42, id_state = demo_draws,
      id_config_temporary = 8\<rparr> ''d'' demo_config ''pw'' ?w"
  have "\<forall>x \<in> set (faults ?w). x = Works" by (simp add: demo_saved_def demo_world_def)
  from initialize_refuses_existing [OF _ this, of "''d''" demo_store _ demo_config "''pw''" "fst ?run"
      "snd ?run"] demo_saved_file(1)
  show "fst ?run \<noteq> Done ()" by auto
qed

theorem password_file_stripped_witness:
  "\<exists>bs. password_from_file demo_store (ascii ''pw'' @ [0x0d, 0x0a]) = Inr (demo_chars bs)
    \<and> last bs \<noteq> 0x0a \<and> last bs \<noteq> 0x0d"
proof -
  have utf8: "string_from_utf8 demo_store b = Some (demo_chars b)" for b by (simp add: demo_store_simps)
  have "password_from_file demo_store (ascii ''pw'' @ [0x0d, 0x0a]) = Inr (demo_chars (ascii ''pw''))"
    by (simp add: password_from_file_def read_limited_def read_limited_with_limit_def Let_def
        MAX_FILE_SIZE_def strip_line_ends_def ascii_def utf8)
  from password_file_stripped [OF this] obtain bs where "string_from_utf8 demo_store bs
      = Some (demo_chars (ascii ''pw''))" "last bs \<noteq> 0x0a" "last bs \<noteq> 0x0d" by blast
  with \<open>password_from_file _ _ = _\<close> show ?thesis by (intro exI [of _ bs]) (simp add: utf8)
qed

subsection \<open>A new wallet\<close>

definition demo_initialize :: initialize_draws where
  "demo_initialize = \<lparr>id_funding_secret = SecretKey 40, id_state = demo_draws, id_config_temporary = 8\<rparr>"

lemma demo_write:
  assumes "dirs w ''d'' = Some n" and "nd_kind n = DirectoryNode"
    and "live w (''d'', temporary_name P t name) = None" and "faults w = replicate 6 Works @ fs"
    and "name \<noteq> temporary_name P t name"
  shows "\<exists>w'. write_bytes_atomic_inner P t (join ''d'' name) bs w = (Done (), w') \<and> faults w' = fs
    \<and> dirs w' = dirs w \<and> (\<forall>f. snd f \<noteq> name \<and> snd f \<noteq> temporary_name P t name \<longrightarrow> live w' f = live w f)"
  using assms
  by (simp add: join_def target_dir_def write_bytes_atomic_inner_def io_bind_def fs_is_dir_def
      io_ensure_def Let_def cleanup_on_error_def fs_create_new_def syscall_def fs_write_all_def
      append_content_def fs_sync_all_def fs_rename_def fs_sync_dir_def numeral_eq_Suc)

lemma demo_write_private:
  "w = demo_world Map.empty (replicate (Suc (Suc n)) Works) \<Longrightarrow>
    ensure_secure_directory ''d'' w = (Done (), demo_world Map.empty (replicate n Works))"
  by (simp add: ensure_secure_directory_def io_bind_def fs_exists_def demo_world_def node_at_def
      ensure_private_path_def fs_symlink_metadata_def syscall_def io_return_def io_ensure_def)

lemma demo_initialized:
  "\<exists>w'. initialize demo_store demo_initialize ''d'' demo_config ''pw''
      (demo_world Map.empty (replicate 18 Works)) = (Done (), w')"
proof -
  let ?aad = "STATE_AAD @ be_bytes (sha256 demo_store [])"
  let ?st = "\<lparr>st_directory = ''d'', st_password = ''pw'', st_config = demo_config, st_aad = ?aad\<rparr>"
  let ?w = "\<lambda>n. (demo_world [(''d'', LOCK_FILE) \<mapsto> \<lparr>nd_kind = RegularFile, nd_mode = PRIVATE_MODE,
    nd_content = [], nd_synced = False\<rparr>] (replicate n Works))\<lparr>disk := Map.empty, locks := {''d''}\<rparr>"
  have secure: "ensure_secure_directory ''d'' (demo_world Map.empty (replicate 18 Works))
      = (Done (), demo_world Map.empty (replicate 16 Works))"
    by (rule demo_write_private) simp
  have lock: "open_lock ''d'' (demo_world Map.empty (replicate 16 Works)) = (Done (), ?w 14)"
    by (simp add: open_lock_iff demo_world_def demo_entries numeral_eq_Suc)
  have absent: "fs_exists (File (''d'', CONFIG_FILE)) (?w 14) = (Done False, ?w 13)"
    "fs_exists (File (''d'', STATE_FILE)) (?w 13) = (Done False, ?w 12)"
    by (simp_all add: fs_exists_def demo_world_def node_at_def names_differ numeral_eq_Suc)
  have aad: "state_aad demo_store demo_config = Inr ?aad"
    by (simp add: state_aad_def wallet_state_aad_def demo_store_simps)
  have dir: "dirs (?w n) ''d'' = Some \<lparr>nd_kind = DirectoryNode, nd_mode = 0x1C0, nd_content = [],
      nd_synced = True\<rparr>" for n by (simp add: demo_world_def)
  have "live (?w 12) (''d'', temporary_name demo_store 7 STATE_FILE) = None"
    by (simp add: demo_world_def names_differ)
  then obtain w5 where w5: "write_bytes_atomic_inner demo_store 7 (join ''d'' STATE_FILE) [0x0a] (?w 12)
      = (Done (), w5)" "faults w5 = replicate 6 Works" "dirs w5 = dirs (?w 12)"
      "\<forall>f. snd f \<noteq> STATE_FILE \<and> snd f \<noteq> temporary_name demo_store 7 STATE_FILE \<longrightarrow> live w5 f = live (?w 12) f"
    using demo_write [OF dir _ _ _ temporary_differs [symmetric], of 12 demo_store 7 STATE_FILE
        "replicate 6 Works" "[0x0a]"]
    by (auto simp: demo_world_def numeral_eq_Suc)
  have "live w5 (''d'', temporary_name demo_store 8 CONFIG_FILE) = None"
    using w5(4) by (simp add: names_differ demo_world_def)
  then obtain w6 where w6: "write_bytes_atomic_inner demo_store 8 (join ''d'' CONFIG_FILE)
      [0x7b, 0x7d, 0x0a] w5 = (Done (), w6)"
    using demo_write [OF _ _ _ _ temporary_differs [symmetric], of w5 _ demo_store 8 CONFIG_FILE "[]"
        "[0x7b, 0x7d, 0x0a]"] w5(2,3) dir [of 12] by auto
  have save: "save_native demo_store demo_draws ?st demo_native (?w 12) = (Done (), w5)"
    using demo_native_valid(1) w5(1)
    by (simp add: save_native_def io_done write_native_def demo_draws_def demo_seal_old
        write_state_bytes_atomic_def ensure_state_size_def MAX_STATE_FILE_SIZE_def demo_config_def)
  have json: "config_to_vec_pretty demo_store demo_config = Some [0x7b, 0x7d]"
    by (simp add: demo_store_simps)
  have config: "write_json_atomic demo_store 8 (join ''d'' CONFIG_FILE) demo_config w5 = (Done (), w6)"
    using w6 by (simp add: write_json_atomic_def json io_bind_def write_bytes_atomic_def
        ensure_output_size_def MAX_FILE_SIZE_def)
  have version: "config_validate_version demo_config = Inr ()"
    by (simp add: config_validate_version_def demo_config_def FILE_FORMAT_VERSION_def PROTOCOL_VERSION_def)
  show ?thesis
    using secure lock absent aad save config
    by (simp add: initialize_def io_bind_def version drop_after_def io_ensure_def Let_def demo_entries
        demo_initialize_def demo_native_def)
qed

theorem initialized_wallet_opens_witness:
  "\<exists>w' st w2. initialize demo_store demo_initialize ''d'' demo_config ''pw''
      (demo_world Map.empty (replicate 18 Works)) = (Done (), w')
    \<and> open_store demo_store ''d'' ''pw'' (w'\<lparr>faults := replicate 8 Works\<rparr>) = (Done st, w2)
    \<and> loads demo_store st w2 = Done demo_native"
proof -
  obtain w' where run: "initialize demo_store demo_initialize ''d'' demo_config ''pw''
      (demo_world Map.empty (replicate 18 Works)) = (Done (), w')" using demo_initialized by blast
  from initialized_wallet_opens [OF demo_store_laws _ _ run] run show ?thesis
    by (auto simp: demo_world_def demo_native_def demo_initialize_def)
qed

end
