(* ===== verification/Command_Demo.thy ===== *)
theory Command_Demo
  imports Write_Ahead Store_Demo
begin

text \<open>The witnesses of \<open>Chain_Spec\<close> and \<open>Write_Ahead\<close>: a node and an enclave that answer, and a
  wallet whose registration was interrupted.\<close>

subsection \<open>A node and an enclave\<close>

definition demo_tx_status :: explorer_tx_status where
  "demo_tx_status = \<lparr>xs_confirmed = True, xs_block_height = Some 1, xs_block_hash = Some 5\<rparr>"

definition demo_web :: web_lib where
  "demo_web = store_lib.extend demo_store
     \<lparr>txid_to_string = (\<lambda>t. ''t''), txid_parse = (\<lambda>s. Some 77),
      block_hash_to_string = (\<lambda>h. ''b''), block_hash_parse = (\<lambda>s. Some 5),
      genesis_block_hash = (\<lambda>n. 5), tx_serialize = (\<lambda>t. [1]),
      tx_deserialize = (\<lambda>bs. Some demo_funding_tx), is_coinbase = (\<lambda>t. False),
      explorer_tx_from_str = (\<lambda>s. Some \<lparr>xt_txid = 77, xt_status = demo_tx_status\<rparr>),
      address_utxos_from_str = (\<lambda>s. Some
        [\<lparr>xu_txid = 77, xu_vout = 1, xu_value = 99800, xu_status = demo_tx_status\<rparr>]),
      outspend_from_str = (\<lambda>s. Some \<lparr>xo_spent = False, xo_txid = None, xo_status = None\<rparr>),
      fastest_fee_from_str = (\<lambda>s. Some (Finite 1)), package_msg_from_str = (\<lambda>s. Some ''success''),
      response_of_json = (\<lambda>bs. Some (RespStatus demo_status)),
      url_parse = (\<lambda>s. Some \<lparr>url_scheme = ''http'', url_username = [], url_password = None,
        url_host = Some ''localhost'', url_path = [], url_query = None, url_fragment = None\<rparr>),
      url_with_segments = (\<lambda>u segs. Some ''http://localhost/wallet''),
      status_to_string = (\<lambda>n. ''500''), utf8_lossy = (\<lambda>bs. []), pcrs_from_hex = (\<lambda>a b c. None)\<rparr>"

definition demo_cli_lib :: cli_lib where
  "demo_cli_lib = web_lib.extend demo_web
     \<lparr>request_from_slice = (\<lambda>bs. None), envelope_from_slice = (\<lambda>bs. None),
      receipt_from_slice = (\<lambda>bs. None), request_to_vec_pretty = (\<lambda>r. None),
      envelope_to_vec_pretty = (\<lambda>e. None), receipt_to_vec_pretty = (\<lambda>r. None)\<rparr>"

lemmas demo_web_simps = demo_web_def web_lib.defs demo_store_simps store_lib.defs
lemmas demo_cli_simps = demo_cli_lib_def cli_lib.defs demo_web_simps

lemma demo_web_laws: "store_correct demo_cli_lib"
  by (auto simp: store_correct_def config_json_correct_def hex_correct_def aead_correct_def
      document_json_correct_def json_correct_def demo_cli_simps demo_unhex_hex nth_opt_Some
      dest: position_Some split: if_splits)

text \<open>The node shows the transaction once it has been handed in; the enclave is reached but does
  not answer requests.\<close>

definition demo_peers :: peers where
  "demo_peers =
     \<lparr>http = (\<lambda>tr q. case q of
        HttpGet url \<Rightarrow> Some \<lparr>hr_status = 200, hr_content_length = None,
          hr_chunks = [ascii ''55''], hr_breaks_off = False\<rparr>
      | _ \<Rightarrow> None),
      rpc_raw_transaction_info = (\<lambda>tr t.
        if Rpc (SendRawTransaction demo_funding_tx) \<in> set tr
        then Inr \<lparr>ri_txid = t, ri_in_active_chain = Some True, ri_hex = [1], ri_confirmations = Some 30\<rparr>
        else Inl (RpcCode (-5))),
      rpc_transaction = (\<lambda>tr t. Inl (RpcCode (-5))),
      rpc_mempool_entry = (\<lambda>tr t. Inl (RpcCode (-5))),
      rpc_tx_out = (\<lambda>tr t i. Inr (Some \<lparr>to_best_block = 5, to_confirmations = 30,
        to_value = 100000, to_script = Some [0x51, 0x20], to_coinbase = False\<rparr>)),
      rpc_spending_prevout = (\<lambda>tr op. Inl RpcOther),
      rpc_send_raw_transaction = (\<lambda>tr t. Inr 77),
      rpc_test_mempool_accept = (\<lambda>tr t. Inr [\<lparr>ma_txid = 77, ma_allowed = True,
        ma_reject_reason = None, ma_base_fee = Some 200\<rparr>]),
      rpc_lock_unspent = (\<lambda>tr ops. Inr True),
      rpc_wallet_info = (\<lambda>tr. Inr \<lparr>wi_wallet_name = ''funder'', wi_private_keys_enabled = True\<rparr>),
      rpc_blockchain_info = (\<lambda>tr. Inr \<lparr>ci_chain = ''regtest'', ci_blocks = 55, ci_best_block_hash = 5\<rparr>),
      rpc_create_funded_psbt = (\<lambda>tr a n r. Inr (''psbt'', 200)),
      rpc_process_psbt = (\<lambda>tr p. Inr (''psbt'', True)),
      rpc_finalize_psbt = (\<lambda>tr p. Inr (Some [1], True)),
      rpc_submit_package = (\<lambda>tr p c. Inl RpcOther),
      rpc_client_opens = (\<lambda>url cookie. True),
      sdk_connect = (\<lambda>tr debug url p. Inl ''unreachable''),
      sdk = (\<lambda>tr. \<lparr>sdk_get_health = Inl ''unreachable'', sdk_post = (\<lambda>r. Inr (500, [])),
        response_from_slice = (\<lambda>bs. Inl ''invalid''), from_utf8_lossy = (\<lambda>bs. [])\<rparr>)\<rparr>"

definition demo_core :: chain where
  "demo_core = OnCore \<lparr>co_wallet_name = ''funder'', co_network = RegtestId\<rparr>"

definition demo_explorer :: chain where
  "demo_explorer = OnExplorer \<lparr>ex_base_url = ''http://localhost'', ex_network = RegtestId\<rparr>"

lemmas demo_talk = talk_bind_def talk_ask_def rpc_ask_def talk_ensure_def talk_context_def
  talk_return_def talk_fail_def talk_lift_def demo_peers_def

lemma demo_chars_ascii: "demo_chars (ascii str) = str"
proof -
  have "char_of (unat (of_char c :: byte)) = c" for c
  proof -
    have "unat (of_nat (of_char c) :: byte) = of_char c"
      by (simp add: unat_of_nat take_bit_eq_mod del: of_nat_of_char)
    then show ?thesis by (simp add: of_nat_of_char)
  qed
  then show ?thesis by (induction str) (simp_all add: demo_chars_def ascii_def)
qed

lemma ascii_length: "length (ascii str) = length str"
  by (simp add: ascii_def)

lemma demo_funding_fields:
  "outputs demo_funding_tx = [\<lparr>txout_value = 100000, script_pubkey = [0x51, 0x20]\<rparr>,
     \<lparr>txout_value = 99800, script_pubkey = ascii ''dep''\<rparr>]"
  "map previous_output (inputs demo_funding_tx) = [OutPoint 50 0]"
  by (simp_all add: demo_funding_tx_def)

lemma demo_W_fields [simp]:
  "compute_txid demo_cli_lib t = 77"
  "funding_script demo_cli_lib k = [0x51, 0x20]"
  "tx_deserialize demo_cli_lib bs = Some demo_funding_tx"
  "tx_serialize demo_cli_lib t = [1]"
  "is_coinbase demo_cli_lib t = False"
  "address_script demo_cli_lib a = ascii (address_text a)"
  "100000 \<le> max_money demo_cli_lib"
  "sequence_max demo_cli_lib = 0xffffffff"
  "\<not> outpoint_is_null demo_cli_lib (OutPoint 50 0)"
  "tx_weight demo_cli_lib t = 400"
  "string_from_utf8 demo_cli_lib bs = Some (demo_chars bs)"
  "explorer_tx_from_str demo_cli_lib str = Some \<lparr>xt_txid = 77, xt_status = demo_tx_status\<rparr>"
  "address_utxos_from_str demo_cli_lib str = Some
     [\<lparr>xu_txid = 77, xu_vout = 1, xu_value = 99800, xu_status = demo_tx_status\<rparr>]"
  "outspend_from_str demo_cli_lib str = Some \<lparr>xo_spent = False, xo_txid = None, xo_status = None\<rparr>"
  "block_hash_parse demo_cli_lib str = Some 5"
  "hex_decode demo_cli_lib str = demo_unhex str"
  "sequence_is_rbf demo_cli_lib sq \<longleftrightarrow> sq < 0xfffffffe"
  by (simp_all add: demo_cli_simps funding_script_def)

lemma demo_W_codec:
  "hex_encode demo_cli_lib bs = demo_hex bs"
  "argon2_params demo_cli_lib m t p = True"
  "argon2_hash demo_cli_lib m t p pw salt = Some 7"
  "aead_key_ok demo_cli_lib key = True"
  "aead_encrypt demo_cli_lib key nonce aad plain = Some (plain @ replicate 16 0)"
  "config_to_vec demo_cli_lib c = Some []"
  "config_from_slice demo_cli_lib bs = Some demo_config"
  by (simp_all add: demo_cli_simps)

lemma demo_W_url:
  "url_parse demo_cli_lib str = Some \<lparr>url_scheme = ''http'', url_username = [], url_password = None,
     url_host = Some ''localhost'', url_path = [], url_query = None, url_fragment = None\<rparr>"
  by (simp add: demo_cli_simps)

lemma demo_matching:
  "matching_outputs [0x51, 0x20] demo_funding_tx = [(0, \<lparr>txout_value = 100000, script_pubkey = [0x51, 0x20]\<rparr>)]"
  by (simp add: matching_outputs_def demo_funding_fields ascii_def)

lemma demo_funding_inputs: "validate_funding_inputs demo_cli_lib demo_funding_tx = Inr ()"
  by (simp add: validate_funding_inputs_def validate_funding_input_def demo_funding_tx_def)

lemma demo_keys_valid: "keys_validate demo_keys = Inr ()"
  using demo_metadata_ok by (simp add: metadata_validate_def demo_md_def keys_metadata_def ok)

theorem chain_observation_sound_witness:
  "\<exists>d tr. chain_observe_funding demo_cli_lib demo_peers demo_core demo_md [] = (Inr d, tr)
    \<and> obs_outpoint (dfo_funding d) = md_outpoint demo_md
    \<and> verify_observed_funding demo_cli_lib demo_md (dfo_funding d) 6 = Inr ()"
proof -
  have utxo: "verify_funding_utxo demo_cli_lib demo_md (md_outpoint demo_md)
      \<lparr>txout_value = 100000, script_pubkey = [0x51, 0x20]\<rparr> = Inr ()"
    using demo_metadata_ok by (simp add: verify_funding_utxo_Inr demo_md_def demo_keys_valid keys_metadata_def)
  obtain d tr where run: "chain_observe_funding demo_cli_lib demo_peers demo_core demo_md [] = (Inr d, tr)"
    and d: "obs_unspent (dfo_funding d)" "obs_confirmations (dfo_funding d) = 30"
    using utxo
    by (auto simp: chain_observe_funding_def demo_core_def core_observe_funding_def Let_def demo_talk
        core_chain_info_def current_chain_def blocks_height_def from_client_def network_name_def
        try_from_word_def demo_md_def keys_metadata_def)
  from chain_observation_sound [OF run, of 6] run d show ?thesis by auto
qed

theorem chain_broadcast_exactly_witness:
  "\<exists>tr. chain_broadcast_exact demo_cli_lib demo_peers demo_core demo_funding_tx [] = (Inr 77, tr)
    \<and> Rpc (SendRawTransaction demo_funding_tx) \<in> set tr
    \<and> on_view demo_cli_lib demo_peers demo_core demo_funding_tx"
proof -
  obtain tr where run: "chain_broadcast_exact demo_cli_lib demo_peers demo_core demo_funding_tx [] = (Inr 77, tr)"
    and sent: "Rpc (SendRawTransaction demo_funding_tx) \<in> set tr"
    by (auto simp: chain_broadcast_exact_def demo_core_def core_broadcast_exact_def Let_def demo_talk
        core_transaction_observation_def core_tip_height_def core_chain_info_def blocks_height_def
        core_check_exact_def is_rpc_not_found_def network_name_def try_from_word_def demo_funding_inputs)
  from chain_broadcast_exactly [OF run] run sent show ?thesis by auto
qed

theorem listed_deposits_checked_witness:
  "\<exists>s tr. chain_confirmed_source_utxos demo_cli_lib demo_peers demo_explorer (Address ''dep'') [] = (Inr [s], tr)
    \<and> su_outpoint s = OutPoint 77 1 \<and> deposit_of demo_cli_lib (Address ''dep'') s"
proof -
  let ?x = "\<lparr>ex_base_url = ''http://localhost'', ex_network = RegtestId\<rparr>"
  have get: "get_text_optional demo_cli_lib demo_peers ?x path = (\<lambda>tr.
      (Inr (Some ''55''), tr @ [HttpGet (''http://localhost'' @ path)]))" for path
    by (rule ext) (simp add: get_text_optional_def Let_def demo_talk response_bytes_limited_def
        MAX_HTTP_RESPONSE_SIZE_def is_success_def NOT_FOUND_def demo_chars_ascii ascii_length)
  have trim: "trim ''55'' = ''55''" by (rule trim_id) (simp_all add: white_space_def upt_conv_Cons char_of_eq_iff)
  have tip: "parse_u32 ''55'' = Some 55"
    by (simp add: parse_u32_def digit_value_def)
  obtain s tr where run: "chain_confirmed_source_utxos demo_cli_lib demo_peers demo_explorer (Address ''dep'') []
      = (Inr [s], tr)" and s: "su_outpoint s = OutPoint 77 1"
    by (auto simp: chain_confirmed_source_utxos_def demo_explorer_def explorer_confirmed_source_utxos_def
        get_json_def get_json_optional_def get_text_def get trim tip Let_def talk_bind_def talk_context_def
        talk_return_def talk_ensure_def demo_tx_status_def source_candidates_def MAX_SOURCE_UTXO_CANDIDATES_def
        check_source_utxo_def explorer_transaction_observation_def raw_transaction_optional_def
        explorer_tip_height_def status_confirmations_def block_hash_at_height_def checked_sub_def
        checked_add_def demo_funding_fields utxo_outpoint_def explorer_outspend_of_def nth_opt_def)
  from listed_deposits_checked [OF run] run s show ?thesis by auto
qed

theorem prepared_funding_validates_witness:
  "\<exists>p tr. chain_prepare_funding demo_cli_lib demo_peers demo_core demo_keys 100000 2 500 [] = (Inr p, tr)
    \<and> validate_finalized_funding demo_cli_lib (keys_metadata demo_keys RegtestId (pf_outpoint p) 100000)
        (pf_transaction p) = Inr ()"
proof -
  obtain p tr where run: "chain_prepare_funding demo_cli_lib demo_peers demo_core demo_keys 100000 2 500 [] = (Inr p, tr)"
    by (auto simp: chain_prepare_funding_def demo_core_def core_prepare_funding_def core_verify_wallet_def
        Let_def demo_talk core_test_prepared_funding_def demo_matching
        demo_funding_inputs first_opt_def)
  from prepared_funding_validates [OF run demo_keys_valid] run show ?thesis by blast
qed

subsection \<open>An interrupted registration\<close>

text \<open>A wallet whose registration was saved before its request got through.\<close>

definition demo_pending :: native_state where
  "demo_pending = demo_native\<lparr>nw_wallet := demo_w1\<rparr>"

definition demo_interrupted :: world where
  "demo_interrupted = demo_world [(''d'', ''wallet.enc'') \<mapsto> demo_file [0x7b, 0x7b, 0x7b, 0x0a],
     (''d'', ''config.json'') \<mapsto> demo_file [0x7b, 0x7d, 0x0a]] (replicate 20 Works)"

definition demo_session :: session where
  "demo_session = \<lparr>os = demo_interrupted, asked = [], saves = 0\<rparr>"

definition demo_command_line :: cli where
  "demo_command_line = \<lparr>cl_data_dir = ''d'', cl_password_file = None,
     cl_passwords = \<lparr>env_password = Some ''pw'', stdin_is_terminal = False, typed = None,
       typed_again = None\<rparr>,
     cl_stdin = []\<rparr>"

definition demo_store_open :: wallet_store where
  "demo_store_open = \<lparr>st_directory = ''d'', st_password = ''pw'', st_config = demo_config,
     st_aad = STATE_AAD @ be_bytes (sha256 demo_cli_lib [])\<rparr>"

lemma demo_sealed_eq: "demo_sealed i = demo_sealed j \<longleftrightarrow> i = j"
proof -
  have "length (demo_hex bs) = 2 * length bs" for bs
    by (induction bs) (simp_all add: demo_hex_def)
  then have "length (es_ciphertext (demo_sealed k)) = 2 * (k + 16)" for k
    by (simp add: demo_sealed_def)
  then show ?thesis by (metis add_right_cancel mult_cancel1 zero_neq_numeral)
qed

lemma demo_seal_pending:
  "seal_encrypted_json demo_cli_lib (native_to_vec demo_cli_lib) 5 6 demo_pending ''pw'' aad
    = Inr [0x7b, 0x7b, 0x7b, 0x0a]"
proof -
  have native: "native_to_vec demo_cli_lib demo_pending = Some [1, 1, 1]"
    by (simp add: demo_cli_simps demo_natives_def demo_pending_def demo_native_def
        new_native_state_def demo_w1_def demo_r1_def empty_wallet_def numeral_eq_Suc)
  have "document_to_vec_pretty demo_cli_lib (demo_sealed 3) = Some [0x7b, 0x7b, 0x7b]"
    by (simp add: demo_cli_simps demo_documents_def demo_sealed_eq numeral_eq_Suc)
  moreover have "\<lparr>es_format_version = FILE_FORMAT_VERSION,
      es_kdf = \<lparr>kdf_algorithm = ''argon2id'', kdf_memory_kib = KDF_MEMORY_KIB,
        kdf_iterations = KDF_ITERATIONS, kdf_parallelism = KDF_PARALLELISM,
        kdf_salt = demo_hex (be_bytes (5 :: salt16))\<rparr>, es_cipher = ''xchacha20poly1305'',
      es_nonce = demo_hex (be_bytes (6 :: nonce24)),
      es_ciphertext = demo_hex ([1, 1, 1] @ replicate 16 0)\<rparr> = demo_sealed 3"
    by (simp add: demo_sealed_def demo_document_def numeral_3_eq_3)
  ultimately show ?thesis
    using native
    by (simp add: seal_encrypted_json_def derive_key_def Let_def demo_W_codec)
qed

lemma demo_stored: "stored demo_cli_lib demo_store_open [0x7b, 0x7b, 0x7b, 0x0a] = Inr demo_pending"
  by (rule stored_sealed [OF demo_web_laws, where salt = 5 and nonce = 6]) (simp_all add: demo_store_open_def demo_seal_pending MAX_STATE_FILE_SIZE_def,
    simp add: native_keys_def wallet_keys_def pending_keys_def demo_pending_def demo_w1_def empty_wallet_def)

lemma demo_pending_valid: "native_validate demo_cli_lib demo_pending RegtestId = Inr ()"
  by (simp add: native_validate_def demo_pending_def demo_native_def new_native_state_def
      validate_version_def demo_w1_def empty_wallet_def NATIVE_STATE_FORMAT_VERSION_def)

text \<open>The wallet is open: the lock is taken, and nothing else has changed.\<close>

definition demo_locked :: "nat \<Rightarrow> world" where
  "demo_locked n = demo_interrupted\<lparr>faults := replicate n Works, locks := {''d''},
     live := (live demo_interrupted)((''d'', LOCK_FILE) \<mapsto> \<lparr>nd_kind = RegularFile,
       nd_mode = PRIVATE_MODE, nd_content = [], nd_synced = False\<rparr>)\<rparr>"

lemma demo_interrupted_files:
  "live demo_interrupted (entry_of ''d'' STATE_FILE) = Some (demo_file [0x7b, 0x7b, 0x7b, 0x0a])"
  "live (demo_locked n) (entry_of ''d'' STATE_FILE) = Some (demo_file [0x7b, 0x7b, 0x7b, 0x0a])"
  "live (demo_locked n) (entry_of ''d'' CONFIG_FILE) = Some (demo_file [0x7b, 0x7d, 0x0a])"
  "dirs (demo_locked n) ''d'' = dirs demo_interrupted ''d''"
  "dirs demo_interrupted ''d'' = Some \<lparr>nd_kind = DirectoryNode, nd_mode = 0x1C0, nd_content = [],
     nd_synced = True\<rparr>"
  "live demo_interrupted (entry_of ''d'' LOCK_FILE) = None"
  by (simp_all add: demo_interrupted_def demo_world_def demo_locked_def demo_entries STATE_FILE_def
      CONFIG_FILE_def LOCK_FILE_def)

lemma demo_opens:
  "open_store demo_cli_lib ''d'' ''pw'' demo_interrupted = (Done demo_store_open, demo_locked 12)"
proof -
  have faults: "faults demo_interrupted = [Works, Works, Works, Works, Works, Works, Works, Works]
      @ replicate 12 Works" "locks demo_interrupted = {}"
    by (simp_all add: demo_interrupted_def demo_world_def numeral_eq_Suc)
  have read: "read_limited [0x7b, 0x7d, 0x0a] = Inr [0x7b, 0x7d, 0x0a]"
    by (simp add: read_limited_def read_limited_with_limit_def MAX_FILE_SIZE_def)
  have version: "config_validate_version demo_config = Inr ()"
    by (simp add: config_validate_version_def demo_config_def FILE_FORMAT_VERSION_def PROTOCOL_VERSION_def)
  have aad: "state_aad demo_cli_lib demo_config = Inr (STATE_AAD @ be_bytes (sha256 demo_cli_lib []))"
    by (simp add: state_aad_def wallet_state_aad_def demo_W_codec)
  have distinct: "entry_of ''d'' CONFIG_FILE \<noteq> entry_of ''d'' LOCK_FILE"
    by (simp add: entry_of_def names_differ)
  have config: "live demo_interrupted (entry_of ''d'' CONFIG_FILE) = Some (demo_file [0x7b, 0x7d, 0x0a])"
    by (simp add: demo_interrupted_def demo_world_def demo_entries CONFIG_FILE_def)
  have safe: "private_node (Some (demo_file bs)) RegularFile"
    "private_node (dirs demo_interrupted ''d'') DirectoryNode" for bs
    by (simp_all add: private_node_def demo_file_def demo_interrupted_files)
  show ?thesis
    using distinct
    by (simp add: open_store_def load_config_def read_json_path_def io_done drop_on_error_Done
        ensure_private_path_Done open_lock_iff fs_read_Done node_at_def faults read version aad
        demo_interrupted_files config safe demo_W_codec demo_store_open_def)
      (simp add: demo_locked_def demo_file_def demo_entries private_node_def read [unfolded demo_file_def])
qed

lemma demo_connects:
  "connect_verified demo_cli_lib demo_peers demo_config tr
    = (Inr (Plaintext ''http://127.0.0.1:8080''), tr @ [HttpGet ''http://127.0.0.1:8080/health''])"
proof -
  have url: "validate_plaintext_url demo_cli_lib t = Inr ()" for t
    by (simp add: validate_plaintext_url_def demo_W_url eq_ignore_ascii_case_def)
  show ?thesis
    by (simp add: connect_verified_def demo_config_def enclave_connect_def enclave_health_def url Let_def
        demo_talk is_success_def trim_end_slashes_def)
qed

lemma demo_unanswered:
  "enclave_register demo_cli_lib demo_peers (Plaintext url) req tr
    = (Inl (Msg ''call plaintext test enclave''), tr @ [HttpPostRequest (url @ ''/v1'') (ReqRegister req)])"
  by (simp add: enclave_register_def call_plain_def Let_def demo_talk)

lemma demo_loads_pending: "load demo_cli_lib demo_store_open (demo_locked 12) = (Done demo_w1, demo_locked 11)"
proof -
  have faults: "faults (demo_locked 12) = Works # replicate 11 Works"
    "(demo_locked 12)\<lparr>faults := replicate 11 Works\<rparr> = demo_locked 11"
    by (simp_all add: demo_locked_def numeral_eq_Suc)
  have open_fields: "st_directory demo_store_open = ''d''" "cfg_network (st_config demo_store_open) = RegtestId"
    by (simp_all add: demo_store_open_def demo_config_def)
  have pending: "nw_wallet demo_pending = demo_w1" by (simp add: demo_pending_def)
  show ?thesis
    using demo_stored
    by (simp add: load_def load_native_def io_done fs_read_Done stored_def ok faults open_fields
        demo_interrupted_files demo_file_def demo_pending_valid)
      (metis demo_pending_valid pending)
qed

definition demo_register_request :: register_request where
  "demo_register_request = \<lparr>rr_coin_id = 7, initial_capability_hash = 97\<rparr>"

definition demo_rnd :: draws where
  "demo_rnd = \<lparr>dr_writes = (\<lambda>n. demo_draws), dr_initialize = demo_initialize,
     dr_registration = \<lparr>rd_client_secret = SecretKey 21, rd_capability = 1, rd_coin_id = 7\<rparr>,
     dr_funding = \<lparr>fd_next_capability = 2, fd_withdrawal = SecretKey 31\<rparr>,
     dr_request = \<lparr>td_capability = 3, td_withdrawal = SecretKey 51, td_transport = SecretKey 52, td_request_id = 60\<rparr>,
     dr_transfer = \<lparr>mat_ephemeral = SecretKey 53, mat_nonce = 6\<rparr>, dr_output = 9\<rparr>"

lemma demo_session_file:
  "asked demo_session = []" "cl_data_dir demo_command_line = ''d''"
  "live (os demo_session) (entry_of ''d'' STATE_FILE) = Some (demo_file [0x7b, 0x7b, 0x7b, 0x0a])"
  "disk (os demo_session) (entry_of ''d'' STATE_FILE) = Some (demo_file [0x7b, 0x7b, 0x7b, 0x0a])"
  "nd_synced (demo_file bs)"
  by (simp_all add: demo_session_def demo_command_line_def demo_interrupted_files)
    (simp_all add: demo_interrupted_def demo_world_def demo_file_def demo_entries STATE_FILE_def)

theorem commands_keep_the_wallet_witness:
  "\<exists>out s' nd. run demo_cli_lib demo_peers demo_rnd demo_command_line CmdRegister demo_session = (out, s')
    \<and> live (os s') (entry_of ''d'' STATE_FILE) = Some nd
    \<and> (nd = demo_file [0x7b, 0x7b, 0x7b, 0x0a]
       \<or> nd_synced nd
         \<and> (\<exists>st n0 n. st_directory st = ''d''
              \<and> stored demo_cli_lib st [0x7b, 0x7b, 0x7b, 0x0a] = Inr n0
              \<and> stored demo_cli_lib st (nd_content nd) = Inr n \<and> evolves demo_cli_lib n0 n))"
proof -
  let ?run = "run demo_cli_lib demo_peers demo_rnd demo_command_line CmdRegister demo_session"
  obtain out s' where run: "?run = (out, s')" by (cases ?run)
  have "resumes (os s') (os s')" by (simp add: resumes_def)
  with commands_keep_the_wallet [OF demo_web_laws demo_session_file(1) _ _ _ _ run]
  show ?thesis using run demo_session_file(2-5) by (force simp: demo_file_def)
qed

theorem nothing_sent_before_saved_witness:
  "\<exists>out s' q w st n. run demo_cli_lib demo_peers demo_rnd demo_command_line CmdRegister demo_session = (out, s')
    \<and> (q, w) \<in> set (asked s') \<and> \<not> effect_free q
    \<and> st_directory st = ''d'' \<and> authorizes demo_cli_lib n q \<and> recovers demo_cli_lib st n w"
proof -
  let ?q = "HttpPostRequest ''http://127.0.0.1:8080/v1'' (ReqRegister demo_register_request)"
  let ?run = "run demo_cli_lib demo_peers demo_rnd demo_command_line CmdRegister demo_session"
  obtain out s' where run: "?run = (out, s')" by (cases ?run)
  have password: "read_password demo_cli_lib (cl_passwords demo_command_line) (cl_password_file demo_command_line)
      False w = (Done ''pw'', w)" for w
    by (simp add: read_password_def demo_command_line_def io_lift_def io_return_def)
  have wallet: "ws_coin demo_w1 = None" "ws_pending demo_w1 = Some (PendingRegistration (SecretKey 21) 1
      \<lparr>reg_protocol_version = 1, reg_request = demo_register_request, reg_client_pubkey = XOnlyKey 21\<rparr>)"
    by (simp_all add: demo_w1_def demo_register_request_def empty_wallet_def)
  have fields: "cl_data_dir demo_command_line = ''d''" "st_config demo_store_open = demo_config"
    "cfg_network demo_config \<noteq> Mainnet" "st_directory demo_store_open = ''d''"
    by (simp_all add: demo_command_line_def demo_store_open_def demo_config_def)
  have "(?q, demo_locked 11) \<in> set (asked s')"
    using run
    by (simp add: run_def register_coin_def open_wallet_def act_bind_def act_io_def password demo_session_def
        fields demo_opens act_drop_def act_ensure_def demo_loads_pending wallet registration_to_send_def
        act_return_def act_talk_def sent_of_def demo_connects demo_unanswered)
      auto
  moreover have "\<not> effect_free ?q" by simp
  moreover have "settled (entry_of (cl_data_dir demo_command_line) STATE_FILE) (os demo_session)"
    by (simp add: settled_def demo_session_file)
  moreover have "resumes (demo_locked 11) (demo_locked 11)" by (simp add: resumes_def)
  ultimately show ?thesis
    using nothing_sent_before_saved [OF demo_web_laws demo_session_file(1) _ run, of ?q "demo_locked 11"] run fields(1) by metis
qed

end
