(* ===== verification/Completion_Demo.thy ===== *)
theory Completion_Demo
  imports Completion Command_Demo
begin

text \<open>The witness of \<open>Completion\<close>: the interrupted registration of \<open>Command_Demo\<close>, whose request had
  reached the enclave, is run again.\<close>

text \<open>The enclave that now answers.\<close>

definition demo_enclave :: peers where
  "demo_enclave = demo_peers
     \<lparr>http := \<lambda>tr q. Some \<lparr>hr_status = 200, hr_content_length = None, hr_chunks = [],
        hr_breaks_off = False\<rparr>\<rparr>"

definition demo_registration :: registration where
  "demo_registration = \<lparr>reg_protocol_version = 1, reg_request = demo_register_request,
     reg_client_pubkey = XOnlyKey 21\<rparr>"

lemma demo_answers:
  "answers_register demo_cli_lib demo_enclave demo_config tr req demo_status"
proof -
  have url: "validate_plaintext_url demo_cli_lib t = Inr ()" for t
    by (simp add: validate_plaintext_url_def demo_W_url eq_ignore_ascii_case_def)
  have json: "response_of_json demo_cli_lib bs = Some (RespStatus demo_status)" for bs
    by (simp add: demo_cli_simps)
  show ?thesis
    by (simp add: answers_register_def connect_verified_def demo_config_def enclave_connect_def enclave_health_def
        url json Let_def demo_talk is_success_def trim_end_slashes_def enclave_register_def call_plain_def
        demo_enclave_def response_bytes_limited_def)
qed

lemma demo_fresh:
  "xonly_of demo_cli_lib (SecretKey i) = XOnlyKey i"
  "fresh_status demo_cli_lib demo_register_request (SecretKey 3) = demo_status"
  "fresh_keys demo_cli_lib demo_registration (SecretKey 3) = demo_keys"
proof -
  have hash: "authorization demo_cli_lib 7 97 INITIAL_HANDOFF = 160"
    by (subst length_hash_authorization) (simp_all add: demo_cli_simps INITIAL_HANDOFF_def)
  show xonly: "xonly_of demo_cli_lib (SecretKey i) = XOnlyKey i" for i by (simp add: demo_cli_simps)
  show "fresh_status demo_cli_lib demo_register_request (SecretKey 3) = demo_status"
    by (simp add: fresh_status_def demo_register_request_def demo_status_def xonly hash)
  show "fresh_keys demo_cli_lib demo_registration (SecretKey 3) = demo_keys"
    by (simp add: fresh_keys_def demo_registration_def demo_register_request_def demo_keys_def xonly PROTOCOL_VERSION_def)
qed

lemma demo_seal_registered:
  "seal_encrypted_json demo_cli_lib (native_to_vec demo_cli_lib) 5 6 (demo_native\<lparr>nw_wallet := demo_w2\<rparr>) ''pw'' aad
    = Inr [0x7b, 0x7b, 0x7b, 0x7b, 0x0a]"
proof -
  have native: "native_to_vec demo_cli_lib (demo_native\<lparr>nw_wallet := demo_w2\<rparr>) = Some [1, 1, 1, 1]"
    by (simp add: demo_cli_simps demo_natives_def demo_native_def
        new_native_state_def demo_w1_def demo_w2_def demo_r1_def empty_wallet_def numeral_eq_Suc)
  have "document_to_vec_pretty demo_cli_lib (demo_sealed 4) = Some [0x7b, 0x7b, 0x7b, 0x7b]"
    by (simp add: demo_cli_simps demo_documents_def demo_sealed_eq numeral_eq_Suc)
  moreover have "\<lparr>es_format_version = FILE_FORMAT_VERSION,
      es_kdf = \<lparr>kdf_algorithm = ''argon2id'', kdf_memory_kib = KDF_MEMORY_KIB,
        kdf_iterations = KDF_ITERATIONS, kdf_parallelism = KDF_PARALLELISM,
        kdf_salt = demo_hex (be_bytes (5 :: salt16))\<rparr>, es_cipher = ''xchacha20poly1305'',
      es_nonce = demo_hex (be_bytes (6 :: nonce24)),
      es_ciphertext = demo_hex ([1, 1, 1, 1] @ replicate 16 0)\<rparr> = demo_sealed 4"
    by (simp add: demo_sealed_def demo_document_def numeral_eq_Suc)
  ultimately show ?thesis
    using native
    by (simp add: seal_encrypted_json_def derive_key_def Let_def demo_W_codec)
qed

lemma demo_ready: "machine_ready demo_cli_lib demo_draws demo_store_open 8 (demo_locked 12)"
proof -
  have "replicate 12 Works = replicate 8 Works @ replicate 4 Works" by (simp flip: replicate_add)
  moreover have "temporary_name demo_cli_lib 7 STATE_FILE \<notin> {STATE_FILE, ''config.json'', LOCK_FILE}"
    by (simp add: temporary_name_def STATE_FILE_def LOCK_FILE_def)
  ultimately show ?thesis
    by (auto simp: machine_ready_def demo_draws_def demo_store_open_def state_entry_def demo_entries
        demo_interrupted_files demo_locked_def)
      (simp_all add: demo_interrupted_def demo_world_def STATE_FILE_def)
qed

lemma demo_opens_session:
  "opens demo_cli_lib demo_command_line (os demo_session) demo_store_open (demo_locked 12)"
  using demo_opens
  by (auto simp: opens_def demo_session_def read_password_def demo_command_line_def io_lift_def io_return_def)

lemma demo_pending_wallet:
  "ws_pending (nw_wallet demo_pending) = Some (PendingRegistration (SecretKey 21) 1 demo_registration)"
  "wallet_ok demo_cli_lib (nw_wallet demo_pending)"
proof -
  show "ws_pending (nw_wallet demo_pending) = Some (PendingRegistration (SecretKey 21) 1 demo_registration)"
    by (simp add: demo_pending_def demo_w1_def demo_registration_def demo_register_request_def)
  have "capability_hash demo_cli_lib 1 = 97"
    by (subst length_hash_capability) (simp_all add: demo_cli_simps)
  then show "wallet_ok demo_cli_lib (nw_wallet demo_pending)"
    by (simp add: wallet_ok_def pending_ok_def demo_pending_def demo_w1_def empty_wallet_def demo_fresh)
qed

lemma demo_seals:
  "seals demo_cli_lib (dr_writes demo_rnd (saves demo_session)) demo_store_open
    (demo_pending\<lparr>nw_wallet := (nw_wallet demo_pending)\<lparr>ws_coin := Some (registered_coin (SecretKey 21) 1
      (fresh_keys demo_cli_lib demo_registration (SecretKey 3))), ws_pending := None\<rparr>\<rparr>)"
proof -
  have "(nw_wallet demo_pending)\<lparr>ws_coin := Some (registered_coin (SecretKey 21) 1 demo_keys), ws_pending := None\<rparr>
      = demo_w2"
    by (simp add: demo_pending_def demo_w1_def demo_w2_def empty_wallet_def)
  then show ?thesis
    using demo_seal_registered
    by (simp add: seals_def demo_fresh demo_rnd_def demo_draws_def demo_store_open_def MAX_STATE_FILE_SIZE_def)
      (simp add: demo_pending_def MAX_STATE_FILE_SIZE_def)
qed

text \<open>The signer had seen the first request.\<close>

definition demo_registered :: signer where
  "demo_registered = snd (register demo_cli_lib 8 (SecretKey 3) new_signer (reg_request demo_registration))"

lemma demo_new_signer:
  "fmlookup (coins new_signer) (rr_coin_id (reg_request demo_registration)) = None"
  "fcard (fmdom (coins new_signer)) < 8"
  by (simp_all add: new_signer_def fcard.rep_eq)

lemma demo_served:
  assumes "fst (register demo_cli_lib 8 (SecretKey 3) demo_registered (reg_request demo_registration)) = Inr st_now"
  shows "answers_register demo_cli_lib demo_enclave (st_config demo_store_open) (sent_of demo_session)
    (reg_request demo_registration) st_now"
proof -
  have "demo_registered \<in> {new_signer,
      snd (register demo_cli_lib 8 (SecretKey 3) new_signer (reg_request demo_registration))}"
    by (simp add: demo_registered_def)
  from register_again [OF demo_new_signer this, of "SecretKey 3"] assms obtain key where
    "key \<in> {SecretKey 3, SecretKey 3}" "st_now = fresh_status demo_cli_lib (reg_request demo_registration) key"
    by (metis Inr_inject fst_conv)
  then have "st_now = demo_status" by (simp add: demo_registration_def demo_fresh)
  with demo_answers show ?thesis by (simp add: demo_store_open_def)
qed

theorem interrupted_registration_completes_witness:
  "\<exists>report s' t c st_now. run demo_cli_lib demo_enclave demo_rnd demo_command_line CmdRegister demo_session = (Done report, s')
    \<and> saved demo_cli_lib demo_store_open (demo_pending\<lparr>nw_wallet := t\<rparr>) (os s')
    \<and> wallet_ok demo_cli_lib t \<and> ws_coin t = Some c \<and> wc_client_secret c = SecretKey 21
    \<and> status demo_cli_lib (snd (register demo_cli_lib 8 (SecretKey 3) demo_registered demo_register_request))
        (keys_coin_id (wc_keys c)) = Inr st_now
    \<and> verify_status (wc_keys c) st_now = Inr ()"
proof -
  have start: "recovers demo_cli_lib demo_store_open demo_pending (demo_locked 12)"
    "native_validate demo_cli_lib demo_pending (cfg_network (st_config demo_store_open)) = Inr ()"
    "reg_protocol_version demo_registration = PROTOCOL_VERSION"
    "xonly_of demo_cli_lib (SecretKey 21) \<notin> {xonly_of demo_cli_lib (SecretKey 3), xonly_of demo_cli_lib (SecretKey 3)}"
    using demo_stored
    by (simp_all add: recovers_def state_entry_def demo_interrupted_files demo_store_open_def demo_file_def
        demo_pending_valid demo_config_def demo_registration_def PROTOCOL_VERSION_def demo_fresh)
  have ready: "machine_ready demo_cli_lib (dr_writes demo_rnd (saves demo_session)) demo_store_open 8 (demo_locked 12)"
    using demo_ready by (simp add: demo_rnd_def)
  have "demo_registered \<in> {new_signer,
      snd (register demo_cli_lib 8 (SecretKey 3) new_signer (reg_request demo_registration))}"
    by (simp add: demo_registered_def)
  from interrupted_registration_completes [OF demo_web_laws demo_opens_session start(1,2) demo_pending_wallet(2,1)
      start(3) demo_new_signer this start(4) _ ready] demo_served demo_seals
  obtain t c s' st_now where
    "run demo_cli_lib demo_enclave demo_rnd demo_command_line CmdRegister demo_session
      = (Done (emit_registration demo_cli_lib (st_config demo_store_open) c False), s')"
    "saved demo_cli_lib demo_store_open (demo_pending\<lparr>nw_wallet := t\<rparr>) (os s')"
    "wallet_ok demo_cli_lib t" "ws_coin t = Some c" "wc_client_secret c = SecretKey 21"
    "status demo_cli_lib (snd (register demo_cli_lib 8 (SecretKey 3) demo_registered
      (reg_request demo_registration))) (keys_coin_id (wc_keys c)) = Inr st_now"
    "verify_status (wc_keys c) st_now = Inr ()" by blast
  then show ?thesis by (auto simp: demo_registration_def)
qed

end
