(* ===== verification/Spec2Isabelle.thy ===== *)
theory Spec2Isabelle
  imports Signing_Service Exit_Demo Completion_Demo
begin

text \<open>
  A verification development for Tinylayer. A coin is a Bitcoin output that needs two
  signatures, the owner's and an enclave's. The owner always holds a \<^emph>\<open>recovery\<close>, a transaction
  signed by both that pays the coin to the owner after a relative delay. A transfer makes the
  enclave sign one more recovery, for the receiver and with a shorter delay, and replace the
  capability that authorizes requests on the coin.

  \<^bold>\<open>The parts and their theories.\<close>

  \<^item> The enclave, \<^verbatim>\<open>enclave/src/lib.rs\<close>: \<open>Enclave\<close> has \<open>Signer\<close> with its map of coins, the
    operations \<open>register\<close>, \<open>status\<close>, \<open>sign\<close> and \<open>handle\<close>, and the HTTP handler's choice of
    status code. \<open>Enclave_Spec\<close> relates it to a machine that keeps every coin's whole log.
    \<open>Signing_Service\<close> is the interface a client relies on (a locale), interpreted on the signer.
  \<^item> The client, \<^verbatim>\<open>client/src/lib.rs\<close>: \<open>Client\<close> has registration, the recovery transaction
    (preparing, completing, verifying), the check of a history, the child that pays the fee of an
    exit, and the calls to a remote enclave. \<open>Recovery\<close> has their properties.
  \<^item> The wallet's core, \<^verbatim>\<open>wallet-core/src\<close>: \<open>Validation\<close> (\<^verbatim>\<open>validation.rs\<close>), \<open>Funding\<close>
    (\<^verbatim>\<open>funding.rs\<close>), \<open>Transfers\<close> (\<^verbatim>\<open>transfer.rs\<close>), \<open>Wallet_State\<close> (\<^verbatim>\<open>state.rs\<close>), \<open>Exit\<close>
    (\<^verbatim>\<open>exit.rs\<close>) and \<open>Codec\<close> (\<^verbatim>\<open>codec.rs\<close>). \<open>Ownership\<close> makes \<open>WalletState\<close> a
    transition system, one step per method that changes it, and proves its invariant.
    \<open>Staged_Journal\<close> is the discipline that the journals of exits and sweeps share, a locale
    interpreted on both.
  \<^item> The native wallet's store, \<^verbatim>\<open>wallet/src/model.rs\<close> and \<^verbatim>\<open>wallet/src/store.rs\<close>: \<open>Store\<close>
    has the saved state, its validation, opening, loading, saving and initializing, on the file
    system of \<open>File_System\<close>. \<open>Store_Spec\<close> has the properties.
  \<^item> The chain and the enclave seen from the native wallet, \<^verbatim>\<open>wallet/src/services.rs\<close>:
    \<open>Remote\<close> has requests, answers and the computations that exchange them, \<open>Rust_Text\<close> the
    string operations, \<open>Explorer\<close> and \<open>Core\<close> the two back ends, \<open>Chain\<close> the choice between
    them and the connection to the enclave. \<open>Chain_Spec\<close> says what is sent and what a success means.
  \<^item> The commands, \<^verbatim>\<open>wallet/src/cli.rs\<close>: \<open>Session\<close> joins files and requests; \<open>Commands\<close>
    has opening and registering, \<open>Commands_Fund\<close> funding, \<open>Commands_Transfer\<close> sending,
    requesting and accepting, \<open>Commands_Exit\<close> sweeps and exits, \<open>Commands_Read\<close> the rest and
    \<open>run\<close>, the command line. \<open>Session_Spec\<close> is a logic of runs; \<open>Evolution\<close> says
    how a saved state may change and that every operation does only that, \<open>Commands_Spec\<close> what a
    saved state authorizes; \<open>Write_Ahead\<close> walks through the commands and proves the properties of all;
    \<open>Completion\<close> composes the command, the store, the wallet and the signer of the enclave.
  \<^item> \<open>Prelude\<close> has machine integers, checked arithmetic, encodings and the combinators for code
    that returns errors; \<open>Crypto\<close> and \<open>Bitcoin\<close> the packages the code calls, as parameters.
    \<open>Wallet_Demo\<close>, \<open>Exit_Demo\<close>, \<open>Store_Demo\<close>, \<open>Command_Demo\<close> and \<open>Completion_Demo\<close> run the model on a small instance of these
    parameters; they are the witnesses that the hypotheses of the properties can hold.

  \<^bold>\<open>How the model follows the code.\<close> A struct is a record and an enum a datatype, with the
  source's fields and variants; \<open>u8\<close> to \<open>u128\<close> are words of that width, with the checked operations
  the code calls. A function that returns \<open>Result\<close> returns a sum, and its messages are the code's
  messages; every \<open>ensure!\<close>, \<open>?\<close> and early return is a branch, in the source's order. A method on
  \<open>&mut self\<close> takes the state and returns it with the result. Random values are arguments. Code
  that is not in the repository (\<open>secp256k1\<close>, \<open>sha2\<close>, \<open>bitcoin\<close>, \<open>serde_json\<close>, \<open>argon2\<close>, the
  ciphers, \<open>hex\<close>) is a record of functions \<open>P\<close>; what the proofs rely on is a named hypothesis such
  as \<open>schnorr_correct\<close> or \<open>aead_correct\<close>, which states documented behaviour.

  \<^bold>\<open>Documents.\<close> The parsers that serde derives are parameters too, but not the conversion the code
  adds to them: \<open>CoinKeys\<close> is read as \<open>CoinKeysWire\<close> and validated (\<open>keys_try_from\<close>). A parser
  parameter is the one with \<open>CoinKeysWire\<close> in the place of \<open>CoinKeys\<close>, and the law that a value
  reads back from its JSON form is about that parser; \<open>deserialize\<close> adds the conversion of every
  key in the value (\<open>wallet_keys\<close>, \<open>native_keys\<close>, \<open>payload_keys\<close>, \<open>receipt_keys\<close>). So a document
  with keys that do not validate is refused. \<open>Evolution\<close> shows that every operation keeps the keys
  of a state valid (\<open>keys_kept\<close>), so what the commands save can be read again.

  \<^bold>\<open>Files and faults.\<close> The operating system is a model too: a file is what processes see and what
  is on the disk, each system call may succeed, fail part-way or be the last one before the machine
  stops, and after a crash every file is what the disk holds. The list of faults is an argument,
  so a property holds for all of them.

  \<^bold>\<open>Other machines.\<close> Nothing is assumed of the explorer, the node and the enclave a command talks
  to: a peer is any function of the requests sent so far. A session records every request together
  with the files at that moment, so "saved before sent" is a statement about one run. What a command
  prints is the value it returns.

  \<^bold>\<open>What is shown.\<close>

  \<^item> The enclave: it refines the log machine for every sequence of requests; the transitions of a
    coin that were answered are its chain of custody, from the first registration on; a retry returns the same answer; an earlier owner is refused.
  \<^item> Recoveries: whatever the enclave answers, what the client accepts pays the coin's whole amount
    to the right key after the right delay; which histories are accepted is characterized; a client and an enclave that follow the code succeed.
  \<^item> The wallet: an invariant of all reachable wallets, with the two consequences that matter:
    the deposit is never broadcast without a saved recovery, and an owner can always leave alone.
    Errors change nothing, repeated steps resume.
  \<^item> Transfers: requests have one spelling, the encryption is bound to the request and round-trips.
  \<^item> Exits and sweeps: value is conserved to the last satoshi, the fee is the requested rate times
    the size of what is broadcast and within the maximum, and the journals keep their discipline.
  \<^item> The store: the sealed state round-trips, key derivation is bounded, saving is atomic under every
    fault and crash, one process holds a wallet at a time, and nothing is overwritten.
  \<^item> The chain: a back end cannot pass off another output as the coin or as a deposit, another
    transaction as the one broadcast, or a transaction of its wallet that is not the coin's funding.
  \<^item> The commands: everything sent is a question or is authorized by a state that is in the state
    file and survives a crash at that moment; and whatever stops a command, the state file then
    holds the state it found or one that evolved from it, which keeps the coin, the owned recovery
    and an exit that may be out. The state file is taken to be on the disk when the command starts;
    \<open>save_native\<close> establishes that whenever it succeeds. \<open>init\<close> is not among the commands of the
    second property: its \<open>Path::exists\<close> takes a file that cannot be looked at for absent.
    That commands also get somewhere is shown for registering: after an interruption it is finished
    by running it again, whether or not the enclave had seen the first request.

  \<^bold>\<open>Bounds.\<close> No loop of the modelled code needs fuel: they run over lists, except
  \<open>random_secret_key\<close>, which retries until a draw is a valid key; it is a function of the list of
  draws that returns nothing when all of them fail.

  \<^bold>\<open>Not modelled.\<close> The listeners, the HTTP routers and the \<open>main\<close> functions, the debug connection
  that only builds a client of the SDK, the \<open>Debug\<close>, \<open>Serialize\<close> and \<open>Deserialize\<close> implementations
  that are derived, the test failpoints, and the code for systems other than Unix are input and output,
  generated or debug code. \<^verbatim>\<open>clap\<close>'s parsing of the command line and the text that a command
  prints are left out: a command is a value of \<open>command\<close>, its output a value of \<open>report\<close>.
\<close>

end
